(* ===== verification/Prelude.thy ===== *)
theory Prelude
  imports Main "HOL-Library.Word"
begin

text \<open>
  Shared vocabulary of the development.

  \<^item> the model's basic types: \<open>byte\<close>, \<open>bytes\<close>, native handles and the 16/32/64-bit machine words;
  \<^item> the part of the C++ standard library the sources use on strings: \<open>std::string::find\<close>,
    \<open>rfind\<close>, \<open>find_first_not_of\<close>, \<open>std::to_string\<close> and \<open>std::stoi\<close> with its two exceptions;
  \<^item> generic lemmas on list searching and on decimal printing and reading, collected for the
    component theories.
\<close>

named_theorems str_simps \<open>evaluation rules for the string searches\<close>
named_theorems raii_simps \<open>unfolding rules for move-only wrappers\<close>

section \<open>Types\<close>

type_synonym byte = "8 word"
type_synonym bytes = "8 word list"
type_synonym u16 = "16 word"
type_synonym u32 = "32 word"
type_synonym u64 = "64 word"
type_synonym handle = nat

text \<open>\<open>reinterpret_cast\<close> between \<open>char\<close> and \<open>std::byte\<close> buffers.\<close>

definition bytes_of_string :: "string \<Rightarrow> bytes" where
  "bytes_of_string = map of_char"

definition string_of_bytes :: "bytes \<Rightarrow> string" where
  "string_of_bytes = map (\<lambda>b. char_of (unat b))"

lemma length_bytes_of_string [simp]: "length (bytes_of_string s) = length s"
  by (simp add: bytes_of_string_def)

lemma length_string_of_bytes [simp]: "length (string_of_bytes b) = length b"
  by (simp add: string_of_bytes_def)

lemma bytes_of_string_append [simp]:
  "bytes_of_string (a @ b) = bytes_of_string a @ bytes_of_string b"
  by (simp add: bytes_of_string_def)

lemma string_of_bytes_append [simp]:
  "string_of_bytes (a @ b) = string_of_bytes a @ string_of_bytes b"
  by (simp add: string_of_bytes_def)

section \<open>Searching strings\<close>

text \<open>\<open>s.find(c)\<close>: the index of the first occurrence, \<open>None\<close> for \<open>npos\<close>.\<close>

fun str_find :: "char \<Rightarrow> string \<Rightarrow> nat option" where
  "str_find c [] = None"
| "str_find c (x # xs) = (if x = c then Some 0 else map_option Suc (str_find c xs))"

text \<open>\<open>s.rfind(c)\<close>: the index of the last occurrence.\<close>

fun str_rfind :: "char \<Rightarrow> string \<Rightarrow> nat option" where
  "str_rfind c [] = None"
| "str_rfind c (x # xs) =
     (case str_rfind c xs of
        Some i \<Rightarrow> Some (Suc i)
      | None \<Rightarrow> if x = c then Some 0 else None)"

text \<open>\<open>s.find_first_not_of(cs)\<close>.\<close>

fun str_find_first_not_of :: "string \<Rightarrow> string \<Rightarrow> nat option" where
  "str_find_first_not_of cs [] = None"
| "str_find_first_not_of cs (x # xs) =
     (if x \<in> set cs then map_option Suc (str_find_first_not_of cs xs) else Some 0)"

lemma str_find_None [simp]: "str_find c s = None \<longleftrightarrow> c \<notin> set s"
  by (induction s) auto

lemma str_rfind_None [simp]: "str_rfind c s = None \<longleftrightarrow> c \<notin> set s"
  by (induction s) (auto split: option.splits)

lemma str_find_first_not_of_None [simp]:
  "str_find_first_not_of cs s = None \<longleftrightarrow> set s \<subseteq> set cs"
  by (induction s) auto

lemma str_find_absent [simp]: "c \<notin> set s \<Longrightarrow> str_find c s = None"
  by simp

lemma str_rfind_absent [simp]: "c \<notin> set s \<Longrightarrow> str_rfind c s = None"
  by simp

lemma str_find_split [str_simps]: "c \<notin> set a \<Longrightarrow> str_find c (a @ c # b) = Some (length a)"
  by (induction a) auto

lemma str_rfind_split [str_simps]: "c \<notin> set b \<Longrightarrow> str_rfind c (a @ c # b) = Some (length a)"
proof (induction a)
  case Nil
  then have "str_rfind c b = None" by simp
  then show ?case by (simp split: option.splits)
next
  case (Cons x a)
  then show ?case by simp
qed

lemma str_find_SomeD:
  "str_find c s = Some i \<Longrightarrow> i < length s \<and> s ! i = c \<and> c \<notin> set (take i s)"
  by (induction s arbitrary: i) (auto split: if_splits)

lemma str_rfind_SomeD:
  "str_rfind c s = Some i \<Longrightarrow> i < length s \<and> s ! i = c \<and> c \<notin> set (drop (Suc i) s)"
proof (induction s arbitrary: i)
  case (Cons x xs)
  show ?case
  proof (cases "str_rfind c xs")
    case None
    with Cons.prems have "x = c" and "i = 0" by (auto split: if_splits)
    with None show ?thesis by simp
  next
    case (Some j)
    with Cons.prems have "i = Suc j" by simp
    with Cons.IH [OF Some] show ?thesis by simp
  qed
qed simp

section \<open>Decimal numbers\<close>

text \<open>\<open>std::to_string\<close> on a non-negative number, and on an \<open>int\<close>.\<close>

definition digit_char :: "nat \<Rightarrow> char" where
  "digit_char d = char_of (48 + d)"

fun nat_to_string :: "nat \<Rightarrow> string" where
  "nat_to_string n =
     (if n < 10 then [digit_char n] else nat_to_string (n div 10) @ [digit_char (n mod 10)])"

declare nat_to_string.simps [simp del]

definition int_to_string :: "int \<Rightarrow> string" where
  "int_to_string i = (if i < 0 then CHR ''-'' # nat_to_string (nat (- i)) else nat_to_string (nat i))"

text \<open>
  \<open>std::stoi(s)\<close> in base 10: \<open>strtol\<close> skips white space, takes an optional sign and the longest
  run of digits. No digit raises \<open>std::invalid_argument\<close>, a value outside \<open>int\<close> raises
  \<open>std::out_of_range\<close>; characters after the digits are ignored.
\<close>

datatype std_exn = Std_invalid_argument | Std_out_of_range | Std_other string

definition is_space :: "char \<Rightarrow> bool" where
  "is_space c \<longleftrightarrow> c \<in> {CHR '' '', CHR 0x09, CHR 0x0A, CHR 0x0B, CHR 0x0C, CHR 0x0D}"

definition is_digit :: "char \<Rightarrow> bool" where
  "is_digit c \<longleftrightarrow> 48 \<le> (of_char c :: nat) \<and> (of_char c :: nat) \<le> 57"

definition digit_val :: "char \<Rightarrow> nat" where
  "digit_val c = of_char c - 48"

fun digits_val :: "nat \<Rightarrow> string \<Rightarrow> nat" where
  "digits_val acc [] = acc"
| "digits_val acc (c # cs) = digits_val (10 * acc + digit_val c) cs"

definition stoi :: "string \<Rightarrow> std_exn + int" where
  "stoi s =
     (let t = dropWhile is_space s;
          neg = (t \<noteq> [] \<and> hd t = CHR ''-'');
          u = (if t \<noteq> [] \<and> (hd t = CHR ''-'' \<or> hd t = CHR ''+'') then tl t else t);
          ds = takeWhile is_digit u;
          v = (if neg then - int (digits_val 0 ds) else int (digits_val 0 ds))
      in if ds = [] then Inl Std_invalid_argument
         else if v < - 2147483648 \<or> 2147483647 < v then Inl Std_out_of_range
         else Inr v)"

lemma digit_char_table [str_simps]:
  "digit_char 0 = CHR ''0''" "digit_char (Suc 0) = CHR ''1''" "digit_char 1 = CHR ''1''"
  "digit_char 2 = CHR ''2''" "digit_char 3 = CHR ''3''" "digit_char 4 = CHR ''4''"
  "digit_char 5 = CHR ''5''" "digit_char 6 = CHR ''6''" "digit_char 7 = CHR ''7''"
  "digit_char 8 = CHR ''8''" "digit_char 9 = CHR ''9''"
  by code_simp+

lemma of_char_digit_char [simp]: "d < 10 \<Longrightarrow> (of_char (digit_char d) :: nat) = 48 + d"
  by (simp add: digit_char_def)

lemma is_digit_digit_char [simp]: "d < 10 \<Longrightarrow> is_digit (digit_char d)"
  by (simp add: is_digit_def)

lemma digit_val_digit_char [simp]: "d < 10 \<Longrightarrow> digit_val (digit_char d) = d"
  by (simp add: digit_val_def)

lemma digits_val_append: "digits_val acc (a @ b) = digits_val (digits_val acc a) b"
  by (induction a arbitrary: acc) auto

lemma nat_to_string_digits: "c \<in> set (nat_to_string n) \<Longrightarrow> is_digit c"
proof (induction n rule: nat_to_string.induct)
  case (1 n)
  show ?case
  proof (cases "n < 10")
    case True
    with "1.prems" show ?thesis by (simp add: nat_to_string.simps [of n])
  next
    case False
    with "1.prems" consider "c \<in> set (nat_to_string (n div 10))" | "c = digit_char (n mod 10)"
      by (auto simp: nat_to_string.simps [of n])
    then show ?thesis using "1.IH" [OF False] by cases simp_all
  qed
qed

lemma nat_to_string_nonempty [simp]: "nat_to_string n \<noteq> []"
  by (simp add: nat_to_string.simps [of n])

lemma digits_val_nat_to_string [simp]: "digits_val 0 (nat_to_string n) = n"
proof (induction n rule: nat_to_string.induct)
  case (1 n)
  show ?case
  proof (cases "n < 10")
    case True
    then show ?thesis by (simp add: nat_to_string.simps [of n])
  next
    case False
    with "1.IH" show ?thesis
      by (simp add: nat_to_string.simps [of n] digits_val_append)
  qed
qed

lemma nat_to_string_inj: "nat_to_string m = nat_to_string n \<Longrightarrow> m = n"
  by (metis digits_val_nat_to_string)

lemma is_digit_simps [simp]:
  "\<not> is_digit (CHR ''-'')" "\<not> is_digit (CHR ''+'')" "\<not> is_digit (CHR '':'')"
  "\<not> is_digit (CHR ''@'')" "\<not> is_digit (CHR ''['')" "\<not> is_digit (CHR '']'')"
  "\<not> is_digit (CHR ''.'')" "\<not> is_digit (CHR ''/'')" "\<not> is_digit (CHR '' '')"
  by (simp_all add: is_digit_def)

lemma is_space_not_digit: "is_digit c \<Longrightarrow> \<not> is_space c"
  by (auto simp: is_digit_def is_space_def)

lemma not_digit_not_in_nat_to_string [simp]: "\<not> is_digit c \<Longrightarrow> c \<notin> set (nat_to_string n)"
  using nat_to_string_digits by blast

text \<open>Reading back a printed number, followed by anything that is not a digit.\<close>

lemma stoi_nat_to_string_append:
  assumes "n \<le> 2147483647" and "rest = [] \<or> \<not> is_digit (hd rest)"
  shows "stoi (nat_to_string n @ rest) = Inr (int n)"
proof -
  obtain c cs where ns: "nat_to_string n = c # cs"
    using nat_to_string_nonempty [of n] by (metis list.exhaust)
  have c: "is_digit c" using nat_to_string_digits [of c n] ns by simp
  have dw: "dropWhile is_space (nat_to_string n @ rest) = nat_to_string n @ rest"
    using c is_space_not_digit by (simp add: ns)
  have ds: "takeWhile is_digit (nat_to_string n @ rest) = nat_to_string n"
    using assms(2) nat_to_string_digits
    by (cases rest) (auto simp: takeWhile_append takeWhile_eq_all_conv)
  have "hd (nat_to_string n @ rest) \<noteq> CHR ''-''" and "hd (nat_to_string n @ rest) \<noteq> CHR ''+''"
    using c is_digit_simps by (auto simp: ns)
  with assms(1) dw ds show ?thesis
    by (simp add: stoi_def Let_def)
qed

lemma stoi_nat_to_string: "n \<le> 2147483647 \<Longrightarrow> stoi (nat_to_string n) = Inr (int n)"
  using stoi_nat_to_string_append [of n "[]"] by simp

section \<open>Machine integers\<close>

text \<open>\<open>static_cast<std::uint16_t>(i)\<close> on an \<open>int\<close>: reduction modulo \<open>2 ^ 16\<close>.\<close>

definition to_u16 :: "int \<Rightarrow> u16" where
  "to_u16 i = word_of_int i"

lemma to_u16_unat [simp]: "to_u16 (int (unat (w :: u16))) = w"
  by (simp add: to_u16_def)

lemma uint_to_u16: "uint (to_u16 i) = i mod 65536"
  by (simp add: to_u16_def uint_word_of_int)

lemma unat_u16_le: "unat (w :: u16) \<le> 65535"
  using unsigned_less [of w, where ?'a = nat] by simp

lemma word_xor_eq_0_iff_local: "xor a b = (0 :: 'a :: len word) \<longleftrightarrow> a = b"
  by (metis bit.xor_self xor.right_neutral xor.assoc)

lemma word_or_eq_0_iff_local: "or a b = (0 :: 'a :: len word) \<longleftrightarrow> a = 0 \<and> b = 0"
  by (auto simp: or_eq_0_iff)

end
