(* ===== verification/Errors.thy ===== *)
theory Errors
  imports Prelude
begin

text \<open>
  The error model: \<open>include/sshpp/error.hpp\<close>, \<open>detail/error.ipp\<close>, \<open>result.hpp\<close> and
  \<open>detail/invoke.ipp\<close>.

  The two enumerations and their categories, \<open>std::error_code\<close> and \<open>std::error_condition\<close>, the
  exception hierarchy with \<open>throw_error\<close>, \<open>Result<T>\<close> with its monadic subset, and the helpers
  that snapshot a libssh failure. libssh itself is the record \<open>err_api\<close> of its calls over an
  abstract world \<open>'w\<close>. \<open>SourceLocation\<close> (file, line and function of the macro \<open>SSHPP_HERE\<close>) is
  diagnostic only and is not carried.
\<close>

section \<open>Enumerations\<close>

text \<open>\<open>enum class errc\<close>; enumerator \<open>x\<close> of the source is \<open>errc_x\<close>.\<close>

datatype errc =
  errc_ok | errc_fatal | errc_request_denied | errc_interrupted | errc_would_block
  | errc_timed_out | errc_cancelled | errc_not_connected | errc_already_connected
  | errc_connection_lost | errc_protocol_error | errc_banner_exchange_failed
  | errc_key_exchange_failed | errc_rekey_failed | errc_host_key_unknown
  | errc_host_key_changed | errc_host_key_type_mismatch | errc_host_key_rejected
  | errc_known_hosts_io_error | errc_auth_denied | errc_auth_partial
  | errc_auth_method_unavailable | errc_auth_no_more_methods | errc_passphrase_required
  | errc_passphrase_incorrect | errc_agent_unavailable | errc_gssapi_error
  | errc_key_import_failed | errc_key_export_failed | errc_key_generation_failed
  | errc_unsupported_key_type | errc_channel_open_failed | errc_channel_closed
  | errc_channel_eof | errc_channel_request_failed | errc_pty_request_failed
  | errc_sftp_unavailable | errc_scp_error | errc_forwarding_failed | errc_x11_failed
  | errc_invalid_handle | errc_invalid_argument | errc_unsupported_operation
  | errc_out_of_memory | errc_unknown

text \<open>\<open>enum class sftp_errc\<close>; the values are the SFTP status codes.\<close>

datatype sftp_errc =
  sftp_errc_ok | sftp_errc_eof | sftp_errc_no_such_file | sftp_errc_permission_denied
  | sftp_errc_failure | sftp_errc_bad_message | sftp_errc_no_connection
  | sftp_errc_connection_lost | sftp_errc_op_unsupported | sftp_errc_invalid_handle
  | sftp_errc_no_such_path | sftp_errc_file_already_exists | sftp_errc_write_protect
  | sftp_errc_no_media | sftp_errc_invalid_parameter

text \<open>The enumerators in declaration order: \<open>static_cast\<close> between them and \<open>int\<close>.\<close>

definition all_errc :: "errc list" where
  "all_errc =
     [errc_ok, errc_fatal, errc_request_denied, errc_interrupted, errc_would_block,
      errc_timed_out, errc_cancelled, errc_not_connected, errc_already_connected,
      errc_connection_lost, errc_protocol_error, errc_banner_exchange_failed,
      errc_key_exchange_failed, errc_rekey_failed, errc_host_key_unknown,
      errc_host_key_changed, errc_host_key_type_mismatch, errc_host_key_rejected,
      errc_known_hosts_io_error, errc_auth_denied, errc_auth_partial,
      errc_auth_method_unavailable, errc_auth_no_more_methods, errc_passphrase_required,
      errc_passphrase_incorrect, errc_agent_unavailable, errc_gssapi_error,
      errc_key_import_failed, errc_key_export_failed, errc_key_generation_failed,
      errc_unsupported_key_type, errc_channel_open_failed, errc_channel_closed,
      errc_channel_eof, errc_channel_request_failed, errc_pty_request_failed,
      errc_sftp_unavailable, errc_scp_error, errc_forwarding_failed, errc_x11_failed,
      errc_invalid_handle, errc_invalid_argument, errc_unsupported_operation,
      errc_out_of_memory, errc_unknown]"

definition all_sftp_errc :: "sftp_errc list" where
  "all_sftp_errc =
     [sftp_errc_ok, sftp_errc_eof, sftp_errc_no_such_file, sftp_errc_permission_denied,
      sftp_errc_failure, sftp_errc_bad_message, sftp_errc_no_connection,
      sftp_errc_connection_lost, sftp_errc_op_unsupported, sftp_errc_invalid_handle,
      sftp_errc_no_such_path, sftp_errc_file_already_exists, sftp_errc_write_protect,
      sftp_errc_no_media, sftp_errc_invalid_parameter]"

fun index_of :: "'a \<Rightarrow> 'a list \<Rightarrow> nat" where
  "index_of x [] = 0"
| "index_of x (y # ys) = (if x = y then 0 else Suc (index_of x ys))"

definition errc_value :: "errc \<Rightarrow> int" where
  "errc_value e = int (index_of e all_errc)"

definition sftp_errc_value :: "sftp_errc \<Rightarrow> int" where
  "sftp_errc_value e = int (index_of e all_sftp_errc)"

definition nth_int :: "'a list \<Rightarrow> int \<Rightarrow> 'a option" where
  "nth_int xs i = (if 0 \<le> i \<and> nat i < length xs then Some (xs ! nat i) else None)"

definition errc_of_int :: "int \<Rightarrow> errc option" where
  "errc_of_int i = nth_int all_errc i"

definition sftp_errc_of_int :: "int \<Rightarrow> sftp_errc option" where
  "sftp_errc_of_int i = nth_int all_sftp_errc i"

section \<open>Categories\<close>

text \<open>\<open>SshCategory\<close>, \<open>SftpCategory\<close> and the category of a default \<open>std::error_code\<close>.\<close>

datatype category = ssh_category | sftp_category | system_category

record error_code =
  ec_value :: int
  ec_category :: category

definition make_error_code :: "errc \<Rightarrow> error_code" where
  "make_error_code e = \<lparr>ec_value = errc_value e, ec_category = ssh_category\<rparr>"

definition make_sftp_error_code :: "int \<Rightarrow> error_code" where
  "make_sftp_error_code i = \<lparr>ec_value = i, ec_category = sftp_category\<rparr>"

definition no_error_code :: error_code where
  "no_error_code = \<lparr>ec_value = 0, ec_category = system_category\<rparr>"

text \<open>\<open>explicit operator bool\<close> of \<open>std::error_code\<close>.\<close>

definition ec_bool :: "error_code \<Rightarrow> bool" where
  "ec_bool ec \<longleftrightarrow> ec_value ec \<noteq> 0"

fun category_name :: "category \<Rightarrow> string" where
  "category_name ssh_category = ''sshpp::ssh''"
| "category_name sftp_category = ''sshpp::sftp''"
| "category_name system_category = ''system''"

fun errc_message :: "errc \<Rightarrow> string" where
  "errc_message errc_ok = ''ok''"
| "errc_message errc_fatal = ''fatal transport error''"
| "errc_message errc_request_denied = ''request denied''"
| "errc_message errc_interrupted = ''interrupted''"
| "errc_message errc_would_block = ''would block''"
| "errc_message errc_timed_out = ''timed out''"
| "errc_message errc_cancelled = ''cancelled''"
| "errc_message errc_not_connected = ''not connected''"
| "errc_message errc_already_connected = ''already connected''"
| "errc_message errc_connection_lost = ''connection lost''"
| "errc_message errc_protocol_error = ''protocol error''"
| "errc_message errc_banner_exchange_failed = ''banner exchange failed''"
| "errc_message errc_key_exchange_failed = ''key exchange failed''"
| "errc_message errc_rekey_failed = ''rekey failed''"
| "errc_message errc_host_key_unknown = ''host key unknown''"
| "errc_message errc_host_key_changed = ''host key changed''"
| "errc_message errc_host_key_type_mismatch = ''host key type mismatch''"
| "errc_message errc_host_key_rejected = ''host key rejected''"
| "errc_message errc_known_hosts_io_error = ''known_hosts I/O error''"
| "errc_message errc_auth_denied = ''authentication denied''"
| "errc_message errc_auth_partial = ''authentication partial''"
| "errc_message errc_auth_method_unavailable = ''authentication method unavailable''"
| "errc_message errc_auth_no_more_methods = ''no more authentication methods''"
| "errc_message errc_passphrase_required = ''passphrase required''"
| "errc_message errc_passphrase_incorrect = ''passphrase incorrect''"
| "errc_message errc_agent_unavailable = ''ssh-agent unavailable''"
| "errc_message errc_gssapi_error = ''GSSAPI error''"
| "errc_message errc_key_import_failed = ''key import failed''"
| "errc_message errc_key_export_failed = ''key export failed''"
| "errc_message errc_key_generation_failed = ''key generation failed''"
| "errc_message errc_unsupported_key_type = ''unsupported key type''"
| "errc_message errc_channel_open_failed = ''channel open failed''"
| "errc_message errc_channel_closed = ''channel closed''"
| "errc_message errc_channel_eof = ''channel EOF''"
| "errc_message errc_channel_request_failed = ''channel request failed''"
| "errc_message errc_pty_request_failed = ''PTY request failed''"
| "errc_message errc_sftp_unavailable = ''SFTP unavailable''"
| "errc_message errc_scp_error = ''SCP error''"
| "errc_message errc_forwarding_failed = ''forwarding failed''"
| "errc_message errc_x11_failed = ''X11 forwarding failed''"
| "errc_message errc_invalid_handle = ''invalid (moved-from/released) handle''"
| "errc_message errc_invalid_argument = ''invalid argument''"
| "errc_message errc_unsupported_operation = ''unsupported by linked libssh''"
| "errc_message errc_out_of_memory = ''out of memory''"
| "errc_message errc_unknown = ''unknown error''"

definition ssh_message :: "int \<Rightarrow> string" where
  "ssh_message ev =
     (case errc_of_int ev of Some e \<Rightarrow> errc_message e | None \<Rightarrow> ''unrecognized sshpp::errc'')"

fun sftp_errc_message :: "sftp_errc \<Rightarrow> string" where
  "sftp_errc_message sftp_errc_ok = ''ok''"
| "sftp_errc_message sftp_errc_eof = ''EOF''"
| "sftp_errc_message sftp_errc_no_such_file = ''no such file''"
| "sftp_errc_message sftp_errc_permission_denied = ''permission denied''"
| "sftp_errc_message sftp_errc_failure = ''failure''"
| "sftp_errc_message sftp_errc_bad_message = ''bad message''"
| "sftp_errc_message sftp_errc_no_connection = ''no connection''"
| "sftp_errc_message sftp_errc_connection_lost = ''connection lost''"
| "sftp_errc_message sftp_errc_op_unsupported = ''operation unsupported''"
| "sftp_errc_message sftp_errc_invalid_handle = ''invalid handle''"
| "sftp_errc_message sftp_errc_no_such_path = ''no such path''"
| "sftp_errc_message sftp_errc_file_already_exists = ''file already exists''"
| "sftp_errc_message sftp_errc_write_protect = ''write protected''"
| "sftp_errc_message sftp_errc_no_media = ''no media''"
| "sftp_errc_message sftp_errc_invalid_parameter = ''invalid parameter''"

definition sftp_message :: "int \<Rightarrow> string" where
  "sftp_message ev =
     (case sftp_errc_of_int ev of
        Some e \<Rightarrow> sftp_errc_message e
      | None \<Rightarrow> ''unrecognized sshpp::sftp_errc'')"

text \<open>\<open>code.message()\<close>; the system category's texts are the platform's (\<open>sys\<close>).\<close>

fun code_message :: "(int \<Rightarrow> string) \<Rightarrow> error_code \<Rightarrow> string" where
  "code_message sys ec =
     (case ec_category ec of
        ssh_category \<Rightarrow> ssh_message (ec_value ec)
      | sftp_category \<Rightarrow> sftp_message (ec_value ec)
      | system_category \<Rightarrow> sys (ec_value ec))"

text \<open>The part of \<open>std::errc\<close> the categories map to, and \<open>std::error_condition\<close>.\<close>

datatype std_errc =
    std_timed_out | std_operation_would_block | std_interrupted | std_operation_canceled
  | std_connection_aborted | std_not_connected | std_invalid_argument | std_not_enough_memory
  | std_function_not_supported | std_permission_denied | std_no_such_file_or_directory
  | std_file_exists

datatype error_condition = Std_cond std_errc | Own_cond int category

definition ssh_default_error_condition :: "int \<Rightarrow> error_condition" where
  "ssh_default_error_condition ev =
     (case errc_of_int ev of
        Some errc_timed_out \<Rightarrow> Std_cond std_timed_out
      | Some errc_would_block \<Rightarrow> Std_cond std_operation_would_block
      | Some errc_interrupted \<Rightarrow> Std_cond std_interrupted
      | Some errc_cancelled \<Rightarrow> Std_cond std_operation_canceled
      | Some errc_connection_lost \<Rightarrow> Std_cond std_connection_aborted
      | Some errc_not_connected \<Rightarrow> Std_cond std_not_connected
      | Some errc_invalid_argument \<Rightarrow> Std_cond std_invalid_argument
      | Some errc_out_of_memory \<Rightarrow> Std_cond std_not_enough_memory
      | Some errc_unsupported_operation \<Rightarrow> Std_cond std_function_not_supported
      | Some errc_auth_denied \<Rightarrow> Std_cond std_permission_denied
      | _ \<Rightarrow> Own_cond ev ssh_category)"

definition sftp_default_error_condition :: "int \<Rightarrow> error_condition" where
  "sftp_default_error_condition ev =
     (case sftp_errc_of_int ev of
        Some sftp_errc_permission_denied \<Rightarrow> Std_cond std_permission_denied
      | Some sftp_errc_no_such_file \<Rightarrow> Std_cond std_no_such_file_or_directory
      | Some sftp_errc_no_such_path \<Rightarrow> Std_cond std_no_such_file_or_directory
      | Some sftp_errc_file_already_exists \<Rightarrow> Std_cond std_file_exists
      | _ \<Rightarrow> Own_cond ev sftp_category)"

section \<open>ErrorInfo and exceptions\<close>

record error_info =
  code :: error_code
  message :: string
  operation :: string

text \<open>The aggregate initialisation \<open>ErrorInfo{make_error_code(e), msg, op}\<close>.\<close>

definition mk_error :: "errc \<Rightarrow> string \<Rightarrow> string \<Rightarrow> error_info" where
  "mk_error e msg op = \<lparr>code = make_error_code e, message = msg, operation = op\<rparr>"

text \<open>A default-constructed \<open>ErrorInfo\<close>.\<close>

definition no_error_info :: error_info where
  "no_error_info = \<lparr>code = no_error_code, message = [], operation = []\<rparr>"

definition error_info_bool :: "error_info \<Rightarrow> bool" where
  "error_info_bool i \<longleftrightarrow> ec_bool (code i)"

definition error_info_to_string :: "(int \<Rightarrow> string) \<Rightarrow> error_info \<Rightarrow> string" where
  "error_info_to_string sys i =
     (if operation i \<noteq> [] then operation i @ '': '' else [])
     @ (if message i \<noteq> [] then message i else code_message sys (code i))
     @ '' ['' @ category_name (ec_category (code i)) @ '':'' @ code_message sys (code i) @ '']''"

datatype exn_class =
    Error | ConnectionError | TimeoutError | CancelledError | HostKeyError | AuthError | KeyError
  | ChannelError | SftpError | ScpError | ForwardingError | ServerError | UsageError

text \<open>The direct base class, \<open>None\<close> for \<open>Error\<close> (whose base is \<open>std::system_error\<close>).\<close>

fun base_class :: "exn_class \<Rightarrow> exn_class option" where
  "base_class Error = None"
| "base_class TimeoutError = Some ConnectionError"
| "base_class CancelledError = Some ConnectionError"
| "base_class ForwardingError = Some ChannelError"
| "base_class _ = Some Error"

text \<open>Whether a handler for \<open>h\<close> catches a thrown \<open>c\<close>: reflexive-transitive derivation.\<close>

inductive derives :: "exn_class \<Rightarrow> exn_class \<Rightarrow> bool" where
  derives_refl: "derives c c"
| derives_step: "base_class c = Some b \<Longrightarrow> derives b h \<Longrightarrow> derives c h"

code_pred derives .

datatype exn = Sshpp_exn exn_class error_info | Std_exn std_exn

fun errc_exn_class :: "errc \<Rightarrow> exn_class" where
  "errc_exn_class errc_timed_out = TimeoutError"
| "errc_exn_class errc_cancelled = CancelledError"
| "errc_exn_class errc_fatal = ConnectionError"
| "errc_exn_class errc_request_denied = ConnectionError"
| "errc_exn_class errc_interrupted = ConnectionError"
| "errc_exn_class errc_not_connected = ConnectionError"
| "errc_exn_class errc_already_connected = ConnectionError"
| "errc_exn_class errc_connection_lost = ConnectionError"
| "errc_exn_class errc_protocol_error = ConnectionError"
| "errc_exn_class errc_banner_exchange_failed = ConnectionError"
| "errc_exn_class errc_key_exchange_failed = ConnectionError"
| "errc_exn_class errc_rekey_failed = ConnectionError"
| "errc_exn_class errc_host_key_unknown = HostKeyError"
| "errc_exn_class errc_host_key_changed = HostKeyError"
| "errc_exn_class errc_host_key_type_mismatch = HostKeyError"
| "errc_exn_class errc_host_key_rejected = HostKeyError"
| "errc_exn_class errc_known_hosts_io_error = HostKeyError"
| "errc_exn_class errc_auth_denied = AuthError"
| "errc_exn_class errc_auth_partial = AuthError"
| "errc_exn_class errc_auth_method_unavailable = AuthError"
| "errc_exn_class errc_auth_no_more_methods = AuthError"
| "errc_exn_class errc_passphrase_required = AuthError"
| "errc_exn_class errc_passphrase_incorrect = AuthError"
| "errc_exn_class errc_agent_unavailable = AuthError"
| "errc_exn_class errc_gssapi_error = AuthError"
| "errc_exn_class errc_key_import_failed = KeyError"
| "errc_exn_class errc_key_export_failed = KeyError"
| "errc_exn_class errc_key_generation_failed = KeyError"
| "errc_exn_class errc_unsupported_key_type = KeyError"
| "errc_exn_class errc_channel_open_failed = ChannelError"
| "errc_exn_class errc_channel_closed = ChannelError"
| "errc_exn_class errc_channel_eof = ChannelError"
| "errc_exn_class errc_channel_request_failed = ChannelError"
| "errc_exn_class errc_pty_request_failed = ChannelError"
| "errc_exn_class errc_sftp_unavailable = SftpError"
| "errc_exn_class errc_scp_error = ScpError"
| "errc_exn_class errc_forwarding_failed = ForwardingError"
| "errc_exn_class errc_x11_failed = ForwardingError"
| "errc_exn_class errc_invalid_handle = UsageError"
| "errc_exn_class errc_invalid_argument = UsageError"
| "errc_exn_class errc_unsupported_operation = UsageError"
| "errc_exn_class _ = Error"

definition exn_class_of :: "error_code \<Rightarrow> exn_class" where
  "exn_class_of ec =
     (case ec_category ec of
        ssh_category \<Rightarrow> (case errc_of_int (ec_value ec) of Some e \<Rightarrow> errc_exn_class e | None \<Rightarrow> Error)
      | sftp_category \<Rightarrow> SftpError
      | system_category \<Rightarrow> Error)"

definition throw_error :: "error_info \<Rightarrow> exn" where
  "throw_error i = Sshpp_exn (exn_class_of (code i)) i"

section \<open>Result\<close>

text \<open>\<open>Result<T>\<close>: either an \<open>ErrorInfo\<close> or a value. \<open>Result<void>\<close> is \<open>unit result\<close>.\<close>

type_synonym 'a result = "error_info + 'a"

definition has_value :: "'a result \<Rightarrow> bool" where
  "has_value r \<longleftrightarrow> (case r of Inl _ \<Rightarrow> False | Inr _ \<Rightarrow> True)"

definition result_value :: "'a result \<Rightarrow> exn + 'a" where
  "result_value r = (case r of Inl e \<Rightarrow> Inl (throw_error e) | Inr v \<Rightarrow> Inr v)"

definition value_or :: "'a result \<Rightarrow> 'a \<Rightarrow> 'a" where
  "value_or r fallback = (case r of Inl _ \<Rightarrow> fallback | Inr v \<Rightarrow> v)"

definition result_error :: "'a result \<Rightarrow> error_info" where
  "result_error r = (case r of Inl e \<Rightarrow> e | Inr _ \<Rightarrow> no_error_info)"

definition result_code :: "'a result \<Rightarrow> error_code" where
  "result_code r = (case r of Inl e \<Rightarrow> code e | Inr _ \<Rightarrow> no_error_code)"

definition throw_if_error :: "'a result \<Rightarrow> exn + unit" where
  "throw_if_error r = (case r of Inl e \<Rightarrow> Inl (throw_error e) | Inr _ \<Rightarrow> Inr ())"

definition and_then :: "'a result \<Rightarrow> ('a \<Rightarrow> 'b result) \<Rightarrow> 'b result" where
  "and_then r f = (case r of Inl e \<Rightarrow> Inl e | Inr v \<Rightarrow> f v)"

definition transform :: "'a result \<Rightarrow> ('a \<Rightarrow> 'b) \<Rightarrow> 'b result" where
  "transform r f = (case r of Inl e \<Rightarrow> Inl e | Inr v \<Rightarrow> Inr (f v))"

definition or_else :: "'a result \<Rightarrow> (error_info \<Rightarrow> 'a result) \<Rightarrow> 'a result" where
  "or_else r f = (case r of Inl e \<Rightarrow> f e | Inr v \<Rightarrow> Inr v)"

lemmas result_defs =
  has_value_def result_value_def value_or_def result_error_def result_code_def
  throw_if_error_def and_then_def transform_def or_else_def

section \<open>Snapshots of libssh failures\<close>

text \<open>The codes of \<open>ssh_get_error_code\<close> that \<open>make_error_info\<close> distinguishes.\<close>

datatype ssh_error_type = SSH_NO_ERROR | SSH_REQUEST_DENIED | SSH_FATAL | SSH_EINTR | SSH_error_other int

record 'w err_api =
  ssh_get_error :: "'w \<Rightarrow> handle \<Rightarrow> string"
  ssh_get_error_code :: "'w \<Rightarrow> handle \<Rightarrow> ssh_error_type"
  sftp_get_error :: "'w \<Rightarrow> handle \<Rightarrow> int"

definition make_error_info ::
    "('w, 'z) err_api_scheme \<Rightarrow> 'w \<Rightarrow> handle option \<Rightarrow> string \<Rightarrow> errc \<Rightarrow> error_info" where
  "make_error_info api w session op fallback =
     (case session of
        None \<Rightarrow> mk_error fallback [] op
      | Some s \<Rightarrow>
          mk_error
            (case ssh_get_error_code api w s of
               SSH_NO_ERROR \<Rightarrow> fallback
             | SSH_REQUEST_DENIED \<Rightarrow> errc_request_denied
             | SSH_FATAL \<Rightarrow> errc_fatal
             | SSH_EINTR \<Rightarrow> errc_interrupted
             | SSH_error_other _ \<Rightarrow> fallback)
            (ssh_get_error api w s) op)"

datatype ssh_auth_rc =
    SSH_AUTH_SUCCESS | SSH_AUTH_DENIED | SSH_AUTH_PARTIAL | SSH_AUTH_INFO | SSH_AUTH_AGAIN
  | SSH_AUTH_ERROR | SSH_AUTH_other int

definition errc_from_auth_result :: "ssh_auth_rc \<Rightarrow> errc" where
  "errc_from_auth_result rc =
     (case rc of
        SSH_AUTH_DENIED \<Rightarrow> errc_auth_denied
      | SSH_AUTH_PARTIAL \<Rightarrow> errc_auth_partial
      | SSH_AUTH_AGAIN \<Rightarrow> errc_would_block
      | SSH_AUTH_ERROR \<Rightarrow> errc_fatal
      | _ \<Rightarrow> errc_auth_denied)"

text \<open>\<open>SSH_FX_FAILURE\<close> is the SFTP status the sources enumerate as \<open>sftp_errc::failure\<close>.\<close>

definition make_sftp_error_info ::
    "('w, 'z) err_api_scheme \<Rightarrow> 'w \<Rightarrow> handle option \<Rightarrow> handle option \<Rightarrow> string \<Rightarrow> error_info" where
  "make_sftp_error_info api w sftp session op =
     \<lparr>code = make_sftp_error_code
         (case sftp of Some s \<Rightarrow> sftp_get_error api w s | None \<Rightarrow> sftp_errc_value sftp_errc_failure),
      message = (case session of Some s \<Rightarrow> ssh_get_error api w s | None \<Rightarrow> []),
      operation = op\<rparr>"


section \<open>Enumeration categories\<close>

text \<open>
  What the two categories share: a complete enumeration without repetition, one text per
  enumerator and a text for values outside the enumeration.
\<close>

locale enum_category =
  fixes enumerators :: "'e list"
    and text_of :: "'e \<Rightarrow> string"
    and fallback :: string
  assumes complete: "set enumerators = UNIV"
    and no_repetition: "distinct enumerators"
    and texts_differ: "distinct (map text_of enumerators)"
    and fallback_differs: "fallback \<notin> set (map text_of enumerators)"
begin

lemma index_of_less: "index_of e enumerators < length enumerators"
proof -
  have "e \<in> set ys \<Longrightarrow> index_of e ys < length ys" for ys :: "'e list"
    by (induction ys) auto
  with complete show ?thesis by simp
qed

lemma nth_index_of: "enumerators ! index_of e enumerators = e"
proof -
  have "e \<in> set ys \<Longrightarrow> ys ! index_of e ys = e" for ys :: "'e list"
    by (induction ys) auto
  with complete show ?thesis by simp
qed

lemma of_value: "nth_int enumerators (int (index_of e enumerators)) = Some e"
  by (simp add: nth_int_def index_of_less nth_index_of)

lemma text_of_eq_iff: "text_of a = text_of b \<longleftrightarrow> a = b"
proof
  assume t: "text_of a = text_of b"
  have "inj_on text_of (set enumerators)"
    using texts_differ by (simp add: distinct_map)
  with t show "a = b" using complete by (simp add: inj_on_def)
qed simp

lemma value_eq_iff: "index_of a enumerators = index_of b enumerators \<longleftrightarrow> a = b"
  by (metis nth_index_of)

lemma nth_int_eq_imp:
  assumes "nth_int enumerators i = Some e" and "nth_int enumerators j = Some e"
  shows "i = j"
proof -
  from assms have "enumerators ! nat i = enumerators ! nat j"
    and "nat i < length enumerators" and "nat j < length enumerators" and "0 \<le> i" and "0 \<le> j"
    by (auto simp: nth_int_def split: if_splits)
  with no_repetition show ?thesis by (simp add: nth_eq_iff_index_eq)
qed

lemma fallback_text: "text_of e \<noteq> fallback"
  using fallback_differs complete by auto

lemma message_separates:
  assumes eq: "(case nth_int enumerators i of Some e \<Rightarrow> text_of e | None \<Rightarrow> fallback)
             = (case nth_int enumerators j of Some e \<Rightarrow> text_of e | None \<Rightarrow> fallback)"
    and "nth_int enumerators i \<noteq> None"
  shows "i = j"
proof -
  obtain e where e: "nth_int enumerators i = Some e" using assms(2) by blast
  show ?thesis
  proof (cases "nth_int enumerators j")
    case None
    with eq e fallback_text show ?thesis by simp
  next
    case (Some f)
    with eq e have "e = f" by (simp add: text_of_eq_iff)
    with e Some nth_int_eq_imp show ?thesis by blast
  qed
qed

end

lemma all_errc_complete: "set all_errc = UNIV"
proof -
  have "e \<in> set all_errc" for e by (cases e) (simp_all add: all_errc_def)
  then show ?thesis by blast
qed

lemma all_sftp_errc_complete: "set all_sftp_errc = UNIV"
proof -
  have "e \<in> set all_sftp_errc" for e by (cases e) (simp_all add: all_sftp_errc_def)
  then show ?thesis by blast
qed

interpretation ssh_cat: enum_category all_errc errc_message "''unrecognized sshpp::errc''"
  by unfold_locales (rule all_errc_complete, simp_all add: all_errc_def)

interpretation sftp_cat: enum_category all_sftp_errc sftp_errc_message
    "''unrecognized sshpp::sftp_errc''"
  by unfold_locales (rule all_sftp_errc_complete, simp_all add: all_sftp_errc_def)

lemma errc_of_int_value [simp]: "errc_of_int (errc_value e) = Some e"
  by (simp add: errc_of_int_def errc_value_def ssh_cat.of_value)

lemma sftp_errc_of_int_value [simp]: "sftp_errc_of_int (sftp_errc_value e) = Some e"
  by (simp add: sftp_errc_of_int_def sftp_errc_value_def sftp_cat.of_value)

lemma errc_value_eq_0 [simp]: "errc_value e = 0 \<longleftrightarrow> e = errc_ok"
  using ssh_cat.value_eq_iff [of e errc_ok] by (simp add: errc_value_def all_errc_def)

lemma make_error_code_eq_iff [simp]: "make_error_code a = make_error_code b \<longleftrightarrow> a = b"
  using ssh_cat.value_eq_iff by (simp add: make_error_code_def errc_value_def)

lemma errc_of_int_SomeD: "errc_of_int v = Some e \<Longrightarrow> v = errc_value e"
  using ssh_cat.nth_int_eq_imp ssh_cat.of_value
  by (simp add: errc_of_int_def errc_value_def)

lemma mk_error_sel [simp]:
  "code (mk_error e m p) = make_error_code e"
  "message (mk_error e m p) = m" "operation (mk_error e m p) = p"
  by (simp_all add: mk_error_def)

lemma mk_error_eq_iff [simp]:
  "mk_error e m p = mk_error e' m' p' \<longleftrightarrow> e = e' \<and> m = m' \<and> p = p'"
  by (auto simp: mk_error_def)

lemma error_info_bool_mk_error [simp]: "error_info_bool (mk_error e m p) \<longleftrightarrow> e \<noteq> errc_ok"
  by (simp add: error_info_bool_def ec_bool_def make_error_code_def)

lemma make_error_info_cases:
  "\<exists>e m. make_error_info api w s p f = mk_error e m p
     \<and> e \<in> {f, errc_request_denied, errc_fatal, errc_interrupted}"
  by (cases s) (auto simp: make_error_info_def split: ssh_error_type.splits)

text \<open>Which handler catches a thrown \<open>Error\<close>.\<close>

definition caught_by :: "exn_class \<Rightarrow> exn \<Rightarrow> bool" where
  "caught_by h x \<longleftrightarrow> (case x of Sshpp_exn c _ \<Rightarrow> derives c h | Std_exn _ \<Rightarrow> False)"

lemma derives_Error [simp]: "derives c Error"
proof (cases "base_class c")
  case None
  then have "c = Error" by (cases c) simp_all
  then show ?thesis by (simp add: derives_refl)
next
  case (Some b)
  have "b = Error \<or> base_class b = Some Error" using Some by (cases c) auto
  then have "derives b Error" by (auto intro: derives.intros)
  with Some show ?thesis by (rule derives_step)
qed

lemma derives_eq: "derives c h \<longleftrightarrow> h = Error \<or> h = c \<or> base_class c = Some h"
proof
  show "derives c h \<Longrightarrow> h = Error \<or> h = c \<or> base_class c = Some h"
  proof (induction rule: derives.induct)
    case (derives_step c b h)
    then show ?case by (cases c) auto
  qed simp
  show "h = Error \<or> h = c \<or> base_class c = Some h \<Longrightarrow> derives c h"
    by (auto intro: derives.intros)
qed

lemma errc_of_int_None: "errc_of_int v = None \<longleftrightarrow> v < 0 \<or> 44 < v"
  by (auto simp: errc_of_int_def nth_int_def all_errc_def)

lemma errc_value_table [simp]:
  "errc_value errc_ok = 0"
  "errc_value errc_fatal = 1"
  "errc_value errc_request_denied = 2"
  "errc_value errc_interrupted = 3"
  "errc_value errc_would_block = 4"
  "errc_value errc_timed_out = 5"
  "errc_value errc_cancelled = 6"
  "errc_value errc_not_connected = 7"
  "errc_value errc_already_connected = 8"
  "errc_value errc_connection_lost = 9"
  "errc_value errc_protocol_error = 10"
  "errc_value errc_banner_exchange_failed = 11"
  "errc_value errc_key_exchange_failed = 12"
  "errc_value errc_rekey_failed = 13"
  "errc_value errc_host_key_unknown = 14"
  "errc_value errc_host_key_changed = 15"
  "errc_value errc_host_key_type_mismatch = 16"
  "errc_value errc_host_key_rejected = 17"
  "errc_value errc_known_hosts_io_error = 18"
  "errc_value errc_auth_denied = 19"
  "errc_value errc_auth_partial = 20"
  "errc_value errc_auth_method_unavailable = 21"
  "errc_value errc_auth_no_more_methods = 22"
  "errc_value errc_passphrase_required = 23"
  "errc_value errc_passphrase_incorrect = 24"
  "errc_value errc_agent_unavailable = 25"
  "errc_value errc_gssapi_error = 26"
  "errc_value errc_key_import_failed = 27"
  "errc_value errc_key_export_failed = 28"
  "errc_value errc_key_generation_failed = 29"
  "errc_value errc_unsupported_key_type = 30"
  "errc_value errc_channel_open_failed = 31"
  "errc_value errc_channel_closed = 32"
  "errc_value errc_channel_eof = 33"
  "errc_value errc_channel_request_failed = 34"
  "errc_value errc_pty_request_failed = 35"
  "errc_value errc_sftp_unavailable = 36"
  "errc_value errc_scp_error = 37"
  "errc_value errc_forwarding_failed = 38"
  "errc_value errc_x11_failed = 39"
  "errc_value errc_invalid_handle = 40"
  "errc_value errc_invalid_argument = 41"
  "errc_value errc_unsupported_operation = 42"
  "errc_value errc_out_of_memory = 43"
  "errc_value errc_unknown = 44"
  by (simp_all add: errc_value_def all_errc_def)

lemma errc_value_eval:
  "errc_value e \<in> {1..13} - {4} \<longleftrightarrow> derives (errc_exn_class e) ConnectionError"
  "errc_value e \<in> {14..18} \<longleftrightarrow> derives (errc_exn_class e) HostKeyError"
  "errc_value e \<in> {19..26} \<longleftrightarrow> derives (errc_exn_class e) AuthError"
  "errc_value e \<in> {27..30} \<longleftrightarrow> derives (errc_exn_class e) KeyError"
  "errc_value e \<in> {31..35} \<union> {38, 39} \<longleftrightarrow> derives (errc_exn_class e) ChannelError"
  "errc_value e \<in> {36} \<longleftrightarrow> derives (errc_exn_class e) SftpError"
  "errc_value e \<in> {37} \<longleftrightarrow> derives (errc_exn_class e) ScpError"
  "errc_value e \<in> {40..42} \<longleftrightarrow> derives (errc_exn_class e) UsageError"
  by (cases e; simp add: derives_eq)+

lemma caught_by_throw_error:
  "caught_by h (throw_error i) \<longleftrightarrow>
     (case ec_category (code i) of
        ssh_category \<Rightarrow>
          (case errc_of_int (ec_value (code i)) of
             Some e \<Rightarrow> derives (errc_exn_class e) h | None \<Rightarrow> h = Error)
      | sftp_category \<Rightarrow> derives SftpError h
      | system_category \<Rightarrow> h = Error)"
  by (auto simp: caught_by_def throw_error_def exn_class_of_def derives_eq
      split: category.splits option.splits)

lemma section_ranges:
  "{1..13} - {4} \<subseteq> {0..44 :: int}" "{14..18} \<subseteq> {0..44 :: int}" "{19..26} \<subseteq> {0..44 :: int}"
  "{27..30} \<subseteq> {0..44 :: int}" "{31..35} \<union> {38, 39} \<subseteq> {0..44 :: int}" "{36} \<subseteq> {0..44 :: int}"
  "{40..42} \<subseteq> {0..44 :: int}"
  by auto

lemma caught_by_section:
  assumes "\<And>e. errc_value e \<in> S \<longleftrightarrow> derives (errc_exn_class e) h" and "h \<noteq> Error"
    and "S \<subseteq> {0..44}"
  shows "caught_by h (throw_error i) \<longleftrightarrow>
     ec_category (code i) = ssh_category \<and> ec_value (code i) \<in> S
     \<or> ec_category (code i) = sftp_category \<and> h = SftpError"
proof (cases "ec_category (code i)")
  case ssh_category
  show ?thesis
  proof (cases "errc_of_int (ec_value (code i))")
    case None
    then have "ec_value (code i) \<notin> {0..44}" by (auto simp: errc_of_int_None)
    with None ssh_category assms show ?thesis by (auto simp: caught_by_throw_error)
  next
    case (Some e)
    then have "ec_value (code i) = errc_value e" by (rule errc_of_int_SomeD)
    with Some ssh_category assms show ?thesis by (simp add: caught_by_throw_error)
  qed
qed (use assms in \<open>auto simp: caught_by_throw_error derives_eq\<close>)

section \<open>Properties\<close>

text \<open>
  \<open>throw_error\<close> throws by the section of the enumeration its code lies in. A handler for a
  class catches the exception exactly when the code is in that class's section of \<open>errc\<close>
  (transport codes 1 to 13 other than \<open>would_block\<close>, host key 14 to 18, authentication 19 to 26,
  keys 27 to 30, channels 31 to 35 and the two forwarding codes, wrapper misuse 40 to 42); SFTP
  status codes are always caught as \<open>SftpError\<close>, and everything is caught as \<open>Error\<close>.
\<close>

theorem throw_error_sections:
  "caught_by Error (throw_error i)
   \<and> (caught_by ConnectionError (throw_error i) \<longleftrightarrow>
        ec_category (code i) = ssh_category \<and> ec_value (code i) \<in> {1..13} - {4})
   \<and> (caught_by HostKeyError (throw_error i) \<longleftrightarrow>
        ec_category (code i) = ssh_category \<and> ec_value (code i) \<in> {14..18})
   \<and> (caught_by AuthError (throw_error i) \<longleftrightarrow>
        ec_category (code i) = ssh_category \<and> ec_value (code i) \<in> {19..26})
   \<and> (caught_by KeyError (throw_error i) \<longleftrightarrow>
        ec_category (code i) = ssh_category \<and> ec_value (code i) \<in> {27..30})
   \<and> (caught_by ChannelError (throw_error i) \<longleftrightarrow>
        ec_category (code i) = ssh_category \<and> ec_value (code i) \<in> {31..35} \<union> {38, 39})
   \<and> (caught_by SftpError (throw_error i) \<longleftrightarrow>
        ec_category (code i) = sftp_category
        \<or> ec_category (code i) = ssh_category \<and> ec_value (code i) = 36)
   \<and> (caught_by UsageError (throw_error i) \<longleftrightarrow>
        ec_category (code i) = ssh_category \<and> ec_value (code i) \<in> {40..42})"
proof -
  have "caught_by Error (throw_error i)"
    by (simp add: caught_by_def throw_error_def)
  then show ?thesis
    by (simp only: caught_by_section [OF errc_value_eval(1)] caught_by_section [OF errc_value_eval(2)]
        caught_by_section [OF errc_value_eval(3)] caught_by_section [OF errc_value_eval(4)]
        caught_by_section [OF errc_value_eval(5)] caught_by_section [OF errc_value_eval(6)]
        caught_by_section [OF errc_value_eval(8)] section_ranges exn_class.distinct not_False_eq_True) auto
qed

text \<open>
  texts identify codes. Two \<open>ssh_category\<close> values with the same \<open>message()\<close> are equal when
  one of them is an enumerator, and likewise for \<open>sftp_category\<close>; so a log line determines the code.
\<close>

theorem messages_identify_codes:
  "(ssh_message i = ssh_message j \<and> 0 \<le> i \<and> i \<le> 44 \<longrightarrow> i = j)
   \<and> (sftp_message i = sftp_message j \<and> 0 \<le> i \<and> i \<le> 14 \<longrightarrow> i = j)"
proof -
  have "nth_int all_errc i \<noteq> None" if "0 \<le> i" "i \<le> 44"
    using that by (simp add: nth_int_def all_errc_def)
  moreover have "nth_int all_sftp_errc i \<noteq> None" if "0 \<le> i" "i \<le> 14"
    using that by (simp add: nth_int_def all_sftp_errc_def)
  ultimately show ?thesis
    using ssh_cat.message_separates [of i j] sftp_cat.message_separates [of i j]
    by (simp add: ssh_message_def sftp_message_def errc_of_int_def sftp_errc_of_int_def)
qed

lemma ssh_message_5: "ssh_message 5 = ''timed out''"
  by code_simp

theorem messages_identify_codes_witness:
  "ssh_message 5 = ssh_message 5 \<and> (0 :: int) \<le> 5 \<and> (5 :: int) \<le> 44 \<and> ssh_message 5 = ''timed out''"
  using messages_identify_codes [of 5 5] ssh_message_5 by simp

text \<open>
  a snapshot of a transport failure is always a real error: whatever libssh reports,
  \<open>make_error_info\<close> yields a code that tests true and that \<open>throw_error\<close> never classifies as
  success, provided the caller's fallback is not \<open>errc::ok\<close> (no caller passes it).
\<close>

theorem make_error_info_is_error:
  assumes "fallback \<noteq> errc_ok"
  shows "error_info_bool (make_error_info api w session op fallback)
     \<and> ec_category (code (make_error_info api w session op fallback)) = ssh_category
     \<and> operation (make_error_info api w session op fallback) = op"
proof -
  obtain e m where "make_error_info api w session op fallback = mk_error e m op"
    and "e \<in> {fallback, errc_request_denied, errc_fatal, errc_interrupted}"
    using make_error_info_cases [of api w session op fallback] by auto
  with assms show ?thesis by (auto simp: make_error_code_def)
qed

definition example_err_api :: "unit err_api" where
  "example_err_api =
     \<lparr>ssh_get_error = (\<lambda>_ _. ''Socket error''), ssh_get_error_code = (\<lambda>_ _. SSH_FATAL),
      sftp_get_error = (\<lambda>_ _. 0)\<rparr>"

theorem make_error_info_is_error_witness:
  "errc_connection_lost \<noteq> errc_ok
   \<and> error_info_bool (make_error_info example_err_api () (Some 1) ''ssh_connect'' errc_connection_lost)"
  using make_error_info_is_error [of errc_connection_lost example_err_api "()" "Some 1" "''ssh_connect''"]
  by simp

text \<open>
  the SFTP snapshot has no such guarantee. Its code tests false exactly when the SFTP session
  reports status 0, so a \<open>Result\<close> built from it is a failure whose \<open>ErrorInfo\<close> says no error.
\<close>

theorem make_sftp_error_info_falsy_iff:
  "\<not> error_info_bool (make_sftp_error_info api w sftp session op) \<longleftrightarrow>
     (\<exists>s. sftp = Some s \<and> sftp_get_error api w s = 0)"
proof (cases sftp)
  case None
  have "sftp_errc_value sftp_errc_failure = 4"
    by (simp add: sftp_errc_value_def all_sftp_errc_def)
  with None show ?thesis
    by (simp add: make_sftp_error_info_def error_info_bool_def ec_bool_def make_sftp_error_code_def)
next
  case (Some s)
  then show ?thesis
    by (simp add: make_sftp_error_info_def error_info_bool_def ec_bool_def make_sftp_error_code_def)
qed

end
