(* ===== verification/Library_Guard.thy ===== *)
theory Library_Guard
  imports Errors
begin

text \<open>
  \<open>include/sshpp/library.hpp\<close> and \<open>detail/library.ipp\<close>: the reference-counted guard around
  \<open>ssh_init()\<close> and \<open>ssh_finalize()\<close>, the process-wide log settings and the destructor-error
  handler.

  The globals of \<open>sshpp::detail\<close> are the record \<open>lib_globals\<close>; each operation holds
  \<open>g_library_mutex\<close> for its whole body, so operations are atomic and a program is a sequence of
  them. The calls made into libssh are recorded in order in \<open>g_calls\<close>. User callbacks are opaque
  values of type \<open>'cb\<close>. A \<open>Library\<close> object is its flag \<open>owns_\<close>.
\<close>

section \<open>State\<close>

datatype log_level = Log_none | Log_warning | Log_info | Log_debug | Log_trace

text \<open>libssh's levels, named as in its header; any other value is \<open>SSH_LOG_other\<close>.\<close>

datatype native_log_level =
    SSH_LOG_NONE | SSH_LOG_WARNING | SSH_LOG_INFO | SSH_LOG_DEBUG | SSH_LOG_TRACE
  | SSH_LOG_other int

record log_record =
  log_record_level :: log_level
  log_record_function :: string
  log_record_message :: string

datatype lib_call =
    Ssh_init
  | Ssh_threads_set_callbacks
  | Ssh_finalize
  | Ssh_set_log_level native_log_level
  | Ssh_set_log_callback bool

record 'cb lib_globals =
  g_refcount :: int
  g_log_level :: log_level
  g_log_callback :: "'cb option"
  g_destructor_handler :: "'cb option"
  g_calls :: "lib_call list"

record 'cb lib_config =
  cfg_install_threading_callbacks :: bool
  cfg_log_level :: log_level
  cfg_log_callback :: "'cb option"

definition default_config :: "'cb lib_config" where
  "default_config =
     \<lparr>cfg_install_threading_callbacks = True, cfg_log_level = Log_none, cfg_log_callback = None\<rparr>"

definition init_globals :: "'cb lib_globals" where
  "init_globals =
     \<lparr>g_refcount = 0, g_log_level = Log_none, g_log_callback = None, g_destructor_handler = None,
      g_calls = []\<rparr>"

section \<open>Operations\<close>

fun level_from_native :: "native_log_level \<Rightarrow> log_level" where
  "level_from_native SSH_LOG_WARNING = Log_warning"
| "level_from_native SSH_LOG_INFO = Log_info"
| "level_from_native SSH_LOG_DEBUG = Log_debug"
| "level_from_native SSH_LOG_TRACE = Log_trace"
| "level_from_native _ = Log_none"

fun level_to_native :: "log_level \<Rightarrow> native_log_level" where
  "level_to_native Log_warning = SSH_LOG_WARNING"
| "level_to_native Log_info = SSH_LOG_INFO"
| "level_to_native Log_debug = SSH_LOG_DEBUG"
| "level_to_native Log_trace = SSH_LOG_TRACE"
| "level_to_native Log_none = SSH_LOG_NONE"

text \<open>The invocation of the user's callback a log line causes, if any.\<close>

definition log_trampoline ::
    "'cb lib_globals \<Rightarrow> native_log_level \<Rightarrow> string \<Rightarrow> string option \<Rightarrow> ('cb \<times> log_record) option" where
  "log_trampoline g priority fname buffer =
     (case g_log_callback g of
        None \<Rightarrow> None
      | Some cb \<Rightarrow>
          Some (cb, \<lparr>log_record_level = level_from_native priority, log_record_function = fname,
                     log_record_message = (case buffer of Some b \<Rightarrow> b | None \<Rightarrow> [])\<rparr>))"

definition emit :: "lib_call list \<Rightarrow> 'cb lib_globals \<Rightarrow> 'cb lib_globals" where
  "emit cs g = g\<lparr>g_calls := g_calls g @ cs\<rparr>"

text \<open>\<open>Library(const Config&)\<close>: the new object owns one reference.\<close>

definition library_ctor :: "'cb lib_config \<Rightarrow> 'cb lib_globals \<Rightarrow> bool \<times> 'cb lib_globals" where
  "library_ctor cfg g =
     (let g1 = (if g_refcount g = 0
                then emit (Ssh_init #
                       (if cfg_install_threading_callbacks cfg then [Ssh_threads_set_callbacks] else [])) g
                else g);
          g2 = g1\<lparr>g_refcount := g_refcount g1 + 1\<rparr>;
          g3 = (if cfg_log_level cfg \<noteq> Log_none
                then emit [Ssh_set_log_level (level_to_native (cfg_log_level cfg))]
                       (g2\<lparr>g_log_level := cfg_log_level cfg\<rparr>)
                else g2);
          g4 = (case cfg_log_callback cfg of
                  Some cb \<Rightarrow> emit [Ssh_set_log_callback True] (g3\<lparr>g_log_callback := Some cb\<rparr>)
                | None \<Rightarrow> g3)
      in (True, g4))"

text \<open>Dropping one reference; \<open>ssh_finalize()\<close> when it was the last.\<close>

definition library_release :: "'cb lib_globals \<Rightarrow> 'cb lib_globals" where
  "library_release g =
     (let g1 = g\<lparr>g_refcount := g_refcount g - 1\<rparr>
      in if g_refcount g1 = 0 then emit [Ssh_finalize] g1 else g1)"

definition library_dtor :: "bool \<Rightarrow> 'cb lib_globals \<Rightarrow> 'cb lib_globals" where
  "library_dtor owns g = (if owns then library_release g else g)"

text \<open>\<open>Library(const Library&)\<close>: the source object is not looked at.\<close>

definition library_copy_ctor :: "'cb lib_globals \<Rightarrow> bool \<times> 'cb lib_globals" where
  "library_copy_ctor g = (True, g\<lparr>g_refcount := g_refcount g + 1\<rparr>)"

text \<open>
  Copy assignment between different objects: copy into \<open>tmp\<close>, swap the flags, destroy \<open>tmp\<close>
  (which then holds the old flag).
\<close>

definition library_copy_assign :: "bool \<Rightarrow> 'cb lib_globals \<Rightarrow> bool \<times> 'cb lib_globals" where
  "library_copy_assign owns g =
     (case library_copy_ctor g of (tmp_owns, g1) \<Rightarrow> (tmp_owns, library_dtor owns g1))"

text \<open>Move construction: the new flag and the flag left in the source.\<close>

definition library_move_ctor :: "bool \<Rightarrow> bool \<times> bool" where
  "library_move_ctor other_owns = (other_owns, False)"

text \<open>Move assignment between different objects.\<close>

definition library_move_assign ::
    "bool \<Rightarrow> bool \<Rightarrow> 'cb lib_globals \<Rightarrow> (bool \<times> bool) \<times> 'cb lib_globals" where
  "library_move_assign owns other_owns g =
     ((other_owns, False), if owns then library_release g else g)"

definition library_initialized :: "'cb lib_globals \<Rightarrow> bool" where
  "library_initialized g \<longleftrightarrow> g_refcount g > 0"

definition library_set_log_level :: "log_level \<Rightarrow> 'cb lib_globals \<Rightarrow> 'cb lib_globals" where
  "library_set_log_level l g = emit [Ssh_set_log_level (level_to_native l)] (g\<lparr>g_log_level := l\<rparr>)"

definition library_set_log_callback :: "'cb option \<Rightarrow> 'cb lib_globals \<Rightarrow> 'cb lib_globals" where
  "library_set_log_callback cb g = emit [Ssh_set_log_callback (cb \<noteq> None)] (g\<lparr>g_log_callback := cb\<rparr>)"

definition library_set_destructor_error_handler ::
    "'cb option \<Rightarrow> 'cb lib_globals \<Rightarrow> 'cb lib_globals" where
  "library_set_destructor_error_handler h g = g\<lparr>g_destructor_handler := h\<rparr>"

text \<open>The handler invocation a destructor error causes; what the handler throws is swallowed.\<close>

definition report_destructor_error :: "'cb lib_globals \<Rightarrow> error_info \<Rightarrow> ('cb \<times> error_info) option" where
  "report_destructor_error g i = map_option (\<lambda>h. (h, i)) (g_destructor_handler g)"

definition version_string :: "string \<Rightarrow> string option \<Rightarrow> string" where
  "version_string sshpp_version libssh_version =
     ''libsshpp '' @ sshpp_version @ '' (libssh ''
     @ (case libssh_version of Some v \<Rightarrow> v | None \<Rightarrow> ''unknown'') @ '')''"

section \<open>Programs over Library objects\<close>

text \<open>
  A program holds \<open>Library\<close> objects at addresses and applies the operations to them;
  \<open>None\<close> when an operation names an object that does not exist.
\<close>

record 'cb lib_sys =
  objs :: "nat \<rightharpoonup> bool"
  globals :: "'cb lib_globals"

datatype 'cb lib_op =
    Construct nat "'cb lib_config"
  | Destroy nat
  | Copy_construct nat nat
  | Copy_assign nat nat
  | Move_construct nat nat
  | Move_assign nat nat
  | Set_log_level log_level
  | Set_log_callback "'cb option"
  | Set_destructor_error_handler "'cb option"

fun lib_exec :: "'cb lib_op \<Rightarrow> 'cb lib_sys \<Rightarrow> 'cb lib_sys option" where
  "lib_exec (Construct a cfg) s =
     (if objs s a \<noteq> None then None
      else case library_ctor cfg (globals s) of
             (o1, g) \<Rightarrow> Some \<lparr>objs = (objs s)(a \<mapsto> o1), globals = g\<rparr>)"
| "lib_exec (Destroy a) s =
     (case objs s a of
        None \<Rightarrow> None
      | Some o1 \<Rightarrow> Some \<lparr>objs = (objs s)(a := None), globals = library_dtor o1 (globals s)\<rparr>)"
| "lib_exec (Copy_construct a b) s =
     (if objs s a \<noteq> None \<or> objs s b = None then None
      else case library_copy_ctor (globals s) of
             (o1, g) \<Rightarrow> Some \<lparr>objs = (objs s)(a \<mapsto> o1), globals = g\<rparr>)"
| "lib_exec (Copy_assign a b) s =
     (case (objs s a, objs s b) of
        (Some o1, Some _) \<Rightarrow>
          if a = b then Some s
          else (case library_copy_assign o1 (globals s) of
                  (o2, g) \<Rightarrow> Some \<lparr>objs = (objs s)(a \<mapsto> o2), globals = g\<rparr>)
      | _ \<Rightarrow> None)"
| "lib_exec (Move_construct a b) s =
     (case objs s b of
        None \<Rightarrow> None
      | Some o2 \<Rightarrow>
          if objs s a \<noteq> None then None
          else case library_move_ctor o2 of
                 (o1, o2') \<Rightarrow> Some (s\<lparr>objs := (objs s)(a \<mapsto> o1, b \<mapsto> o2')\<rparr>))"
| "lib_exec (Move_assign a b) s =
     (case (objs s a, objs s b) of
        (Some o1, Some o2) \<Rightarrow>
          if a = b then Some s
          else (case library_move_assign o1 o2 (globals s) of
                  ((o1', o2'), g) \<Rightarrow> Some \<lparr>objs = (objs s)(a \<mapsto> o1', b \<mapsto> o2'), globals = g\<rparr>)
      | _ \<Rightarrow> None)"
| "lib_exec (Set_log_level l) s = Some (s\<lparr>globals := library_set_log_level l (globals s)\<rparr>)"
| "lib_exec (Set_log_callback cb) s = Some (s\<lparr>globals := library_set_log_callback cb (globals s)\<rparr>)"
| "lib_exec (Set_destructor_error_handler h) s =
     Some (s\<lparr>globals := library_set_destructor_error_handler h (globals s)\<rparr>)"

definition init_lib_sys :: "'cb lib_sys" where
  "init_lib_sys = \<lparr>objs = Map.empty, globals = init_globals\<rparr>"

text \<open>Copying from an object that still owns its reference (not moved from).\<close>

fun copies_owner :: "'cb lib_op \<Rightarrow> 'cb lib_sys \<Rightarrow> bool" where
  "copies_owner (Copy_construct a b) s \<longleftrightarrow> objs s b = Some True"
| "copies_owner (Copy_assign a b) s \<longleftrightarrow> objs s b = Some True"
| "copies_owner _ s \<longleftrightarrow> True"

inductive lib_reach :: "'cb lib_sys \<Rightarrow> bool" where
  lib_start: "lib_reach init_lib_sys"
| lib_step: "lib_reach s \<Longrightarrow> copies_owner p s \<Longrightarrow> lib_exec p s = Some t \<Longrightarrow> lib_reach t"

section \<open>Invariant\<close>

text \<open>
  Whether libssh is initialised after a sequence of calls; \<open>None\<close> if it was initialised twice or
  finalised while down.
\<close>

fun up_after :: "lib_call list \<Rightarrow> bool \<Rightarrow> bool option" where
  "up_after [] up = Some up"
| "up_after (Ssh_init # cs) up = (if up then None else up_after cs True)"
| "up_after (Ssh_finalize # cs) up = (if up then up_after cs False else None)"
| "up_after (_ # cs) up = up_after cs up"

lemma up_after_append:
  "up_after (xs @ ys) up = (case up_after xs up of None \<Rightarrow> None | Some u \<Rightarrow> up_after ys u)"
  by (induction xs up rule: up_after.induct) auto

definition owners :: "(nat \<rightharpoonup> bool) \<Rightarrow> nat set" where
  "owners m = {a. m a = Some True}"

definition lib_inv :: "'cb lib_sys \<Rightarrow> bool" where
  "lib_inv s \<longleftrightarrow>
     finite (owners (objs s))
     \<and> g_refcount (globals s) = int (card (owners (objs s)))
     \<and> up_after (g_calls (globals s)) False = Some (g_refcount (globals s) > 0)"

lemma owners_upd [simp]:
  "owners (m(a \<mapsto> True)) = insert a (owners m)"
  "owners (m(a \<mapsto> False)) = owners m - {a}"
  "owners (m(a := None)) = owners m - {a}"
  by (auto simp: owners_def)

lemma in_owners [simp]: "a \<in> owners m \<longleftrightarrow> m a = Some True"
  by (simp add: owners_def)

lemma emit_simps [simp]:
  "g_refcount (emit cs g) = g_refcount g" "g_calls (emit cs g) = g_calls g @ cs"
  by (simp_all add: emit_def)

text \<open>The effect of the two primitive changes on the part of the globals the invariant reads.\<close>

lemma library_ctor_effect:
  assumes "library_ctor cfg g = (o1, g')" and "up_after (g_calls g) False = Some (g_refcount g > 0)"
    and "0 \<le> g_refcount g"
  shows "o1 \<and> g_refcount g' = g_refcount g + 1 \<and> up_after (g_calls g') False = Some True"
  using assms
  by (auto simp: library_ctor_def Let_def up_after_append split: option.splits)

lemma library_release_effect:
  assumes "up_after (g_calls g) False = Some (g_refcount g > 0)" and "0 < g_refcount g"
  shows "g_refcount (library_release g) = g_refcount g - 1
     \<and> up_after (g_calls (library_release g)) False = Some (g_refcount (library_release g) > 0)"
  using assms by (auto simp: library_release_def Let_def up_after_append)

lemma owners_card_pos: "finite (owners m) \<Longrightarrow> m a = Some True \<Longrightarrow> 0 < card (owners m)"
  by (auto simp: card_gt_0_iff owners_def)

lemma lib_inv_pos: "lib_inv s \<Longrightarrow> objs s a = Some True \<Longrightarrow> 0 < g_refcount (globals s)"
  using owners_card_pos [of "objs s" a] by (simp add: lib_inv_def)

lemma lib_inv_Construct:
  "lib_inv s \<Longrightarrow> lib_exec (Construct a cfg) s = Some t \<Longrightarrow> lib_inv t"
  using library_ctor_effect [of cfg "globals s"]
  by (auto simp: lib_inv_def card_insert_if split: if_splits prod.splits)

lemma lib_inv_Destroy:
  assumes "lib_inv s" and "lib_exec (Destroy a) s = Some t"
  shows "lib_inv t"
proof (cases "objs s a = Some True")
  case True
  with assms lib_inv_pos [OF assms(1) True] library_release_effect [of "globals s"]
    owners_card_pos [of "objs s" a]
  show ?thesis by (auto simp: lib_inv_def library_dtor_def card_Diff_singleton_if)
next
  case False
  with assms show ?thesis
    by (auto simp: lib_inv_def library_dtor_def split: option.splits)
qed

lemma lib_inv_Copy_construct:
  assumes "lib_inv s" and "objs s b = Some True" and "lib_exec (Copy_construct a b) s = Some t"
  shows "lib_inv t"
  using assms lib_inv_pos [OF assms(1,2)]
  by (auto simp: lib_inv_def library_copy_ctor_def card_insert_if split: if_splits)

lemma lib_inv_Copy_assign:
  assumes "lib_inv s" and "objs s b = Some True" and "lib_exec (Copy_assign a b) s = Some t"
  shows "lib_inv t"
  using assms lib_inv_pos [OF assms(1,2)]
  by (auto simp: lib_inv_def library_copy_assign_def library_copy_ctor_def library_dtor_def
      library_release_def Let_def card_insert_if insert_absorb split: if_splits option.splits)

lemma lib_inv_Move_construct:
  "lib_inv s \<Longrightarrow> lib_exec (Move_construct a b) s = Some t \<Longrightarrow> lib_inv t"
  using owners_card_pos [of "objs s" b]
  by (cases "the (objs s b)")
    (auto simp: lib_inv_def library_move_ctor_def card_insert_if card_Diff_singleton_if
      split: if_splits option.splits)

lemma lib_inv_Move_assign:
  assumes "lib_inv s" and "lib_exec (Move_assign a b) s = Some t"
  shows "lib_inv t"
proof -
  obtain o1 o2 where o: "objs s a = Some o1" "objs s b = Some o2"
    using assms(2) by (auto split: option.splits)
  show ?thesis
  proof (cases "a = b")
    case False
    then show ?thesis
      using assms o lib_inv_pos [of s a] library_release_effect [of "globals s"]
        owners_card_pos [of "objs s" a] owners_card_pos [of "objs s" b]
      by (cases o1; cases o2)
        (auto simp: lib_inv_def library_move_assign_def card_insert_if card_Diff_singleton_if insert_absorb)
  qed (use assms o in auto)
qed

lemma lib_exec_inv:
  assumes "lib_inv s" and "copies_owner p s" and "lib_exec p s = Some t"
  shows "lib_inv t"
proof (cases p)
  case (Construct a cfg)
  with assms show ?thesis using lib_inv_Construct by blast
next
  case (Destroy a)
  with assms show ?thesis using lib_inv_Destroy by blast
next
  case (Copy_construct a b)
  with assms show ?thesis using lib_inv_Copy_construct [of s b a t] by simp
next
  case (Copy_assign a b)
  with assms show ?thesis using lib_inv_Copy_assign [of s b a t] by simp
next
  case (Move_construct a b)
  with assms show ?thesis using lib_inv_Move_construct by blast
next
  case (Move_assign a b)
  with assms show ?thesis using lib_inv_Move_assign by blast
qed (use assms in \<open>auto simp: lib_inv_def library_set_log_level_def library_set_log_callback_def
       library_set_destructor_error_handler_def up_after_append\<close>)

lemma lib_reach_inv: "lib_reach s \<Longrightarrow> lib_inv s"
proof (induction rule: lib_reach.induct)
  case lib_start
  show ?case by (simp add: lib_inv_def init_lib_sys_def init_globals_def owners_def)
next
  case (lib_step s p t)
  then show ?case using lib_exec_inv by blast
qed

fun lib_run :: "'cb lib_op list \<Rightarrow> 'cb lib_sys \<Rightarrow> 'cb lib_sys option" where
  "lib_run [] s = Some s"
| "lib_run (p # ps) s = (case lib_exec p s of None \<Rightarrow> None | Some t \<Rightarrow> lib_run ps t)"

section \<open>Properties\<close>

text \<open>
  C29: the guard keeps libssh initialised exactly while it is needed. In every state a program can
  reach (with objects constructed, destroyed, moved, assigned, and copied from objects that own
  their reference) the count equals the number of owning objects, the calls to \<open>ssh_init\<close> and
  \<open>ssh_finalize\<close> strictly alternate, and libssh is up exactly when some object owns a reference,
  which is what \<open>Library::initialized()\<close> answers.
\<close>

theorem library_refcount_sound:
  assumes "lib_reach s"
  shows "g_refcount (globals s) = int (card (owners (objs s)))
     \<and> up_after (g_calls (globals s)) False = Some (library_initialized (globals s))
     \<and> (library_initialized (globals s) \<longleftrightarrow> (\<exists>a. objs s a = Some True))"
proof -
  from assms have inv: "lib_inv s" by (rule lib_reach_inv)
  have "card (owners (objs s)) > 0 \<longleftrightarrow> (\<exists>a. objs s a = Some True)"
    using inv by (auto simp: lib_inv_def card_gt_0_iff owners_def)
  with inv show ?thesis by (simp add: lib_inv_def library_initialized_def)
qed

definition example_lib_sys :: "unit lib_sys" where
  "example_lib_sys =
     \<lparr>objs = [0 \<mapsto> True],
      globals = init_globals\<lparr>g_refcount := 1, g_calls := [Ssh_init, Ssh_threads_set_callbacks]\<rparr>\<rparr>"

lemma example_lib_sys_reach: "lib_reach example_lib_sys"
  by (rule lib_step [OF lib_start, where p = "Construct 0 default_config"])
    (simp_all add: example_lib_sys_def init_lib_sys_def init_globals_def default_config_def
      library_ctor_def Let_def emit_def)

theorem library_refcount_sound_witness:
  "lib_reach example_lib_sys
   \<and> up_after (g_calls (globals example_lib_sys)) False = Some True"
  using library_refcount_sound [OF example_lib_sys_reach] example_lib_sys_reach
  by (simp add: example_lib_sys_def library_initialized_def)

text \<open>
  copying a moved-from \<open>Library\<close> breaks the guard. After constructing \<open>0\<close>, moving it to
  \<open>1\<close>, destroying \<open>1\<close> (which finalises libssh) and copy-constructing \<open>2\<close> from \<open>0\<close>,
  \<open>Library::initialized()\<close> answers true while libssh is down, and destroying \<open>2\<close> finalises
  libssh a second time.
\<close>

theorem library_copy_of_moved_from:
  "\<exists>s t. lib_run [Construct 0 default_config, Move_construct 1 0, Destroy 1, Copy_construct 2 0]
           (init_lib_sys :: unit lib_sys) = Some s
     \<and> library_initialized (globals s)
     \<and> up_after (g_calls (globals s)) False = Some False
     \<and> lib_exec (Destroy 2) s = Some t
     \<and> up_after (g_calls (globals t)) False = None"
  by (simp add: init_lib_sys_def init_globals_def default_config_def library_ctor_def Let_def
      emit_def library_move_ctor_def library_dtor_def library_release_def library_copy_ctor_def
      library_initialized_def)

lemma level_round_trip: "level_from_native (level_to_native l) = l"
  by (cases l) simp_all

end
