(* ===== verification/Session_Options.thy ===== *)
theory Session_Options
  imports Library_Guard
begin

text \<open>
  \<open>include/sshpp/session_options.hpp\<close> and \<open>detail/session_options.ipp\<close>: the options record, its
  validation, the fluent builder and \<open>SessionOptions::parse_target\<close>.

  \<open>std::filesystem::path\<close> options are strings, \<open>std::chrono\<close> durations are \<open>int\<close> counts of the
  unit in the field's name, \<open>std::uint16_t\<close> and \<open>std::uint64_t\<close> are words. \<open>parse_target\<close> may
  leave by an exception of \<open>std::stoi\<close>, which is the left injection of its result.
\<close>

datatype strict_host_key_checking = Strict_off | Strict_on
datatype locking = Locking_none | Locking_internal
datatype compression = Compression_off | Compression_on | Compression_zlib | Compression_zlib_openssh

record session_options =
  opt_host :: string
  opt_port :: "u16 option"
  opt_user :: "string option"
  opt_bind_address :: "string option"
  opt_fd :: "int option"
  opt_proxy_command :: "string option"
  opt_proxy_jump :: "string option"
  opt_timeout_us :: "int option"
  opt_tcp_nodelay :: "bool option"
  opt_ssh_dir :: "string option"
  opt_known_hosts :: "string option"
  opt_global_known_hosts :: "string option"
  opt_identities :: "string list"
  opt_config_file :: "string option"
  opt_process_config :: bool
  opt_ciphers_client_to_server :: "string option"
  opt_ciphers_server_to_client :: "string option"
  opt_key_exchange :: "string option"
  opt_hmac_client_to_server :: "string option"
  opt_hmac_server_to_client :: "string option"
  opt_host_key_algorithms :: "string option"
  opt_public_key_accepted_types :: "string option"
  opt_compression :: "compression option"
  opt_compression_level :: "int option"
  opt_rekey_data_bytes :: "u64 option"
  opt_rekey_time_s :: "int option"
  opt_strict_host_key_checking :: "strict_host_key_checking option"
  opt_gssapi_server_identity :: "string option"
  opt_gssapi_client_identity :: "string option"
  opt_gssapi_delegate_credentials :: "bool option"
  opt_locking :: locking
  opt_log_level :: log_level

text \<open>The default member initialisers.\<close>

definition default_options :: session_options where
  "default_options =
     \<lparr>opt_host = [], opt_port = None, opt_user = None, opt_bind_address = None, opt_fd = None,
      opt_proxy_command = None, opt_proxy_jump = None, opt_timeout_us = None,
      opt_tcp_nodelay = None, opt_ssh_dir = None, opt_known_hosts = None,
      opt_global_known_hosts = None, opt_identities = [], opt_config_file = None,
      opt_process_config = True, opt_ciphers_client_to_server = None,
      opt_ciphers_server_to_client = None, opt_key_exchange = None,
      opt_hmac_client_to_server = None, opt_hmac_server_to_client = None,
      opt_host_key_algorithms = None, opt_public_key_accepted_types = None,
      opt_compression = None, opt_compression_level = None, opt_rekey_data_bytes = None,
      opt_rekey_time_s = None, opt_strict_host_key_checking = None,
      opt_gssapi_server_identity = None, opt_gssapi_client_identity = None,
      opt_gssapi_delegate_credentials = None, opt_locking = Locking_none,
      opt_log_level = Log_none\<rparr>"

definition validate_options :: "session_options \<Rightarrow> unit result" where
  "validate_options opts =
     (if opt_host opts = []
      then Inl (mk_error errc_invalid_argument ''host must not be empty'' ''SessionOptions::validate'')
      else Inr ())"

section \<open>Parsing a target\<close>

definition parse_error :: error_info where
  "parse_error =
     mk_error errc_invalid_argument ''unterminated '[' in target'' ''SessionOptions::parse_target''"

text \<open>The port digits after a colon: \<open>static_cast<std::uint16_t>(std::stoi(...))\<close>.\<close>

definition parse_port :: "string \<Rightarrow> session_options \<Rightarrow> std_exn + session_options" where
  "parse_port s opts =
     (case stoi s of Inl e \<Rightarrow> Inl e | Inr i \<Rightarrow> Inr (opts\<lparr>opt_port := Some (to_u16 i)\<rparr>))"

text \<open>Host and port, from the text after the first \<open>@\<close>.\<close>

definition parse_host_port ::
    "session_options \<Rightarrow> string \<Rightarrow> std_exn + session_options result" where
  "parse_host_port opts rest =
     (if rest \<noteq> [] \<and> hd rest = CHR ''['' then
        (case str_find (CHR '']'') rest of
           None \<Rightarrow> Inr (Inl parse_error)
         | Some close \<Rightarrow>
             (let opts = opts\<lparr>opt_host := take (close - 1) (drop 1 rest)\<rparr>;
                  rest = drop (close + 1) rest
              in if rest \<noteq> [] \<and> hd rest = CHR '':''
                 then (case parse_port (drop 1 rest) opts of Inl e \<Rightarrow> Inl e | Inr o2 \<Rightarrow> Inr (Inr o2))
                 else Inr (Inr opts)))
      else
        (case str_rfind (CHR '':'') rest of
           Some colon \<Rightarrow>
             (case parse_port (drop (colon + 1) rest) (opts\<lparr>opt_host := take colon rest\<rparr>) of
                Inl e \<Rightarrow> Inl e | Inr o2 \<Rightarrow> Inr (Inr o2))
         | None \<Rightarrow> Inr (Inr (opts\<lparr>opt_host := rest\<rparr>))))"

definition parse_target :: "string \<Rightarrow> std_exn + session_options result" where
  "parse_target target =
     (let (opts, rest) =
        (case str_find (CHR ''@'') target of
           Some at_pos \<Rightarrow>
             (default_options\<lparr>opt_user := Some (take at_pos target)\<rparr>, drop (at_pos + 1) target)
         | None \<Rightarrow> (default_options, target))
      in case parse_host_port opts rest of
           Inl e \<Rightarrow> Inl e
         | Inr (Inl err) \<Rightarrow> Inr (Inl err)
         | Inr (Inr opts) \<Rightarrow>
             (case validate_options opts of Inl err \<Rightarrow> Inr (Inl err) | Inr _ \<Rightarrow> Inr (Inr opts)))"

section \<open>Builder\<close>

text \<open>\<open>SessionOptions::Builder\<close>: each call updates the options under construction.\<close>

datatype builder_call =
    B_host string | B_port u16 | B_user string | B_timeout int | B_identity string

fun builder_apply :: "session_options \<Rightarrow> builder_call \<Rightarrow> session_options" where
  "builder_apply opts (B_host v) = opts\<lparr>opt_host := v\<rparr>"
| "builder_apply opts (B_port v) = opts\<lparr>opt_port := Some v\<rparr>"
| "builder_apply opts (B_user v) = opts\<lparr>opt_user := Some v\<rparr>"
| "builder_apply opts (B_timeout v) = opts\<lparr>opt_timeout_us := Some v\<rparr>"
| "builder_apply opts (B_identity v) = opts\<lparr>opt_identities := opt_identities opts @ [v]\<rparr>"

definition builder_build :: "builder_call list \<Rightarrow> session_options result" where
  "builder_build calls =
     (let opts = foldl builder_apply default_options calls
      in case validate_options opts of Inl e \<Rightarrow> Inl e | Inr _ \<Rightarrow> Inr opts)"

section \<open>Lemmas\<close>

text \<open>The texts the documentation gives as targets: an optional user, a host in brackets or not,
  an optional port.\<close>

definition format_target :: "string option \<Rightarrow> bool \<Rightarrow> string \<Rightarrow> nat option \<Rightarrow> string" where
  "format_target user bracketed host port =
     (case user of Some u \<Rightarrow> u @ ''@'' | None \<Rightarrow> [])
     @ (if bracketed then ''['' @ host @ '']'' else host)
     @ (case port of Some n \<Rightarrow> CHR '':'' # nat_to_string n | None \<Rightarrow> [])"

text \<open>Texts that are read back unambiguously.\<close>

definition plain_target :: "string option \<Rightarrow> bool \<Rightarrow> string \<Rightarrow> nat option \<Rightarrow> bool" where
  "plain_target user bracketed host port \<longleftrightarrow>
     host \<noteq> []
     \<and> (case user of Some u \<Rightarrow> CHR ''@'' \<notin> set u | None \<Rightarrow> CHR ''@'' \<notin> set host)
     \<and> (if bracketed then CHR '']'' \<notin> set host else hd host \<noteq> CHR ''['')
     \<and> (\<not> bracketed \<and> port = None \<longrightarrow> CHR '':'' \<notin> set host)
     \<and> (case port of Some n \<Rightarrow> n \<le> 2147483647 | None \<Rightarrow> True)"

definition target_options :: "string option \<Rightarrow> string \<Rightarrow> nat option \<Rightarrow> session_options" where
  "target_options user host port =
     default_options\<lparr>opt_user := user, opt_host := host, opt_port := map_option of_nat port\<rparr>"

lemma default_options_simps [simp]:
  "opt_user default_options = None" "opt_port default_options = None"
  "default_options\<lparr>opt_user := None\<rparr> = default_options"
  "default_options\<lparr>opt_port := None\<rparr> = default_options"
  "default_options\<lparr>opt_host := h, opt_port := None\<rparr> = default_options\<lparr>opt_host := h\<rparr>"
  by (simp_all add: default_options_def)

lemma validate_options_ok [simp]: "opt_host opts \<noteq> [] \<Longrightarrow> validate_options opts = Inr ()"
  by (simp add: validate_options_def)

lemma to_u16_of_nat: "to_u16 (int n) = of_nat n"
  by (simp add: to_u16_def)

lemma parse_port_nat_to_string:
  "n \<le> 2147483647 \<Longrightarrow> parse_port (nat_to_string n) opts = Inr (opts\<lparr>opt_port := Some (of_nat n)\<rparr>)"
  by (simp add: parse_port_def stoi_nat_to_string to_u16_of_nat)

lemma colon_not_in_port [simp]: "CHR '':'' \<notin> set (nat_to_string n)"
  by simp

lemma parse_host_port_bracketed:
  assumes "CHR '']'' \<notin> set host" and "\<And>n. port = Some n \<Longrightarrow> n \<le> 2147483647"
  shows "parse_host_port opts
       (''['' @ host @ '']'' @ (case port of Some n \<Rightarrow> CHR '':'' # nat_to_string n | None \<Rightarrow> []))
     = Inr (Inr ((opts\<lparr>opt_host := host\<rparr>)
         \<lparr>opt_port := (case port of Some n \<Rightarrow> Some (of_nat n) | None \<Rightarrow> opt_port opts)\<rparr>))"
proof -
  have "str_find (CHR '']'') ((CHR ''['' # host) @ CHR '']'' # r) = Some (length (CHR ''['' # host))"
    for r using assms(1) by (intro str_find_split) simp
  then have f: "str_find (CHR '']'') (CHR ''['' # host @ CHR '']'' # r) = Some (Suc (length host))"
    for r by simp
  show ?thesis
    using assms(2)
    by (cases port) (simp_all add: parse_host_port_def f Let_def parse_port_nat_to_string
        del: str_find.simps)
qed

lemma parse_host_port_plain:
  assumes "host \<noteq> []" and "hd host \<noteq> CHR ''[''"
    and "port = None \<Longrightarrow> CHR '':'' \<notin> set host" and "\<And>n. port = Some n \<Longrightarrow> n \<le> 2147483647"
  shows "parse_host_port opts (host @ (case port of Some n \<Rightarrow> CHR '':'' # nat_to_string n | None \<Rightarrow> []))
     = Inr (Inr ((opts\<lparr>opt_host := host\<rparr>)
         \<lparr>opt_port := (case port of Some n \<Rightarrow> Some (of_nat n) | None \<Rightarrow> opt_port opts)\<rparr>))"
proof (cases port)
  case None
  then have "str_rfind (CHR '':'') host = None" using assms(3) by simp
  with None assms(1,2) show ?thesis by (simp add: parse_host_port_def)
next
  case (Some n)
  have "str_rfind (CHR '':'') (host @ CHR '':'' # nat_to_string n) = Some (length host)"
    by (rule str_rfind_split) simp
  with Some assms show ?thesis
    by (simp add: parse_host_port_def parse_port_nat_to_string del: str_rfind.simps)
qed

lemma parse_target_format:
  assumes "plain_target user bracketed host port"
  shows "parse_target (format_target user bracketed host port)
       = Inr (Inr (target_options user host port))"
proof -
  let ?hp = "(if bracketed then ''['' @ host @ '']'' else host)
       @ (case port of Some n \<Rightarrow> CHR '':'' # nat_to_string n | None \<Rightarrow> [])"
  have port: "port = Some n \<Longrightarrow> n \<le> 2147483647" for n
    using assms by (simp add: plain_target_def)
  have hp: "parse_host_port opts ?hp = Inr (Inr ((opts\<lparr>opt_host := host\<rparr>)
         \<lparr>opt_port := (case port of Some n \<Rightarrow> Some (of_nat n) | None \<Rightarrow> opt_port opts)\<rparr>))" for opts
    using assms port parse_host_port_bracketed [of host port opts]
      parse_host_port_plain [of host port opts]
    by (auto simp: plain_target_def)
  have v: "host \<noteq> []" using assms by (simp add: plain_target_def)
  show ?thesis
  proof (cases user)
    case None
    have "CHR ''@'' \<notin> set (format_target user bracketed host port)"
      using assms None by (auto simp: plain_target_def format_target_def split: option.splits)
    then have "str_find (CHR ''@'') (format_target user bracketed host port) = None" by simp
    moreover have "format_target user bracketed host port = ?hp"
      using None by (simp add: format_target_def)
    ultimately show ?thesis
      using None hp [of default_options] v
      by (cases port) (simp_all add: parse_target_def target_options_def)
  next
    case (Some u)
    have f: "format_target user bracketed host port = u @ CHR ''@'' # ?hp"
      using Some by (simp add: format_target_def)
    have "str_find (CHR ''@'') (u @ CHR ''@'' # ?hp) = Some (length u)"
      using assms Some by (intro str_find_split) (simp add: plain_target_def)
    then show ?thesis
      using Some hp [of "default_options\<lparr>opt_user := Some u\<rparr>"] v
      unfolding f by (cases port) (simp_all add: parse_target_def target_options_def)
  qed
qed

section \<open>Properties\<close>

text \<open>
  C28: \<open>parse_target\<close> reads back every target of the three documented forms (\<open>host\<close>,
  \<open>user@host:port\<close>, \<open>[v6::addr]:port\<close>, with any part optional): the parse succeeds, sets
  exactly the user, host and port written and leaves every other option at its default, for any
  port from 0 to 65535.
\<close>

theorem parse_target_round_trip:
  assumes "plain_target user bracketed host (map_option unat (port :: u16 option))"
  shows "parse_target (format_target user bracketed host (map_option unat port))
       = Inr (Inr (default_options\<lparr>opt_user := user, opt_host := host, opt_port := port\<rparr>))"
proof -
  have "map_option of_nat (map_option unat port) = port"
    by (cases port) simp_all
  with parse_target_format [OF assms] show ?thesis
    by (simp add: target_options_def del: map_option_eq_Some)
qed

theorem parse_target_round_trip_witness:
  "plain_target (Some ''user'') True ''::1'' (map_option unat (Some (2222 :: u16)))
   \<and> parse_target ''user@[::1]:2222''
     = Inr (Inr (default_options\<lparr>opt_user := Some ''user'', opt_host := ''::1'', opt_port := Some 2222\<rparr>))"
proof -
  have p: "plain_target (Some ''user'') True ''::1'' (map_option unat (Some (2222 :: u16)))"
    by (simp add: plain_target_def)
  have f: "format_target (Some ''user'') True ''::1'' (map_option unat (Some (2222 :: u16)))
         = ''user@[::1]:2222''"
    by (simp add: format_target_def nat_to_string.simps str_simps)
  show ?thesis using p parse_target_round_trip [OF p] unfolding f by blast
qed

text \<open>
  a port that does not fit is not rejected but reduced modulo 65536: for every number from 0
  to the largest \<open>int\<close>, \<open>parse_target\<close> of a plain host with that port succeeds with the port
  wrapped around (so \<open>host:65558\<close> connects to port 22).
\<close>

theorem parse_target_port_wraps:
  assumes "plain_target user bracketed host (Some n)"
  shows "\<exists>opts. parse_target (format_target user bracketed host (Some n)) = Inr (Inr opts)
     \<and> (\<exists>p. opt_port opts = Some p \<and> unat p = n mod 65536)"
  using parse_target_format [OF assms]
  by (auto simp: target_options_def unat_of_nat)

theorem parse_target_port_wraps_witness:
  "plain_target None False ''h'' (Some 65558)
   \<and> (\<exists>opts. parse_target ''h:65558'' = Inr (Inr opts) \<and> (\<exists>p. opt_port opts = Some p \<and> unat p = 22))"
proof -
  have p: "plain_target None False ''h'' (Some 65558)"
    by (simp add: plain_target_def)
  have f: "format_target None False ''h'' (Some 65558) = ''h:65558''"
    by (simp add: format_target_def nat_to_string.simps str_simps)
  show ?thesis using p parse_target_port_wraps [OF p] unfolding f by simp
qed

text \<open>
  \<open>parse_target\<close> of any text whose last colon is followed by something that is not a number
  leaves by \<open>std::invalid_argument\<close> instead of returning an error, although it returns a
  \<open>Result\<close>: here for a host without \<open>@\<close>, not in brackets, and a port text that starts with a
  letter or any other character that is neither a digit, a sign nor white space.
\<close>

theorem parse_target_throws_on_bad_port:
  assumes "CHR ''@'' \<notin> set host" and "CHR ''@'' \<notin> set (c # cs)" and "CHR '':'' \<notin> set (c # cs)"
    and "host = [] \<or> hd host \<noteq> CHR ''[''"
    and "\<not> is_digit c" and "\<not> is_space c" and "c \<noteq> CHR ''-''" and "c \<noteq> CHR ''+''"
  shows "parse_target (host @ CHR '':'' # c # cs) = Inl Std_invalid_argument"
proof -
  have at: "str_find (CHR ''@'') (host @ CHR '':'' # c # cs) = None"
    using assms(1,2) by simp
  have col: "str_rfind (CHR '':'') (host @ CHR '':'' # c # cs) = Some (length host)"
    using assms(3) by (rule str_rfind_split)
  have hd: "hd (host @ CHR '':'' # c # cs) \<noteq> CHR ''[''"
    using assms(4) by (cases host) auto
  have "stoi (c # cs) = Inl Std_invalid_argument"
    using assms(5-8) by (simp add: stoi_def Let_def)
  with at col hd show ?thesis
    by (simp add: parse_target_def parse_host_port_def parse_port_def
        del: str_find.simps str_rfind.simps)
qed

theorem parse_target_throws_on_bad_port_witness:
  "parse_target ''example.com:ssh'' = Inl Std_invalid_argument"
  using parse_target_throws_on_bad_port [of "''example.com''" "CHR ''s''" "''sh''"]
  by (simp add: is_digit_def is_space_def)

end
