(* ===== verification/Shell_Quote.thy ===== *)
theory Shell_Quote
  imports Prelude
begin

text \<open>
  Command building of \<open>detail/exec.ipp\<close>: \<open>shell_quote\<close> and the argv form of \<open>Exec::try_run\<close>.

  The specification is a reader for the quoting rules of the POSIX shell (Shell Command Language,
  section 2.2: backslash and single quotes, blanks separate words). It answers \<open>None\<close> as soon as
  it meets a character the shell would treat specially outside quotes, so a command that reads
  back as \<open>Some words\<close> contains no expansion, redirection or separator.
\<close>

section \<open>Definitions\<close>

definition safe_chars :: string where
  "safe_chars =
     ''ABCDEFGHIJKLMNOPQRSTUVWXYZabcdefghijklmnopqrstuvwxyz0123456789_-./,:@%^+=''"

definition quote_char :: "char \<Rightarrow> string" where
  "quote_char c = (if c = CHR 0x27 then [CHR 0x27, CHR 0x5C, CHR 0x27, CHR 0x27] else [c])"

definition shell_quote :: "string \<Rightarrow> string" where
  "shell_quote arg =
     (if arg \<noteq> [] \<and> str_find_first_not_of safe_chars arg = None then arg
      else [CHR 0x27] @ concat (map quote_char arg) @ [CHR 0x27])"

text \<open>The loop of \<open>Exec::try_run(const std::vector<std::string>& argv)\<close>.\<close>

definition argv_command :: "string list \<Rightarrow> string" where
  "argv_command argv =
     foldl (\<lambda>command arg. (if command \<noteq> [] then command @ '' '' else command) @ shell_quote arg) [] argv"

section \<open>The shell's reading of a command\<close>

definition sh_special :: "char set" where
  "sh_special = set ''|&;<>()$`*?[]#~!{}'' \<union> {CHR 0x22, CHR 0x09, CHR 0x0A}"

text \<open>Outside a word, in a word, inside single quotes of a word; the last two with the word so far.\<close>

datatype sh_mode = Between | In_word string | In_quote string

fun sh_split :: "sh_mode \<Rightarrow> string \<Rightarrow> string list option" where
  "sh_split Between [] = Some []"
| "sh_split (In_word w) [] = Some [w]"
| "sh_split (In_quote w) [] = None"
| "sh_split (In_quote w) (c # cs) =
     (if c = CHR 0x27 then sh_split (In_word w) cs else sh_split (In_quote (w @ [c])) cs)"
| "sh_split Between (c # cs) =
     (if c = CHR '' '' then sh_split Between cs
      else if c = CHR 0x27 then sh_split (In_quote []) cs
      else if c = CHR 0x5C then (case cs of [] \<Rightarrow> None | d # ds \<Rightarrow> sh_split (In_word [d]) ds)
      else if c \<in> sh_special then None
      else sh_split (In_word [c]) cs)"
| "sh_split (In_word w) (c # cs) =
     (if c = CHR '' '' then map_option (Cons w) (sh_split Between cs)
      else if c = CHR 0x27 then sh_split (In_quote w) cs
      else if c = CHR 0x5C then (case cs of [] \<Rightarrow> None | d # ds \<Rightarrow> sh_split (In_word (w @ [d])) ds)
      else if c \<in> sh_special then None
      else sh_split (In_word (w @ [c])) cs)"

section \<open>Lemmas\<close>

lemma safe_charsD:
  assumes "c \<in> set safe_chars"
  shows "c \<noteq> CHR '' ''" "c \<noteq> CHR 0x27" "c \<noteq> CHR 0x5C" "c \<notin> sh_special"
  using assms by (auto simp: safe_chars_def sh_special_def)

lemma sh_split_safe_word:
  "set s \<subseteq> set safe_chars \<Longrightarrow> sh_split (In_word w) (s @ r) = sh_split (In_word (w @ s)) r"
  by (induction s arbitrary: w) (simp_all add: safe_charsD)

lemma sh_split_quoted_body:
  "sh_split (In_quote w) (concat (map quote_char s) @ CHR 0x27 # r) = sh_split (In_word (w @ s)) r"
  by (induction s arbitrary: w) (simp_all add: quote_char_def)

lemma sh_split_shell_quote: "sh_split Between (shell_quote a @ r) = sh_split (In_word a) r"
proof (cases "a \<noteq> [] \<and> str_find_first_not_of safe_chars a = None")
  case True
  then obtain c cs where a: "a = c # cs" and safe: "c \<in> set safe_chars" "set cs \<subseteq> set safe_chars"
    by (cases a) (auto split: if_splits)
  have "shell_quote a = a" using True by (simp add: shell_quote_def)
  then have "sh_split Between (shell_quote a @ r) = sh_split (In_word [c]) (cs @ r)"
    using safe safe_charsD [of c] by (simp add: a)
  also have "\<dots> = sh_split (In_word a) r"
    using safe(2) sh_split_safe_word [of cs "[c]" r] by (simp add: a)
  finally show ?thesis .
next
  case False
  then have "shell_quote a = CHR 0x27 # concat (map quote_char a) @ [CHR 0x27]"
    unfolding shell_quote_def by auto
  then show ?thesis using sh_split_quoted_body [of "[]" a r] by simp
qed

lemma shell_quote_nonempty [simp]: "shell_quote a \<noteq> []"
  by (auto simp: shell_quote_def)

lemma argv_command_Cons:
  assumes "c \<noteq> []"
  shows "foldl (\<lambda>command arg. (if command \<noteq> [] then command @ '' '' else command) @ shell_quote arg) c argv
       = c @ concat (map (\<lambda>arg. CHR '' '' # shell_quote arg) argv)"
  using assms by (induction argv arbitrary: c) simp_all

lemma sh_split_args:
  "sh_split (In_word w) (concat (map (\<lambda>arg. CHR '' '' # shell_quote arg) argv)) = Some (w # argv)"
  by (induction argv arbitrary: w) (simp_all add: sh_split_shell_quote)

lemma sh_split_argv_command: "sh_split Between (argv_command argv) = Some argv"
proof (cases argv)
  case Nil
  then show ?thesis by (simp add: argv_command_def)
next
  case (Cons a as)
  then have "argv_command argv = shell_quote a @ concat (map (\<lambda>arg. CHR '' '' # shell_quote arg) as)"
    using argv_command_Cons [of "shell_quote a" as] by (simp add: argv_command_def)
  then show ?thesis using Cons sh_split_shell_quote sh_split_args by simp
qed

section \<open>Properties\<close>


end
