(* ===== verification/Handles.thy ===== *)
theory Handles
  imports Prelude
begin

text \<open>
  Ownership of libssh handles. Every wrapper class of the library (\<open>Channel\<close>, \<open>Key\<close>, \<open>Sftp\<close>,
  \<open>File\<close>, \<open>Directory\<close>, \<open>scp::Reader\<close>, \<open>scp::Writer\<close>, \<open>Bind\<close>, \<open>Event\<close>, \<open>Connector\<close>,
  \<open>detail::UniqueHandle\<close>) is move-only and releases its handle in its destructor and in move
  assignment.

  The locale \<open>move_only\<close> is that contract. What it gives is proved once: over every program that
  creates, moves, assigns and destroys wrapper objects, each handle is released at most once,
  never while a live owner holds it, and none is leaked. The class theories interpret it on their
  own special member functions; \<open>UniqueHandle\<close> is interpreted here.
\<close>

section \<open>Programs over wrapper objects\<close>

text \<open>The special member functions of a wrapper class; releases are the handles freed, in order.\<close>

record 'o raii_ops =
  r_native :: "'o \<Rightarrow> handle option"
  r_owns :: "'o \<Rightarrow> bool"
  r_adopt :: "handle \<Rightarrow> 'o"
  r_destroy :: "'o \<Rightarrow> handle list"
  r_move :: "'o \<Rightarrow> 'o \<times> 'o"
  r_assign :: "'o \<Rightarrow> 'o \<Rightarrow> handle list \<times> 'o \<times> 'o"

text \<open>
  The objects alive, the handles libssh has handed out so far and the handles released so far.
  A handle number stands for one allocation, so libssh never hands out the same one twice.
\<close>

record 'o raii_state =
  live :: "nat \<rightharpoonup> 'o"
  given :: "handle list"
  freed :: "handle list"

datatype raii_op = Adopt nat handle | Drop nat | Move nat nat | Assign nat nat

definition init_raii :: "'o raii_state" where
  "init_raii = \<lparr>live = Map.empty, given = [], freed = []\<rparr>"

fun raii_exec :: "'o raii_ops \<Rightarrow> raii_op \<Rightarrow> 'o raii_state \<Rightarrow> 'o raii_state option" where
  "raii_exec c (Adopt a h) s =
     (if live s a \<noteq> None \<or> h \<in> set (given s) then None
      else Some (s\<lparr>live := (live s)(a \<mapsto> r_adopt c h), given := h # given s\<rparr>))"
| "raii_exec c (Drop a) s =
     (case live s a of
        None \<Rightarrow> None
      | Some x \<Rightarrow> Some (s\<lparr>live := (live s)(a := None), freed := freed s @ r_destroy c x\<rparr>))"
| "raii_exec c (Move a b) s =
     (case live s b of
        None \<Rightarrow> None
      | Some y \<Rightarrow>
          if live s a \<noteq> None then None
          else case r_move c y of (x', y') \<Rightarrow> Some (s\<lparr>live := (live s)(a \<mapsto> x', b \<mapsto> y')\<rparr>))"
| "raii_exec c (Assign a b) s =
     (case (live s a, live s b) of
        (Some x, Some y) \<Rightarrow>
          if a = b then Some s
          else (case r_assign c x y of
                  (fs, x', y') \<Rightarrow>
                    Some (s\<lparr>live := (live s)(a \<mapsto> x', b \<mapsto> y'), freed := freed s @ fs\<rparr>))
      | _ \<Rightarrow> None)"

inductive raii_reach :: "'o raii_ops \<Rightarrow> 'o raii_state \<Rightarrow> bool" for c where
  raii_start: "raii_reach c init_raii"
| raii_step: "raii_reach c s \<Longrightarrow> raii_exec c p s = Some t \<Longrightarrow> raii_reach c t"

fun raii_run :: "'o raii_ops \<Rightarrow> raii_op list \<Rightarrow> 'o raii_state \<Rightarrow> 'o raii_state option" where
  "raii_run c [] s = Some s"
| "raii_run c (p # ps) s = (case raii_exec c p s of None \<Rightarrow> None | Some t \<Rightarrow> raii_run c ps t)"

lemma raii_run_reach: "raii_reach c s \<Longrightarrow> raii_run c ps s = Some t \<Longrightarrow> raii_reach c t"
  by (induction ps arbitrary: s) (auto intro: raii_step split: option.splits)

text \<open>The handle an object is responsible for.\<close>

definition held :: "'o raii_ops \<Rightarrow> 'o \<Rightarrow> handle option" where
  "held c x = (if r_owns c x then r_native c x else None)"

section \<open>The contract\<close>

locale move_only =
  fixes c :: "'o raii_ops"
  assumes adopt_held: "held c (r_adopt c h) = Some h"
    and destroy_frees: "r_destroy c x = (case held c x of Some h \<Rightarrow> [h] | None \<Rightarrow> [])"
    and move_transfers: "r_move c y = (x', y') \<Longrightarrow> held c x' = held c y \<and> held c y' = None"
    and assign_transfers:
      "r_assign c x y = (fs, x', y') \<Longrightarrow>
         fs = r_destroy c x \<and> held c x' = held c y \<and> held c y' = None"
begin

text \<open>Handles held by live objects, as a partial map from addresses.\<close>

definition holds :: "'o raii_state \<Rightarrow> nat \<Rightarrow> handle \<Rightarrow> bool" where
  "holds s a h \<longleftrightarrow> (\<exists>x. live s a = Some x \<and> held c x = Some h)"

definition raii_inv :: "'o raii_state \<Rightarrow> bool" where
  "raii_inv s \<longleftrightarrow>
     distinct (freed s)
     \<and> set (given s) = set (freed s) \<union> {h. \<exists>a. holds s a h}
     \<and> (\<forall>a h. holds s a h \<longrightarrow> h \<notin> set (freed s))
     \<and> (\<forall>a b h. holds s a h \<longrightarrow> holds s b h \<longrightarrow> a = b)"

lemma holds_upd:
  "holds (s\<lparr>live := m, given := g, freed := f\<rparr>) a h \<longleftrightarrow> (\<exists>x. m a = Some x \<and> held c x = Some h)"
  "holds (s\<lparr>live := m, given := g\<rparr>) a h \<longleftrightarrow> (\<exists>x. m a = Some x \<and> held c x = Some h)"
  "holds (s\<lparr>live := m, freed := f\<rparr>) a h \<longleftrightarrow> (\<exists>x. m a = Some x \<and> held c x = Some h)"
  "holds (s\<lparr>live := m\<rparr>) a h \<longleftrightarrow> (\<exists>x. m a = Some x \<and> held c x = Some h)"
  by (simp_all add: holds_def)

lemma inv_Adopt:
  assumes "raii_inv s" and "raii_exec c (Adopt a h) s = Some t"
  shows "raii_inv t"
proof -
  have new: "live s a = None" "h \<notin> set (given s)"
    and t: "t = s\<lparr>live := (live s)(a \<mapsto> r_adopt c h), given := h # given s\<rparr>"
    using assms(2) by (auto split: if_splits)
  have ht: "holds t b k \<longleftrightarrow> (if b = a then k = h else holds s b k)" for b k
    using adopt_held by (auto simp: t holds_def)
  have "\<not> holds s b h" "h \<notin> set (freed s)" "\<not> holds s a k" for b k
    using assms(1) new by (auto simp: raii_inv_def holds_def)
  then show ?thesis
    using assms(1) unfolding raii_inv_def ht by (auto simp: t split: if_splits) metis+
qed

lemma inv_Drop:
  assumes "raii_inv s" and "raii_exec c (Drop a) s = Some t"
  shows "raii_inv t"
proof -
  obtain x where x: "live s a = Some x"
    and t: "t = s\<lparr>live := (live s)(a := None), freed := freed s @ r_destroy c x\<rparr>"
    using assms(2) by (auto split: option.splits)
  have ht: "holds t b k \<longleftrightarrow> b \<noteq> a \<and> holds s b k" for b k
    by (auto simp: t holds_def)
  have fr: "freed t = freed s @ r_destroy c x" and gi: "given t = given s" by (simp_all add: t)
  show ?thesis
  proof (cases "held c x")
    case None
    then have "\<not> holds s a k" for k using x by (simp add: holds_def)
    then have "b \<noteq> a \<and> holds s b k \<longleftrightarrow> holds s b k" for b k by auto
    with None show ?thesis
      using assms(1) unfolding raii_inv_def ht fr gi by (simp add: destroy_frees)
  next
    case (Some h)
    then have "holds s a k \<longleftrightarrow> k = h" for k using x by (auto simp: holds_def)
    with Some show ?thesis
      using assms(1) unfolding raii_inv_def ht fr gi by (auto simp: destroy_frees) metis+
  qed
qed

text \<open>Moving the handle of \<open>b\<close> to \<open>a\<close>, after \<open>a\<close> released its own.\<close>

lemma inv_transfer:
  assumes inv: "raii_inv s" and ab: "a \<noteq> b"
    and ht: "\<And>d k. holds t d k \<longleftrightarrow>
          (if d = a then holds s b k else if d = b then False else holds s d k)"
    and fr: "freed t = freed s @ fs" and gi: "given t = given s"
    and fs: "distinct fs" "\<And>k. k \<in> set fs \<longleftrightarrow> holds s a k"
  shows "raii_inv t"
proof -
  have "set (given t) = set (freed t) \<union> {h. \<exists>d. holds t d h}"
    using inv ab unfolding raii_inv_def ht fr gi by (auto simp: fs split: if_splits) metis+
  moreover have "distinct (freed t)" using inv fs unfolding raii_inv_def fr by auto
  moreover have "h \<notin> set (freed t)" if "holds t d h" for d h
    using that inv ab unfolding raii_inv_def ht fr by (auto simp: fs split: if_splits)
  moreover have "d = e" if "holds t d h" "holds t e h" for d e h
    using that inv unfolding raii_inv_def ht by (auto split: if_splits)
  ultimately show ?thesis unfolding raii_inv_def by blast
qed

lemma inv_Move:
  assumes "raii_inv s" and "raii_exec c (Move a b) s = Some t"
  shows "raii_inv t"
proof -
  obtain y x' y' where o: "live s b = Some y" "live s a = None" "r_move c y = (x', y')"
    and t: "t = s\<lparr>live := (live s)(a \<mapsto> x', b \<mapsto> y')\<rparr>"
    using assms(2) by (auto split: option.splits if_splits prod.splits)
  have ab: "a \<noteq> b" using o by auto
  show ?thesis
    by (rule inv_transfer [OF assms(1) ab, of t "[]"])
      (use o ab move_transfers [OF o(3)] in \<open>auto simp: t holds_def\<close>)
qed

lemma inv_Assign:
  assumes "raii_inv s" and "raii_exec c (Assign a b) s = Some t"
  shows "raii_inv t"
proof (cases "a = b")
  case True
  then show ?thesis using assms by (auto split: option.splits)
next
  case False
  obtain x y fs x' y' where o: "live s a = Some x" "live s b = Some y" "r_assign c x y = (fs, x', y')"
    and t: "t = s\<lparr>live := (live s)(a \<mapsto> x', b \<mapsto> y'), freed := freed s @ fs\<rparr>"
    using assms(2) False by (auto split: option.splits prod.splits)
  have fs: "fs = r_destroy c x" using assign_transfers [OF o(3)] by simp
  show ?thesis
    by (rule inv_transfer [OF assms(1) False, of t fs])
      (use o False assign_transfers [OF o(3)] in
        \<open>auto simp: t holds_def fs destroy_frees split: option.splits\<close>)
qed

lemma reach_inv: "raii_reach c s \<Longrightarrow> raii_inv s"
proof (induction rule: raii_reach.induct)
  case raii_start
  show ?case by (simp add: raii_inv_def holds_def init_raii_def)
next
  case (raii_step s p t)
  then show ?case
    by (cases p) (auto intro: inv_Adopt inv_Drop inv_Move inv_Assign simp del: raii_exec.simps)
qed

text \<open>What every client of the wrapper gets.\<close>

lemma released_once:
  assumes "raii_reach c s"
  shows "distinct (freed s)
     \<and> set (freed s) \<subseteq> set (given s)
     \<and> (\<forall>a x h. live s a = Some x \<longrightarrow> held c x = Some h \<longrightarrow> h \<notin> set (freed s))
     \<and> (live s = Map.empty \<longrightarrow> set (freed s) = set (given s))"
  using reach_inv [OF assms] by (auto simp: raii_inv_def holds_def)

end

section \<open>UniqueHandle\<close>

text \<open>\<open>detail::UniqueHandle\<close>: a handle or the null handle, with a deleter.\<close>

type_synonym unique_handle = "handle option"

definition unique_reset :: "unique_handle \<Rightarrow> handle option \<Rightarrow> handle list \<times> unique_handle" where
  "unique_reset u h = ((case u of Some k \<Rightarrow> [k] | None \<Rightarrow> []), h)"

definition unique_dtor :: "unique_handle \<Rightarrow> handle list" where
  "unique_dtor u = fst (unique_reset u None)"

definition unique_release :: "unique_handle \<Rightarrow> handle option \<times> unique_handle" where
  "unique_release u = (u, None)"

definition unique_move_ctor :: "unique_handle \<Rightarrow> unique_handle \<times> unique_handle" where
  "unique_move_ctor other = (other, None)"

definition unique_move_assign ::
    "unique_handle \<Rightarrow> unique_handle \<Rightarrow> handle list \<times> unique_handle \<times> unique_handle" where
  "unique_move_assign this other = (fst (unique_reset this None), other, None)"

definition unique_raii :: "unique_handle raii_ops" where
  "unique_raii =
     \<lparr>r_native = (\<lambda>u. u), r_owns = (\<lambda>_. True), r_adopt = Some, r_destroy = unique_dtor,
      r_move = unique_move_ctor, r_assign = unique_move_assign\<rparr>"

interpretation unique: move_only unique_raii
  by unfold_locales
    (auto simp: unique_raii_def held_def unique_dtor_def unique_reset_def unique_move_ctor_def
      unique_move_assign_def split: option.splits)

end
