(* ===== verification/Native.thy ===== *)
theory Native
  imports Errors
begin

text \<open>
  The boundary to libssh as every wrapper uses it.

  libssh is not part of the repository: its functions are fields of API records over an abstract
  world \<open>'w\<close> (the state of the connection, of the peer and of libssh itself), and every wrapper
  operation takes the record as an argument. This theory holds what the wrappers share: return
  codes, the handle guard, the translation of a failed call into an \<open>ErrorInfo\<close>, C strings and
  buffers, and the write-everything loop that channels and SFTP files have in common.
\<close>

named_theorems native_simps \<open>unfolding rules for calls across the libssh boundary\<close>

section \<open>Return codes, C strings and buffers\<close>

datatype ssh_rc = SSH_OK | SSH_ERROR | SSH_AGAIN | SSH_EOF

text \<open>What a C function sees of \<open>s.c_str()\<close>: the bytes before the first NUL.\<close>

definition c_str :: "string \<Rightarrow> string" where
  "c_str s = takeWhile (\<lambda>c. c \<noteq> CHR 0x00) s"

lemma c_str_id: "CHR 0x00 \<notin> set s \<Longrightarrow> c_str s = s"
  unfolding c_str_def by (rule takeWhile_eq_all_conv [THEN iffD2]) auto

lemma c_str_no_nul: "CHR 0x00 \<notin> set (c_str s)"
  unfolding c_str_def by (auto dest: set_takeWhileD)

text \<open>\<open>static_cast<int>\<close> of a wider integer, and \<open>static_cast<uint32_t>(size)\<close>.\<close>

definition to_int32 :: "int \<Rightarrow> int" where
  "to_int32 i = sint (word_of_int i :: u32)"

definition to_uint32 :: "nat \<Rightarrow> nat" where
  "to_uint32 n = n mod 4294967296"

lemma to_uint32_small [simp]: "n < 4294967296 \<Longrightarrow> to_uint32 n = n"
  by (simp add: to_uint32_def)

lemma to_uint32_le: "to_uint32 n \<le> n"
  by (simp add: to_uint32_def)

lemma to_uint32_cut:
  assumes "4294967296 \<le> n" and "m \<le> to_uint32 n"
  shows "4294967296 \<le> n - m"
proof -
  have "1 \<le> n div 4294967296" using assms(1) by (simp add: less_eq_div_iff_mult_less_eq)
  then have "4294967296 \<le> 4294967296 * (n div 4294967296)" by simp
  also have "\<dots> = n - n mod 4294967296" by (rule minus_mod_eq_mult_div [symmetric])
  also have "\<dots> \<le> n - m" using assms(2) by (intro diff_le_mono2) (simp add: to_uint32_def)
  finally show ?thesis .
qed

text \<open>
  A buffer after a C function stored \<open>new\<close> at its start, and the first \<open>n\<close> bytes of a buffer.
  Reading past the end is undefined in C++; \<open>mem_prefix\<close> pads with zeros there.
\<close>

definition overlay :: "bytes \<Rightarrow> bytes \<Rightarrow> bytes" where
  "overlay new buf = take (length buf) new @ drop (length new) buf"

definition mem_prefix :: "nat \<Rightarrow> bytes \<Rightarrow> bytes" where
  "mem_prefix n buf = take n buf @ replicate (n - length buf) 0"

lemma length_overlay [simp]: "length (overlay new buf) = length buf"
  by (simp add: overlay_def)

lemma length_mem_prefix [simp]: "length (mem_prefix n buf) = n"
  by (simp add: mem_prefix_def)

lemma mem_prefix_overlay [simp]:
  "length new \<le> length buf \<Longrightarrow> mem_prefix (length new) (overlay new buf) = new"
  by (simp add: mem_prefix_def overlay_def)

section \<open>Guarded calls\<close>

text \<open>\<open>ErrorInfo{make_error_code(errc::invalid_handle), "", op}\<close>: the guard of every operation.\<close>

definition invalid_handle_error :: "string \<Rightarrow> error_info" where
  "invalid_handle_error op = mk_error errc_invalid_handle [] op"

text \<open>A call whose return code other than \<open>SSH_OK\<close> becomes an error snapshot.\<close>

definition rc_result ::
    "('w, 'z) err_api_scheme \<Rightarrow> handle option \<Rightarrow> string \<Rightarrow> errc \<Rightarrow> ssh_rc \<times> 'w \<Rightarrow> unit result \<times> 'w" where
  "rc_result api ses op fallback r =
     (case r of (rc, w) \<Rightarrow>
        if rc \<noteq> SSH_OK then (Inl (make_error_info api w ses op fallback), w) else (Inr (), w))"

text \<open>A call whose negative result becomes an error snapshot and whose others are a count.\<close>

definition count_result ::
    "('w, 'z) err_api_scheme \<Rightarrow> handle option \<Rightarrow> string \<Rightarrow> errc \<Rightarrow> int \<times> 'w \<Rightarrow> nat result \<times> 'w" where
  "count_result api ses op fallback r =
     (case r of (rc, w) \<Rightarrow>
        if rc < 0 then (Inl (make_error_info api w ses op fallback), w) else (Inr (nat rc), w))"

lemma rc_result_simps [native_simps]:
  "rc_result api ses op fb (SSH_OK, w) = (Inr (), w)"
  "rc \<noteq> SSH_OK \<Longrightarrow> rc_result api ses op fb (rc, w) = (Inl (make_error_info api w ses op fb), w)"
  by (simp_all add: rc_result_def)

lemma count_result_simps [native_simps]:
  "count_result api ses op fb (int n, w) = (Inr n, w)"
  "0 \<le> i \<Longrightarrow> count_result api ses op fb (i, w) = (Inr (nat i), w)"
  "i < 0 \<Longrightarrow> count_result api ses op fb (i, w) = (Inl (make_error_info api w ses op fb), w)"
  by (simp_all add: count_result_def)

section \<open>Writing everything\<close>

text \<open>
  The loop of \<open>Channel::try_write_all\<close> and \<open>File::try_write_all\<close>: offer what is left, stop at the
  first error, fail when nothing was taken, go on behind what was taken.
\<close>

function write_all_loop ::
    "(bytes \<Rightarrow> 'w \<Rightarrow> nat result \<times> 'w) \<Rightarrow> error_info \<Rightarrow> bytes \<Rightarrow> 'w \<Rightarrow> unit result \<times> 'w" where
  "write_all_loop some short data w =
     (if data = [] then (Inr (), w)
      else case some data w of
             (Inl e, w') \<Rightarrow> (Inl e, w')
           | (Inr r, w') \<Rightarrow>
               if r = 0 then (Inl short, w') else write_all_loop some short (drop r data) w')"
  by pat_completeness auto
termination
  by (relation "measure (\<lambda>(_, _, d, _). length d)") auto

declare write_all_loop.simps [simp del]

lemma write_all_loop_Nil [simp]: "write_all_loop some short [] w = (Inr (), w)"
  by (simp add: write_all_loop.simps)

text \<open>
  The contract between the loop and one write attempt. \<open>seen c w\<close> is the byte stream the peer of
  \<open>c\<close> has been sent in world \<open>w\<close>; \<open>lim\<close> is the largest request the attempt passes on unchanged;
  \<open>chunk n\<close> is the size it passes on for a request of \<open>n\<close> bytes.
\<close>

locale write_attempt =
  fixes some :: "'api \<Rightarrow> 'c \<Rightarrow> bytes \<Rightarrow> 'w \<Rightarrow> nat result \<times> 'w"
    and contract :: "'api \<Rightarrow> ('c \<Rightarrow> 'w \<Rightarrow> bytes) \<Rightarrow> bool"
    and chunk :: "nat \<Rightarrow> nat"
  assumes chunk_le: "chunk n \<le> n"
    and taken: "contract api seen \<Longrightarrow> some api c data w = (Inr r, w') \<Longrightarrow>
          r \<le> chunk (length data) \<and> seen c w' = seen c w @ take r data"
    and refused: "contract api seen \<Longrightarrow> some api c data w = (Inl e, w') \<Longrightarrow> seen c w' = seen c w"
begin

lemma write_all_prefix:
  assumes "contract api seen"
  shows "case write_all_loop (some api c) short data w of
           (Inr _, w') \<Rightarrow> seen c w' = seen c w @ data
         | (Inl _, w') \<Rightarrow> \<exists>k \<le> length data. seen c w' = seen c w @ take k data"
proof (induction "some api c" short data w rule: write_all_loop.induct)
  case (1 short data w)
  show ?case
  proof (cases "data = []")
    case False
    show ?thesis
    proof (cases "some api c data w")
      case (Pair a w')
      show ?thesis
      proof (cases a)
        case (Inl e)
        then have "seen c w' = seen c w" using refused [OF assms] Pair by simp
        then show ?thesis
          using False Pair Inl by (auto simp: write_all_loop.simps [of _ _ data] intro: exI [of _ 0])
      next
        case (Inr r)
        have r: "r \<le> length data" "seen c w' = seen c w @ take r data"
          using taken [OF assms] Pair Inr chunk_le [of "length data"] by (force intro: le_trans)+
        show ?thesis
        proof (cases "r = 0")
          case True
          then show ?thesis
            using False Pair Inr r
            by (auto simp: write_all_loop.simps [of _ _ data] intro: exI [of _ 0])
        next
          case False
          have step: "write_all_loop (some api c) short data w
              = write_all_loop (some api c) short (drop r data) w'"
            using \<open>data \<noteq> []\<close> Pair Inr False by (simp add: write_all_loop.simps [of _ _ data])
          have IH: "case write_all_loop (some api c) short (drop r data) w' of
              (Inr _, w'') \<Rightarrow> seen c w'' = seen c w' @ drop r data
            | (Inl _, w'') \<Rightarrow> \<exists>k \<le> length (drop r data). seen c w'' = seen c w' @ take k (drop r data)"
            using 1 [OF \<open>data \<noteq> []\<close> Pair [symmetric] Inr False] by simp
          have join: "\<exists>k' \<le> length data. ys = seen c w @ take k' data"
            if "k \<le> length data - r" "ys = seen c w' @ take k (drop r data)" for k ys
            using that r by (intro exI [of _ "r + k"]) (simp add: take_add)
          show ?thesis
            using IH r unfolding step by (auto split: prod.splits sum.splits intro: join)
        qed
      qed
    qed
  qed simp
qed

text \<open>With progress on every attempt the loop succeeds.\<close>

lemma write_all_succeeds:
  assumes "contract api seen"
    and "\<And>d v. ok v \<Longrightarrow> d \<noteq> [] \<Longrightarrow> \<exists>r v'. some api c d v = (Inr r, v') \<and> r > 0 \<and> ok v'"
    and "ok w"
  shows "\<exists>w'. write_all_loop (some api c) short data w = (Inr (), w') \<and> ok w' \<and> seen c w' = seen c w @ data"
proof -
  have "\<exists>w'. write_all_loop (some api c) short data w = (Inr (), w') \<and> ok w'"
    using assms(3)
  proof (induction "length data" arbitrary: data w rule: less_induct)
    case less
    show ?case
    proof (cases "data = []")
      case False
      then obtain r v where "some api c data w = (Inr r, v)" "r > 0" "ok v"
        using assms(2) less.prems by blast
      moreover have "length (drop r data) < length data" using False \<open>r > 0\<close> by simp
      ultimately show ?thesis
        using less.hyps [of "drop r data" v] False by (simp add: write_all_loop.simps [of _ _ data])
    qed (use less.prems in simp)
  qed
  then show ?thesis using write_all_prefix [OF assms(1), where c = c and short = short and data = data and w = w] by auto
qed

text \<open>
  A request that the attempt truncates to nothing can never be completed: the invariant is that
  what is left keeps the part that \<open>chunk\<close> cuts off.
\<close>

lemma write_all_stuck:
  assumes "contract api seen"
    and cut: "\<And>n m. P n \<Longrightarrow> m \<le> chunk n \<Longrightarrow> P (n - m)" and ne: "\<not> P 0"
    and "P (length data)"
  shows "\<exists>e w'. write_all_loop (some api c) short data w = (Inl e, w')"
  using assms(4)
proof (induction "length data" arbitrary: data w rule: less_induct)
  case less
  have ne': "data \<noteq> []" using less.prems ne by auto
  show ?case
  proof (cases "some api c data w")
    case (Pair a w')
    show ?thesis
    proof (cases a)
      case (Inl e)
      then show ?thesis using ne' Pair by (simp add: write_all_loop.simps [of _ _ data])
    next
      case (Inr r)
      have "r \<le> chunk (length data)" using taken [OF assms(1)] Pair Inr by blast
      then have P: "P (length (drop r data))" using cut less.prems by simp
      show ?thesis
      proof (cases "r = 0")
        case True
        then show ?thesis using ne' Pair Inr by (simp add: write_all_loop.simps [of _ _ data])
      next
        case False
        then have "length (drop r data) < length data" using ne' by simp
        then show ?thesis
          using less.hyps [OF _ P] ne' Pair Inr False
          by (simp add: write_all_loop.simps [of _ _ data])
      qed
    qed
  qed
qed

end

end
