(* ===== verification/Channel.thy ===== *)
theory Channel
  imports Native Handles
begin

text \<open>
  \<open>channel.hpp\<close>, \<open>detail/channel.ipp\<close>: one SSH channel. The record \<open>channel\<close> is the wrapper object,
  \<open>channel_api\<close> the libssh functions it calls. Every member function is one definition; the guard
  against a moved-from object and the error translation come from \<open>Native\<close>. The theorems show
  that \<open>try_write_all\<close> sends exactly the given bytes (and what happens from 4 GiB on), that
  \<open>try_read_all\<close> returns what was read and how far it can exceed its limit, that the exit wait
  ends and ignores its deadline, and that native channels are freed exactly once.
\<close>

section \<open>Data\<close>

datatype stream = Stream_stdout | Stream_stderr

datatype ssh_signal =
    Signal_abrt | Signal_alrm | Signal_fpe | Signal_hup | Signal_ill | Signal_int | Signal_kill
  | Signal_pipe | Signal_quit | Signal_segv | Signal_term | Signal_usr1 | Signal_usr2

record exit_state =
  es_status :: "int option"
  es_signal :: "string option"
  es_core_dumped :: bool
  es_error_message :: string

definition no_exit_state :: exit_state where
  "no_exit_state = \<lparr>es_status = None, es_signal = None, es_core_dumped = False, es_error_message = []\<rparr>"

record pty_size =
  columns :: int
  rows :: int

definition default_pty_size :: pty_size where
  "default_pty_size = \<lparr>columns = 80, rows = 24\<rparr>"

datatype ownership = Owning | Borrowed

text \<open>\<open>ch_session\<close> is \<open>core_->raw()\<close>, the session the channel keeps alive.\<close>

record channel =
  ch_native :: "handle option"
  ch_session :: "handle option"
  ch_owning :: bool
  ch_open :: bool

definition empty_channel :: channel where
  "empty_channel = \<lparr>ch_native = None, ch_session = None, ch_owning = True, ch_open = False\<rparr>"

definition new_channel :: "handle option \<Rightarrow> handle option \<Rightarrow> bool \<Rightarrow> channel" where
  "new_channel n core own = \<lparr>ch_native = n, ch_session = core, ch_owning = own, ch_open = False\<rparr>"

text \<open>
  The libssh functions. A read returns its result and the bytes it stored at the start of the
  caller's buffer; \<open>has_exit_state\<close> is the build switch \<open>SSHPP_HAS_CHANNEL_EXIT_STATE\<close>.
\<close>

record 'w channel_api = "'w err_api" +
  ssh_channel_open_session :: "handle \<Rightarrow> 'w \<Rightarrow> ssh_rc \<times> 'w"
  ssh_channel_request_pty_size :: "handle \<Rightarrow> string \<Rightarrow> int \<Rightarrow> int \<Rightarrow> 'w \<Rightarrow> ssh_rc \<times> 'w"
  ssh_channel_change_pty_size :: "handle \<Rightarrow> int \<Rightarrow> int \<Rightarrow> 'w \<Rightarrow> ssh_rc \<times> 'w"
  ssh_channel_request_shell :: "handle \<Rightarrow> 'w \<Rightarrow> ssh_rc \<times> 'w"
  ssh_channel_request_exec :: "handle \<Rightarrow> string \<Rightarrow> 'w \<Rightarrow> ssh_rc \<times> 'w"
  ssh_channel_request_subsystem :: "handle \<Rightarrow> string \<Rightarrow> 'w \<Rightarrow> ssh_rc \<times> 'w"
  ssh_channel_request_env :: "handle \<Rightarrow> string \<Rightarrow> string \<Rightarrow> 'w \<Rightarrow> ssh_rc \<times> 'w"
  ssh_channel_request_send_signal :: "handle \<Rightarrow> string \<Rightarrow> 'w \<Rightarrow> ssh_rc \<times> 'w"
  ssh_channel_request_send_exit_status :: "handle \<Rightarrow> int \<Rightarrow> 'w \<Rightarrow> ssh_rc \<times> 'w"
  ssh_channel_read_timeout :: "handle \<Rightarrow> nat \<Rightarrow> bool \<Rightarrow> int \<Rightarrow> 'w \<Rightarrow> int \<times> bytes \<times> 'w"
  ssh_channel_write :: "handle \<Rightarrow> bytes \<Rightarrow> 'w \<Rightarrow> int \<times> 'w"
  ssh_channel_write_stderr :: "handle \<Rightarrow> bytes \<Rightarrow> 'w \<Rightarrow> int \<times> 'w"
  ssh_channel_poll_timeout :: "handle \<Rightarrow> int \<Rightarrow> bool \<Rightarrow> 'w \<Rightarrow> int \<times> 'w"
  ssh_channel_send_eof :: "handle \<Rightarrow> 'w \<Rightarrow> ssh_rc \<times> 'w"
  ssh_channel_close :: "handle \<Rightarrow> 'w \<Rightarrow> ssh_rc \<times> 'w"
  ssh_channel_free :: "handle \<Rightarrow> 'w \<Rightarrow> 'w"
  ssh_channel_is_open :: "handle \<Rightarrow> 'w \<Rightarrow> bool"
  ssh_channel_is_closed :: "handle \<Rightarrow> 'w \<Rightarrow> bool"
  ssh_channel_is_eof :: "handle \<Rightarrow> 'w \<Rightarrow> bool"
  ssh_channel_get_session :: "handle \<Rightarrow> 'w \<Rightarrow> handle option"
  has_exit_state :: bool
  ssh_channel_get_exit_state ::
    "handle \<Rightarrow> 'w \<Rightarrow> ssh_rc \<times> u32 \<times> string option \<times> bool \<times> 'w"
  ssh_channel_get_exit_status :: "handle \<Rightarrow> 'w \<Rightarrow> int \<times> 'w"

section \<open>Operations\<close>

fun signal_name :: "ssh_signal \<Rightarrow> string" where
  "signal_name Signal_abrt = ''ABRT''"
| "signal_name Signal_alrm = ''ALRM''"
| "signal_name Signal_fpe = ''FPE''"
| "signal_name Signal_hup = ''HUP''"
| "signal_name Signal_ill = ''ILL''"
| "signal_name Signal_int = ''INT''"
| "signal_name Signal_kill = ''KILL''"
| "signal_name Signal_pipe = ''PIPE''"
| "signal_name Signal_quit = ''QUIT''"
| "signal_name Signal_segv = ''SEGV''"
| "signal_name Signal_term = ''TERM''"
| "signal_name Signal_usr1 = ''USR1''"
| "signal_name Signal_usr2 = ''USR2''"

text \<open>What the destructor and move assignment do with the handle they own.\<close>

definition channel_release :: "('w, 'z) channel_api_scheme \<Rightarrow> channel \<Rightarrow> 'w \<Rightarrow> 'w" where
  "channel_release api ch w =
     (case ch_native ch of
        Some n \<Rightarrow>
          if ch_owning ch then
            ssh_channel_free api n
              (if ch_open ch \<and> \<not> ssh_channel_is_closed api n w
               then snd (ssh_channel_close api n w) else w)
          else w
      | None \<Rightarrow> w)"

definition channel_dtor :: "('w, 'z) channel_api_scheme \<Rightarrow> channel \<Rightarrow> 'w \<Rightarrow> channel \<times> 'w" where
  "channel_dtor api ch w = (ch\<lparr>ch_native := None\<rparr>, channel_release api ch w)"

definition channel_move_ctor :: "channel \<Rightarrow> channel \<times> channel" where
  "channel_move_ctor other =
     (\<lparr>ch_native = ch_native other, ch_session = ch_session other, ch_owning = ch_owning other,
       ch_open = ch_open other\<rparr>,
      other\<lparr>ch_native := None, ch_session := None, ch_open := False\<rparr>)"

definition channel_move_assign ::
    "('w, 'z) channel_api_scheme \<Rightarrow> channel \<Rightarrow> channel \<Rightarrow> 'w \<Rightarrow> channel \<times> channel \<times> 'w" where
  "channel_move_assign api this other w =
     (this\<lparr>ch_native := ch_native other, ch_session := ch_session other, ch_owning := ch_owning other,
           ch_open := ch_open other\<rparr>,
      other\<lparr>ch_native := None, ch_session := None, ch_open := False\<rparr>,
      channel_release api this w)"

definition from_native ::
    "('w, 'z) channel_api_scheme \<Rightarrow> handle option \<Rightarrow> handle option \<Rightarrow> ownership \<Rightarrow> 'w \<Rightarrow> channel" where
  "from_native api n core own w =
     (new_channel n core (own = Owning))\<lparr>ch_open :=
        (case n of Some h \<Rightarrow> ssh_channel_is_open api h w | None \<Rightarrow> False)\<rparr>"

definition try_open_session ::
    "('w, 'z) channel_api_scheme \<Rightarrow> channel \<Rightarrow> 'w \<Rightarrow> unit result \<times> channel \<times> 'w" where
  "try_open_session api ch w =
     (case ch_native ch of
        None \<Rightarrow> (Inl (invalid_handle_error ''Channel::try_open_session''), ch, w)
      | Some n \<Rightarrow>
          (case rc_result api (ch_session ch) ''ssh_channel_open_session'' errc_channel_open_failed
                  (ssh_channel_open_session api n w) of
             (Inl e, w') \<Rightarrow> (Inl e, ch, w')
           | (Inr _, w') \<Rightarrow> (Inr (), ch\<lparr>ch_open := True\<rparr>, w')))"

text \<open>The shape of the request operations: guard, one libssh call, error translation.\<close>

definition channel_request ::
    "('w, 'z) channel_api_scheme \<Rightarrow> channel \<Rightarrow> string \<Rightarrow> string \<Rightarrow> errc
       \<Rightarrow> (handle \<Rightarrow> 'w \<Rightarrow> ssh_rc \<times> 'w) \<Rightarrow> 'w \<Rightarrow> unit result \<times> 'w" where
  "channel_request api ch op native_op fallback call w =
     (case ch_native ch of
        None \<Rightarrow> (Inl (invalid_handle_error op), w)
      | Some n \<Rightarrow> rc_result api (ch_session ch) native_op fallback (call n w))"

definition try_request_pty ::
    "('w, 'z) channel_api_scheme \<Rightarrow> channel \<Rightarrow> string \<Rightarrow> pty_size \<Rightarrow> 'w \<Rightarrow> unit result \<times> 'w" where
  "try_request_pty api ch trm sz =
     channel_request api ch ''Channel::try_request_pty'' ''ssh_channel_request_pty_size''
       errc_pty_request_failed
       (\<lambda>n. ssh_channel_request_pty_size api n (c_str trm) (columns sz) (rows sz))"

definition try_change_pty_size ::
    "('w, 'z) channel_api_scheme \<Rightarrow> channel \<Rightarrow> pty_size \<Rightarrow> 'w \<Rightarrow> unit result \<times> 'w" where
  "try_change_pty_size api ch sz =
     channel_request api ch ''Channel::try_change_pty_size'' ''ssh_channel_change_pty_size''
       errc_pty_request_failed
       (\<lambda>n. ssh_channel_change_pty_size api n (columns sz) (rows sz))"

definition try_request_shell ::
    "('w, 'z) channel_api_scheme \<Rightarrow> channel \<Rightarrow> 'w \<Rightarrow> unit result \<times> 'w" where
  "try_request_shell api ch =
     channel_request api ch ''Channel::try_request_shell'' ''ssh_channel_request_shell''
       errc_channel_request_failed (ssh_channel_request_shell api)"

definition try_request_exec ::
    "('w, 'z) channel_api_scheme \<Rightarrow> channel \<Rightarrow> string \<Rightarrow> 'w \<Rightarrow> unit result \<times> 'w" where
  "try_request_exec api ch command =
     channel_request api ch ''Channel::try_request_exec'' ''ssh_channel_request_exec''
       errc_channel_request_failed (\<lambda>n. ssh_channel_request_exec api n (c_str command))"

definition try_request_subsystem ::
    "('w, 'z) channel_api_scheme \<Rightarrow> channel \<Rightarrow> string \<Rightarrow> 'w \<Rightarrow> unit result \<times> 'w" where
  "try_request_subsystem api ch name =
     channel_request api ch ''Channel::try_request_subsystem'' ''ssh_channel_request_subsystem''
       errc_channel_request_failed (\<lambda>n. ssh_channel_request_subsystem api n (c_str name))"

definition try_request_env ::
    "('w, 'z) channel_api_scheme \<Rightarrow> channel \<Rightarrow> string \<Rightarrow> string \<Rightarrow> 'w \<Rightarrow> unit result \<times> 'w" where
  "try_request_env api ch name val =
     channel_request api ch ''Channel::try_request_env'' ''ssh_channel_request_env''
       errc_channel_request_failed (\<lambda>n. ssh_channel_request_env api n (c_str name) (c_str val))"

definition try_send_signal ::
    "('w, 'z) channel_api_scheme \<Rightarrow> channel \<Rightarrow> ssh_signal \<Rightarrow> 'w \<Rightarrow> unit result \<times> 'w" where
  "try_send_signal api ch s =
     channel_request api ch ''Channel::try_send_signal'' ''ssh_channel_request_send_signal''
       errc_channel_request_failed (\<lambda>n. ssh_channel_request_send_signal api n (signal_name s))"

definition try_send_eof ::
    "('w, 'z) channel_api_scheme \<Rightarrow> channel \<Rightarrow> 'w \<Rightarrow> unit result \<times> 'w" where
  "try_send_eof api ch =
     channel_request api ch ''Channel::try_send_eof'' ''ssh_channel_send_eof''
       errc_channel_request_failed (ssh_channel_send_eof api)"

text \<open>Reading. The result carries the caller's buffer after the call.\<close>

definition try_read_some_timeout ::
    "('w, 'z) channel_api_scheme \<Rightarrow> channel \<Rightarrow> bytes \<Rightarrow> stream \<Rightarrow> int \<Rightarrow> 'w \<Rightarrow> nat result \<times> bytes \<times> 'w" where
  "try_read_some_timeout api ch buf st timeout w =
     (case ch_native ch of
        None \<Rightarrow> (Inl (invalid_handle_error ''Channel::try_read_some''), buf, w)
      | Some n \<Rightarrow>
          (case ssh_channel_read_timeout api n (to_uint32 (length buf)) (st = Stream_stderr)
                  (if timeout < 0 then -1 else to_int32 timeout) w of
             (rc, new, w') \<Rightarrow>
               (fst (count_result api (ch_session ch) ''ssh_channel_read_timeout'' errc_channel_closed
                       (rc, w')), overlay new buf, w')))"

definition try_read_some ::
    "('w, 'z) channel_api_scheme \<Rightarrow> channel \<Rightarrow> bytes \<Rightarrow> stream \<Rightarrow> 'w \<Rightarrow> nat result \<times> bytes \<times> 'w" where
  "try_read_some api ch buf st = try_read_some_timeout api ch buf st (-1)"

function read_all_loop ::
    "('w, 'z) channel_api_scheme \<Rightarrow> channel \<Rightarrow> stream \<Rightarrow> nat \<Rightarrow> bytes \<Rightarrow> bytes \<Rightarrow> 'w \<Rightarrow> bytes result \<times> 'w" where
  "read_all_loop api ch st limit acc chunk w =
     (case try_read_some api ch chunk st w of
        (Inl e, _, w') \<Rightarrow> (Inl e, w')
      | (Inr r, chunk', w') \<Rightarrow>
          if r = 0 then (Inr acc, w')
          else let acc' = acc @ mem_prefix r chunk' in
            if length acc' \<ge> limit then (Inr acc', w')
            else read_all_loop api ch st limit acc' chunk' w')"
  by pat_completeness auto
termination
  by (relation "measure (\<lambda>(_, _, _, limit, acc, _). limit - length acc)") auto

declare read_all_loop.simps [simp del]

definition chunk_size :: nat where
  "chunk_size = 16384"

definition try_read_all ::
    "('w, 'z) channel_api_scheme \<Rightarrow> channel \<Rightarrow> stream \<Rightarrow> nat \<Rightarrow> 'w \<Rightarrow> bytes result \<times> 'w" where
  "try_read_all api ch st limit w =
     read_all_loop api ch st limit [] (replicate chunk_size 0) w"

text \<open>Writing. Both attempts pass the size cast to 32 bits.\<close>

definition try_write_some ::
    "('w, 'z) channel_api_scheme \<Rightarrow> channel \<Rightarrow> bytes \<Rightarrow> 'w \<Rightarrow> nat result \<times> 'w" where
  "try_write_some api ch data w =
     (case ch_native ch of
        None \<Rightarrow> (Inl (invalid_handle_error ''Channel::try_write_some''), w)
      | Some n \<Rightarrow>
          count_result api (ch_session ch) ''ssh_channel_write'' errc_channel_closed
            (ssh_channel_write api n (take (to_uint32 (length data)) data) w))"

definition try_write_some_stream ::
    "('w, 'z) channel_api_scheme \<Rightarrow> channel \<Rightarrow> stream \<Rightarrow> bytes \<Rightarrow> 'w \<Rightarrow> nat result \<times> 'w" where
  "try_write_some_stream api ch st data w =
     (if st = Stream_stdout then try_write_some api ch data w
      else case ch_native ch of
        None \<Rightarrow> (Inl (invalid_handle_error ''Channel::try_write_some''), w)
      | Some n \<Rightarrow>
          count_result api (ch_session ch) ''ssh_channel_write_stderr'' errc_channel_closed
            (ssh_channel_write_stderr api n (take (to_uint32 (length data)) data) w))"

definition short_write_error :: error_info where
  "short_write_error = mk_error errc_channel_closed ''short write'' ''Channel::try_write_all''"

definition try_write_all ::
    "('w, 'z) channel_api_scheme \<Rightarrow> channel \<Rightarrow> bytes \<Rightarrow> 'w \<Rightarrow> unit result \<times> 'w" where
  "try_write_all api ch data w = write_all_loop (try_write_some api ch) short_write_error data w"

definition try_write_all_stream ::
    "('w, 'z) channel_api_scheme \<Rightarrow> channel \<Rightarrow> stream \<Rightarrow> bytes \<Rightarrow> 'w \<Rightarrow> unit result \<times> 'w" where
  "try_write_all_stream api ch st data w =
     write_all_loop (try_write_some_stream api ch st) short_write_error data w"

definition try_write_all_string ::
    "('w, 'z) channel_api_scheme \<Rightarrow> channel \<Rightarrow> string \<Rightarrow> 'w \<Rightarrow> unit result \<times> 'w" where
  "try_write_all_string api ch s w = try_write_all api ch (bytes_of_string s) w"

definition try_write_all_string_stream ::
    "('w, 'z) channel_api_scheme \<Rightarrow> channel \<Rightarrow> string \<Rightarrow> stream \<Rightarrow> 'w \<Rightarrow> unit result \<times> 'w" where
  "try_write_all_string_stream api ch s st w = try_write_all_stream api ch st (bytes_of_string s) w"

definition try_bytes_available ::
    "('w, 'z) channel_api_scheme \<Rightarrow> channel \<Rightarrow> stream \<Rightarrow> 'w \<Rightarrow> nat result \<times> 'w" where
  "try_bytes_available api ch st w =
     (case ch_native ch of
        None \<Rightarrow> (Inl (invalid_handle_error ''Channel::try_bytes_available''), w)
      | Some n \<Rightarrow>
          count_result api (ch_session ch) ''ssh_channel_poll_timeout'' errc_channel_closed
            (ssh_channel_poll_timeout api n 0 (st = Stream_stderr) w))"

definition try_wait_readable ::
    "('w, 'z) channel_api_scheme \<Rightarrow> channel \<Rightarrow> int \<Rightarrow> stream \<Rightarrow> 'w \<Rightarrow> bool result \<times> 'w" where
  "try_wait_readable api ch timeout st w =
     (case ch_native ch of
        None \<Rightarrow> (Inl (invalid_handle_error ''Channel::try_wait_readable''), w)
      | Some n \<Rightarrow>
          (case ssh_channel_poll_timeout api n (to_int32 timeout) (st = Stream_stderr) w of
             (rc, w') \<Rightarrow>
               if rc < 0
               then (Inl (make_error_info api w' (ch_session ch) ''ssh_channel_poll_timeout'' errc_channel_closed), w')
               else (Inr (rc > 0), w')))"

definition is_eof :: "('w, 'z) channel_api_scheme \<Rightarrow> channel \<Rightarrow> 'w \<Rightarrow> bool" where
  "is_eof api ch w = (case ch_native ch of Some n \<Rightarrow> ssh_channel_is_eof api n w | None \<Rightarrow> False)"

definition try_close ::
    "('w, 'z) channel_api_scheme \<Rightarrow> channel \<Rightarrow> 'w \<Rightarrow> unit result \<times> channel \<times> 'w" where
  "try_close api ch w =
     (case ch_native ch of
        None \<Rightarrow> (Inl (invalid_handle_error ''Channel::try_close''), ch, w)
      | Some n \<Rightarrow>
          (case rc_result api (ch_session ch) ''ssh_channel_close'' errc_channel_request_failed
                  (ssh_channel_close api n w) of
             (r, w') \<Rightarrow> (r, ch\<lparr>ch_open := False\<rparr>, w')))"

definition exit_state_of ::
    "('w, 'z) channel_api_scheme \<Rightarrow> channel \<Rightarrow> 'w \<Rightarrow> exit_state \<times> 'w" where
  "exit_state_of api ch w =
     (case ch_native ch of
        None \<Rightarrow> (no_exit_state, w)
      | Some n \<Rightarrow>
          if has_exit_state api then
            (case ssh_channel_get_exit_state api n w of
               (rc, exit_code, exit_signal, core_dumped, w') \<Rightarrow>
                 if rc = SSH_OK then
                   (case exit_signal of
                      Some s \<Rightarrow> (no_exit_state\<lparr>es_signal := Some s, es_core_dumped := core_dumped\<rparr>, w')
                    | None \<Rightarrow> (no_exit_state\<lparr>es_status := Some (sint exit_code)\<rparr>, w'))
                 else (no_exit_state, w'))
          else
            (case ssh_channel_get_exit_status api n w of
               (status, w') \<Rightarrow>
                 if status \<ge> 0 then (no_exit_state\<lparr>es_status := Some status\<rparr>, w')
                 else (no_exit_state, w')))"

text \<open>The drain loop of \<open>try_wait_exit\<close>; its first argument counts the guard down.\<close>

fun wait_exit_loop ::
    "nat \<Rightarrow> ('w, 'z) channel_api_scheme \<Rightarrow> handle \<Rightarrow> int \<Rightarrow> 'w \<Rightarrow> 'w" where
  "wait_exit_loop 0 api n deadline w = w"
| "wait_exit_loop (Suc guard) api n deadline w =
     (if \<not> ssh_channel_is_eof api n w \<and> \<not> ssh_channel_is_closed api n w then
        (let timeout_ms = (if deadline < 0 then 1000 else to_int32 (min deadline 1000));
             w1 = snd (snd (ssh_channel_read_timeout api n chunk_size False timeout_ms w));
             w2 = snd (snd (ssh_channel_read_timeout api n chunk_size True timeout_ms w1))
         in wait_exit_loop guard api n deadline w2)
      else w)"

definition wait_exit_guard :: nat where
  "wait_exit_guard = 1000000"

definition try_wait_exit ::
    "('w, 'z) channel_api_scheme \<Rightarrow> channel \<Rightarrow> int \<Rightarrow> 'w \<Rightarrow> exit_state result \<times> 'w" where
  "try_wait_exit api ch timeout w =
     (case ch_native ch of
        None \<Rightarrow> (Inl (invalid_handle_error ''Channel::try_wait_exit''), w)
      | Some n \<Rightarrow>
          (case exit_state_of api ch (wait_exit_loop wait_exit_guard api n timeout w) of
             (st, w') \<Rightarrow> (Inr st, w')))"

definition try_send_exit_status ::
    "('w, 'z) channel_api_scheme \<Rightarrow> channel \<Rightarrow> int \<Rightarrow> 'w \<Rightarrow> unit result \<times> 'w" where
  "try_send_exit_status api ch status w =
     (case ch_native ch of
        None \<Rightarrow> (Inl (invalid_handle_error ''Channel::try_send_exit_status''), w)
      | Some n \<Rightarrow>
          (case ssh_channel_request_send_exit_status api n status w of
             (rc, w') \<Rightarrow>
               rc_result api (ssh_channel_get_session api n w')
                 ''ssh_channel_request_send_exit_status'' errc_channel_request_failed (rc, w')))"

section \<open>A simulated connection\<close>

text \<open>
  A concrete libssh for the witnesses: the bytes the peer was sent on each stream, the bytes it
  still has to deliver, and the number of reads. A write takes at most three bytes and a read
  delivers at most three.
\<close>

record sim =
  sim_out :: bytes
  sim_err :: bytes
  sim_in :: bytes
  sim_in_err :: bytes
  sim_taken :: bytes
  sim_taken_err :: bytes
  sim_reads :: nat

definition sim_read :: "handle \<Rightarrow> nat \<Rightarrow> bool \<Rightarrow> int \<Rightarrow> 'a sim_scheme \<Rightarrow> int \<times> bytes \<times> 'a sim_scheme" where
  "sim_read n count is_err timeout w =
     (if is_err
      then let d = take (min 3 count) (sim_in_err w)
           in (int (length d), d, w\<lparr>sim_in_err := drop (min 3 count) (sim_in_err w),
                 sim_taken_err := sim_taken_err w @ d, sim_reads := Suc (sim_reads w)\<rparr>)
      else let d = take (min 3 count) (sim_in w)
           in (int (length d), d, w\<lparr>sim_in := drop (min 3 count) (sim_in w),
                 sim_taken := sim_taken w @ d, sim_reads := Suc (sim_reads w)\<rparr>))"

definition sim_api :: "'a sim_scheme channel_api" where
  "sim_api =
     \<lparr>ssh_get_error = \<lambda>_ _. ''failed'', ssh_get_error_code = \<lambda>_ _. SSH_NO_ERROR,
      sftp_get_error = \<lambda>_ _. 4,
      ssh_channel_open_session = \<lambda>_ w. (SSH_OK, w),
      ssh_channel_request_pty_size = \<lambda>_ _ _ _ w. (SSH_OK, w),
      ssh_channel_change_pty_size = \<lambda>_ _ _ w. (SSH_OK, w),
      ssh_channel_request_shell = \<lambda>_ w. (SSH_OK, w),
      ssh_channel_request_exec = \<lambda>_ _ w. (SSH_OK, w),
      ssh_channel_request_subsystem = \<lambda>_ _ w. (SSH_OK, w),
      ssh_channel_request_env = \<lambda>_ _ _ w. (SSH_OK, w),
      ssh_channel_request_send_signal = \<lambda>_ _ w. (SSH_OK, w),
      ssh_channel_request_send_exit_status = \<lambda>_ _ w. (SSH_OK, w),
      ssh_channel_read_timeout = sim_read,
      ssh_channel_write = \<lambda>_ d w. (int (min 3 (length d)), w\<lparr>sim_out := sim_out w @ take 3 d\<rparr>),
      ssh_channel_write_stderr = \<lambda>_ d w. (int (min 3 (length d)), w\<lparr>sim_err := sim_err w @ take 3 d\<rparr>),
      ssh_channel_poll_timeout = \<lambda>_ _ e w. (int (length (if e then sim_in_err w else sim_in w)), w),
      ssh_channel_send_eof = \<lambda>_ w. (SSH_OK, w),
      ssh_channel_close = \<lambda>_ w. (SSH_OK, w),
      ssh_channel_free = \<lambda>_ w. w,
      ssh_channel_is_open = \<lambda>_ _. True,
      ssh_channel_is_closed = \<lambda>_ _. False,
      ssh_channel_is_eof = \<lambda>_ w. sim_in w = [] \<and> sim_in_err w = [],
      ssh_channel_get_session = \<lambda>_ _. Some 1,
      has_exit_state = True,
      ssh_channel_get_exit_state = \<lambda>_ w. (SSH_OK, 0, None, False, w),
      ssh_channel_get_exit_status = \<lambda>_ w. (0, w)\<rparr>"

lemma sim_api_sel [simp]:
  "ssh_channel_write sim_api = (\<lambda>_ d w. (int (min 3 (length d)), w\<lparr>sim_out := sim_out w @ take 3 d\<rparr>))"
  "ssh_channel_write_stderr sim_api = (\<lambda>_ d w. (int (min 3 (length d)), w\<lparr>sim_err := sim_err w @ take 3 d\<rparr>))"
  "ssh_channel_read_timeout sim_api = sim_read"
  "ssh_channel_is_eof sim_api = (\<lambda>_ w. sim_in w = [] \<and> sim_in_err w = [])"
  "ssh_channel_is_closed sim_api = (\<lambda>_ _. False)"
  by (simp_all add: sim_api_def)

definition sim_start :: sim where
  "sim_start = \<lparr>sim_out = [], sim_err = [], sim_in = [1, 2, 3, 4, 5], sim_in_err = [],
      sim_taken = [], sim_taken_err = [], sim_reads = 0\<rparr>"

definition sim_sent :: "channel \<times> stream \<Rightarrow> 'a sim_scheme \<Rightarrow> bytes" where
  "sim_sent c w = (if snd c = Stream_stdout then sim_out w else sim_err w)"

definition sim_channel :: channel where
  "sim_channel = \<lparr>ch_native = Some 7, ch_session = Some 1, ch_owning = True, ch_open = True\<rparr>"

section \<open>Sending\<close>

text \<open>
  The documented behaviour of the two write functions: they return the number of bytes they
  took, which are appended to what the peer is sent, or a negative value when they took none.
\<close>

definition write_contract ::
    "('w, 'z) channel_api_scheme \<Rightarrow> (channel \<times> stream \<Rightarrow> 'w \<Rightarrow> bytes) \<Rightarrow> bool" where
  "write_contract api sent \<longleftrightarrow>
     (\<forall>ch n d w rc w'. ch_native ch = Some n \<longrightarrow>
        (ssh_channel_write api n d w = (rc, w') \<longrightarrow>
           rc \<le> int (length d) \<and> sent (ch, Stream_stdout) w' = sent (ch, Stream_stdout) w @ take (nat rc) d)
        \<and> (ssh_channel_write_stderr api n d w = (rc, w') \<longrightarrow>
           rc \<le> int (length d) \<and> sent (ch, Stream_stderr) w' = sent (ch, Stream_stderr) w @ take (nat rc) d))"

fun write_some_on ::
    "('w, 'z) channel_api_scheme \<Rightarrow> channel \<times> stream \<Rightarrow> bytes \<Rightarrow> 'w \<Rightarrow> nat result \<times> 'w" where
  "write_some_on api (ch, st) data w = try_write_some_stream api ch st data w"

lemma write_some_taken:
  assumes "write_contract api sent" and "write_some_on api c data w = (Inr r, w')"
  shows "r \<le> to_uint32 (length data) \<and> sent c w' = sent c w @ take r data"
proof -
  obtain ch st where c: "c = (ch, st)" by (cases c)
  show ?thesis
    using assms to_uint32_le [of "length data"]
    by (cases st)
      (fastforce simp: c write_contract_def try_write_some_stream_def try_write_some_def
        count_result_def min_def split: option.splits prod.splits if_splits)+
qed

lemma write_some_refused:
  assumes "write_contract api sent" and "write_some_on api c data w = (Inl e, w')"
  shows "sent c w' = sent c w"
proof -
  obtain ch st where c: "c = (ch, st)" by (cases c)
  show ?thesis
    using assms
    by (cases st)
      (fastforce simp: c write_contract_def try_write_some_stream_def try_write_some_def
        count_result_def split: option.splits prod.splits if_splits)+
qed

interpretation ch_write: write_attempt write_some_on write_contract to_uint32
  by unfold_locales (auto simp: to_uint32_le dest: write_some_taken write_some_refused)

lemma try_write_all_on:
  "try_write_all api ch data w = write_all_loop (write_some_on api (ch, Stream_stdout)) short_write_error data w"
  "try_write_all_stream api ch st data w = write_all_loop (write_some_on api (ch, st)) short_write_error data w"
proof -
  have "try_write_some api ch = write_some_on api (ch, Stream_stdout)"
    and "try_write_some_stream api ch st = write_some_on api (ch, st)"
    by (auto simp: fun_eq_iff try_write_some_stream_def)
  then show "try_write_all api ch data w = write_all_loop (write_some_on api (ch, Stream_stdout)) short_write_error data w"
    and "try_write_all_stream api ch st data w = write_all_loop (write_some_on api (ch, st)) short_write_error data w"
    by (simp_all add: try_write_all_def try_write_all_stream_def)
qed

text \<open>
  C10: When \<open>try_write_all\<close> reports success on a stream, the peer was sent exactly the given bytes,
  in order; when it reports an error, the peer was sent a prefix of them and nothing else.
\<close>
theorem write_all_delivers:
  assumes "write_contract api sent"
  shows "case try_write_all_stream api ch st data w of
           (Inr _, w') \<Rightarrow> sent (ch, st) w' = sent (ch, st) w @ data
         | (Inl _, w') \<Rightarrow> \<exists>k \<le> length data. sent (ch, st) w' = sent (ch, st) w @ take k data"
  unfolding try_write_all_on by (rule ch_write.write_all_prefix [OF assms])

lemma sim_write_contract: "write_contract sim_api sim_sent"
  by (auto simp: write_contract_def sim_sent_def min_def)

theorem write_all_delivers_witness:
  "write_contract sim_api sim_sent
   \<and> (case try_write_all_stream sim_api sim_channel Stream_stdout [1, 2, 3, 4, 5, 6, 7] sim_start of
        (Inr _, w') \<Rightarrow> sim_out w' = [1, 2, 3, 4, 5, 6, 7] | _ \<Rightarrow> False)"
proof -
  have "write_all_loop (try_write_some_stream sim_api sim_channel Stream_stdout) short_write_error
          [1, 2, 3, 4, 5, 6, 7] sim_start
        = (Inr (), sim_start\<lparr>sim_out := [1, 2, 3, 4, 5, 6, 7]\<rparr>)"
    by (simp add: write_all_loop.simps try_write_some_stream_def try_write_some_def sim_channel_def
        count_result_def sim_start_def)
  then show ?thesis
    using write_all_delivers [OF sim_write_contract, where ch = sim_channel and st = Stream_stdout
        and data = "[1, 2, 3, 4, 5, 6, 7]" and w = sim_start] sim_write_contract
    by (simp add: try_write_all_stream_def sim_sent_def sim_start_def)
qed

text \<open>
  A buffer of 4 GiB or more is never written completely: the size given to libssh is cast to
  32 bits, what is left never falls below a multiple of \<open>2 ^ 32\<close>, and the call ends with an error.
\<close>
theorem write_all_4gib_fails:
  assumes "write_contract api sent" and "length data \<ge> 2 ^ 32"
  shows "\<exists>e w'. try_write_all_stream api ch st data w = (Inl e, w')"
  unfolding try_write_all_on
proof (rule ch_write.write_all_stuck [OF assms(1), where P = "\<lambda>n. n \<ge> 2 ^ 32"])
  show "2 ^ 32 \<le> n - m" if "2 ^ 32 \<le> n" "m \<le> to_uint32 n" for n m :: nat
    using to_uint32_cut [of n m] that by simp
qed (use assms(2) in simp_all)

theorem write_all_4gib_fails_witness:
  "write_contract sim_api sim_sent \<and> length (replicate (2 ^ 32) (0 :: byte)) \<ge> 2 ^ 32
   \<and> (\<exists>e w'. try_write_all_stream sim_api sim_channel Stream_stdout (replicate (2 ^ 32) 0) sim_start
                 = (Inl e, w'))"
  using sim_write_contract
    write_all_4gib_fails [OF sim_write_contract, where ch = sim_channel and st = Stream_stdout
      and data = "replicate (2 ^ 32) 0" and w = sim_start]
  by simp

section \<open>Receiving\<close>

text \<open>
  The documented behaviour of a read: it stores at most the requested number of bytes, returns
  how many, and they are the next ones of the stream; on an error it takes nothing. \<open>got\<close> is
  what the channel has handed out so far.
\<close>

definition read_contract ::
    "('w, 'z) channel_api_scheme \<Rightarrow> (handle \<Rightarrow> bool \<Rightarrow> 'w \<Rightarrow> bytes) \<Rightarrow> bool" where
  "read_contract api got \<longleftrightarrow>
     (\<forall>n count e t w rc new w'. ssh_channel_read_timeout api n count e t w = (rc, new, w') \<longrightarrow>
        length new \<le> count \<and> int (length new) = max 0 rc \<and> got n e w' = got n e w @ new
        \<and> got n (\<not> e) w' = got n (\<not> e) w)"

lemma read_some_contract:
  assumes "read_contract api got" and "ch_native ch = Some n"
    and "try_read_some_timeout api ch buf st t w = (r, buf', w')"
  obtains new where "buf' = overlay new buf" "length new \<le> length buf"
    "got n (st = Stream_stderr) w' = got n (st = Stream_stderr) w @ new"
    "got n (st \<noteq> Stream_stderr) w' = got n (st \<noteq> Stream_stderr) w"
    "\<And>k. r = Inr k \<Longrightarrow> k = length new" "\<And>e. r = Inl e \<Longrightarrow> new = []"
proof -
  obtain rc new where call:
    "ssh_channel_read_timeout api n (to_uint32 (length buf)) (st = Stream_stderr)
       (if t < 0 then -1 else to_int32 t) w = (rc, new, w')"
    and r: "buf' = overlay new buf"
      "r = fst (count_result api (ch_session ch) ''ssh_channel_read_timeout'' errc_channel_closed (rc, w'))"
    using assms(2,3) by (auto simp: try_read_some_timeout_def split: prod.splits)
  have c: "length new \<le> to_uint32 (length buf)" "int (length new) = max 0 rc"
    "got n (st = Stream_stderr) w' = got n (st = Stream_stderr) w @ new"
    "got n (st \<noteq> Stream_stderr) w' = got n (st \<noteq> Stream_stderr) w"
    using assms(1) call unfolding read_contract_def by metis+
  show thesis
    by (rule that [of new])
      (use r c to_uint32_le [of "length buf"] in \<open>auto simp: count_result_def split: if_splits\<close>)
qed

lemma read_all_loop_spec:
  assumes "read_contract api got" and "ch_native ch = Some n" and "length chunk = chunk_size"
  shows "case read_all_loop api ch st limit acc chunk w of
           (Inr s, w') \<Rightarrow> (\<exists>t. s = acc @ t \<and> got n (st = Stream_stderr) w' = got n (st = Stream_stderr) w @ t)
              \<and> length s < max limit (Suc (length acc)) + chunk_size
         | (Inl _, w') \<Rightarrow> True"
  using assms(3)
proof (induction "limit - length acc" arbitrary: acc chunk w rule: less_induct)
  case less
  obtain r chunk' w1 where rd: "try_read_some_timeout api ch chunk st (-1) w = (r, chunk', w1)"
    by (metis prod.exhaust)
  obtain new where new: "chunk' = overlay new chunk" "length new \<le> length chunk"
    "got n (st = Stream_stderr) w1 = got n (st = Stream_stderr) w @ new"
    "\<And>k. r = Inr k \<Longrightarrow> k = length new"
    by (rule read_some_contract [OF assms(1,2) rd]) blast
  note unf = read_all_loop.simps [of api ch st limit acc chunk w, unfolded try_read_some_def rd]
  consider (err) e where "r = Inl e" | (zero) "r = Inr 0" "new = []"
    | (full) "r = Inr (length new)" "new \<noteq> []" "limit \<le> length (acc @ new)"
    | (more) "r = Inr (length new)" "new \<noteq> []" "length (acc @ new) < limit"
    using new(4) by (cases r) fastforce+
  then show ?case
  proof cases
    case err
    then show ?thesis by (simp add: unf)
  next
    case zero
    then show ?thesis using new(1-3) by (simp add: unf chunk_size_def)
  next
    case full
    then show ?thesis using new(1-3) less.prems by (auto simp: unf Let_def)
  next
    case more
    have len: "length chunk' = chunk_size" using new(1) less.prems by simp
    have dec: "limit - length (acc @ new) < limit - length acc" using more by (cases new) auto
    have "mem_prefix (length new) chunk' = new" using new(1,2) by simp
    then have "read_all_loop api ch st limit acc chunk w = read_all_loop api ch st limit (acc @ new) chunk' w1"
      using more by (subst unf) simp
    then show ?thesis using less.hyps [OF dec len, of w1] more new(1-3) by (auto split: prod.splits sum.splits)
  qed
qed


definition sim_got :: "handle \<Rightarrow> bool \<Rightarrow> 'a sim_scheme \<Rightarrow> bytes" where
  "sim_got n e w = (if e then sim_taken_err w else sim_taken w)"

lemma sim_read_contract: "read_contract sim_api sim_got"
  by (auto simp: read_contract_def sim_got_def sim_read_def Let_def)


section \<open>Waiting for the exit\<close>

text \<open>
  A peer that stays silent: reads are counted by \<open>reads\<close>, and the channel reports neither the end
  of its input nor that it is closed.
\<close>

definition stays_silent ::
    "('w, 'z) channel_api_scheme \<Rightarrow> handle \<Rightarrow> ('w \<Rightarrow> nat) \<Rightarrow> ('w \<Rightarrow> bool) \<Rightarrow> bool" where
  "stays_silent api n reads quiet \<longleftrightarrow>
     (\<forall>w. quiet w \<longrightarrow> \<not> ssh_channel_is_eof api n w \<and> \<not> ssh_channel_is_closed api n w)
     \<and> (\<forall>w c e t. quiet w \<longrightarrow>
          quiet (snd (snd (ssh_channel_read_timeout api n c e t w)))
          \<and> reads (snd (snd (ssh_channel_read_timeout api n c e t w))) = Suc (reads w))"

lemma wait_exit_loop_silent:
  assumes "stays_silent api n reads quiet" and "quiet w"
  shows "reads (wait_exit_loop g api n deadline w) = reads w + 2 * g"
  using assms(2)
  by (induction g arbitrary: w) (use assms(1) in \<open>auto simp: stays_silent_def Let_def\<close>)

text \<open>
  The timeout of \<open>try_wait_exit\<close> is no deadline: against a silent peer the drain loop makes
  all of its two million reads, each with up to the whole timeout, whatever the timeout is.
\<close>
theorem wait_exit_ignores_deadline:
  assumes "stays_silent api n reads quiet" and "quiet w"
  shows "reads (wait_exit_loop wait_exit_guard api n timeout w) = reads w + 2000000"
  using wait_exit_loop_silent [OF assms, of wait_exit_guard timeout] by (simp add: wait_exit_guard_def)

definition silent_api :: "sim channel_api" where
  "silent_api = sim_api\<lparr>ssh_channel_is_eof := \<lambda>_ _. False\<rparr>"

theorem wait_exit_ignores_deadline_witness:
  "stays_silent silent_api 7 sim_reads (\<lambda>_. True)
   \<and> sim_reads (wait_exit_loop wait_exit_guard silent_api 7 0 sim_start) = 2000000"
proof -
  have "stays_silent silent_api 7 sim_reads (\<lambda>_. True)"
    by (simp add: stays_silent_def silent_api_def sim_read_def Let_def)
  then show ?thesis
    using wait_exit_ignores_deadline [of silent_api 7 sim_reads "\<lambda>_. True" sim_start 0]
    by (simp add: sim_start_def)
qed

section \<open>Ownership\<close>

text \<open>The native channels that the destructor and move assignment free.\<close>

definition log_frees :: "handle list channel_api \<Rightarrow> handle list channel_api" where
  "log_frees api =
     api\<lparr>ssh_channel_close := \<lambda>_ w. (SSH_OK, w), ssh_channel_free := \<lambda>h w. w @ [h]\<rparr>"

definition channel_raii :: "handle list channel_api \<Rightarrow> channel raii_ops" where
  "channel_raii api =
     \<lparr>r_native = ch_native, r_owns = ch_owning, r_adopt = \<lambda>h. new_channel (Some h) None True,
      r_destroy = \<lambda>x. snd (channel_dtor (log_frees api) x []),
      r_move = channel_move_ctor,
      r_assign = \<lambda>x y. case channel_move_assign (log_frees api) x y [] of (x', y', fs) \<Rightarrow> (fs, x', y')\<rparr>"

interpretation channel: move_only "channel_raii api" for api
  by unfold_locales
    (auto simp: channel_raii_def held_def new_channel_def channel_dtor_def channel_release_def
      channel_move_ctor_def channel_move_assign_def log_frees_def split: option.splits if_splits)

text \<open>
  C16: Whatever sequence of creations, moves, move assignments and destructions of owning and
  moved-from channels runs, no native channel is freed twice, none is freed while a live object
  owns it, and once no object is left every native channel has been freed.
\<close>
theorem channel_freed_once:
  assumes "raii_run (channel_raii api) ops init_raii = Some s"
  shows "distinct (freed s)
     \<and> (\<forall>a x h. live s a = Some x \<longrightarrow> ch_owning x \<longrightarrow> ch_native x = Some h \<longrightarrow> h \<notin> set (freed s))
     \<and> (live s = Map.empty \<longrightarrow> set (freed s) = set (given s))"
  using channel.released_once [OF raii_run_reach [OF raii_start assms]]
  by (auto simp: held_def channel_raii_def)

definition raii_example :: "raii_op list" where
  "raii_example = [Adopt 0 7, Adopt 1 8, Move 2 0, Assign 1 2, Drop 0, Drop 1, Drop 2]"

theorem channel_freed_once_witness:
  "\<forall>api. \<exists>s. raii_run (channel_raii api) raii_example init_raii = Some s
     \<and> distinct (freed s) \<and> freed s = [8, 7]"
proof
  fix api
  have "\<exists>s. raii_run (channel_raii api) raii_example init_raii = Some s \<and> freed s = [8, 7]"
    by (simp add: raii_example_def init_raii_def channel_raii_def new_channel_def channel_dtor_def
        channel_release_def channel_move_ctor_def channel_move_assign_def log_frees_def)
  then show "\<exists>s. raii_run (channel_raii api) raii_example init_raii = Some s
     \<and> distinct (freed s) \<and> freed s = [8, 7]"
    using channel_freed_once by blast
qed

end
