(* ===== verification/Fs_Path.thy ===== *)
theory Fs_Path
  imports Prelude "HOL-Library.Sublist"
begin

text \<open>
  The part of \<open>std::filesystem::path\<close> (POSIX flavour) the sources use: iteration over the
  components of a path, \<open>operator/\<close>, \<open>lexically_relative\<close> and \<open>std::mismatch\<close> on component
  ranges. A path is its native string.
\<close>

type_synonym path = string

fun split_slash :: "string \<Rightarrow> string \<Rightarrow> string list" where
  "split_slash acc [] = [acc]"
| "split_slash acc (c # cs) =
     (if c = CHR ''/'' then acc # split_slash [] cs else split_slash (acc @ [c]) cs)"

text \<open>
  Iterating a path yields the root directory, the file names without the separators, and an
  empty component when the path ends in a separator behind a file name.
\<close>

definition path_components :: "path \<Rightarrow> string list" where
  "path_components p =
     (let names = filter (\<lambda>c. c \<noteq> []) (split_slash [] p) in
      (if p \<noteq> [] \<and> hd p = CHR ''/'' then [''/''] else [])
      @ names
      @ (if names \<noteq> [] \<and> last p = CHR ''/'' then [[]] else []))"

definition is_absolute :: "path \<Rightarrow> bool" where
  "is_absolute p \<longleftrightarrow> p \<noteq> [] \<and> hd p = CHR ''/''"

text \<open>\<open>p / q\<close>: an absolute \<open>q\<close> replaces \<open>p\<close>; otherwise a separator is added behind a file name.\<close>

definition path_append :: "path \<Rightarrow> path \<Rightarrow> path" where
  "path_append p q =
     (if is_absolute q then q
      else if p \<noteq> [] \<and> last p \<noteq> CHR ''/'' then p @ ''/'' @ q else p @ q)"

text \<open>\<open>std::mismatch\<close>: what is left of both ranges behind their longest common prefix.\<close>

fun mismatch :: "'a list \<Rightarrow> 'a list \<Rightarrow> 'a list \<times> 'a list" where
  "mismatch (x # xs) (y # ys) = (if x = y then mismatch xs ys else (x # xs, y # ys))"
| "mismatch xs ys = (xs, ys)"

lemma mismatch_prefix: "fst (mismatch xs ys) = [] \<longleftrightarrow> prefix xs ys"
  by (induction xs ys rule: mismatch.induct) auto

lemma mismatch_append [simp]: "mismatch xs (xs @ ys) = ([], ys)"
  by (induction xs) (cases ys, auto)

fun join_path :: "string list \<Rightarrow> path" where
  "join_path [] = []"
| "join_path (c # cs) = (if cs = [] then c else c @ ''/'' @ join_path cs)"

text \<open>\<open>p.lexically_relative(base)\<close>; the empty path where no relative path exists.\<close>

definition up_count :: "string list \<Rightarrow> int" where
  "up_count cs =
     int (length (filter (\<lambda>c. c \<noteq> [] \<and> c \<noteq> ''.'' \<and> c \<noteq> ''..'') cs)) - int (length (filter (\<lambda>c. c = ''..'') cs))"

definition lexically_relative :: "path \<Rightarrow> path \<Rightarrow> path" where
  "lexically_relative p base =
     (if is_absolute p \<noteq> is_absolute base then []
      else case mismatch (path_components p) (path_components base) of
             (a, b) \<Rightarrow>
               if a = [] \<and> b = [] then ''.''
               else if up_count b < 0 then []
               else if up_count b = 0 \<and> (a = [] \<or> hd a = []) then ''.''
               else join_path (replicate (nat (up_count b)) ''..'' @ a))"

section \<open>Components\<close>

lemma split_slash_no_slash: "CHR ''/'' \<notin> set c \<Longrightarrow> split_slash acc c = [acc @ c]"
  by (induction c arbitrary: acc) auto

lemma split_slash_append:
  "split_slash acc (p @ CHR ''/'' # q) = split_slash acc p @ split_slash [] q"
  by (induction p arbitrary: acc) auto

text \<open>Appending one file name appends one component.\<close>

lemma path_components_child:
  assumes "n \<noteq> []" and "CHR ''/'' \<notin> set n"
  shows "path_components (path_append p n) = filter (\<lambda>c. c \<noteq> []) (path_components p) @ [n]"
proof -
  have n: "hd n \<noteq> CHR ''/''" "last n \<noteq> CHR ''/''"
    using assms by (metis hd_in_set, metis last_in_set)
  consider "p = []" | p' where "p = p' @ ''/''" | "p \<noteq> []" "last p \<noteq> CHR ''/''"
    by (metis append_butlast_last_id)
  then show ?thesis
  proof cases
    case 1
    then show ?thesis
      using assms n by (simp add: path_append_def is_absolute_def path_components_def split_slash_no_slash Let_def)
  next
    case 2
    then show ?thesis
      using assms n
      by (cases p') (simp_all add: path_append_def is_absolute_def path_components_def
          split_slash_no_slash split_slash_append Let_def)
  next
    case 3
    then show ?thesis
      using assms n
      by (simp add: path_append_def is_absolute_def path_components_def split_slash_append
          split_slash_no_slash Let_def)
  qed
qed

lemma prefix_child:
  assumes "prefix r (path_components p)" and "[] \<notin> set r" and "n \<noteq> []" and "CHR ''/'' \<notin> set n"
  shows "prefix r (path_components (path_append p n))"
proof -
  obtain t where "path_components p = r @ t" using assms(1) by (auto simp: prefix_def)
  moreover have "filter (\<lambda>c. c \<noteq> []) r = r" using assms(2) by (intro filter_True) auto
  ultimately show ?thesis using path_components_child [OF assms(3,4), of p] by simp
qed

end
