(* ===== verification/Sftp_Server.thy ===== *)
theory Sftp_Server
  imports Native Fs_Path
begin

text \<open>
  \<open>server/sftp_subsystem.hpp\<close>, \<open>detail/server_sftp_subsystem.ipp\<close>: the chroot-style SFTP server.

  The state of a running server is the world (file system and libssh), the table of open
  handles, the POSIX calls made so far and the replies sent so far. Every case of the request
  switch is one definition; \<open>try_serve\<close> runs the loop over the requests of a client. POSIX,
  \<open>weakly_canonical\<close> and the constants of libssh are parameters.

  The theorems about it are in \<open>Sftp_Confinement\<close>.
\<close>

section \<open>POSIX and libssh\<close>

datatype errno = ENOENT | Errno int

datatype access_mode = O_RDONLY | O_WRONLY | O_RDWR

record open_flags =
  of_access :: access_mode
  of_creat :: bool
  of_trunc :: bool
  of_excl :: bool
  of_append :: bool

datatype file_type = FT_regular | FT_directory | FT_symlink | FT_special

record stat =
  st_size :: int
  st_uid :: u32
  st_gid :: u32
  st_mode :: u32
  st_atime :: int
  st_mtime :: int

text \<open>
  The POSIX calls over the world. A directory stream is the list of names it will still return.
  \<open>mode_type\<close> is what the macros \<open>S_ISREG\<close>, \<open>S_ISDIR\<close> and \<open>S_ISLNK\<close> tell of a mode.
\<close>

record 'w posix =
  weakly_canonical :: "path \<Rightarrow> 'w \<Rightarrow> string + path"
  mode_type :: "u32 \<Rightarrow> file_type"
  strerror :: "errno \<Rightarrow> string"
  px_lstat :: "path \<Rightarrow> 'w \<Rightarrow> (errno + stat) \<times> 'w"
  px_stat :: "path \<Rightarrow> 'w \<Rightarrow> (errno + stat) \<times> 'w"
  px_fstat :: "int \<Rightarrow> 'w \<Rightarrow> (errno + stat) \<times> 'w"
  px_opendir :: "path \<Rightarrow> 'w \<Rightarrow> (errno + string list) \<times> 'w"
  px_closedir :: "path \<Rightarrow> 'w \<Rightarrow> 'w"
  px_open :: "path \<Rightarrow> open_flags \<Rightarrow> u32 \<Rightarrow> 'w \<Rightarrow> (errno + nat) \<times> 'w"
  px_close :: "int \<Rightarrow> 'w \<Rightarrow> 'w"
  px_pread :: "int \<Rightarrow> nat \<Rightarrow> int \<Rightarrow> 'w \<Rightarrow> (errno + bytes) \<times> 'w"
  px_pwrite :: "int \<Rightarrow> bytes \<Rightarrow> int \<Rightarrow> 'w \<Rightarrow> (errno + nat) \<times> 'w"
  px_unlink :: "path \<Rightarrow> 'w \<Rightarrow> (errno + unit) \<times> 'w"
  px_mkdir :: "path \<Rightarrow> u32 \<Rightarrow> 'w \<Rightarrow> (errno + unit) \<times> 'w"
  px_rmdir :: "path \<Rightarrow> 'w \<Rightarrow> (errno + unit) \<times> 'w"
  px_rename :: "path \<Rightarrow> path \<Rightarrow> 'w \<Rightarrow> (errno + unit) \<times> 'w"
  px_readlink :: "path \<Rightarrow> nat \<Rightarrow> 'w \<Rightarrow> (errno + bytes) \<times> 'w"
  px_symlink :: "path \<Rightarrow> path \<Rightarrow> 'w \<Rightarrow> (errno + unit) \<times> 'w"

text \<open>The calls as they are recorded; \<open>open\<close> with its outcome.\<close>

datatype syscall =
    Sys_lstat path | Sys_stat path | Sys_fstat int | Sys_opendir path | Sys_closedir path
  | Sys_open path open_flags u32 "errno + nat" | Sys_close int | Sys_pread int nat int
  | Sys_pwrite int bytes int | Sys_unlink path | Sys_mkdir path u32 | Sys_rmdir path
  | Sys_rename path path | Sys_readlink path | Sys_symlink path path

text \<open>Bit constants of libssh.\<close>

record sftp_consts =
  FXF_READ :: u32
  FXF_WRITE :: u32
  FXF_APPEND :: u32
  FXF_CREAT :: u32
  FXF_TRUNC :: u32
  FXF_EXCL :: u32
  ATTR_SIZE :: u32
  ATTR_UIDGID :: u32
  ATTR_PERMISSIONS :: u32
  ATTR_ACMODTIME :: u32

datatype fx_status =
    SSH_FX_OK | SSH_FX_EOF | SSH_FX_NO_SUCH_FILE | SSH_FX_PERMISSION_DENIED | SSH_FX_FAILURE
  | SSH_FX_OP_UNSUPPORTED | SSH_FX_INVALID_HANDLE

datatype fxp_type =
    SSH_FXP_REALPATH | SSH_FXP_STAT | SSH_FXP_LSTAT | SSH_FXP_FSTAT | SSH_FXP_OPENDIR
  | SSH_FXP_READDIR | SSH_FXP_OPEN | SSH_FXP_READ | SSH_FXP_WRITE | SSH_FXP_CLOSE
  | SSH_FXP_REMOVE | SSH_FXP_MKDIR | SSH_FXP_RMDIR | SSH_FXP_RENAME | SSH_FXP_READLINK
  | SSH_FXP_SYMLINK | SSH_FXP_other nat

type_synonym handle_id = nat

record msg_attr =
  ma_flags :: u32
  ma_permissions :: u32

record client_msg =
  cm_type :: fxp_type
  cm_filename :: "string option"
  cm_handle :: handle_id
  cm_flags :: u32
  cm_attr :: "msg_attr option"
  cm_offset :: u64
  cm_len :: u32
  cm_data :: "bytes option"

record srv_attr =
  at_flags :: u32
  at_size :: u64
  at_uid :: u32
  at_gid :: u32
  at_permissions :: u32
  at_atime :: u32
  at_mtime :: u32
  at_type :: "file_type option"

datatype sftp_reply =
    Reply_status fx_status string | Reply_name string srv_attr | Reply_attr srv_attr
  | Reply_handle handle_id | Reply_data bytes | Reply_names "(string \<times> string \<times> srv_attr) list"

section \<open>State\<close>

record handle_entry =
  he_is_dir :: bool
  he_fd :: int
  he_dir :: "string list"
  he_path :: path

record sftp_options =
  so_root :: path
  so_read_only :: bool
  so_follow_symlinks_out_of_root :: bool
  so_max_file_size :: u64

text \<open>
  \<open>sv_table\<close> is libssh's handle table; \<open>sv_pick\<close> in the environment is the free slot that
  \<open>sftp_handle_alloc\<close> chooses, \<open>None\<close> when the table is full.
\<close>

record 'w srv =
  sv_world :: 'w
  sv_table :: "handle_id \<rightharpoonup> handle_entry"
  sv_calls :: "syscall list"
  sv_replies :: "sftp_reply list"

record 'w srv_env =
  env_px :: "'w posix"
  env_k :: sftp_consts
  env_opts :: sftp_options
  env_pick :: "(handle_id \<rightharpoonup> handle_entry) \<Rightarrow> handle_id option"

definition sys_log :: "('r \<Rightarrow> syscall) \<Rightarrow> ('w \<Rightarrow> 'r \<times> 'w) \<Rightarrow> 'w srv \<Rightarrow> 'r \<times> 'w srv" where
  "sys_log c f s =
     (case f (sv_world s) of (r, w) \<Rightarrow> (r, s\<lparr>sv_world := w, sv_calls := sv_calls s @ [c r]\<rparr>))"

definition sys :: "syscall \<Rightarrow> ('w \<Rightarrow> 'r \<times> 'w) \<Rightarrow> 'w srv \<Rightarrow> 'r \<times> 'w srv" where
  "sys c = sys_log (\<lambda>_. c)"

definition reply :: "sftp_reply \<Rightarrow> 'w srv \<Rightarrow> 'w srv" where
  "reply r s = s\<lparr>sv_replies := sv_replies s @ [r]\<rparr>"

section \<open>Helpers of the request loop\<close>

definition zero_attr :: srv_attr where
  "zero_attr = \<lparr>at_flags = 0, at_size = 0, at_uid = 0, at_gid = 0, at_permissions = 0,
     at_atime = 0, at_mtime = 0, at_type = None\<rparr>"

definition fill_attributes :: "'w srv_env \<Rightarrow> stat \<Rightarrow> srv_attr" where
  "fill_attributes env st =
     \<lparr>at_flags = or (or (or (ATTR_SIZE (env_k env)) (ATTR_UIDGID (env_k env)))
                     (ATTR_PERMISSIONS (env_k env))) (ATTR_ACMODTIME (env_k env)),
      at_size = word_of_int (st_size st), at_uid = st_uid st, at_gid = st_gid st,
      at_permissions = st_mode st, at_atime = word_of_int (st_atime st),
      at_mtime = word_of_int (st_mtime st),
      at_type = Some (mode_type (env_px env) (st_mode st))\<rparr>"

text \<open>\<open>printf\<close> field widths.\<close>

definition pad_left :: "nat \<Rightarrow> string \<Rightarrow> string" where
  "pad_left n s = replicate (n - length s) (CHR '' '') @ s"

definition pad_right :: "nat \<Rightarrow> string \<Rightarrow> string" where
  "pad_right n s = s @ replicate (n - length s) (CHR '' '')"

definition perm_string :: "'w srv_env \<Rightarrow> u32 \<Rightarrow> string" where
  "perm_string env m =
     (case mode_type (env_px env) m of FT_directory \<Rightarrow> CHR ''d'' | FT_symlink \<Rightarrow> CHR ''l'' | _ \<Rightarrow> CHR ''-'')
     # map (\<lambda>i. if and m (drop_bit i 0x100) \<noteq> 0 then ''rwxrwxrwx'' ! i else CHR ''-'') [0..<9]"

definition format_longname :: "'w srv_env \<Rightarrow> string \<Rightarrow> stat \<Rightarrow> string" where
  "format_longname env name st =
     take 511 (perm_string env (st_mode st) @ '' '' @ pad_left 3 ''1'' @ '' ''
       @ pad_right 8 (nat_to_string (unat (st_uid st))) @ '' ''
       @ pad_right 8 (nat_to_string (unat (st_gid st))) @ '' ''
       @ pad_left 10 (int_to_string (st_size st)) @ '' '' @ c_str name)"

definition has_bit :: "u32 \<Rightarrow> u32 \<Rightarrow> bool" where
  "has_bit flags b \<longleftrightarrow> and flags b \<noteq> 0"

definition posix_open_flags :: "sftp_consts \<Rightarrow> u32 \<Rightarrow> open_flags" where
  "posix_open_flags k flags =
     \<lparr>of_access =
        (if has_bit flags (FXF_READ k) \<and> has_bit flags (FXF_WRITE k) then O_RDWR
         else if has_bit flags (FXF_WRITE k) then O_WRONLY else O_RDONLY),
      of_creat = has_bit flags (FXF_CREAT k),
      of_trunc = has_bit flags (FXF_TRUNC k),
      of_excl = has_bit flags (FXF_EXCL k),
      of_append = has_bit flags (FXF_APPEND k)\<rparr>"

definition resolve_error :: "string \<Rightarrow> error_info" where
  "resolve_error msg = mk_error errc_invalid_argument msg ''resolve_sftp_path''"

definition resolve_sftp_path :: "'w srv_env \<Rightarrow> 'w \<Rightarrow> path \<Rightarrow> string \<Rightarrow> path result" where
  "resolve_sftp_path env w root sftp_path =
     (let rel = (case str_find_first_not_of ''/'' sftp_path of
                   None \<Rightarrow> ''.'' | Some start \<Rightarrow> drop start sftp_path);
          joined = path_append root rel
      in case weakly_canonical (env_px env) root w of
           Inl ec \<Rightarrow> Inl (resolve_error ec)
         | Inr canon_root \<Rightarrow>
             (case weakly_canonical (env_px env) joined w of
                Inl ec \<Rightarrow> Inl (resolve_error ec)
              | Inr canon \<Rightarrow>
                  if fst (mismatch (path_components canon_root) (path_components canon)) \<noteq> []
                  then Inl (resolve_error ''path escapes the sftp root'')
                  else Inr canon))"

definition to_client_path :: "'w srv_env \<Rightarrow> 'w \<Rightarrow> path \<Rightarrow> path \<Rightarrow> string" where
  "to_client_path env w root canon =
     (case weakly_canonical (env_px env) root w of
        Inl _ \<Rightarrow> ''/''
      | Inr canon_root \<Rightarrow>
          let rel = lexically_relative canon canon_root in
          if rel = [] \<or> rel = ''.'' then ''/'' else ''/'' @ rel)"

text \<open>\<open>close_handle\<close>.\<close>

definition close_handle :: "'w srv_env \<Rightarrow> handle_entry \<Rightarrow> 'w srv \<Rightarrow> 'w srv" where
  "close_handle env h s =
     (if he_is_dir h then snd (sys (Sys_closedir (he_path h)) (\<lambda>w. ((), px_closedir (env_px env) (he_path h) w)) s)
      else if he_fd h \<ge> 0 then snd (sys (Sys_close (he_fd h)) (\<lambda>w. ((), px_close (env_px env) (he_fd h) w)) s)
      else s)"

text \<open>The name a request carries, \<open>""\<close> when libssh has none, and its data read as a C string.\<close>

definition msg_filename :: "client_msg \<Rightarrow> string" where
  "msg_filename m = (case cm_filename m of Some f \<Rightarrow> c_str f | None \<Rightarrow> [])"

definition msg_data_path :: "client_msg \<Rightarrow> string" where
  "msg_data_path m = (case cm_data m of Some d \<Rightarrow> c_str (string_of_bytes d) | None \<Rightarrow> [])"

definition msg_data :: "client_msg \<Rightarrow> bytes" where
  "msg_data m = (case cm_data m of Some d \<Rightarrow> d | None \<Rightarrow> [])"

definition resolve_in :: "'w srv_env \<Rightarrow> string \<Rightarrow> 'w srv \<Rightarrow> path result" where
  "resolve_in env p s = resolve_sftp_path env (sv_world s) (so_root (env_opts env)) p"

definition read_only_reply :: sftp_reply where
  "read_only_reply = Reply_status SSH_FX_PERMISSION_DENIED ''read-only sftp root''"

section \<open>The requests\<close>

definition serve_realpath :: "'w srv_env \<Rightarrow> client_msg \<Rightarrow> 'w srv \<Rightarrow> 'w srv" where
  "serve_realpath env m s =
     (case resolve_in env (msg_filename m) s of
        Inl _ \<Rightarrow> reply (Reply_status SSH_FX_NO_SUCH_FILE []) s
      | Inr p \<Rightarrow>
          (case sys (Sys_lstat p) (px_lstat (env_px env) p) s of
             (r, s') \<Rightarrow>
               reply (Reply_name (to_client_path env (sv_world s') (so_root (env_opts env)) p)
                        (case r of Inr st \<Rightarrow> fill_attributes env st | Inl _ \<Rightarrow> zero_attr)) s'))"

definition serve_stat :: "'w srv_env \<Rightarrow> client_msg \<Rightarrow> 'w srv \<Rightarrow> 'w srv" where
  "serve_stat env m s =
     (case resolve_in env (msg_filename m) s of
        Inl _ \<Rightarrow> reply (Reply_status SSH_FX_NO_SUCH_FILE []) s
      | Inr p \<Rightarrow>
          (case (if cm_type m = SSH_FXP_LSTAT \<or> \<not> so_follow_symlinks_out_of_root (env_opts env)
                 then sys (Sys_lstat p) (px_lstat (env_px env) p) s
                 else sys (Sys_stat p) (px_stat (env_px env) p) s) of
             (Inl e, s') \<Rightarrow> reply (Reply_status SSH_FX_NO_SUCH_FILE (strerror (env_px env) e)) s'
           | (Inr st, s') \<Rightarrow> reply (Reply_attr (fill_attributes env st)) s'))"

definition serve_fstat :: "'w srv_env \<Rightarrow> client_msg \<Rightarrow> 'w srv \<Rightarrow> 'w srv" where
  "serve_fstat env m s =
     (case sv_table s (cm_handle m) of
        None \<Rightarrow> reply (Reply_status SSH_FX_INVALID_HANDLE []) s
      | Some h \<Rightarrow>
          (case (if he_is_dir h then sys (Sys_stat (he_path h)) (px_stat (env_px env) (he_path h)) s
                 else sys (Sys_fstat (he_fd h)) (px_fstat (env_px env) (he_fd h)) s) of
             (Inl e, s') \<Rightarrow> reply (Reply_status SSH_FX_FAILURE (strerror (env_px env) e)) s'
           | (Inr st, s') \<Rightarrow> reply (Reply_attr (fill_attributes env st)) s'))"

text \<open>The common end of \<open>OPENDIR\<close> and \<open>OPEN\<close>: put the entry in the table and answer.\<close>

definition alloc_handle :: "'w srv_env \<Rightarrow> handle_entry \<Rightarrow> 'w srv \<Rightarrow> 'w srv" where
  "alloc_handle env h s =
     (case env_pick env (sv_table s) of
        None \<Rightarrow> reply (Reply_status SSH_FX_FAILURE []) (close_handle env h s)
      | Some i \<Rightarrow> reply (Reply_handle i) (s\<lparr>sv_table := (sv_table s)(i \<mapsto> h)\<rparr>))"

definition serve_opendir :: "'w srv_env \<Rightarrow> client_msg \<Rightarrow> 'w srv \<Rightarrow> 'w srv" where
  "serve_opendir env m s =
     (case resolve_in env (msg_filename m) s of
        Inl _ \<Rightarrow> reply (Reply_status SSH_FX_NO_SUCH_FILE []) s
      | Inr p \<Rightarrow>
          (case sys (Sys_opendir p) (px_opendir (env_px env) p) s of
             (Inl e, s') \<Rightarrow> reply (Reply_status SSH_FX_NO_SUCH_FILE (strerror (env_px env) e)) s'
           | (Inr names, s') \<Rightarrow>
               alloc_handle env \<lparr>he_is_dir = True, he_fd = -1, he_dir = names, he_path = p\<rparr> s'))"

text \<open>
  The loop of \<open>READDIR\<close>: entries that cannot be examined are skipped, a batch has at most 64
  entries. The result is the batch, the names left in the stream and the state.
\<close>

fun readdir_batch ::
    "'w srv_env \<Rightarrow> path \<Rightarrow> nat \<Rightarrow> string list \<Rightarrow> 'w srv
       \<Rightarrow> (string \<times> string \<times> srv_attr) list \<times> string list \<times> 'w srv" where
  "readdir_batch env dir added [] s = ([], [], s)"
| "readdir_batch env dir added (name # names) s =
     (case sys (Sys_lstat (path_append dir name)) (px_lstat (env_px env) (path_append dir name)) s of
        (Inl _, s') \<Rightarrow> readdir_batch env dir added names s'
      | (Inr st, s') \<Rightarrow>
          let e = (name, format_longname env name st, fill_attributes env st) in
          if Suc added \<ge> 64 then ([e], names, s')
          else case readdir_batch env dir (Suc added) names s' of
                 (es, names', s'') \<Rightarrow> (e # es, names', s''))"

definition serve_readdir :: "'w srv_env \<Rightarrow> client_msg \<Rightarrow> 'w srv \<Rightarrow> 'w srv" where
  "serve_readdir env m s =
     (case sv_table s (cm_handle m) of
        None \<Rightarrow> reply (Reply_status SSH_FX_INVALID_HANDLE []) s
      | Some h \<Rightarrow>
          if \<not> he_is_dir h then reply (Reply_status SSH_FX_INVALID_HANDLE []) s
          else if he_dir h = [] then reply (Reply_status SSH_FX_EOF []) s
          else (case readdir_batch env (he_path h) 0 (he_dir h) s of
                  (es, names', s') \<Rightarrow>
                    reply (Reply_names es)
                      (s'\<lparr>sv_table := (sv_table s')(cm_handle m \<mapsto> h\<lparr>he_dir := names'\<rparr>)\<rparr>)))"

definition write_flags :: "sftp_consts \<Rightarrow> u32" where
  "write_flags k = or (or (or (FXF_WRITE k) (FXF_CREAT k)) (FXF_TRUNC k)) (FXF_APPEND k)"

text \<open>The permission bits a request asks for, or the default.\<close>

definition request_mode :: "'w srv_env \<Rightarrow> u32 \<Rightarrow> client_msg \<Rightarrow> u32" where
  "request_mode env dflt m =
     (case cm_attr m of
        Some a \<Rightarrow> if has_bit (ma_flags a) (ATTR_PERMISSIONS (env_k env))
                 then and (ma_permissions a) 0xFFF else dflt
      | None \<Rightarrow> dflt)"

definition serve_open :: "'w srv_env \<Rightarrow> client_msg \<Rightarrow> 'w srv \<Rightarrow> 'w srv" where
  "serve_open env m s =
     (if has_bit (cm_flags m) (write_flags (env_k env)) \<and> so_read_only (env_opts env)
      then reply read_only_reply s
      else case resolve_in env (msg_filename m) s of
        Inl _ \<Rightarrow> reply (Reply_status SSH_FX_NO_SUCH_FILE []) s
      | Inr p \<Rightarrow>
          let flags = posix_open_flags (env_k env) (cm_flags m);
              mode = request_mode env 0x1A4 m
          in (case sys_log (Sys_open p flags mode) (px_open (env_px env) p flags mode) s of
                (Inl e, s') \<Rightarrow>
                  reply (Reply_status (if e = ENOENT then SSH_FX_NO_SUCH_FILE else SSH_FX_FAILURE)
                           (strerror (env_px env) e)) s'
              | (Inr fd, s') \<Rightarrow>
                  alloc_handle env \<lparr>he_is_dir = False, he_fd = int fd, he_dir = [], he_path = p\<rparr> s'))"

definition serve_read :: "'w srv_env \<Rightarrow> client_msg \<Rightarrow> 'w srv \<Rightarrow> 'w srv" where
  "serve_read env m s =
     (case sv_table s (cm_handle m) of
        None \<Rightarrow> reply (Reply_status SSH_FX_INVALID_HANDLE []) s
      | Some h \<Rightarrow>
          if he_is_dir h then reply (Reply_status SSH_FX_INVALID_HANDLE []) s
          else let n = min (unat (cm_len m)) 65536; off = sint (cm_offset m) in
            (case sys (Sys_pread (he_fd h) n off) (px_pread (env_px env) (he_fd h) n off) s of
               (Inl e, s') \<Rightarrow> reply (Reply_status SSH_FX_FAILURE (strerror (env_px env) e)) s'
             | (Inr d, s') \<Rightarrow>
                 if d = [] then reply (Reply_status SSH_FX_EOF []) s' else reply (Reply_data d) s'))"

definition serve_write :: "'w srv_env \<Rightarrow> client_msg \<Rightarrow> 'w srv \<Rightarrow> 'w srv" where
  "serve_write env m s =
     (if so_read_only (env_opts env) then reply read_only_reply s
      else case sv_table s (cm_handle m) of
        None \<Rightarrow> reply (Reply_status SSH_FX_INVALID_HANDLE []) s
      | Some h \<Rightarrow>
          if he_is_dir h then reply (Reply_status SSH_FX_INVALID_HANDLE []) s
          else let data = msg_data m;
                   len = to_uint32 (length data);
                   off = sint (cm_offset m)
            in if so_max_file_size (env_opts env) \<noteq> 0
                  \<and> cm_offset m + of_nat len > so_max_file_size (env_opts env)
               then reply (Reply_status SSH_FX_PERMISSION_DENIED ''file too large'') s
               else (case sys (Sys_pwrite (he_fd h) (take len data) off)
                            (px_pwrite (env_px env) (he_fd h) (take len data) off) s of
                       (Inl e, s') \<Rightarrow> reply (Reply_status SSH_FX_FAILURE (strerror (env_px env) e)) s'
                     | (Inr _, s') \<Rightarrow> reply (Reply_status SSH_FX_OK []) s'))"

definition serve_close :: "'w srv_env \<Rightarrow> client_msg \<Rightarrow> 'w srv \<Rightarrow> 'w srv" where
  "serve_close env m s =
     reply (Reply_status SSH_FX_OK [])
       (case sv_table s (cm_handle m) of
          None \<Rightarrow> s
        | Some h \<Rightarrow> close_handle env h (s\<lparr>sv_table := (sv_table s)(cm_handle m := None)\<rparr>))"

text \<open>A modifying call on resolved paths, its success and failure replies.\<close>

definition serve_remove :: "'w srv_env \<Rightarrow> client_msg \<Rightarrow> 'w srv \<Rightarrow> 'w srv" where
  "serve_remove env m s =
     (if so_read_only (env_opts env) then reply read_only_reply s
      else case resolve_in env (msg_filename m) s of
        Inl _ \<Rightarrow> reply (Reply_status SSH_FX_NO_SUCH_FILE []) s
      | Inr p \<Rightarrow>
          (case sys (Sys_unlink p) (px_unlink (env_px env) p) s of
             (Inl _, s') \<Rightarrow> reply (Reply_status SSH_FX_NO_SUCH_FILE []) s'
           | (Inr _, s') \<Rightarrow> reply (Reply_status SSH_FX_OK []) s'))"

definition serve_mkdir :: "'w srv_env \<Rightarrow> client_msg \<Rightarrow> 'w srv \<Rightarrow> 'w srv" where
  "serve_mkdir env m s =
     (if so_read_only (env_opts env) then reply read_only_reply s
      else case resolve_in env (msg_filename m) s of
        Inl _ \<Rightarrow> reply (Reply_status SSH_FX_FAILURE ''invalid path'') s
      | Inr p \<Rightarrow>
          let mode = request_mode env 0x1ED m in
          (case sys (Sys_mkdir p mode) (px_mkdir (env_px env) p mode) s of
             (Inl e, s') \<Rightarrow> reply (Reply_status SSH_FX_FAILURE (strerror (env_px env) e)) s'
           | (Inr _, s') \<Rightarrow> reply (Reply_status SSH_FX_OK []) s'))"

definition serve_rmdir :: "'w srv_env \<Rightarrow> client_msg \<Rightarrow> 'w srv \<Rightarrow> 'w srv" where
  "serve_rmdir env m s =
     (if so_read_only (env_opts env) then reply read_only_reply s
      else case resolve_in env (msg_filename m) s of
        Inl _ \<Rightarrow> reply (Reply_status SSH_FX_FAILURE []) s
      | Inr p \<Rightarrow>
          (case sys (Sys_rmdir p) (px_rmdir (env_px env) p) s of
             (Inl _, s') \<Rightarrow> reply (Reply_status SSH_FX_FAILURE []) s'
           | (Inr _, s') \<Rightarrow> reply (Reply_status SSH_FX_OK []) s'))"

definition serve_rename :: "'w srv_env \<Rightarrow> client_msg \<Rightarrow> 'w srv \<Rightarrow> 'w srv" where
  "serve_rename env m s =
     (if so_read_only (env_opts env) then reply read_only_reply s
      else case (resolve_in env (msg_filename m) s, resolve_in env (msg_data_path m) s) of
        (Inr p, Inr q) \<Rightarrow>
          (case sys (Sys_rename p q) (px_rename (env_px env) p q) s of
             (Inl _, s') \<Rightarrow> reply (Reply_status SSH_FX_FAILURE []) s'
           | (Inr _, s') \<Rightarrow> reply (Reply_status SSH_FX_OK []) s')
      | _ \<Rightarrow> reply (Reply_status SSH_FX_FAILURE []) s)"

definition serve_readlink :: "'w srv_env \<Rightarrow> client_msg \<Rightarrow> 'w srv \<Rightarrow> 'w srv" where
  "serve_readlink env m s =
     (case resolve_in env (msg_filename m) s of
        Inl _ \<Rightarrow> reply (Reply_status SSH_FX_NO_SUCH_FILE []) s
      | Inr p \<Rightarrow>
          (case sys (Sys_readlink p) (px_readlink (env_px env) p 4095) s of
             (Inl _, s') \<Rightarrow> reply (Reply_status SSH_FX_NO_SUCH_FILE []) s'
           | (Inr d, s') \<Rightarrow> reply (Reply_name (c_str (string_of_bytes d)) zero_attr) s'))"

definition serve_symlink :: "'w srv_env \<Rightarrow> client_msg \<Rightarrow> 'w srv \<Rightarrow> 'w srv" where
  "serve_symlink env m s =
     (if so_read_only (env_opts env) then reply read_only_reply s
      else case resolve_in env (msg_data_path m) s of
        Inl _ \<Rightarrow> reply (Reply_status SSH_FX_FAILURE []) s
      | Inr p \<Rightarrow>
          (case sys (Sys_symlink (msg_filename m) p) (px_symlink (env_px env) (msg_filename m) p) s of
             (Inl _, s') \<Rightarrow> reply (Reply_status SSH_FX_FAILURE []) s'
           | (Inr _, s') \<Rightarrow> reply (Reply_status SSH_FX_OK []) s'))"

definition serve_message :: "'w srv_env \<Rightarrow> client_msg \<Rightarrow> 'w srv \<Rightarrow> 'w srv" where
  "serve_message env m s =
     (case cm_type m of
        SSH_FXP_REALPATH \<Rightarrow> serve_realpath env m s
      | SSH_FXP_STAT \<Rightarrow> serve_stat env m s
      | SSH_FXP_LSTAT \<Rightarrow> serve_stat env m s
      | SSH_FXP_FSTAT \<Rightarrow> serve_fstat env m s
      | SSH_FXP_OPENDIR \<Rightarrow> serve_opendir env m s
      | SSH_FXP_READDIR \<Rightarrow> serve_readdir env m s
      | SSH_FXP_OPEN \<Rightarrow> serve_open env m s
      | SSH_FXP_READ \<Rightarrow> serve_read env m s
      | SSH_FXP_WRITE \<Rightarrow> serve_write env m s
      | SSH_FXP_CLOSE \<Rightarrow> serve_close env m s
      | SSH_FXP_REMOVE \<Rightarrow> serve_remove env m s
      | SSH_FXP_MKDIR \<Rightarrow> serve_mkdir env m s
      | SSH_FXP_RMDIR \<Rightarrow> serve_rmdir env m s
      | SSH_FXP_RENAME \<Rightarrow> serve_rename env m s
      | SSH_FXP_READLINK \<Rightarrow> serve_readlink env m s
      | SSH_FXP_SYMLINK \<Rightarrow> serve_symlink env m s
      | SSH_FXP_other _ \<Rightarrow> reply (Reply_status SSH_FX_OP_UNSUPPORTED ''unsupported sftp request'') s)"

text \<open>
  \<open>try_serve\<close>: set up the server session, answer the client's requests until there is none
  left. \<open>created\<close> and \<open>initialised\<close> are the outcomes of \<open>sftp_server_new\<close> and \<open>sftp_server_init\<close>.
\<close>

definition try_serve ::
    "'w srv_env \<Rightarrow> bool \<Rightarrow> bool \<Rightarrow> client_msg list \<Rightarrow> 'w srv \<Rightarrow> unit result \<times> 'w srv" where
  "try_serve env created initialised msgs s =
     (if \<not> created then (Inl (mk_error errc_sftp_unavailable [] ''sftp_server_new''), s)
      else if \<not> initialised then (Inl (mk_error errc_sftp_unavailable [] ''sftp_server_init''), s)
      else (Inr (), fold (serve_message env) msgs s))"

definition fresh_srv :: "'w \<Rightarrow> 'w srv" where
  "fresh_srv w = \<lparr>sv_world = w, sv_table = Map.empty, sv_calls = [], sv_replies = []\<rparr>"

text \<open>The channel handler: a worker thread per \<open>sftp\<close> request, joined by the destructor.\<close>

definition on_subsystem_request :: "'c list \<Rightarrow> 'c \<Rightarrow> string \<Rightarrow> bool \<times> 'c list" where
  "on_subsystem_request workers ch name =
     (if name \<noteq> ''sftp'' then (False, workers) else (True, workers @ [ch]))"

end
