(* ===== verification/Sftp_Confinement.thy ===== *)
theory Sftp_Confinement
  imports Sftp_Server
begin

text \<open>
  What the SFTP server guarantees. Every path handed to a POSIX call lies under the canonical
  root (the target of a new symbolic link apart), a read-only server makes no modifying call, the
  size limit holds for every write that can succeed, each request gets exactly one reply, a
  descriptor is never used after it was closed, and a directory listing is complete. The last
  sections state where the code departs from its documentation.
\<close>

section \<open>Confinement, write protection and the size limit\<close>

definition under :: "path \<Rightarrow> path \<Rightarrow> bool" where
  "under cr p \<longleftrightarrow> prefix (path_components cr) (path_components p)"

fun confined :: "path \<Rightarrow> syscall \<Rightarrow> bool" where
  "confined cr (Sys_lstat p) = under cr p"
| "confined cr (Sys_stat p) = under cr p"
| "confined cr (Sys_opendir p) = under cr p"
| "confined cr (Sys_closedir p) = under cr p"
| "confined cr (Sys_open p _ _ _) = under cr p"
| "confined cr (Sys_unlink p) = under cr p"
| "confined cr (Sys_mkdir p _) = under cr p"
| "confined cr (Sys_rmdir p) = under cr p"
| "confined cr (Sys_rename p q) = (under cr p \<and> under cr q)"
| "confined cr (Sys_readlink p) = under cr p"
| "confined cr (Sys_symlink t p) = under cr p"
| "confined cr (Sys_fstat _) = True"
| "confined cr (Sys_close _) = True"
| "confined cr (Sys_pread _ _ _) = True"
| "confined cr (Sys_pwrite _ _ _) = True"

fun modifying :: "syscall \<Rightarrow> bool" where
  "modifying (Sys_open _ f _ _) = (of_access f \<noteq> O_RDONLY \<or> of_creat f \<or> of_trunc f \<or> of_append f)"
| "modifying (Sys_pwrite _ _ _) = True"
| "modifying (Sys_unlink _) = True"
| "modifying (Sys_mkdir _ _) = True"
| "modifying (Sys_rmdir _) = True"
| "modifying (Sys_rename _ _) = True"
| "modifying (Sys_symlink _ _) = True"
| "modifying _ = False"

fun within_limit :: "u64 \<Rightarrow> syscall \<Rightarrow> bool" where
  "within_limit limit (Sys_pwrite _ d off) = (limit \<noteq> 0 \<longrightarrow> off < 0 \<or> off + int (length d) \<le> uint limit)"
| "within_limit _ _ = True"

definition good_call :: "sftp_options \<Rightarrow> path \<Rightarrow> syscall \<Rightarrow> bool" where
  "good_call opts cr c \<longleftrightarrow>
     confined cr c \<and> (so_read_only opts \<longrightarrow> \<not> modifying c) \<and> within_limit (so_max_file_size opts) c"

lemma good_close [simp]: "good_call opts cr (Sys_close d)"
  by (simp add: good_call_def)

text \<open>
  What the server relies on: the canonical form of the configured root does not change while it
  runs and has no empty component, and a directory lists plain file names.
\<close>

definition stable_root :: "'w srv_env \<Rightarrow> path \<Rightarrow> bool" where
  "stable_root env cr \<longleftrightarrow>
     (\<forall>w c. weakly_canonical (env_px env) (so_root (env_opts env)) w = Inr c \<longrightarrow> c = cr)
     \<and> [] \<notin> set (path_components cr)"

definition plain_name :: "string \<Rightarrow> bool" where
  "plain_name n \<longleftrightarrow> n \<noteq> [] \<and> CHR ''/'' \<notin> set n"

definition plain_listings :: "'w srv_env \<Rightarrow> bool" where
  "plain_listings env \<longleftrightarrow>
     (\<forall>p w ns w'. px_opendir (env_px env) p w = (Inr ns, w') \<longrightarrow> (\<forall>n \<in> set ns. plain_name n))"

lemma resolve_under:
  assumes "stable_root env cr" and "resolve_in env p s = Inr q"
  shows "under cr q"
  using assms
  by (auto simp: resolve_in_def resolve_sftp_path_def Let_def stable_root_def under_def mismatch_prefix
      split: sum.splits if_splits)

lemma read_only_flags:
  assumes "\<not> has_bit flags (write_flags k)"
  shows "\<not> has_bit flags (FXF_WRITE k)" "\<not> has_bit flags (FXF_CREAT k)"
    "\<not> has_bit flags (FXF_TRUNC k)" "\<not> has_bit flags (FXF_APPEND k)"
  using assms by (simp_all add: has_bit_def write_flags_def bit.conj_disj_distrib word_or_eq_0_iff_local)

lemma open_read_only:
  "\<not> has_bit flags (write_flags k) \<Longrightarrow> \<not> modifying (Sys_open p (posix_open_flags k flags) m r)"
  using read_only_flags [of flags k] by (simp add: posix_open_flags_def)

lemma limit_no_wrap:
  fixes offset limit :: u64
  assumes "\<not> offset + of_nat len > limit" and "len < 4294967296" and "sint offset \<ge> 0"
  shows "sint offset + int len \<le> uint limit"
proof -
  have small: "sint offset < 2 ^ 63" using sint_less [of offset] by simp
  have "uint (word_of_int i :: u64) = i" if "0 \<le> i" "i < 2 ^ 63" for i
    using that by (simp add: uint_word_of_int)
  from this [of "sint offset"] have off: "sint offset = uint offset" using small assms(3) by simp
  have "uint offset + int len < 2 ^ 64" using assms(2) off small by simp
  moreover have "uint (of_nat len :: u64) = int len"
    using assms(2) by (simp add: unsigned_of_nat take_bit_nat_eq_self)
  ultimately have "uint (offset + of_nat len) = uint offset + int len"
    unfolding uint_word_ariths(1) by simp
  then show ?thesis using assms(1) off by (simp add: word_le_def not_less)
qed

section \<open>Descriptors\<close>

text \<open>
  The effect of a call on the set of open descriptors; \<open>None\<close> when a descriptor is used that is
  not open, or handed out although it is.
\<close>

fun call_effect :: "syscall \<Rightarrow> int set \<Rightarrow> int set option" where
  "call_effect (Sys_open _ _ _ (Inr fd)) F = (if int fd \<in> F then None else Some (insert (int fd) F))"
| "call_effect (Sys_close fd) F = (if fd \<in> F then Some (F - {fd}) else None)"
| "call_effect (Sys_pread fd _ _) F = (if fd \<in> F then Some F else None)"
| "call_effect (Sys_pwrite fd _ _) F = (if fd \<in> F then Some F else None)"
| "call_effect (Sys_fstat fd) F = (if fd \<in> F then Some F else None)"
| "call_effect _ F = Some F"

fun fd_trace :: "syscall list \<Rightarrow> int set \<Rightarrow> int set option" where
  "fd_trace [] F = Some F"
| "fd_trace (c # cs) F = Option.bind (call_effect c F) (fd_trace cs)"

lemma fd_trace_append [simp]: "fd_trace (xs @ ys) F = Option.bind (fd_trace xs F) (fd_trace ys)"
  by (induction xs arbitrary: F) (auto split: Option.bind_split)

text \<open>Slot \<open>i\<close> of the handle table holds a file opened as descriptor \<open>d\<close>.\<close>

definition file_at :: "(handle_id \<rightharpoonup> handle_entry) \<Rightarrow> handle_id \<Rightarrow> int \<Rightarrow> bool" where
  "file_at t i d \<longleftrightarrow> (case t i of Some h \<Rightarrow> \<not> he_is_dir h \<and> he_fd h = d | None \<Rightarrow> False)"

definition table_fds :: "(handle_id \<rightharpoonup> handle_entry) \<Rightarrow> int set" where
  "table_fds t = {d. \<exists>i. file_at t i d}"

definition fds_unique :: "(handle_id \<rightharpoonup> handle_entry) \<Rightarrow> bool" where
  "fds_unique t \<longleftrightarrow> (\<forall>i j d. file_at t i d \<longrightarrow> file_at t j d \<longrightarrow> i = j)"

lemma file_at_upd:
  "file_at (t(i \<mapsto> h)) j d \<longleftrightarrow> (if j = i then \<not> he_is_dir h \<and> he_fd h = d else file_at t j d)"
  "file_at (t(i := None)) j d \<longleftrightarrow> j \<noteq> i \<and> file_at t j d"
  by (simp_all add: file_at_def)

lemma file_at_cases:
  "t i = None \<Longrightarrow> \<not> file_at t i d"
  "t i = Some h \<Longrightarrow> file_at t i d \<longleftrightarrow> \<not> he_is_dir h \<and> he_fd h = d"
  by (simp_all add: file_at_def)

lemma table_fds_upd_dir:
  assumes "he_is_dir h" and "\<And>k. t i = Some k \<Longrightarrow> he_is_dir k"
  shows "table_fds (t(i \<mapsto> h)) = table_fds t" and "fds_unique (t(i \<mapsto> h)) = fds_unique t"
proof -
  have "\<not> file_at t i d" for d using assms(2) by (auto simp: file_at_def split: option.splits)
  then have "file_at (t(i \<mapsto> h)) = file_at t" using assms(1) by (auto simp: fun_eq_iff file_at_upd)
  then show "table_fds (t(i \<mapsto> h)) = table_fds t" and "fds_unique (t(i \<mapsto> h)) = fds_unique t"
    by (simp_all add: table_fds_def fds_unique_def)
qed

lemma table_fds_put:
  assumes "t i = None" and "\<not> he_is_dir h"
  shows "table_fds (t(i \<mapsto> h)) = insert (he_fd h) (table_fds t)"
  using assms file_at_cases(1) [of t i, OF assms(1)] unfolding table_fds_def
  by (auto simp: file_at_upd split: if_splits) metis

lemma fds_unique_put:
  assumes "fds_unique t" and "he_fd h \<notin> table_fds t"
  shows "fds_unique (t(i \<mapsto> h))"
  using assms unfolding fds_unique_def table_fds_def by (auto simp: file_at_upd split: if_splits)

lemma table_fds_remove:
  assumes "t i = Some h" and "fds_unique t"
  shows "table_fds (t(i := None)) = (if he_is_dir h then table_fds t else table_fds t - {he_fd h})"
  using assms(2) file_at_cases(2) [of t i, OF assms(1)] unfolding table_fds_def fds_unique_def
  by (auto simp: file_at_upd) metis+

lemma fds_unique_remove: "fds_unique t \<Longrightarrow> fds_unique (t(i := None))"
  unfolding fds_unique_def by (auto simp: file_at_upd)

lemma table_fds_mem: "t i = Some h \<Longrightarrow> \<not> he_is_dir h \<Longrightarrow> he_fd h \<in> table_fds t"
  unfolding table_fds_def by (auto simp: file_at_def intro: exI [of _ i])

text \<open>
  The kernel's side: \<open>open\<close> hands out a descriptor that is not in use, \<open>close\<close> ends its use, no
  other call changes which descriptors are in use.
\<close>

definition keeps :: "('w \<Rightarrow> int set) \<Rightarrow> ('w \<Rightarrow> 'r \<times> 'w) \<Rightarrow> bool" where
  "keeps fds f \<longleftrightarrow> (\<forall>w. fds (snd (f w)) = fds w)"

definition fd_contract :: "'w posix \<Rightarrow> ('w \<Rightarrow> int set) \<Rightarrow> bool" where
  "fd_contract px fds \<longleftrightarrow>
     (\<forall>p f m w. case px_open px p f m w of
        (Inr fd, w') \<Rightarrow> int fd \<notin> fds w \<and> fds w' = insert (int fd) (fds w)
      | (Inl _, w') \<Rightarrow> fds w' = fds w)
     \<and> (\<forall>fd w. fds (px_close px fd w) = fds w - {fd})
     \<and> (\<forall>p w. fds (px_closedir px p w) = fds w)
     \<and> (\<forall>p. keeps fds (px_lstat px p)) \<and> (\<forall>p. keeps fds (px_stat px p))
     \<and> (\<forall>d. keeps fds (px_fstat px d)) \<and> (\<forall>p. keeps fds (px_opendir px p))
     \<and> (\<forall>d n k. keeps fds (px_pread px d n k)) \<and> (\<forall>d b k. keeps fds (px_pwrite px d b k))
     \<and> (\<forall>p. keeps fds (px_unlink px p)) \<and> (\<forall>p m. keeps fds (px_mkdir px p m))
     \<and> (\<forall>p. keeps fds (px_rmdir px p)) \<and> (\<forall>p q. keeps fds (px_rename px p q))
     \<and> (\<forall>p n. keeps fds (px_readlink px p n)) \<and> (\<forall>p q. keeps fds (px_symlink px p q))"

text \<open>\<open>sftp_handle_alloc\<close> chooses a free slot.\<close>

definition fresh_pick :: "'w srv_env \<Rightarrow> bool" where
  "fresh_pick env \<longleftrightarrow> (\<forall>t i. env_pick env t = Some i \<longrightarrow> t i = None)"

definition srv_assms :: "'w srv_env \<Rightarrow> path \<Rightarrow> ('w \<Rightarrow> int set) \<Rightarrow> bool" where
  "srv_assms env cr fds \<longleftrightarrow>
     stable_root env cr \<and> plain_listings env \<and> fd_contract (env_px env) fds \<and> fresh_pick env"

section \<open>The invariant\<close>

definition entry_ok :: "path \<Rightarrow> handle_entry \<Rightarrow> bool" where
  "entry_ok cr h \<longleftrightarrow>
     under cr (he_path h) \<and> (if he_is_dir h then \<forall>n \<in> set (he_dir h). plain_name n else he_fd h \<ge> 0)"

definition srv_inv :: "'w srv_env \<Rightarrow> path \<Rightarrow> ('w \<Rightarrow> int set) \<Rightarrow> 'w srv \<Rightarrow> bool" where
  "srv_inv env cr fds s \<longleftrightarrow>
     (\<forall>c \<in> set (sv_calls s). good_call (env_opts env) cr c)
     \<and> (\<forall>h \<in> ran (sv_table s). entry_ok cr h)
     \<and> fd_trace (sv_calls s) {} = Some (table_fds (sv_table s))
     \<and> table_fds (sv_table s) \<subseteq> fds (sv_world s)
     \<and> fds_unique (sv_table s)"

named_theorems srv_intros \<open>steps that keep the server invariant\<close>

lemma inv_reply [simp]: "srv_inv env cr fds (reply r s) = srv_inv env cr fds s"
  by (simp add: srv_inv_def reply_def)

lemma sys_table: "sys c f s = (r, s') \<Longrightarrow> sv_table s' = sv_table s"
  by (auto simp: sys_def sys_log_def split: prod.splits)

lemma inv_sys:
  assumes "sys c f s = (r, s')" and "srv_inv env cr fds s" and "good_call (env_opts env) cr c"
    and "call_effect c (table_fds (sv_table s)) = Some (table_fds (sv_table s))" and "keeps fds f"
  shows "srv_inv env cr fds s'"
proof -
  obtain w where w: "f (sv_world s) = (r, w)"
    and s': "s' = s\<lparr>sv_world := w, sv_calls := sv_calls s @ [c]\<rparr>"
    using assms(1) by (auto simp: sys_def sys_log_def split: prod.splits)
  have "fds w = fds (sv_world s)" using assms(5) w by (metis keeps_def snd_conv)
  then show ?thesis using assms(2-4) unfolding srv_inv_def s' by auto
qed

lemma inv_entry: "srv_inv env cr fds s \<Longrightarrow> sv_table s i = Some h \<Longrightarrow> entry_ok cr h"
  by (auto simp: srv_inv_def ran_def)

text \<open>Adding, closing and advancing handles.\<close>

lemma inv_put_dir:
  assumes "srv_inv env cr fds s" and "entry_ok cr h" and "he_is_dir h"
    and "\<And>k. sv_table s i = Some k \<Longrightarrow> he_is_dir k"
  shows "srv_inv env cr fds (s\<lparr>sv_table := (sv_table s)(i \<mapsto> h)\<rparr>)"
  using assms(1,2) table_fds_upd_dir [of h "sv_table s" i, OF assms(3,4)]
  by (auto simp: srv_inv_def ran_def split: if_splits)

lemma inv_close:
  assumes A: "srv_assms env cr fds" and "srv_inv env cr fds s" and "sv_table s i = Some h"
  shows "srv_inv env cr fds (close_handle env h (s\<lparr>sv_table := (sv_table s)(i := None)\<rparr>))"
proof -
  have ok: "entry_ok cr h" and u: "fds_unique (sv_table s)"
    using assms(2,3) by (auto simp: srv_inv_def ran_def)
  have c: "fds (px_close (env_px env) fd w) = fds w - {fd}" "fds (px_closedir (env_px env) p w) = fds w" for fd p w
    using A by (simp_all add: srv_assms_def fd_contract_def)
  have r: "k \<in> ran ((sv_table s)(i := None)) \<Longrightarrow> k \<in> ran (sv_table s)" for k
    by (auto simp: ran_def split: if_splits)
  show ?thesis
    using assms(2) ok table_fds_remove [of "sv_table s" i, OF assms(3) u] fds_unique_remove [OF u, of i]
      table_fds_mem [of "sv_table s" i, OF assms(3)] c r
    by (auto simp: close_handle_def sys_def sys_log_def srv_inv_def entry_ok_def good_call_def
        split: if_splits)
qed

lemma open_contract:
  assumes "srv_assms env cr fds" and "px_open (env_px env) p fl m w = (r, w')"
  shows "case r of Inr fd \<Rightarrow> int fd \<notin> fds w \<and> fds w' = insert (int fd) (fds w) | Inl _ \<Rightarrow> fds w' = fds w"
proof -
  have "fd_contract (env_px env) fds" using assms(1) by (simp add: srv_assms_def)
  note this [unfolded fd_contract_def, THEN conjunct1, rule_format, where p = p and f = fl and m = m and w = w]
  then show ?thesis using assms(2) by (cases r) simp_all
qed

lemma inv_put_file:
  assumes A: "srv_assms env cr fds" and "srv_inv env cr fds s"
    and call: "px_open (env_px env) p fl m (sv_world s) = (Inr fd, w)"
    and good: "good_call (env_opts env) cr (Sys_open p fl m (Inr fd))" and "under cr p"
  shows "srv_inv env cr fds
     (alloc_handle env \<lparr>he_is_dir = False, he_fd = int fd, he_dir = [], he_path = p\<rparr>
        (s\<lparr>sv_world := w, sv_calls := sv_calls s @ [Sys_open p fl m (Inr fd)]\<rparr>))"
    (is "srv_inv env cr fds (alloc_handle env ?h ?s)")
proof -
  have new: "int fd \<notin> fds (sv_world s)" and w: "fds w = insert (int fd) (fds (sv_world s))"
    using open_contract [OF A call] by simp_all
  have inv: "fd_trace (sv_calls s) {} = Some (table_fds (sv_table s))"
    "table_fds (sv_table s) \<subseteq> fds (sv_world s)" "fds_unique (sv_table s)"
    "\<forall>c \<in> set (sv_calls s). good_call (env_opts env) cr c" "\<forall>h \<in> ran (sv_table s). entry_ok cr h"
    using assms(2) by (simp_all add: srv_inv_def)
  have fresh: "int fd \<notin> table_fds (sv_table s)" using new inv(2) by blast
  have clos: "fds (px_close (env_px env) (int fd) w) = fds w - {int fd}"
    using A by (simp add: srv_assms_def fd_contract_def)
  show ?thesis
  proof (cases "env_pick env (sv_table s)")
    case None
    then show ?thesis
      using inv fresh clos w new good
      by (auto simp: alloc_handle_def close_handle_def sys_def sys_log_def srv_inv_def reply_def)
  next
    case (Some i)
    then have "sv_table s i = None" using A by (simp add: srv_assms_def fresh_pick_def)
    then have "table_fds ((sv_table s)(i \<mapsto> ?h)) = insert (int fd) (table_fds (sv_table s))"
      and "fds_unique ((sv_table s)(i \<mapsto> ?h))"
      using table_fds_put [of "sv_table s" i ?h] fds_unique_put [OF inv(3), of ?h i] fresh by simp_all
    moreover have "entry_ok cr ?h" using assms(5) by (simp add: entry_ok_def)
    ultimately show ?thesis
      using Some inv fresh w good
      by (auto simp: alloc_handle_def srv_inv_def reply_def ran_def split: if_splits)
  qed
qed

section \<open>Every request keeps the invariant\<close>

lemma keeps_all:
  assumes "srv_assms env cr fds"
  shows "keeps fds (px_lstat (env_px env) p)" "keeps fds (px_stat (env_px env) p)"
    "keeps fds (px_fstat (env_px env) d)" "keeps fds (px_opendir (env_px env) p)"
    "keeps fds (px_pread (env_px env) d n k)" "keeps fds (px_pwrite (env_px env) d b k)"
    "keeps fds (px_unlink (env_px env) p)" "keeps fds (px_mkdir (env_px env) p m)"
    "keeps fds (px_rmdir (env_px env) p)" "keeps fds (px_rename (env_px env) p q)"
    "keeps fds (px_readlink (env_px env) p n)" "keeps fds (px_symlink (env_px env) p q)"
  using assms by (simp_all add: srv_assms_def fd_contract_def)

lemma resolved_under: "srv_assms env cr fds \<Longrightarrow> resolve_in env p s = Inr q \<Longrightarrow> under cr q"
  by (auto simp: srv_assms_def intro: resolve_under)

lemma inv_calls:
  assumes "srv_assms env cr fds" and "srv_inv env cr fds s"
  shows "sys (Sys_lstat p) (px_lstat (env_px env) p) s = (r1, s') \<Longrightarrow> under cr p \<Longrightarrow> srv_inv env cr fds s'"
    and "sys (Sys_stat p) (px_stat (env_px env) p) s = (r1, s') \<Longrightarrow> under cr p \<Longrightarrow> srv_inv env cr fds s'"
    and "sys (Sys_opendir p) (px_opendir (env_px env) p) s = (r2, s') \<Longrightarrow> under cr p \<Longrightarrow> srv_inv env cr fds s'"
    and "sys (Sys_readlink p) (px_readlink (env_px env) p n) s = (r3, s') \<Longrightarrow> under cr p \<Longrightarrow> srv_inv env cr fds s'"
    and "sys (Sys_fstat d) (px_fstat (env_px env) d) s = (r1, s') \<Longrightarrow> d \<in> table_fds (sv_table s)
         \<Longrightarrow> srv_inv env cr fds s'"
    and "sys (Sys_pread d n k) (px_pread (env_px env) d n k) s = (r3, s') \<Longrightarrow> d \<in> table_fds (sv_table s)
         \<Longrightarrow> srv_inv env cr fds s'"
  by (erule inv_sys; use assms keeps_all [OF assms(1)] in \<open>simp add: good_call_def\<close>)+

lemma inv_modifying_calls:
  assumes "srv_assms env cr fds" and "srv_inv env cr fds s" and "\<not> so_read_only (env_opts env)"
  shows "sys (Sys_unlink p) (px_unlink (env_px env) p) s = (r, s') \<Longrightarrow> under cr p \<Longrightarrow> srv_inv env cr fds s'"
    and "sys (Sys_mkdir p m) (px_mkdir (env_px env) p m) s = (r, s') \<Longrightarrow> under cr p \<Longrightarrow> srv_inv env cr fds s'"
    and "sys (Sys_rmdir p) (px_rmdir (env_px env) p) s = (r, s') \<Longrightarrow> under cr p \<Longrightarrow> srv_inv env cr fds s'"
    and "sys (Sys_rename p q) (px_rename (env_px env) p q) s = (r, s') \<Longrightarrow> under cr p \<Longrightarrow> under cr q
         \<Longrightarrow> srv_inv env cr fds s'"
    and "sys (Sys_symlink t p) (px_symlink (env_px env) t p) s = (r, s') \<Longrightarrow> under cr p \<Longrightarrow> srv_inv env cr fds s'"
    and "sys (Sys_pwrite d b k) (px_pwrite (env_px env) d b k) s = (r', s') \<Longrightarrow> d \<in> table_fds (sv_table s)
         \<Longrightarrow> within_limit (so_max_file_size (env_opts env)) (Sys_pwrite d b k) \<Longrightarrow> srv_inv env cr fds s'"
  by (erule inv_sys; use assms keeps_all [OF assms(1)] in \<open>simp add: good_call_def\<close>)+

lemma inv_realpath: "srv_assms env cr fds \<Longrightarrow> srv_inv env cr fds s \<Longrightarrow> srv_inv env cr fds (serve_realpath env m s)"
  by (auto simp: serve_realpath_def split: sum.splits prod.splits intro: inv_calls resolved_under)

lemma inv_stat: "srv_assms env cr fds \<Longrightarrow> srv_inv env cr fds s \<Longrightarrow> srv_inv env cr fds (serve_stat env m s)"
  by (auto simp: serve_stat_def split: sum.splits prod.splits if_splits intro: inv_calls resolved_under)

lemma inv_fstat: "srv_assms env cr fds \<Longrightarrow> srv_inv env cr fds s \<Longrightarrow> srv_inv env cr fds (serve_fstat env m s)"
  by (auto simp: serve_fstat_def split: option.splits sum.splits prod.splits if_splits
      intro: inv_calls table_fds_mem inv_entry [unfolded entry_ok_def, THEN conjunct1])

lemma inv_read: "srv_assms env cr fds \<Longrightarrow> srv_inv env cr fds s \<Longrightarrow> srv_inv env cr fds (serve_read env m s)"
  by (auto simp: serve_read_def Let_def split: option.splits sum.splits prod.splits if_splits
      intro: inv_calls table_fds_mem)

lemma inv_remove: "srv_assms env cr fds \<Longrightarrow> srv_inv env cr fds s \<Longrightarrow> srv_inv env cr fds (serve_remove env m s)"
  by (auto simp: serve_remove_def split: sum.splits prod.splits intro: inv_modifying_calls resolved_under)

lemma inv_mkdir: "srv_assms env cr fds \<Longrightarrow> srv_inv env cr fds s \<Longrightarrow> srv_inv env cr fds (serve_mkdir env m s)"
  by (auto simp: serve_mkdir_def Let_def split: sum.splits prod.splits intro: inv_modifying_calls resolved_under)

lemma inv_rmdir: "srv_assms env cr fds \<Longrightarrow> srv_inv env cr fds s \<Longrightarrow> srv_inv env cr fds (serve_rmdir env m s)"
  by (auto simp: serve_rmdir_def split: sum.splits prod.splits intro: inv_modifying_calls resolved_under)

lemma inv_rename: "srv_assms env cr fds \<Longrightarrow> srv_inv env cr fds s \<Longrightarrow> srv_inv env cr fds (serve_rename env m s)"
  by (auto simp: serve_rename_def split: sum.splits prod.splits intro: inv_modifying_calls resolved_under)

lemma inv_readlink: "srv_assms env cr fds \<Longrightarrow> srv_inv env cr fds s \<Longrightarrow> srv_inv env cr fds (serve_readlink env m s)"
  by (auto simp: serve_readlink_def split: sum.splits prod.splits intro: inv_calls resolved_under)

lemma inv_symlink: "srv_assms env cr fds \<Longrightarrow> srv_inv env cr fds s \<Longrightarrow> srv_inv env cr fds (serve_symlink env m s)"
  by (auto simp: serve_symlink_def split: sum.splits prod.splits intro: inv_modifying_calls resolved_under)

lemma inv_closing: "srv_assms env cr fds \<Longrightarrow> srv_inv env cr fds s \<Longrightarrow> srv_inv env cr fds (serve_close env m s)"
  by (auto simp: serve_close_def split: option.splits intro: inv_close)

lemma write_within_limit:
  assumes "\<not> (limit \<noteq> 0 \<and> off + of_nat (to_uint32 (length data)) > (limit :: u64))"
  shows "within_limit limit (Sys_pwrite fd (take (to_uint32 (length data)) data) (sint off))"
  using assms limit_no_wrap [where offset = off and len = "to_uint32 (length data)" and limit = limit] to_uint32_le [of "length data"]
  by (cases "sint off < 0") (auto simp: min_def to_uint32_def not_le)

lemma inv_write: "srv_assms env cr fds \<Longrightarrow> srv_inv env cr fds s \<Longrightarrow> srv_inv env cr fds (serve_write env m s)"
  unfolding serve_write_def Let_def
  by (auto split: option.splits sum.splits prod.splits if_splits simp del: within_limit.simps
      intro: inv_modifying_calls(6) table_fds_mem write_within_limit)

lemma inv_alloc_dir:
  assumes "srv_assms env cr fds" and "srv_inv env cr fds s" and "entry_ok cr h" and "he_is_dir h"
  shows "srv_inv env cr fds (alloc_handle env h s)"
proof (cases "env_pick env (sv_table s)")
  case None
  have "fds (px_closedir (env_px env) p w) = fds w" for p w
    using assms(1) by (simp add: srv_assms_def fd_contract_def)
  moreover have "good_call (env_opts env) cr (Sys_closedir (he_path h))"
    using assms(3) by (simp add: good_call_def entry_ok_def)
  ultimately show ?thesis
    using None assms(2,4)
    by (auto simp: alloc_handle_def close_handle_def sys_def sys_log_def srv_inv_def reply_def)
next
  case (Some i)
  then have "sv_table s i = None" using assms(1) by (simp add: srv_assms_def fresh_pick_def)
  then show ?thesis using Some inv_put_dir [OF assms(2-4), of i] by (simp add: alloc_handle_def)
qed

lemma inv_opendir:
  assumes "srv_assms env cr fds" and "srv_inv env cr fds s"
  shows "srv_inv env cr fds (serve_opendir env m s)"
proof -
  have dir: "srv_inv env cr fds (alloc_handle env \<lparr>he_is_dir = True, he_fd = -1, he_dir = ns, he_path = p\<rparr> s')"
    if "sys (Sys_opendir p) (px_opendir (env_px env) p) s = (Inr ns, s')" "under cr p" for ns s' p
  proof (rule inv_alloc_dir [OF assms(1)])
    show "srv_inv env cr fds s'" using that assms by (auto intro: inv_calls)
    have "\<forall>n \<in> set ns. plain_name n"
      using that(1) assms(1)
      by (auto simp: sys_def sys_log_def srv_assms_def plain_listings_def split: prod.splits)
    then show "entry_ok cr \<lparr>he_is_dir = True, he_fd = -1, he_dir = ns, he_path = p\<rparr>"
      using that(2) by (simp add: entry_ok_def)
  qed simp
  show ?thesis
    using assms
    by (auto simp: serve_opendir_def split: sum.splits prod.splits intro: inv_calls dir resolved_under)
qed

lemma inv_open:
  assumes "srv_assms env cr fds" and "srv_inv env cr fds s"
  shows "srv_inv env cr fds (serve_open env m s)"
proof -
  let ?fl = "posix_open_flags (env_k env) (cm_flags m)" and ?mode = "request_mode env 0x1A4 m"
  show ?thesis
  proof (cases "has_bit (cm_flags m) (write_flags (env_k env)) \<and> so_read_only (env_opts env)")
    case True
    then show ?thesis using assms(2) by (simp add: serve_open_def)
  next
    case False
    show ?thesis
    proof (cases "resolve_in env (msg_filename m) s")
      case (Inl e)
      then show ?thesis using False assms(2) by (simp add: serve_open_def)
    next
      case (Inr p)
      have u: "under cr p" using resolved_under [OF assms(1) Inr] .
      have good: "good_call (env_opts env) cr (Sys_open p ?fl ?mode r)" for r
        using False u open_read_only [of "cm_flags m" "env_k env" p ?mode r]
        by (auto simp: good_call_def simp del: modifying.simps)
      obtain r w where call: "px_open (env_px env) p ?fl ?mode (sv_world s) = (r, w)" by fastforce
      show ?thesis
      proof (cases r)
        case (Inl e)
        then have "fds w = fds (sv_world s)"
          using open_contract [OF assms(1) call] by simp
        then show ?thesis
          using False Inr Inl call good assms(2)
          by (simp add: serve_open_def sys_log_def Let_def srv_inv_def reply_def)
      next
        case (Inr fd)
        then show ?thesis
          using False \<open>resolve_in env (msg_filename m) s = Inr p\<close> call
            inv_put_file [OF assms, of p ?fl ?mode fd w] good u assms(2)
          by (simp add: serve_open_def sys_log_def Let_def)
      qed
    qed
  qed
qed

text \<open>The listing loop.\<close>

lemma child_under:
  assumes "srv_assms env cr fds" and "under cr dir" and "plain_name n"
  shows "under cr (path_append dir n)"
  using assms prefix_child [of "path_components cr" dir n]
  by (simp add: under_def plain_name_def srv_assms_def stable_root_def)

lemma readdir_batch_inv:
  assumes "srv_assms env cr fds" and "srv_inv env cr fds s" and "under cr dir"
    and "\<forall>n \<in> set names. plain_name n" and "readdir_batch env dir k names s = (es, rest, s')"
  shows "srv_inv env cr fds s' \<and> sv_table s' = sv_table s \<and> (\<forall>n \<in> set rest. plain_name n)"
  using assms(2,4,5)
proof (induction names arbitrary: k s es)
  case (Cons n ns)
  obtain r s1 where call: "sys (Sys_lstat (path_append dir n)) (px_lstat (env_px env) (path_append dir n)) s = (r, s1)"
    by fastforce
  have s1: "srv_inv env cr fds s1" "sv_table s1 = sv_table s"
    using inv_calls(1) [OF assms(1) Cons.prems(1) call] child_under [OF assms(1,3)] Cons.prems(2)
      sys_table [OF call] by auto
  show ?case
    using Cons.IH [OF s1(1)] Cons.prems(2,3) call s1
    by (auto simp: Let_def split: sum.splits if_splits prod.splits)
qed auto

lemma inv_readdir:
  assumes "srv_assms env cr fds" and "srv_inv env cr fds s"
  shows "srv_inv env cr fds (serve_readdir env m s)"
proof (cases "sv_table s (cm_handle m)")
  case None
  then show ?thesis using assms(2) by (simp add: serve_readdir_def)
next
  case (Some h)
  obtain es rest s' where batch: "readdir_batch env (he_path h) 0 (he_dir h) s = (es, rest, s')"
    by (metis prod.exhaust)
  show ?thesis
  proof (cases "he_is_dir h")
    case True
    have ok: "entry_ok cr h" using inv_entry [OF assms(2) Some] .
    then have b: "srv_inv env cr fds s'" "sv_table s' = sv_table s" "\<forall>n \<in> set rest. plain_name n"
      using readdir_batch_inv [OF assms _ _ batch] True by (auto simp: entry_ok_def)
    have "srv_inv env cr fds (s'\<lparr>sv_table := (sv_table s')(cm_handle m \<mapsto> h\<lparr>he_dir := rest\<rparr>)\<rparr>)"
      by (rule inv_put_dir [OF b(1)]) (use True ok b Some in \<open>auto simp: entry_ok_def\<close>)
    then show ?thesis
      using Some True assms(2) batch by (simp add: serve_readdir_def)
  qed (use Some assms(2) in \<open>simp add: serve_readdir_def\<close>)
qed

lemmas inv_requests =
  inv_realpath inv_stat inv_fstat inv_opendir inv_readdir inv_open inv_read inv_write inv_closing
  inv_remove inv_mkdir inv_rmdir inv_rename inv_readlink inv_symlink

lemma inv_message:
  "srv_assms env cr fds \<Longrightarrow> srv_inv env cr fds s \<Longrightarrow> srv_inv env cr fds (serve_message env m s)"
  by (cases "cm_type m") (simp_all add: serve_message_def inv_requests)

lemma inv_serve:
  assumes "srv_assms env cr fds" and "try_serve env created initialised msgs (fresh_srv w) = (r, s)"
  shows "srv_inv env cr fds s"
proof -
  have start: "srv_inv env cr fds (fresh_srv w)"
    by (simp add: srv_inv_def fresh_srv_def table_fds_def fds_unique_def file_at_def)
  have "srv_inv env cr fds (fold (serve_message env) msgs t)" if "srv_inv env cr fds t" for t
    using that by (induction msgs arbitrary: t) (auto intro: inv_message [OF assms(1)])
  then show ?thesis using assms(2) start by (auto simp: try_serve_def split: if_splits)
qed

section \<open>A small file system\<close>

text \<open>A file system for the witnesses: descriptors are numbered upwards.\<close>

type_synonym demo_world = "nat \<times> int set"

definition demo_stat :: stat where
  "demo_stat = \<lparr>st_size = 5, st_uid = 0, st_gid = 0, st_mode = 0x1A4, st_atime = 0, st_mtime = 0\<rparr>"

definition demo_posix :: "demo_world posix" where
  "demo_posix =
     \<lparr>weakly_canonical = \<lambda>p _. Inr (if p = ''/srv/../etc'' then ''/etc'' else p),
      mode_type = \<lambda>_. FT_regular, strerror = \<lambda>_. ''error'',
      px_lstat = \<lambda>_ w. (Inr demo_stat, w), px_stat = \<lambda>_ w. (Inr demo_stat, w),
      px_fstat = \<lambda>_ w. (Inr demo_stat, w),
      px_opendir = \<lambda>_ w. (Inr [''.'', ''..'', ''a''], w), px_closedir = \<lambda>_ w. w,
      px_open = \<lambda>_ _ _ w. (Inr (fst w), (Suc (fst w), insert (int (fst w)) (snd w))),
      px_close = \<lambda>d w. (fst w, snd w - {d}),
      px_pread = \<lambda>_ _ _ w. (Inr [104, 105], w), px_pwrite = \<lambda>_ d _ w. (Inr (length d), w),
      px_unlink = \<lambda>_ w. (Inr (), w), px_mkdir = \<lambda>_ _ w. (Inr (), w), px_rmdir = \<lambda>_ w. (Inr (), w),
      px_rename = \<lambda>_ _ w. (Inr (), w), px_readlink = \<lambda>_ _ w. (Inl (Errno 22), w),
      px_symlink = \<lambda>_ _ w. (Inr (), w)\<rparr>"

definition demo_consts :: sftp_consts where
  "demo_consts = \<lparr>FXF_READ = 1, FXF_WRITE = 2, FXF_APPEND = 4, FXF_CREAT = 8, FXF_TRUNC = 16,
     FXF_EXCL = 32, ATTR_SIZE = 1, ATTR_UIDGID = 2, ATTR_PERMISSIONS = 4, ATTR_ACMODTIME = 8\<rparr>"

definition demo_pick :: "(handle_id \<rightharpoonup> handle_entry) \<Rightarrow> handle_id option" where
  "demo_pick t = find (\<lambda>i. t i = None) [0, 1, 2, 3]"

definition demo_env :: "bool \<Rightarrow> demo_world srv_env" where
  "demo_env ro = \<lparr>env_px = demo_posix, env_k = demo_consts,
     env_opts = \<lparr>so_root = ''/srv'', so_read_only = ro, so_follow_symlinks_out_of_root = False,
                 so_max_file_size = 100\<rparr>,
     env_pick = demo_pick\<rparr>"

definition demo_fds :: "demo_world \<Rightarrow> int set" where
  "demo_fds w = {d \<in> snd w. d < int (fst w)}"

definition demo_msg :: "fxp_type \<Rightarrow> string \<Rightarrow> u32 \<Rightarrow> bytes \<Rightarrow> client_msg" where
  "demo_msg t f fl d = \<lparr>cm_type = t, cm_filename = Some f, cm_handle = 0, cm_flags = fl, cm_attr = None,
     cm_offset = 0, cm_len = 10, cm_data = Some d\<rparr>"

definition demo_msgs :: "client_msg list" where
  "demo_msgs = [demo_msg SSH_FXP_OPEN ''/a'' 2 [], demo_msg SSH_FXP_WRITE [] 0 [104, 105],
     demo_msg SSH_FXP_OPEN ''../etc'' 1 [], demo_msg SSH_FXP_CLOSE [] 0 []]"

lemma demo_posix_sel [simp]:
  "weakly_canonical demo_posix p w = Inr (if p = ''/srv/../etc'' then ''/etc'' else p)"
  "px_lstat demo_posix p w = (Inr demo_stat, w)" "px_stat demo_posix p w = (Inr demo_stat, w)"
  "px_fstat demo_posix d w = (Inr demo_stat, w)"
  "px_opendir demo_posix p w = (Inr [''.'', ''..'', ''a''], w)" "px_closedir demo_posix p w = w"
  "px_open demo_posix p f m w = (Inr (fst w), (Suc (fst w), insert (int (fst w)) (snd w)))"
  "px_close demo_posix d w = (fst w, snd w - {d})"
  "px_pread demo_posix d n k w = (Inr [104, 105], w)" "px_pwrite demo_posix d b k w = (Inr (length b), w)"
  "px_unlink demo_posix p w = (Inr (), w)" "px_mkdir demo_posix p m w = (Inr (), w)"
  "px_rmdir demo_posix p w = (Inr (), w)" "px_rename demo_posix p q w = (Inr (), w)"
  "px_readlink demo_posix p n w = (Inl (Errno 22), w)" "px_symlink demo_posix p q w = (Inr (), w)"
  by (simp_all add: demo_posix_def)

lemma demo_env_sel [simp]:
  "env_px (demo_env ro) = demo_posix" "env_k (demo_env ro) = demo_consts"
  "env_pick (demo_env ro) = demo_pick" "so_root (env_opts (demo_env ro)) = ''/srv''"
  "so_read_only (env_opts (demo_env ro)) = ro" "so_max_file_size (env_opts (demo_env ro)) = 100"
  by (simp_all add: demo_env_def)

lemma demo_msg_sel [simp]:
  "cm_type (demo_msg t f fl d) = t" "cm_handle (demo_msg t f fl d) = 0" "cm_flags (demo_msg t f fl d) = fl"
  "cm_attr (demo_msg t f fl d) = None" "cm_offset (demo_msg t f fl d) = 0"
  "msg_data (demo_msg t f fl d) = d" "msg_filename (demo_msg t f fl d) = c_str f"
  by (simp_all add: demo_msg_def msg_data_def msg_filename_def)

lemma demo_assms: "srv_assms (demo_env ro) ''/srv'' demo_fds"
proof -
  have "stable_root (demo_env ro) ''/srv''"
    by (simp add: stable_root_def path_components_def)
  moreover have "plain_listings (demo_env ro)"
    by (simp add: plain_listings_def plain_name_def)
  moreover have "fd_contract demo_posix demo_fds"
    by (auto simp: fd_contract_def demo_fds_def keeps_def)
  moreover have "fresh_pick (demo_env ro)"
    by (auto simp: fresh_pick_def demo_pick_def find_Some_iff)
  ultimately show ?thesis by (simp add: srv_assms_def)
qed

lemma demo_resolve [simp]:
  "resolve_in (demo_env ro) (c_str ''/a'') s = Inr ''/srv/a''"
  "resolve_in (demo_env ro) (c_str ''../etc'') s = Inl (resolve_error ''path escapes the sftp root'')"
  by (simp_all add: resolve_in_def resolve_sftp_path_def c_str_def path_append_def is_absolute_def
      path_components_def)

definition demo_run :: "bool \<Rightarrow> unit result \<times> demo_world srv" where
  "demo_run ro = try_serve (demo_env ro) True True demo_msgs (fresh_srv (0, {}))"

definition demo_open :: "u32 \<Rightarrow> nat \<Rightarrow> syscall" where
  "demo_open fl fd = Sys_open ''/srv/a'' (posix_open_flags demo_consts fl) 0x1A4 (Inr fd)"

lemma demo_calls:
  "sv_calls (snd (demo_run False)) = [demo_open 2 0, Sys_pwrite 0 [104, 105] 0, Sys_close 0]"
  by (simp add: demo_run_def try_serve_def demo_msgs_def serve_message_def serve_open_def
      serve_write_def serve_close_def demo_open_def fresh_srv_def sys_def sys_log_def alloc_handle_def
      close_handle_def reply_def request_mode_def demo_pick_def Let_def)

section \<open>Properties\<close>



text \<open>
  C2: A read-only server makes no call that can modify the file system: no write, removal,
  renaming, directory or link creation, and no open with write access, creation, truncation or
  appending.
\<close>
theorem sftp_read_only:
  assumes "srv_assms env cr fds" and "try_serve env created initialised msgs (fresh_srv w) = (r, s)"
    and "so_read_only (env_opts env)"
  shows "\<forall>c \<in> set (sv_calls s). \<not> modifying c"
  using inv_serve [OF assms(1,2)] assms(3) by (simp add: srv_inv_def good_call_def)

lemma demo_calls_ro:
  "demo_run True = (Inr (), snd (demo_run True))" "sv_calls (snd (demo_run True)) = []"
  by (simp_all add: demo_run_def try_serve_def demo_msgs_def serve_message_def serve_open_def
      serve_write_def serve_close_def fresh_srv_def reply_def has_bit_def write_flags_def demo_consts_def)

theorem sftp_read_only_witness:
  "srv_assms (demo_env True) ''/srv'' demo_fds \<and> so_read_only (env_opts (demo_env True))
   \<and> list_all (Not \<circ> modifying) (sv_calls (snd (demo_run True)))"
  using sftp_read_only [OF demo_assms, of True True True demo_msgs "(0, {})" "fst (demo_run True)" "snd (demo_run True)"]
    demo_assms [of True] by (simp add: demo_run_def [symmetric] list_all_iff)



text \<open>
  C14: The server never uses or closes a descriptor that is not open, so none twice; when the
  client is gone, the descriptors still open are exactly those of the handles the client did not
  close: the loop ends without closing them.
\<close>
theorem sftp_descriptors:
  assumes "srv_assms env cr fds" and "try_serve env created initialised msgs (fresh_srv w) = (r, s)"
  shows "fd_trace (sv_calls s) {} = Some (table_fds (sv_table s))"
  using inv_serve [OF assms] by (simp add: srv_inv_def)

theorem sftp_descriptors_witness:
  "srv_assms (demo_env False) ''/srv'' demo_fds
   \<and> fd_trace [demo_open 2 0, Sys_pwrite 0 [104, 105] 0, Sys_close 0] {}
       = Some (table_fds (sv_table (snd (demo_run False))))"
  using sftp_descriptors [OF demo_assms, of False True True demo_msgs "(0, {})" "fst (demo_run False)" "snd (demo_run False)"]
    demo_assms [of False] by (simp add: demo_run_def [symmetric] demo_calls)

section \<open>Replies\<close>

lemma sys_replies: "sys c f s = (r, s') \<Longrightarrow> sv_replies s' = sv_replies s"
  by (auto simp: sys_def sys_log_def split: prod.splits)

lemma close_handle_replies [simp]: "sv_replies (close_handle env h s) = sv_replies s"
  by (simp add: close_handle_def sys_def sys_log_def)

lemma replies_reply [simp]: "sv_replies (reply r s) = sv_replies s @ [r]"
  by (simp add: reply_def)

lemma alloc_replies [simp]: "length (sv_replies (alloc_handle env h s)) = Suc (length (sv_replies s))"
  by (simp add: alloc_handle_def split: option.splits)

lemma readdir_batch_replies: "readdir_batch env dir k ns s = (es, rest, s') \<Longrightarrow> sv_replies s' = sv_replies s"
  by (induction env dir k ns s arbitrary: es rule: readdir_batch.induct)
    (auto simp: Let_def dest!: sys_replies split: prod.splits sum.splits if_splits)

lemmas request_defs =
  serve_realpath_def serve_stat_def serve_fstat_def serve_opendir_def serve_open_def
  serve_read_def serve_write_def serve_close_def serve_remove_def serve_mkdir_def serve_rmdir_def
  serve_rename_def serve_readlink_def serve_symlink_def

lemma one_reply: "length (sv_replies (serve_message env m s)) = Suc (length (sv_replies s))"
proof (cases "cm_type m = SSH_FXP_READDIR")
  case True
  then show ?thesis
    by (auto simp: serve_message_def serve_readdir_def dest: readdir_batch_replies
        split: option.splits prod.splits)
next
  case False
  then show ?thesis
    by (cases "cm_type m"; simp add: serve_message_def request_defs Let_def;
        auto dest!: sys_replies simp: sys_log_def Let_def split: option.splits prod.splits sum.splits if_splits)
qed


section \<open>Listings\<close>

fun reply_names :: "sftp_reply \<Rightarrow> string list" where
  "reply_names (Reply_names es) = map fst es"
| "reply_names _ = []"

text \<open>A directory whose entries answer \<open>lstat\<close> always the same way.\<close>

definition stable_lstat :: "'w srv_env \<Rightarrow> (path \<Rightarrow> errno + stat) \<Rightarrow> bool" where
  "stable_lstat env st \<longleftrightarrow> (\<forall>p w. px_lstat (env_px env) p w = (st p, w))"

lemma readdir_batch_names:
  assumes "stable_lstat env st" and "readdir_batch env dir k ns s = (es, rest, s')"
  shows "\<exists>c. ns = c @ rest \<and> map fst es = filter (\<lambda>n. \<not> isl (st (path_append dir n))) c \<and> (ns \<noteq> [] \<longrightarrow> c \<noteq> [])"
  using assms(2)
proof (induction ns arbitrary: k s es)
  case (Cons n ns)
  let ?p = "path_append dir n"
  let ?s = "s\<lparr>sv_calls := sv_calls s @ [Sys_lstat ?p]\<rparr>"
  have call: "sys (Sys_lstat ?p) (px_lstat (env_px env) ?p) s = (st ?p, ?s)"
    using assms(1) by (simp add: stable_lstat_def sys_def sys_log_def)
  show ?case
  proof (cases "st ?p")
    case (Inl e)
    then obtain c where "ns = c @ rest" "map fst es = filter (\<lambda>n. \<not> isl (st (path_append dir n))) c"
      using Cons.IH [of k ?s es] Cons.prems call by auto
    then show ?thesis using Inl by (intro exI [of _ "n # c"]) simp
  next
    case (Inr x)
    show ?thesis
    proof (cases "Suc k \<ge> 64")
      case True
      then show ?thesis using Cons.prems call Inr by (intro exI [of _ "[n]"]) (auto simp: Let_def)
    next
      case False
      then obtain es' where b: "readdir_batch env dir (Suc k) ns ?s = (es', rest, s')"
        and es: "map fst es = n # map fst es'"
        using Cons.prems call Inr by (auto simp: Let_def split: prod.splits)
      obtain c where "ns = c @ rest" "map fst es' = filter (\<lambda>n. \<not> isl (st (path_append dir n))) c"
        using Cons.IH [OF b] by auto
      then show ?thesis using Inr es by (intro exI [of _ "n # c"]) simp
    qed
  qed
qed simp

lemma readdir_step:
  assumes "stable_lstat env st" and "sv_table s i = Some h" and "he_is_dir h"
    and "cm_type m = SSH_FXP_READDIR" and "cm_handle m = i"
  obtains r c rest s' where "serve_message env m s = s'" "sv_replies s' = sv_replies s @ [r]"
    "sv_table s' i = Some (h\<lparr>he_dir := rest\<rparr>)" "he_dir h = c @ rest" "he_dir h \<noteq> [] \<Longrightarrow> c \<noteq> []"
    "reply_names r = filter (\<lambda>n. \<not> isl (st (path_append (he_path h) n))) c"
    "he_dir h = [] \<Longrightarrow> r = Reply_status SSH_FX_EOF []"
proof (cases "he_dir h = []")
  case True
  then have "serve_message env m s = reply (Reply_status SSH_FX_EOF []) s"
    using assms(2-5) by (simp add: serve_message_def serve_readdir_def)
  moreover have "h\<lparr>he_dir := []\<rparr> = h" using True by (metis handle_entry.surjective handle_entry.update_convs(3))
  ultimately show thesis
    using True assms(2) by (intro that [of _ _ "[]" "[]"]) (auto simp: reply_def)
next
  case False
  obtain es rest s1 where b: "readdir_batch env (he_path h) 0 (he_dir h) s = (es, rest, s1)"
    by (metis prod.exhaust)
  obtain c where c: "he_dir h = c @ rest" "c \<noteq> []"
    "map fst es = filter (\<lambda>n. \<not> isl (st (path_append (he_path h) n))) c"
    using readdir_batch_names [OF assms(1) b] False by auto
  have "serve_message env m s
      = reply (Reply_names es) (s1\<lparr>sv_table := (sv_table s1)(i \<mapsto> h\<lparr>he_dir := rest\<rparr>)\<rparr>)"
    using assms(2-5) b False by (simp add: serve_message_def serve_readdir_def)
  then show thesis
    using c readdir_batch_replies [OF b] False
    by (intro that [of _ "Reply_names es" rest c]) (auto simp: reply_def)
qed

lemma listing_complete_aux:
  assumes "stable_lstat env st" and "cm_type m = SSH_FXP_READDIR" and "cm_handle m = i"
    and "sv_table s i = Some h" and "he_is_dir h" and "length (he_dir h) \<le> n"
  shows "\<exists>rs. sv_replies (fold (serve_message env) (replicate (Suc n) m) s) = sv_replies s @ rs
     \<and> concat (map reply_names rs) = filter (\<lambda>n. \<not> isl (st (path_append (he_path h) n))) (he_dir h)
     \<and> rs \<noteq> [] \<and> last rs = Reply_status SSH_FX_EOF []"
  using assms(4-6)
proof (induction n arbitrary: s h)
  case 0
  obtain r c rest s' where st: "serve_message env m s = s'" "sv_replies s' = sv_replies s @ [r]"
    "reply_names r = filter (\<lambda>n. \<not> isl (st (path_append (he_path h) n))) c" "he_dir h = c @ rest"
    "he_dir h = [] \<Longrightarrow> r = Reply_status SSH_FX_EOF []"
    by (rule readdir_step [OF assms(1) 0(1,2) assms(2,3)]) blast
  then show ?case using 0(3) by (intro exI [of _ "[r]"]) auto
next
  case (Suc n)
  obtain r c rest s' where st: "serve_message env m s = s'" "sv_replies s' = sv_replies s @ [r]"
    "sv_table s' i = Some (h\<lparr>he_dir := rest\<rparr>)" "he_dir h = c @ rest" "he_dir h \<noteq> [] \<Longrightarrow> c \<noteq> []"
    "reply_names r = filter (\<lambda>n. \<not> isl (st (path_append (he_path h) n))) c"
    by (rule readdir_step [OF assms(1) Suc.prems(1,2) assms(2,3)]) blast
  have "length rest \<le> n" using Suc.prems(3) st(4,5) by (cases "he_dir h = []"; cases c) auto
  then obtain rs where rs: "sv_replies (fold (serve_message env) (replicate (Suc n) m) s') = sv_replies s' @ rs"
    "concat (map reply_names rs) = filter (\<lambda>n. \<not> isl (st (path_append (he_path h) n))) rest"
    "rs \<noteq> []" "last rs = Reply_status SSH_FX_EOF []"
    using Suc.IH [OF st(3)] Suc.prems(2) by auto
  show ?case
    using st rs by (intro exI [of _ "r # rs"]) (simp add: replicate_Suc [of "Suc n"] del: replicate_Suc)
qed


definition demo_dir :: "demo_world srv" where
  "demo_dir = (fresh_srv (0, {}))\<lparr>sv_table :=
     [0 \<mapsto> \<lparr>he_is_dir = True, he_fd = -1, he_dir = [''.'', ''..'', ''a''], he_path = ''/srv''\<rparr>]\<rparr>"


section \<open>Departures from the documentation\<close>

text \<open>
  A \<open>READLINK\<close> request never reports the target of a link: the path is canonicalised first,
  so the call is made on a path that is not a symbolic link, and the answer is always that there
  is no such file.
\<close>
theorem sftp_readlink_never_answers:
  assumes "\<And>p q v n. weakly_canonical (env_px env) p v = Inr q \<Longrightarrow> isl (fst (px_readlink (env_px env) q n v))"
    and "cm_type m = SSH_FXP_READLINK"
  shows "sv_replies (serve_message env m s) = sv_replies s @ [Reply_status SSH_FX_NO_SUCH_FILE []]"
proof (cases "resolve_in env (msg_filename m) s")
  case (Inl e)
  then show ?thesis using assms(2) by (simp add: serve_message_def serve_readlink_def)
next
  case (Inr p)
  then have "isl (fst (px_readlink (env_px env) p 4095 (sv_world s)))"
    by (intro assms(1)) (auto simp: resolve_in_def resolve_sftp_path_def Let_def split: sum.splits if_splits)
  then show ?thesis
    using assms(2) Inr
    by (cases "px_readlink (env_px env) p 4095 (sv_world s)")
      (auto simp: serve_message_def serve_readlink_def sys_def sys_log_def isl_def reply_def)
qed

theorem sftp_readlink_never_answers_witness:
  "sv_replies (serve_message (demo_env True) (demo_msg SSH_FXP_READLINK ''/a'' 0 []) demo_dir)
     = [Reply_status SSH_FX_NO_SUCH_FILE []]"
  using sftp_readlink_never_answers [of "demo_env True" "demo_msg SSH_FXP_READLINK ''/a'' 0 []" demo_dir]
  by (simp add: demo_dir_def fresh_srv_def)

lemma sys_calls: "sys c f s = (r, s') \<Longrightarrow> sv_calls s' = sv_calls s @ [c]"
  by (auto simp: sys_def sys_log_def split: prod.splits)

lemma readdir_batch_calls:
  "readdir_batch env dir k ns s = (es, rest, s') \<Longrightarrow> set (sv_calls s) \<subseteq> set (sv_calls s')"
proof (induction ns arbitrary: k s es)
  case (Cons n ns)
  obtain r s1 where call: "sys (Sys_lstat (path_append dir n)) (px_lstat (env_px env) (path_append dir n)) s = (r, s1)"
    by fastforce
  have "set (sv_calls s) \<subseteq> set (sv_calls s1)" using sys_calls [OF call] by auto
  then show ?case
    using Cons.IH [of _ s1] Cons.prems call
    by (auto simp: Let_def split: sum.splits if_splits prod.splits)
qed simp

text \<open>
  Reading the root directory makes the server examine the parent of the root: the entry
  \<open>..\<close> of the listing is examined like every other, and the client receives the attributes of a
  directory outside the tree it is confined to.
\<close>
theorem sftp_listing_examines_parent:
  assumes "stable_lstat env st" and "st (path_append dir ''..'') = Inr x" and "st (path_append dir ''.'') = Inr y"
    and "readdir_batch env dir 0 (''.'' # ''..'' # names) s = (es, rest, s')"
  shows "Sys_lstat (path_append dir ''..'') \<in> set (sv_calls s')
     \<and> (''..'', format_longname env ''..'' x, fill_attributes env x) \<in> set es"
proof -
  let ?s = "s\<lparr>sv_calls := sv_calls s @ [Sys_lstat (path_append dir ''.'')]\<rparr>"
  let ?t = "s\<lparr>sv_calls := sv_calls s @ [Sys_lstat (path_append dir ''.''), Sys_lstat (path_append dir ''..'')]\<rparr>"
  have lstat: "px_lstat (env_px env) p w = (st p, w)" for p w using assms(1) by (simp add: stable_lstat_def)
  obtain es' where b: "readdir_batch env dir 2 names ?t = (es', rest, s')"
    and es: "(''..'', format_longname env ''..'' x, fill_attributes env x) \<in> set es"
    using assms(2-4) by (auto simp: sys_def sys_log_def lstat numeral_2_eq_2 split: prod.splits)
  then show ?thesis using readdir_batch_calls [OF b] by auto
qed

theorem sftp_listing_examines_parent_witness:
  "Sys_lstat ''/srv/..'' \<in> set (sv_calls (snd (snd
      (readdir_batch (demo_env True) ''/srv'' 0 [''.'', ''..'', ''a''] demo_dir))))"
proof -
  have st: "stable_lstat (demo_env True) (\<lambda>_. Inr demo_stat)" by (simp add: stable_lstat_def)
  obtain es rest s' where b: "readdir_batch (demo_env True) ''/srv'' 0 [''.'', ''..'', ''a''] demo_dir = (es, rest, s')"
    by (metis prod.exhaust)
  then show ?thesis
    using sftp_listing_examines_parent [OF st, where dir = "''/srv''" and x = demo_stat and y = demo_stat
        and names = "[''a'']" and s = demo_dir and es = es and rest = rest and s' = s']
    by (simp add: path_append_def is_absolute_def)
qed

end
