(* ===== verification/Keys.thy ===== *)
theory Keys
  imports Native Handles
begin

text \<open>
  \<open>key.hpp\<close>, \<open>detail/key.ipp\<close>: public and private keys, key types and fingerprints. The theorems:
  the two key-type maps are inverse to each other, the constant-time comparison of fingerprints
  decides equality, a line written by \<open>to_authorized_keys_line\<close> is read back as the same key, the
  passphrase trampoline never overflows libssh's buffer, and native keys are freed exactly once.
\<close>

section \<open>Key types\<close>

datatype key_type =
    KT_unknown | KT_dss | KT_rsa | KT_rsa1 | KT_ecdsa_p256 | KT_ecdsa_p384 | KT_ecdsa_p521
  | KT_ed25519 | KT_dss_cert01 | KT_rsa_cert01 | KT_ecdsa_p256_cert01 | KT_ecdsa_p384_cert01
  | KT_ecdsa_p521_cert01 | KT_ed25519_cert01 | KT_sk_ecdsa | KT_sk_ed25519
  | KT_sk_ecdsa_cert01 | KT_sk_ed25519_cert01

text \<open>\<open>ssh_keytypes_e\<close>; \<open>SSH_KEYTYPE_other\<close> stands for the values the sources do not name.\<close>

datatype native_key_type =
    SSH_KEYTYPE_UNKNOWN | SSH_KEYTYPE_DSS | SSH_KEYTYPE_RSA | SSH_KEYTYPE_RSA1
  | SSH_KEYTYPE_ECDSA_P256 | SSH_KEYTYPE_ECDSA_P384 | SSH_KEYTYPE_ECDSA_P521 | SSH_KEYTYPE_ED25519
  | SSH_KEYTYPE_DSS_CERT01 | SSH_KEYTYPE_RSA_CERT01 | SSH_KEYTYPE_ECDSA_P256_CERT01
  | SSH_KEYTYPE_ECDSA_P384_CERT01 | SSH_KEYTYPE_ECDSA_P521_CERT01 | SSH_KEYTYPE_ED25519_CERT01
  | SSH_KEYTYPE_SK_ECDSA | SSH_KEYTYPE_SK_ED25519 | SSH_KEYTYPE_SK_ECDSA_CERT01
  | SSH_KEYTYPE_SK_ED25519_CERT01 | SSH_KEYTYPE_other int

fun key_type_from_native :: "native_key_type \<Rightarrow> key_type" where
  "key_type_from_native SSH_KEYTYPE_DSS = KT_dss"
| "key_type_from_native SSH_KEYTYPE_RSA = KT_rsa"
| "key_type_from_native SSH_KEYTYPE_RSA1 = KT_rsa1"
| "key_type_from_native SSH_KEYTYPE_ECDSA_P256 = KT_ecdsa_p256"
| "key_type_from_native SSH_KEYTYPE_ECDSA_P384 = KT_ecdsa_p384"
| "key_type_from_native SSH_KEYTYPE_ECDSA_P521 = KT_ecdsa_p521"
| "key_type_from_native SSH_KEYTYPE_ED25519 = KT_ed25519"
| "key_type_from_native SSH_KEYTYPE_DSS_CERT01 = KT_dss_cert01"
| "key_type_from_native SSH_KEYTYPE_RSA_CERT01 = KT_rsa_cert01"
| "key_type_from_native SSH_KEYTYPE_ECDSA_P256_CERT01 = KT_ecdsa_p256_cert01"
| "key_type_from_native SSH_KEYTYPE_ECDSA_P384_CERT01 = KT_ecdsa_p384_cert01"
| "key_type_from_native SSH_KEYTYPE_ECDSA_P521_CERT01 = KT_ecdsa_p521_cert01"
| "key_type_from_native SSH_KEYTYPE_ED25519_CERT01 = KT_ed25519_cert01"
| "key_type_from_native SSH_KEYTYPE_SK_ECDSA = KT_sk_ecdsa"
| "key_type_from_native SSH_KEYTYPE_SK_ED25519 = KT_sk_ed25519"
| "key_type_from_native SSH_KEYTYPE_SK_ECDSA_CERT01 = KT_sk_ecdsa_cert01"
| "key_type_from_native SSH_KEYTYPE_SK_ED25519_CERT01 = KT_sk_ed25519_cert01"
| "key_type_from_native _ = KT_unknown"

fun key_type_to_native :: "key_type \<Rightarrow> native_key_type" where
  "key_type_to_native KT_dss = SSH_KEYTYPE_DSS"
| "key_type_to_native KT_rsa = SSH_KEYTYPE_RSA"
| "key_type_to_native KT_rsa1 = SSH_KEYTYPE_RSA1"
| "key_type_to_native KT_ecdsa_p256 = SSH_KEYTYPE_ECDSA_P256"
| "key_type_to_native KT_ecdsa_p384 = SSH_KEYTYPE_ECDSA_P384"
| "key_type_to_native KT_ecdsa_p521 = SSH_KEYTYPE_ECDSA_P521"
| "key_type_to_native KT_ed25519 = SSH_KEYTYPE_ED25519"
| "key_type_to_native KT_dss_cert01 = SSH_KEYTYPE_DSS_CERT01"
| "key_type_to_native KT_rsa_cert01 = SSH_KEYTYPE_RSA_CERT01"
| "key_type_to_native KT_ecdsa_p256_cert01 = SSH_KEYTYPE_ECDSA_P256_CERT01"
| "key_type_to_native KT_ecdsa_p384_cert01 = SSH_KEYTYPE_ECDSA_P384_CERT01"
| "key_type_to_native KT_ecdsa_p521_cert01 = SSH_KEYTYPE_ECDSA_P521_CERT01"
| "key_type_to_native KT_ed25519_cert01 = SSH_KEYTYPE_ED25519_CERT01"
| "key_type_to_native KT_sk_ecdsa = SSH_KEYTYPE_SK_ECDSA"
| "key_type_to_native KT_sk_ed25519 = SSH_KEYTYPE_SK_ED25519"
| "key_type_to_native KT_sk_ecdsa_cert01 = SSH_KEYTYPE_SK_ECDSA_CERT01"
| "key_type_to_native KT_sk_ed25519_cert01 = SSH_KEYTYPE_SK_ED25519_CERT01"
| "key_type_to_native KT_unknown = SSH_KEYTYPE_UNKNOWN"

section \<open>Fingerprints\<close>

datatype hash_type = Hash_md5 | Hash_sha1 | Hash_sha256

record fingerprint =
  fp_type :: hash_type
  fp_bytes :: bytes

text \<open>The constant-time comparison: all differences are accumulated before the test.\<close>

fun fp_diff :: "byte \<Rightarrow> bytes \<Rightarrow> bytes \<Rightarrow> byte" where
  "fp_diff d (x # xs) (y # ys) = fp_diff (or d (xor x y)) xs ys"
| "fp_diff d _ _ = d"

definition fingerprint_eq :: "fingerprint \<Rightarrow> fingerprint \<Rightarrow> bool" where
  "fingerprint_eq a b =
     (if fp_type a \<noteq> fp_type b \<or> length (fp_bytes a) \<noteq> length (fp_bytes b) then False
      else fp_diff 0 (fp_bytes a) (fp_bytes b) = 0)"

section \<open>Keys\<close>

record key =
  k_native :: "handle option"
  k_owning :: bool

definition no_key :: key where
  "no_key = \<lparr>k_native = None, k_owning = True\<rparr>"

definition owned_key :: "handle \<Rightarrow> key" where
  "owned_key h = \<lparr>k_native = Some h, k_owning = True\<rparr>"

record passphrase_request =
  pr_key_path :: string
  pr_comment :: string
  pr_attempt :: int

text \<open>
  The functions of libssh. An import yields a return code and the key it created, if any;
  \<open>ssh_get_hexa\<close> may fail. The private-key import is given the trampoline when the caller passed
  a callback.
\<close>

record 'w key_api = "'w err_api" +
  ssh_key_free :: "handle \<Rightarrow> 'w \<Rightarrow> 'w"
  ssh_pki_import_privkey_file ::
    "string \<Rightarrow> (nat \<Rightarrow> 'w \<Rightarrow> bytes option \<times> 'w) option \<Rightarrow> 'w \<Rightarrow> ssh_rc \<times> handle option \<times> 'w"
  ssh_pki_import_pubkey_file :: "string \<Rightarrow> 'w \<Rightarrow> ssh_rc \<times> handle option \<times> 'w"
  ssh_pki_import_pubkey_base64 :: "string \<Rightarrow> native_key_type \<Rightarrow> 'w \<Rightarrow> ssh_rc \<times> handle option \<times> 'w"
  ssh_key_type_from_name :: "string \<Rightarrow> native_key_type"
  ssh_pki_export_pubkey_base64 :: "handle \<Rightarrow> 'w \<Rightarrow> ssh_rc \<times> string option"
  ssh_pki_export_pubkey_file :: "handle \<Rightarrow> string \<Rightarrow> 'w \<Rightarrow> ssh_rc \<times> 'w"
  ssh_pki_export_privkey_to_pubkey :: "handle \<Rightarrow> 'w \<Rightarrow> ssh_rc \<times> handle option \<times> 'w"
  ssh_key_type :: "handle \<Rightarrow> 'w \<Rightarrow> native_key_type"
  ssh_key_type_to_char :: "native_key_type \<Rightarrow> string option"
  ssh_key_is_private :: "handle \<Rightarrow> 'w \<Rightarrow> bool"
  ssh_key_is_public :: "handle \<Rightarrow> 'w \<Rightarrow> bool"
  ssh_get_publickey_hash :: "handle \<Rightarrow> hash_type \<Rightarrow> 'w \<Rightarrow> ssh_rc \<times> bytes option"
  ssh_key_cmp :: "handle \<Rightarrow> handle \<Rightarrow> bool \<Rightarrow> 'w \<Rightarrow> bool"
  ssh_pki_generate :: "native_key_type \<Rightarrow> int \<Rightarrow> 'w \<Rightarrow> ssh_rc \<times> handle option \<times> 'w"
  ssh_get_hexa :: "bytes \<Rightarrow> string option"

type_synonym 'w passphrase_callback = "passphrase_request \<Rightarrow> 'w \<Rightarrow> string result \<times> 'w"

text \<open>
  \<open>passphrase_trampoline\<close>, called by libssh with a buffer of \<open>len\<close> bytes: what it stores at the
  start of the buffer, or \<open>None\<close> for the result \<open>-1\<close>.
\<close>

definition passphrase_trampoline ::
    "'w passphrase_callback \<Rightarrow> string \<Rightarrow> nat \<Rightarrow> 'w \<Rightarrow> bytes option \<times> 'w" where
  "passphrase_trampoline cb path len w =
     (case cb \<lparr>pr_key_path = path, pr_comment = [], pr_attempt = 0\<rparr> w of
        (Inl _, w') \<Rightarrow> (None, w')
      | (Inr v, w') \<Rightarrow>
          if length v \<ge> len then (None, w') else (Some (bytes_of_string v @ [0]), w'))"

definition key_release :: "('w, 'z) key_api_scheme \<Rightarrow> key \<Rightarrow> 'w \<Rightarrow> 'w" where
  "key_release api k w =
     (case k_native k of Some h \<Rightarrow> if k_owning k then ssh_key_free api h w else w | None \<Rightarrow> w)"

definition key_dtor :: "('w, 'z) key_api_scheme \<Rightarrow> key \<Rightarrow> 'w \<Rightarrow> key \<times> 'w" where
  "key_dtor api k w = (k\<lparr>k_native := None\<rparr>, key_release api k w)"

definition key_move_ctor :: "key \<Rightarrow> key \<times> key" where
  "key_move_ctor other =
     (\<lparr>k_native = k_native other, k_owning = k_owning other\<rparr>, other\<lparr>k_native := None\<rparr>)"

definition key_move_assign :: "('w, 'z) key_api_scheme \<Rightarrow> key \<Rightarrow> key \<Rightarrow> 'w \<Rightarrow> key \<times> key \<times> 'w" where
  "key_move_assign api this other w =
     (this\<lparr>k_native := k_native other, k_owning := k_owning other\<rparr>, other\<lparr>k_native := None\<rparr>,
      key_release api this w)"

definition key_from_native :: "handle option \<Rightarrow> bool \<Rightarrow> key" where
  "key_from_native n owning = \<lparr>k_native = n, k_owning = owning\<rparr>"

text \<open>The end of every import: an owning key, or an error.\<close>

definition imported ::
    "errc \<Rightarrow> string \<Rightarrow> string \<Rightarrow> ssh_rc \<times> handle option \<times> 'w \<Rightarrow> key result \<times> 'w" where
  "imported e msg op r =
     (case r of
        (SSH_OK, Some h, w) \<Rightarrow> (Inr (owned_key h), w)
      | (_, _, w) \<Rightarrow> (Inl (mk_error e msg op), w))"

definition from_private_file ::
    "('w, 'z) key_api_scheme \<Rightarrow> string \<Rightarrow> 'w passphrase_callback option \<Rightarrow> 'w \<Rightarrow> key result \<times> 'w" where
  "from_private_file api path cb w =
     imported errc_key_import_failed (''failed to import private key from '' @ path)
       ''ssh_pki_import_privkey_file''
       (ssh_pki_import_privkey_file api (c_str path)
          (map_option (\<lambda>f. passphrase_trampoline f path) cb) w)"

definition from_public_file :: "('w, 'z) key_api_scheme \<Rightarrow> string \<Rightarrow> 'w \<Rightarrow> key result \<times> 'w" where
  "from_public_file api path w =
     imported errc_key_import_failed (''failed to import public key from '' @ path)
       ''ssh_pki_import_pubkey_file'' (ssh_pki_import_pubkey_file api (c_str path) w)"

definition from_public_base64 ::
    "('w, 'z) key_api_scheme \<Rightarrow> string \<Rightarrow> key_type \<Rightarrow> 'w \<Rightarrow> key result \<times> 'w" where
  "from_public_base64 api b64 t w =
     imported errc_key_import_failed [] ''ssh_pki_import_pubkey_base64''
       (ssh_pki_import_pubkey_base64 api (c_str b64) (key_type_to_native t) w)"

text \<open>\<open>iss >> token\<close>: skip white space, take what follows up to the next white space.\<close>

definition next_token :: "string \<Rightarrow> string \<times> string" where
  "next_token s =
     (let t = dropWhile is_space s in (takeWhile (\<lambda>c. \<not> is_space c) t, dropWhile (\<lambda>c. \<not> is_space c) t))"

definition from_authorized_keys_line ::
    "('w, 'z) key_api_scheme \<Rightarrow> string \<Rightarrow> 'w \<Rightarrow> key result \<times> 'w" where
  "from_authorized_keys_line api line w =
     (case next_token line of
        (type_name, rest) \<Rightarrow>
          (case next_token rest of
             (b64, _) \<Rightarrow>
               let native_type = ssh_key_type_from_name api (c_str type_name) in
               if native_type = SSH_KEYTYPE_UNKNOWN
               then (Inl (mk_error errc_unsupported_key_type
                           (''unrecognized key type '' @ [CHR 0x27] @ type_name @ [CHR 0x27])
                           ''ssh_key_type_from_name''), w)
               else from_public_base64 api b64 (key_type_from_native native_type) w))"

definition to_public_base64 :: "('w, 'z) key_api_scheme \<Rightarrow> key \<Rightarrow> 'w \<Rightarrow> string result" where
  "to_public_base64 api k w =
     (case k_native k of
        None \<Rightarrow> Inl (invalid_handle_error ''Key::to_public_base64'')
      | Some h \<Rightarrow>
          (case ssh_pki_export_pubkey_base64 api h w of
             (SSH_OK, Some b64) \<Rightarrow> Inr b64
           | _ \<Rightarrow> Inl (mk_error errc_key_export_failed [] ''ssh_pki_export_pubkey_base64'')))"

definition type_name :: "('w, 'z) key_api_scheme \<Rightarrow> key \<Rightarrow> 'w \<Rightarrow> string" where
  "type_name api k w =
     (case k_native k of
        None \<Rightarrow> ''unknown''
      | Some h \<Rightarrow>
          (case ssh_key_type_to_char api (ssh_key_type api h w) of Some n \<Rightarrow> n | None \<Rightarrow> ''unknown''))"

definition to_authorized_keys_line ::
    "('w, 'z) key_api_scheme \<Rightarrow> key \<Rightarrow> string \<Rightarrow> 'w \<Rightarrow> string result" where
  "to_authorized_keys_line api k comment w =
     (case to_public_base64 api k w of
        Inl e \<Rightarrow> Inl e
      | Inr b64 \<Rightarrow>
          Inr (type_name api k w @ '' '' @ b64 @ (if comment \<noteq> [] then '' '' @ comment else [])))"

definition write_public_file :: "('w, 'z) key_api_scheme \<Rightarrow> key \<Rightarrow> string \<Rightarrow> 'w \<Rightarrow> unit result \<times> 'w" where
  "write_public_file api k path w =
     (case k_native k of
        None \<Rightarrow> (Inl (invalid_handle_error ''Key::write_public_file''), w)
      | Some h \<Rightarrow>
          (case ssh_pki_export_pubkey_file api h (c_str path) w of
             (rc, w') \<Rightarrow>
               if rc \<noteq> SSH_OK
               then (Inl (mk_error errc_key_export_failed [] ''ssh_pki_export_pubkey_file''), w')
               else (Inr (), w')))"

definition public_part :: "('w, 'z) key_api_scheme \<Rightarrow> key \<Rightarrow> 'w \<Rightarrow> key result \<times> 'w" where
  "public_part api k w =
     (case k_native k of
        None \<Rightarrow> (Inl (invalid_handle_error ''Key::public_part''), w)
      | Some h \<Rightarrow>
          imported errc_key_export_failed [] ''ssh_pki_export_privkey_to_pubkey''
            (ssh_pki_export_privkey_to_pubkey api h w))"

definition key_type_of :: "('w, 'z) key_api_scheme \<Rightarrow> key \<Rightarrow> 'w \<Rightarrow> key_type" where
  "key_type_of api k w =
     (case k_native k of
        None \<Rightarrow> KT_unknown | Some h \<Rightarrow> key_type_from_native (ssh_key_type api h w))"

definition is_private :: "('w, 'z) key_api_scheme \<Rightarrow> key \<Rightarrow> 'w \<Rightarrow> bool" where
  "is_private api k w = (case k_native k of None \<Rightarrow> False | Some h \<Rightarrow> ssh_key_is_private api h w)"

definition is_public :: "('w, 'z) key_api_scheme \<Rightarrow> key \<Rightarrow> 'w \<Rightarrow> bool" where
  "is_public api k w = (case k_native k of None \<Rightarrow> False | Some h \<Rightarrow> ssh_key_is_public api h w)"

definition key_fingerprint ::
    "('w, 'z) key_api_scheme \<Rightarrow> key \<Rightarrow> hash_type \<Rightarrow> 'w \<Rightarrow> fingerprint result" where
  "key_fingerprint api k t w =
     (case k_native k of
        None \<Rightarrow> Inl (invalid_handle_error ''Key::fingerprint'')
      | Some h \<Rightarrow>
          (case ssh_get_publickey_hash api h t w of
             (SSH_OK, Some hash) \<Rightarrow> Inr \<lparr>fp_type = t, fp_bytes = hash\<rparr>
           | _ \<Rightarrow> Inl (mk_error errc_key_export_failed [] ''ssh_get_publickey_hash'')))"

definition key_equals :: "('w, 'z) key_api_scheme \<Rightarrow> key \<Rightarrow> key \<Rightarrow> bool \<Rightarrow> 'w \<Rightarrow> bool" where
  "key_equals api k other compare_private w =
     (case (k_native k, k_native other) of
        (Some a, Some b) \<Rightarrow> ssh_key_cmp api a b compare_private w
      | (a, b) \<Rightarrow> a = b)"

definition default_bits :: "key_type \<Rightarrow> int \<Rightarrow> int" where
  "default_bits t bits =
     (if bits = 0 then
        (case t of
           KT_rsa \<Rightarrow> 3072 | KT_ecdsa_p256 \<Rightarrow> 256 | KT_ecdsa_p384 \<Rightarrow> 384 | KT_ecdsa_p521 \<Rightarrow> 521 | _ \<Rightarrow> 0)
      else bits)"

definition generate :: "('w, 'z) key_api_scheme \<Rightarrow> key_type \<Rightarrow> int \<Rightarrow> 'w \<Rightarrow> key result \<times> 'w" where
  "generate api t bits w =
     imported errc_key_generation_failed [] ''ssh_pki_generate''
       (ssh_pki_generate api (key_type_to_native t) (default_bits t bits) w)"

definition fp_prefix :: "hash_type \<Rightarrow> string" where
  "fp_prefix t = (case t of Hash_sha256 \<Rightarrow> ''SHA256:'' | Hash_sha1 \<Rightarrow> ''SHA1:'' | Hash_md5 \<Rightarrow> ''MD5:'')"

definition fingerprint_to_string :: "('w, 'z) key_api_scheme \<Rightarrow> fingerprint \<Rightarrow> string" where
  "fingerprint_to_string api f =
     (if fp_bytes f = [] then []
      else case ssh_get_hexa api (fp_bytes f) of
             Some hex \<Rightarrow> fp_prefix (fp_type f) @ hex | None \<Rightarrow> [])"

definition fingerprint_to_hex :: "('w, 'z) key_api_scheme \<Rightarrow> fingerprint \<Rightarrow> string" where
  "fingerprint_to_hex api f =
     (if fp_bytes f = [] then []
      else case ssh_get_hexa api (fp_bytes f) of Some hex \<Rightarrow> hex | None \<Rightarrow> [])"

section \<open>Theorems\<close>

text \<open>
  The two conversions between the wrapper's key types and libssh's are inverse to each other
  on every type the wrapper knows; only values it has no name for become \<open>unknown\<close>.
\<close>
theorem key_types_round_trip:
  "key_type_from_native (key_type_to_native t) = t
   \<and> (key_type_to_native (key_type_from_native n) = n
        \<longleftrightarrow> (\<forall>i. n \<noteq> SSH_KEYTYPE_other i))"
  by (cases t; cases n) simp_all

lemma fp_diff_zero: "length xs = length ys \<Longrightarrow> fp_diff d xs ys = 0 \<longleftrightarrow> d = 0 \<and> xs = ys"
  by (induction d xs ys rule: fp_diff.induct)
    (auto simp: word_or_eq_0_iff_local word_xor_eq_0_iff_local)

lemma fingerprint_eq_iff: "fingerprint_eq a b \<longleftrightarrow> a = b"
  by (auto simp: fingerprint_eq_def fp_diff_zero intro: fingerprint.equality)

text \<open>
  The comparison of fingerprints that accumulates all byte differences before it tests them
  decides equality of hash type and bytes.
\<close>
theorem fingerprint_eq_decides: "fingerprint_eq a b \<longleftrightarrow> a = b"
  by (rule fingerprint_eq_iff)

text \<open>Text without white space, as key type names and base64 are.\<close>

definition is_word :: "string \<Rightarrow> bool" where
  "is_word s \<longleftrightarrow> s \<noteq> [] \<and> (\<forall>c \<in> set s. \<not> is_space c)"

lemma next_token_word:
  assumes "is_word t" and "rest = [] \<or> is_space (hd rest)"
  shows "next_token (t @ rest) = (t, rest)" "is_space c \<Longrightarrow> next_token (c # t @ rest) = (t, rest)"
proof -
  have all: "\<forall>c \<in> set t. \<not> is_space c" and ne: "t \<noteq> []" using assms(1) by (auto simp: is_word_def)
  have d: "dropWhile is_space (t @ rest) = t @ rest" using all ne by (cases t) auto
  have tk: "takeWhile (\<lambda>c. \<not> is_space c) (t @ rest) = t" "dropWhile (\<lambda>c. \<not> is_space c) (t @ rest) = rest"
    using all assms(2) by (cases rest; simp add: takeWhile_append dropWhile_append)+
  show "next_token (t @ rest) = (t, rest)" using d tk by (simp add: next_token_def)
  show "next_token (c # t @ rest) = (t, rest)" if "is_space c" using d tk that by (simp add: next_token_def)
qed

text \<open>
  Reading back a line written by \<open>to_authorized_keys_line\<close> imports exactly the exported
  base64 text with the key's own type, whatever comment was appended, provided libssh's type
  names are words that name their type and its base64 is a word.
\<close>
theorem authorized_keys_round_trip:
  assumes "to_authorized_keys_line api k comment w = Inr line" and "k_native k = Some h"
    and "ssh_key_type_to_char api (ssh_key_type api h w) = Some n"
    and "ssh_key_type_from_name api n = ssh_key_type api h w" and "ssh_key_type api h w \<noteq> SSH_KEYTYPE_UNKNOWN"
    and "ssh_pki_export_pubkey_base64 api h w = (SSH_OK, Some b64)" and "is_word n" and "is_word b64"
    and "CHR 0x00 \<notin> set n"
  shows "from_authorized_keys_line api line w' = from_public_base64 api b64 (key_type_of api k w) w'"
proof -
  let ?tail = "if comment \<noteq> [] then '' '' @ comment else []"
  have line: "line = n @ CHR '' '' # b64 @ ?tail"
    using assms(1-3,6) by (simp add: to_authorized_keys_line_def to_public_base64_def type_name_def)
  have sp: "is_space (CHR '' '')" by (simp add: is_space_def)
  have "next_token line = (n, CHR '' '' # b64 @ ?tail)"
    unfolding line by (rule next_token_word(1)) (use assms(7) sp in simp_all)
  moreover have "next_token (CHR '' '' # b64 @ ?tail) = (b64, ?tail)"
    by (rule next_token_word(2)) (use assms(8) sp in simp_all)
  ultimately show ?thesis
    using assms(2,4,5) by (simp add: from_authorized_keys_line_def c_str_id [OF assms(9)] key_type_of_def)
qed

definition example_key_api :: "'w key_api" where
  "example_key_api =
     \<lparr>ssh_get_error = \<lambda>_ _. [], ssh_get_error_code = \<lambda>_ _. SSH_NO_ERROR, sftp_get_error = \<lambda>_ _. 0,
      ssh_key_free = \<lambda>_ w. w, ssh_pki_import_privkey_file = \<lambda>_ _ w. (SSH_OK, Some 3, w),
      ssh_pki_import_pubkey_file = \<lambda>_ w. (SSH_OK, Some 3, w),
      ssh_pki_import_pubkey_base64 = \<lambda>b t w. (if b = ''QUJD'' \<and> t = SSH_KEYTYPE_ED25519 then (SSH_OK, Some 9, w)
                                             else (SSH_ERROR, None, w)),
      ssh_key_type_from_name = \<lambda>n. (if n = ''ssh-ed25519'' then SSH_KEYTYPE_ED25519 else SSH_KEYTYPE_UNKNOWN),
      ssh_pki_export_pubkey_base64 = \<lambda>_ _. (SSH_OK, Some ''QUJD''),
      ssh_pki_export_pubkey_file = \<lambda>_ _ w. (SSH_OK, w),
      ssh_pki_export_privkey_to_pubkey = \<lambda>_ w. (SSH_OK, Some 4, w),
      ssh_key_type = \<lambda>_ _. SSH_KEYTYPE_ED25519, ssh_key_type_to_char = \<lambda>_. Some ''ssh-ed25519'',
      ssh_key_is_private = \<lambda>_ _. False, ssh_key_is_public = \<lambda>_ _. True,
      ssh_get_publickey_hash = \<lambda>_ _ _. (SSH_OK, Some [1, 2, 3]), ssh_key_cmp = \<lambda>a b _ _. a = b,
      ssh_pki_generate = \<lambda>_ _ w. (SSH_OK, Some 5, w), ssh_get_hexa = \<lambda>_. Some ''01:02:03''\<rparr>"

theorem authorized_keys_round_trip_witness:
  "to_authorized_keys_line example_key_api (owned_key 7) ''me here'' () = Inr ''ssh-ed25519 QUJD me here''
   \<and> from_authorized_keys_line example_key_api ''ssh-ed25519 QUJD me here'' ()
       = from_public_base64 example_key_api ''QUJD'' KT_ed25519 ()
   \<and> fst (from_public_base64 example_key_api ''QUJD'' KT_ed25519 ()) = Inr (owned_key 9)"
proof -
  have line: "to_authorized_keys_line example_key_api (owned_key 7) ''me here'' () = Inr ''ssh-ed25519 QUJD me here''"
    by (simp add: to_authorized_keys_line_def to_public_base64_def type_name_def owned_key_def example_key_api_def)
  have "key_type_of example_key_api (owned_key 7) () = KT_ed25519"
    by (simp add: key_type_of_def owned_key_def example_key_api_def)
  moreover have "fst (from_public_base64 example_key_api ''QUJD'' KT_ed25519 ()) = Inr (owned_key 9)"
    by (simp add: from_public_base64_def imported_def c_str_def example_key_api_def)
  ultimately show ?thesis
    using line authorized_keys_round_trip [OF line, of 7 "''ssh-ed25519''" "''QUJD''" "()"]
    by (simp add: owned_key_def example_key_api_def is_word_def is_space_def)
qed

text \<open>
  The passphrase trampoline stores at most as many bytes as libssh's buffer holds, and what it
  stores is the secret followed by a terminating NUL.
\<close>
theorem passphrase_fits:
  assumes "passphrase_trampoline cb path len w = (Some stored, w')"
  shows "length stored \<le> len \<and> (\<exists>v. fst (cb \<lparr>pr_key_path = path, pr_comment = [], pr_attempt = 0\<rparr> w) = Inr v
           \<and> stored = bytes_of_string v @ [0])"
  using assms
  by (auto simp: passphrase_trampoline_def bytes_of_string_def split: prod.splits sum.splits if_splits)

theorem passphrase_fits_witness:
  "passphrase_trampoline (\<lambda>_ w. (Inr ''ab'', w)) ''id'' 3 () = (Some [97, 98, 0], ())
   \<and> length [97, 98, 0 :: byte] \<le> 3"
proof -
  have e: "passphrase_trampoline (\<lambda>_ w. (Inr ''ab'', w)) ''id'' 3 () = (Some [97, 98, 0], ())"
    by (simp add: passphrase_trampoline_def bytes_of_string_def)
  show ?thesis using passphrase_fits [OF e] e by simp
qed

section \<open>Ownership\<close>

definition log_key_frees :: "handle list key_api \<Rightarrow> handle list key_api" where
  "log_key_frees api = api\<lparr>ssh_key_free := \<lambda>h w. w @ [h]\<rparr>"

definition key_raii :: "handle list key_api \<Rightarrow> key raii_ops" where
  "key_raii api =
     \<lparr>r_native = k_native, r_owns = k_owning, r_adopt = owned_key,
      r_destroy = \<lambda>x. snd (key_dtor (log_key_frees api) x []),
      r_move = key_move_ctor,
      r_assign = \<lambda>x y. case key_move_assign (log_key_frees api) x y [] of (x', y', fs) \<Rightarrow> (fs, x', y')\<rparr>"

interpretation key: move_only "key_raii api" for api
  by unfold_locales
    (auto simp: key_raii_def held_def owned_key_def key_dtor_def key_release_def
      key_move_ctor_def key_move_assign_def log_key_frees_def split: option.splits if_splits)

end
