(* ===== verification/Host_Keys.thy ===== *)
theory Host_Keys
  imports Keys
begin

text \<open>
  \<open>host_key_verifier.hpp\<close>, \<open>known_hosts.hpp\<close> and their implementations: the policies a session
  consults about a server's host key, and writing \<open>known_hosts\<close> lines. The locale
  \<open>safe_policy\<close> is what a policy must promise so that a changed key can never be accepted; the
  strict and the trust-on-first-use policies are instances. The session theory uses it.
\<close>

section \<open>Policies\<close>

datatype known_hosts_status = KH_ok | KH_changed | KH_other_type | KH_not_found | KH_unknown | KH_error

record hk_context =
  hc_host :: string
  hc_port :: u16
  hc_status :: known_hosts_status
  hc_key :: key
  hc_sha256 :: fingerprint

datatype decision = Accept | Accept_and_remember | Reject

definition strict_verify :: "hk_context \<Rightarrow> decision" where
  "strict_verify ctx = (if hc_status ctx = KH_ok then Accept else Reject)"

definition tofu_verify :: "hk_context \<Rightarrow> decision" where
  "tofu_verify ctx =
     (case hc_status ctx of
        KH_ok \<Rightarrow> Accept
      | KH_not_found \<Rightarrow> Accept_and_remember
      | KH_unknown \<Rightarrow> Accept_and_remember
      | _ \<Rightarrow> Reject)"

definition accept_any_verify :: "hk_context \<Rightarrow> decision" where
  "accept_any_verify ctx = Accept"

definition pinned_verify :: "fingerprint list \<Rightarrow> hk_context \<Rightarrow> decision" where
  "pinned_verify pins ctx =
     (if list_ex (\<lambda>f. fingerprint_eq f (hc_sha256 ctx)) pins then Accept else Reject)"

definition callback_verify :: "(hk_context \<Rightarrow> decision) \<Rightarrow> hk_context \<Rightarrow> decision" where
  "callback_verify cb ctx = cb ctx"

text \<open>A key that contradicts \<open>known_hosts\<close>, or a \<open>known_hosts\<close> that could not be consulted.\<close>

definition suspicious :: "known_hosts_status \<Rightarrow> bool" where
  "suspicious st \<longleftrightarrow> st = KH_changed \<or> st = KH_other_type \<or> st = KH_error"

locale safe_policy =
  fixes verify :: "hk_context \<Rightarrow> decision"
  assumes rejects_suspicious: "suspicious (hc_status ctx) \<Longrightarrow> verify ctx = Reject"
    and accepts_known: "hc_status ctx = KH_ok \<Longrightarrow> verify ctx = Accept"
    and remembers_only_new: "verify ctx = Accept_and_remember \<Longrightarrow> hc_status ctx \<in> {KH_not_found, KH_unknown}"
begin

lemma accept_only_known: "verify ctx = Accept \<Longrightarrow> hc_status ctx \<in> {KH_ok, KH_not_found, KH_unknown}"
  using rejects_suspicious [of ctx] by (cases "hc_status ctx") (auto simp: suspicious_def)

end

interpretation strict: safe_policy strict_verify
  by unfold_locales (auto simp: strict_verify_def suspicious_def split: if_splits)

interpretation tofu: safe_policy tofu_verify
  by unfold_locales (auto simp: tofu_verify_def suspicious_def split: known_hosts_status.splits)

lemma pinned_accepts: "pinned_verify pins ctx = Accept \<longleftrightarrow> hc_sha256 ctx \<in> set pins"
  by (auto simp: pinned_verify_def list_ex_iff fingerprint_eq_iff)

section \<open>known_hosts files\<close>

record known_hosts =
  kh_user_file :: string
  kh_global_file :: string

definition kh_default_files :: "string option \<Rightarrow> known_hosts" where
  "kh_default_files home =
     \<lparr>kh_user_file = (case home of Some h \<Rightarrow> h | None \<Rightarrow> ''~'') @ ''/.ssh/known_hosts'',
      kh_global_file = ''/etc/ssh/ssh_known_hosts''\<rparr>"

definition hosts_field :: "string \<Rightarrow> u16 \<Rightarrow> string" where
  "hosts_field host port =
     (if port \<noteq> 22 then ''['' @ host @ '']:'' @ nat_to_string (unat port) else host)"

definition known_hosts_line :: "string \<Rightarrow> u16 \<Rightarrow> string \<Rightarrow> string \<Rightarrow> string \<Rightarrow> string" where
  "known_hosts_line host port tname b64 comment =
     hosts_field host port @ '' '' @ tname @ '' '' @ b64
     @ (if comment \<noteq> [] then '' '' @ comment else []) @ [CHR 0x0A]"

text \<open>
  \<open>std::ofstream(file, app)\<close> and the text written to it: whether the file could be opened, and the
  world after the text was appended. The state of the stream after writing is not looked at.
\<close>

definition kh_add ::
    "('w, 'z) key_api_scheme \<Rightarrow> (string \<Rightarrow> string \<Rightarrow> 'w \<Rightarrow> bool \<times> 'w) \<Rightarrow> known_hosts
       \<Rightarrow> string \<Rightarrow> u16 \<Rightarrow> key \<Rightarrow> string \<Rightarrow> 'w \<Rightarrow> unit result \<times> 'w" where
  "kh_add api append_file kh host port k comment w =
     (case to_public_base64 api k w of
        Inl e \<Rightarrow> (Inl e, w)
      | Inr b64 \<Rightarrow>
          (case append_file (kh_user_file kh) (known_hosts_line host port (type_name api k w) b64 comment) w of
             (opened, w') \<Rightarrow>
               if \<not> opened
               then (Inl (mk_error errc_known_hosts_io_error (''failed to open '' @ kh_user_file kh)
                           ''KnownHosts::add''), w')
               else (Inr (), w')))"

record known_hosts_entry =
  ke_hosts_field :: string
  ke_marker :: string
  ke_key_type :: key_type
  ke_key :: key
  ke_comment :: string
  ke_file :: string
  ke_line :: int

record raw_entry =
  raw_hostname :: "string option"
  raw_comment :: "string option"
  raw_publickey :: "handle option"

definition opt_string :: "string option \<Rightarrow> string" where
  "opt_string s = (case s of Some t \<Rightarrow> t | None \<Rightarrow> [])"

text \<open>\<open>parse_line\<close> over the result of \<open>ssh_known_hosts_parse_line\<close>.\<close>

definition kh_parse_line ::
    "('w, 'z) key_api_scheme \<Rightarrow> (string \<Rightarrow> string \<Rightarrow> 'w \<Rightarrow> ssh_rc \<times> raw_entry option)
       \<Rightarrow> string \<Rightarrow> string \<Rightarrow> 'w \<Rightarrow> known_hosts_entry result" where
  "kh_parse_line api parse host line w =
     (case parse (c_str host) (c_str line) w of
        (SSH_OK, Some raw) \<Rightarrow>
          let k = (case raw_publickey raw of Some h \<Rightarrow> owned_key h | None \<Rightarrow> no_key) in
          Inr \<lparr>ke_hosts_field = opt_string (raw_hostname raw), ke_marker = [],
               ke_key_type = (case raw_publickey raw of Some h \<Rightarrow> key_type_of api k w | None \<Rightarrow> KT_unknown),
               ke_key = k, ke_comment = opt_string (raw_comment raw), ke_file = [], ke_line = 0\<rparr>
      | _ \<Rightarrow> Inl (mk_error errc_known_hosts_io_error [] ''ssh_known_hosts_parse_line''))"

lemma split_first:
  assumes "a @ c # b = a' @ c # b'" and "c \<notin> set a" and "c \<notin> set a'"
  shows "a = a' \<and> b = b'"
  using assms by (induction a arbitrary: a') (auto simp: Cons_eq_append_conv)

lemma hosts_field_inj:
  assumes "hosts_field h p = hosts_field h' p'"
    and "CHR '']'' \<notin> set h" "CHR '']'' \<notin> set h'" "CHR ''['' \<notin> set h" "CHR ''['' \<notin> set h'"
  shows "h = h' \<and> p = p'"
proof -
  have ne: "''['' @ x @ y \<noteq> z" if "CHR ''['' \<notin> set z" for x y z :: string using that by auto
  show ?thesis
  proof (cases "p = 22 \<or> p' = 22")
    case True
    then show ?thesis
      using assms ne [of h'] ne [of h] unfolding hosts_field_def by (auto split: if_splits)
  next
    case False
    then have "h @ CHR '']'' # '':'' @ nat_to_string (unat p) = h' @ CHR '']'' # '':'' @ nat_to_string (unat p')"
      using assms(1) by (simp add: hosts_field_def)
    then have "h = h' \<and> '':'' @ nat_to_string (unat p) = '':'' @ nat_to_string (unat p')"
      by (rule split_first) (use assms in auto)
    then have "h = h'" and "unat p = unat p'"
      using nat_to_string_inj [of "unat p" "unat p'"] by auto
    then show ?thesis by (simp add: word_unat_eq_iff)
  qed
qed

lemma hosts_field_word: "is_word host \<Longrightarrow> is_word (hosts_field host port)"
  using is_space_not_digit [OF nat_to_string_digits, of _ "unat port"]
  by (auto simp: is_word_def hosts_field_def is_space_def [of "CHR ''[''"] is_space_def [of "CHR '']''"]
      is_space_def [of "CHR '':''"])

text \<open>
  The line \<open>KnownHosts::add\<close> appends has the host field, the key type and the base64 key as its
  first three words, and the host field determines host and port: no two endpoints share one.
\<close>
theorem known_hosts_line_fields:
  assumes "is_word host" and "is_word tname" and "is_word b64"
    and "CHR '']'' \<notin> set host" and "CHR ''['' \<notin> set host"
  shows "(\<exists>r1 r2 r3. next_token (known_hosts_line host port tname b64 comment) = (hosts_field host port, r1)
            \<and> next_token r1 = (tname, r2) \<and> next_token r2 = (b64, r3))
     \<and> (\<forall>host' port'. CHR '']'' \<notin> set host' \<longrightarrow> CHR ''['' \<notin> set host' \<longrightarrow>
           hosts_field host' port' = hosts_field host port \<longrightarrow> host' = host \<and> port' = port)"
proof -
  let ?t = "(if comment \<noteq> [] then '' '' @ comment else []) @ [CHR 0x0A]"
  have sp: "is_space (CHR '' '')" "is_space (CHR 0x0A)" by (simp_all add: is_space_def)
  have "next_token (known_hosts_line host port tname b64 comment)
      = (hosts_field host port, CHR '' '' # tname @ CHR '' '' # b64 @ ?t)"
    unfolding known_hosts_line_def
    using next_token_word(1) [OF hosts_field_word [OF assms(1)], of "CHR '' '' # tname @ CHR '' '' # b64 @ ?t" port] sp
    by simp
  moreover have "next_token (CHR '' '' # tname @ CHR '' '' # b64 @ ?t) = (tname, CHR '' '' # b64 @ ?t)"
    by (rule next_token_word(2)) (use assms(2) sp in simp_all)
  moreover have "next_token (CHR '' '' # b64 @ ?t) = (b64, ?t)"
    by (rule next_token_word(2)) (use assms(3) sp in simp_all)
  ultimately show ?thesis using hosts_field_inj assms(4,5) by blast
qed

theorem known_hosts_line_fields_witness:
  "known_hosts_line ''h'' 2222 ''ssh-rsa'' ''QQ'' [] = ''[h]:2222 ssh-rsa QQ'' @ [CHR 0x0A]
   \<and> (\<exists>r1 r2 r3. next_token (known_hosts_line ''h'' 2222 ''ssh-rsa'' ''QQ'' []) = (hosts_field ''h'' 2222, r1)
          \<and> next_token r1 = (''ssh-rsa'', r2) \<and> next_token r2 = (''QQ'', r3))"
  using known_hosts_line_fields [of "''h''" "''ssh-rsa''" "''QQ''" 2222 "[]"]
  by (simp add: is_word_def is_space_def known_hosts_line_def hosts_field_def nat_to_string.simps str_simps)

end
