(* ===== verification/Auth.thy ===== *)
theory Auth
  imports Keys Channel
begin

text \<open>
  \<open>auth_types.hpp\<close>, \<open>auth.hpp\<close>, \<open>detail/auth.ipp\<close>: authentication methods. An authenticator is a
  value of \<open>authenticator\<close>, one constructor per class; \<open>attempt\<close> is the virtual function. Calls that
  retry while libssh says "again", and the keyboard-interactive dialogue with a server that may
  ask for ever, are partial functions: \<open>None\<close> stands for not returning.

  The theorems: method bit masks are read and written without loss, success is reported only when
  libssh granted it, retrying ends at its deadline, a chain stops at the first success (and at
  the first error), the password answer goes to the first hidden prompt only.
\<close>

section \<open>Data\<close>

datatype auth_status =
  Auth_success | Auth_denied | Auth_partial | Auth_info_required | Auth_again | Auth_error

record auth_methods =
  am_none :: bool
  am_password :: bool
  am_public_key :: bool
  am_host_based :: bool
  am_interactive :: bool
  am_gssapi_mic :: bool

text \<open>The bits \<open>SSH_AUTH_METHOD_*\<close> of libssh.\<close>

record method_bits =
  MB_none :: u32
  MB_password :: u32
  MB_publickey :: u32
  MB_hostbased :: u32
  MB_interactive :: u32
  MB_gssapi_mic :: u32

definition from_bits :: "method_bits \<Rightarrow> u32 \<Rightarrow> auth_methods" where
  "from_bits b bits =
     \<lparr>am_none = (and bits (MB_none b) \<noteq> 0), am_password = (and bits (MB_password b) \<noteq> 0),
      am_public_key = (and bits (MB_publickey b) \<noteq> 0), am_host_based = (and bits (MB_hostbased b) \<noteq> 0),
      am_interactive = (and bits (MB_interactive b) \<noteq> 0), am_gssapi_mic = (and bits (MB_gssapi_mic b) \<noteq> 0)\<rparr>"

definition to_bits :: "method_bits \<Rightarrow> auth_methods \<Rightarrow> u32" where
  "to_bits b m =
     or (or (or (or (or (if am_none m then MB_none b else 0) (if am_password m then MB_password b else 0))
       (if am_public_key m then MB_publickey b else 0)) (if am_host_based m then MB_hostbased b else 0))
       (if am_interactive m then MB_interactive b else 0)) (if am_gssapi_mic m then MB_gssapi_mic b else 0)"

definition any_method :: "auth_methods \<Rightarrow> bool" where
  "any_method m \<longleftrightarrow>
     am_password m \<or> am_public_key m \<or> am_host_based m \<or> am_interactive m \<or> am_gssapi_mic m"

record prompt =
  p_text :: string
  p_echo :: bool

record challenge =
  c_name :: string
  c_instruction :: string
  c_prompts :: "prompt list"

text \<open>\<open>steady_now\<close> is \<open>std::chrono::steady_clock::now\<close> in nanoseconds.\<close>

record 'w auth_api = "'w channel_api" +
  ssh_userauth_none :: "handle \<Rightarrow> 'w \<Rightarrow> ssh_auth_rc \<times> 'w"
  ssh_userauth_list :: "handle \<Rightarrow> 'w \<Rightarrow> u32"
  ssh_userauth_password :: "handle \<Rightarrow> string \<Rightarrow> 'w \<Rightarrow> ssh_auth_rc \<times> 'w"
  ssh_userauth_publickey_auto :: "handle \<Rightarrow> string option \<Rightarrow> 'w \<Rightarrow> ssh_auth_rc \<times> 'w"
  ssh_userauth_try_publickey :: "handle \<Rightarrow> handle option \<Rightarrow> 'w \<Rightarrow> ssh_auth_rc \<times> 'w"
  ssh_userauth_publickey :: "handle \<Rightarrow> handle option \<Rightarrow> 'w \<Rightarrow> ssh_auth_rc \<times> 'w"
  ssh_userauth_agent :: "handle \<Rightarrow> 'w \<Rightarrow> ssh_auth_rc \<times> 'w"
  ssh_userauth_kbdint :: "handle \<Rightarrow> 'w \<Rightarrow> ssh_auth_rc \<times> 'w"
  kbdint_getname :: "handle \<Rightarrow> 'w \<Rightarrow> string option"
  kbdint_getinstruction :: "handle \<Rightarrow> 'w \<Rightarrow> string option"
  kbdint_getnprompts :: "handle \<Rightarrow> 'w \<Rightarrow> int"
  kbdint_getprompt :: "handle \<Rightarrow> nat \<Rightarrow> 'w \<Rightarrow> string option \<times> bool"
  kbdint_setanswer :: "handle \<Rightarrow> nat \<Rightarrow> string \<Rightarrow> 'w \<Rightarrow> 'w"
  ssh_is_blocking :: "handle \<Rightarrow> 'w \<Rightarrow> bool"
  steady_now :: "'w \<Rightarrow> int"

section \<open>One call\<close>

definition map_auth_result ::
    "('w, 'z) auth_api_scheme \<Rightarrow> ssh_auth_rc \<Rightarrow> handle \<Rightarrow> string \<Rightarrow> 'w \<Rightarrow> auth_status result" where
  "map_auth_result api rc raw op w =
     (case rc of
        SSH_AUTH_SUCCESS \<Rightarrow> Inr Auth_success
      | SSH_AUTH_DENIED \<Rightarrow> Inr Auth_denied
      | SSH_AUTH_PARTIAL \<Rightarrow> Inr Auth_partial
      | SSH_AUTH_AGAIN \<Rightarrow> Inr Auth_again
      | _ \<Rightarrow> Inl (make_error_info api w (Some raw) op errc_fatal))"

partial_function (option) auth_retry ::
    "('w, 'z) auth_api_scheme \<Rightarrow> handle \<Rightarrow> string \<Rightarrow> int \<Rightarrow> ('w \<Rightarrow> ssh_auth_rc \<times> 'w) \<Rightarrow> 'w
       \<Rightarrow> (auth_status result \<times> 'w) option" where
  "auth_retry api raw op deadline call w =
     (case call w of
        (rc, w') \<Rightarrow>
          if rc \<noteq> SSH_AUTH_AGAIN \<or> \<not> ssh_is_blocking api raw w'
          then Some (map_auth_result api rc raw op w', w')
          else if steady_now api w' \<ge> deadline
          then Some (Inl (mk_error errc_timed_out (ssh_get_error api w' raw) op), w')
          else auth_retry api raw op deadline call w')"

definition retry_ns :: int where
  "retry_ns = 30000000000"

definition auth_attempt ::
    "('w, 'z) auth_api_scheme \<Rightarrow> handle \<Rightarrow> string \<Rightarrow> ('w \<Rightarrow> ssh_auth_rc \<times> 'w) \<Rightarrow> 'w
       \<Rightarrow> (auth_status result \<times> 'w) option" where
  "auth_attempt api raw op call w = auth_retry api raw op (steady_now api w + retry_ns) call w"

section \<open>Keyboard-interactive\<close>

type_synonym 'w kbd_handler = "challenge \<Rightarrow> 'w \<Rightarrow> string list result \<times> 'w"

definition read_challenge :: "('w, 'z) auth_api_scheme \<Rightarrow> handle \<Rightarrow> 'w \<Rightarrow> challenge" where
  "read_challenge api raw w =
     \<lparr>c_name = (case kbdint_getname api raw w of Some s \<Rightarrow> s | None \<Rightarrow> []),
      c_instruction = (case kbdint_getinstruction api raw w of Some s \<Rightarrow> s | None \<Rightarrow> []),
      c_prompts = map (\<lambda>i. case kbdint_getprompt api raw i w of
                          (text, echo) \<Rightarrow> \<lparr>p_text = (case text of Some s \<Rightarrow> s | None \<Rightarrow> []), p_echo = echo\<rparr>)
                    [0..<nat (kbdint_getnprompts api raw w)]\<rparr>"

definition set_answers :: "('w, 'z) auth_api_scheme \<Rightarrow> handle \<Rightarrow> string list \<Rightarrow> 'w \<Rightarrow> 'w" where
  "set_answers api raw answers w =
     fold (\<lambda>(i, a) v. kbdint_setanswer api raw i (c_str a) v) (List.enumerate 0 answers) w"

partial_function (option) kbdint_dialogue ::
    "('w, 'z) auth_api_scheme \<Rightarrow> handle \<Rightarrow> 'w kbd_handler option \<Rightarrow> ssh_auth_rc \<Rightarrow> 'w
       \<Rightarrow> (auth_status result \<times> 'w) option" where
  "kbdint_dialogue api raw handler rc w =
     (if rc = SSH_AUTH_INFO then
        (case handler of
           None \<Rightarrow> Some (Inl (make_error_info api w (Some raw) ''ssh_userauth_kbdint'' errc_auth_denied), w)
         | Some h \<Rightarrow>
             (case h (read_challenge api raw w) w of
                (Inl e, w') \<Rightarrow> Some (Inl e, w')
              | (Inr answers, w') \<Rightarrow>
                  (case ssh_userauth_kbdint api raw (set_answers api raw answers w') of
                     (rc', w'') \<Rightarrow> kbdint_dialogue api raw handler rc' w'')))
      else if rc = SSH_AUTH_AGAIN
      then auth_attempt api raw ''ssh_userauth_kbdint'' (ssh_userauth_kbdint api raw) w
      else Some (map_auth_result api rc raw ''ssh_userauth_kbdint'' w, w))"

definition kbdint_attempt ::
    "('w, 'z) auth_api_scheme \<Rightarrow> handle \<Rightarrow> 'w kbd_handler option \<Rightarrow> 'w \<Rightarrow> (auth_status result \<times> 'w) option" where
  "kbdint_attempt api raw handler w =
     (case ssh_userauth_kbdint api raw w of (rc, w') \<Rightarrow> kbdint_dialogue api raw handler rc w')"

text \<open>The handler of \<open>KeyboardInteractive::with_password\<close>.\<close>

fun password_answers :: "string \<Rightarrow> bool \<Rightarrow> prompt list \<Rightarrow> string list" where
  "password_answers pw used [] = []"
| "password_answers pw used (p # ps) =
     (if \<not> p_echo p \<and> \<not> used then pw # password_answers pw True ps
      else [] # password_answers pw used ps)"

definition with_password :: "string \<Rightarrow> 'w kbd_handler" where
  "with_password pw ch w = (Inr (password_answers pw False (c_prompts ch)), w)"

section \<open>Authenticators\<close>

datatype 'w authenticator =
    A_none
  | A_password string
  | A_publickey_auto string
  | A_publickey key
  | A_agent
  | A_kbdint "'w kbd_handler option"
  | A_lazy_password "('w \<Rightarrow> string result \<times> 'w) option"
  | A_chain "'w authenticator list"

fun auth_name :: "'w authenticator \<Rightarrow> string" where
  "auth_name A_none = ''none''"
| "auth_name (A_password _) = ''password''"
| "auth_name (A_publickey_auto _) = ''publickey_auto''"
| "auth_name (A_publickey _) = ''publickey''"
| "auth_name A_agent = ''agent''"
| "auth_name (A_kbdint _) = ''keyboard-interactive''"
| "auth_name (A_lazy_password _) = ''password''"
| "auth_name (A_chain _) = ''chain''"

definition password_attempt ::
    "('w, 'z) auth_api_scheme \<Rightarrow> handle \<Rightarrow> string \<Rightarrow> 'w \<Rightarrow> (auth_status result \<times> 'w) option" where
  "password_attempt api raw pw w =
     auth_attempt api raw ''ssh_userauth_password'' (ssh_userauth_password api raw (c_str pw)) w"

definition publickey_attempt ::
    "('w, 'z) auth_api_scheme \<Rightarrow> handle \<Rightarrow> key \<Rightarrow> 'w \<Rightarrow> (auth_status result \<times> 'w) option" where
  "publickey_attempt api raw k w =
     (case auth_attempt api raw ''ssh_userauth_try_publickey''
             (ssh_userauth_try_publickey api raw (k_native k)) w of
        None \<Rightarrow> None
      | Some (tried, w') \<Rightarrow>
          if tried \<noteq> Inr Auth_success then Some (tried, w')
          else auth_attempt api raw ''ssh_userauth_publickey''
                 (ssh_userauth_publickey api raw (k_native k)) w')"

fun attempt ::
    "('w, 'z) auth_api_scheme \<Rightarrow> handle \<Rightarrow> 'w authenticator \<Rightarrow> 'w \<Rightarrow> (auth_status result \<times> 'w) option"
  and attempt_list ::
    "('w, 'z) auth_api_scheme \<Rightarrow> handle \<Rightarrow> auth_status \<Rightarrow> 'w authenticator list \<Rightarrow> 'w
       \<Rightarrow> (auth_status result \<times> 'w) option" where
  "attempt api raw A_none w = auth_attempt api raw ''ssh_userauth_none'' (ssh_userauth_none api raw) w"
| "attempt api raw (A_password pw) w = password_attempt api raw pw w"
| "attempt api raw (A_publickey_auto pp) w =
     auth_attempt api raw ''ssh_userauth_publickey_auto''
       (ssh_userauth_publickey_auto api raw (if pp = [] then None else Some (c_str pp))) w"
| "attempt api raw (A_publickey k) w = publickey_attempt api raw k w"
| "attempt api raw A_agent w = auth_attempt api raw ''ssh_userauth_agent'' (ssh_userauth_agent api raw) w"
| "attempt api raw (A_kbdint h) w = kbdint_attempt api raw h w"
| "attempt api raw (A_lazy_password cb) w =
     (case cb of
        None \<Rightarrow> password_attempt api raw [] w
      | Some f \<Rightarrow>
          (case f w of (Inl e, w') \<Rightarrow> Some (Inl e, w') | (Inr pw, w') \<Rightarrow> password_attempt api raw pw w'))"
| "attempt api raw (A_chain as) w = attempt_list api raw Auth_denied as w"
| "attempt_list api raw prev [] w = Some (Inr prev, w)"
| "attempt_list api raw prev (a # as) w =
     (case attempt api raw a w of
        None \<Rightarrow> None
      | Some (Inl e, w') \<Rightarrow> Some (Inl e, w')
      | Some (Inr st, w') \<Rightarrow>
          if st = Auth_success then Some (Inr st, w') else attempt_list api raw st as w')"

text \<open>\<open>Chain::interactive_default\<close>; the passphrase callback is consulted once, at construction.\<close>

definition interactive_default ::
    "'w passphrase_callback option \<Rightarrow> ('w \<Rightarrow> string result \<times> 'w) option \<Rightarrow> 'w kbd_handler \<Rightarrow> 'w
       \<Rightarrow> 'w authenticator \<times> 'w" where
  "interactive_default passphrase_cb password_cb console w =
     (case (case passphrase_cb of
              None \<Rightarrow> ([], w)
            | Some f \<Rightarrow>
                (case f \<lparr>pr_key_path = [], pr_comment = [], pr_attempt = 0\<rparr> w of
                   (Inr p, w') \<Rightarrow> (p, w') | (Inl _, w') \<Rightarrow> ([], w'))) of
        (passphrase, w') \<Rightarrow>
          (A_chain [A_agent, A_publickey_auto passphrase, A_kbdint (Some console), A_lazy_password password_cb], w'))"

section \<open>A simulated server\<close>

text \<open>
  The simulated connection with authentication: the password is \<open>pw\<close>, keys and the agent are
  refused, the dialogue asks one hidden question. The number of reads serves as the clock.
\<close>

definition tick :: "'a sim_scheme \<Rightarrow> 'a sim_scheme" where
  "tick w = w\<lparr>sim_reads := Suc (sim_reads w)\<rparr>"

definition sim_auth_api :: "'a sim_scheme auth_api" where
  "sim_auth_api = channel_api.extend sim_api
     (auth_api.fields
        (\<lambda>_ w. (SSH_AUTH_DENIED, tick w)) (\<lambda>_ _. 2)
        (\<lambda>_ pw w. (if pw = ''pw'' then SSH_AUTH_SUCCESS else SSH_AUTH_DENIED, tick w))
        (\<lambda>_ _ w. (SSH_AUTH_DENIED, tick w)) (\<lambda>_ _ w. (SSH_AUTH_DENIED, tick w))
        (\<lambda>_ _ w. (SSH_AUTH_DENIED, tick w)) (\<lambda>_ w. (SSH_AUTH_ERROR, tick w))
        (\<lambda>_ w. (if sim_reads w = 0 then SSH_AUTH_AGAIN else SSH_AUTH_INFO, tick w))
        (\<lambda>_ _. None) (\<lambda>_ _. None) (\<lambda>_ _. 1) (\<lambda>_ _ _. (Some ''Password: '', False))
        (\<lambda>_ _ _ w. w) (\<lambda>_ _. True) (\<lambda>w. int (sim_reads w)))"

lemma sim_auth_sel [simp]:
  "ssh_userauth_password sim_auth_api = (\<lambda>_ pw w. (if pw = ''pw'' then SSH_AUTH_SUCCESS else SSH_AUTH_DENIED, tick w))"
  "ssh_userauth_none sim_auth_api = (\<lambda>_ w. (SSH_AUTH_DENIED, tick w))"
  "ssh_userauth_agent sim_auth_api = (\<lambda>_ w. (SSH_AUTH_ERROR, tick w))"
  "ssh_userauth_kbdint sim_auth_api
     = (\<lambda>_ w. (if sim_reads w = 0 then SSH_AUTH_AGAIN else SSH_AUTH_INFO, tick w))"
  "ssh_is_blocking sim_auth_api = (\<lambda>_ _. True)" "steady_now sim_auth_api = (\<lambda>w. int (sim_reads w))"
  "ssh_get_error sim_auth_api = (\<lambda>_ _. ''failed'')" "ssh_get_error_code sim_auth_api = (\<lambda>_ _. SSH_NO_ERROR)"
  by (simp_all add: sim_auth_api_def sim_api_def channel_api.defs auth_api.defs)

lemma sim_password:
  "password_attempt sim_auth_api raw ''pw'' w = Some (Inr Auth_success, tick w)"
  by (simp add: password_attempt_def auth_attempt_def auth_retry.simps map_auth_result_def c_str_def)

section \<open>Method masks\<close>

text \<open>Six nonzero masks, no two of which share a bit.\<close>

definition disjoint_bits :: "method_bits \<Rightarrow> bool" where
  "disjoint_bits b \<longleftrightarrow>
     (let ms = [MB_none b, MB_password b, MB_publickey b, MB_hostbased b, MB_interactive b, MB_gssapi_mic b]
      in list_all (\<lambda>x. x \<noteq> 0) ms \<and> sorted_wrt (\<lambda>x y. and x y = 0 \<and> and y x = 0) ms)"

text \<open>
  Writing a set of authentication methods as a bit mask and reading the mask gives the same
  set, for any assignment of disjoint masks to the methods.
\<close>
theorem auth_methods_round_trip:
  assumes "disjoint_bits b"
  shows "from_bits b (to_bits b m) = m"
  using assms unfolding disjoint_bits_def Let_def
  by (intro auth_methods.equality)
    (auto simp: from_bits_def to_bits_def bit.conj_disj_distrib2 word_or_eq_0_iff_local split: if_splits)

theorem auth_methods_round_trip_witness:
  "disjoint_bits \<lparr>MB_none = 1, MB_password = 2, MB_publickey = 4, MB_hostbased = 8, MB_interactive = 16,
     MB_gssapi_mic = 32\<rparr>
   \<and> from_bits \<lparr>MB_none = 1, MB_password = 2, MB_publickey = 4, MB_hostbased = 8, MB_interactive = 16,
       MB_gssapi_mic = 32\<rparr> (to_bits \<lparr>MB_none = 1, MB_password = 2, MB_publickey = 4, MB_hostbased = 8,
       MB_interactive = 16, MB_gssapi_mic = 32\<rparr> \<lparr>am_none = False, am_password = True, am_public_key = True,
       am_host_based = False, am_interactive = False, am_gssapi_mic = False\<rparr>)
     = \<lparr>am_none = False, am_password = True, am_public_key = True, am_host_based = False,
        am_interactive = False, am_gssapi_mic = False\<rparr>"
proof -
  have "disjoint_bits \<lparr>MB_none = 1, MB_password = 2, MB_publickey = 4, MB_hostbased = 8, MB_interactive = 16,
     MB_gssapi_mic = 32\<rparr>" by (simp add: disjoint_bits_def)
  then show ?thesis using auth_methods_round_trip by blast
qed

section \<open>Success is libssh's\<close>

text \<open>The calls that authenticate; the offer of a public key is not among them.\<close>

definition granting_call :: "('w, 'z) auth_api_scheme \<Rightarrow> handle \<Rightarrow> ('w \<Rightarrow> ssh_auth_rc \<times> 'w) \<Rightarrow> bool" where
  "granting_call api raw c \<longleftrightarrow>
     c = ssh_userauth_none api raw \<or> c = ssh_userauth_agent api raw \<or> c = ssh_userauth_kbdint api raw
     \<or> (\<exists>pw. c = ssh_userauth_password api raw pw) \<or> (\<exists>pp. c = ssh_userauth_publickey_auto api raw pp)
     \<or> (\<exists>k. c = ssh_userauth_publickey api raw k)"

definition granted :: "('w, 'z) auth_api_scheme \<Rightarrow> handle \<Rightarrow> 'w \<Rightarrow> bool" where
  "granted api raw w \<longleftrightarrow> (\<exists>c v. granting_call api raw c \<and> c v = (SSH_AUTH_SUCCESS, w))"

lemma map_success: "map_auth_result api rc raw op w = Inr Auth_success \<longleftrightarrow> rc = SSH_AUTH_SUCCESS"
  by (simp add: map_auth_result_def split: ssh_auth_rc.splits)

lemma auth_retry_success_aux:
  assumes "auth_retry api raw op deadline call w = Some y"
  shows "fst y = Inr Auth_success \<longrightarrow> (\<exists>v. call v = (SSH_AUTH_SUCCESS, snd y))"
proof (rule auth_retry.raw_induct [where P = "\<lambda>api raw op deadline call w y.
      fst y = Inr Auth_success \<longrightarrow> (\<exists>v. call v = (SSH_AUTH_SUCCESS, snd y))", OF _ assms], goal_cases)
  case (1 f api raw op deadline call w y)
  then show ?case
    by (auto simp: map_success split: prod.splits if_splits)
qed

lemma auth_attempt_granted:
  assumes "auth_attempt api raw op call w = Some (Inr Auth_success, w')" and "granting_call api raw call"
  shows "granted api raw w'"
  using auth_retry_success_aux [OF assms(1) [unfolded auth_attempt_def]] assms(2)
  unfolding granted_def by auto

lemma kbdint_granted:
  "ssh_userauth_kbdint api raw v = (SSH_AUTH_SUCCESS, w) \<Longrightarrow> granted api raw w"
  unfolding granted_def granting_call_def by blast

lemma kbdint_dialogue_granted:
  assumes "kbdint_dialogue api raw h rc w = Some y"
  shows "(rc = SSH_AUTH_SUCCESS \<longrightarrow> granted api raw w) \<longrightarrow> fst y = Inr Auth_success \<longrightarrow> granted api raw (snd y)"
proof (rule kbdint_dialogue.raw_induct [where P = "\<lambda>api raw h rc w y.
      (rc = SSH_AUTH_SUCCESS \<longrightarrow> granted api raw w) \<longrightarrow> fst y = Inr Auth_success \<longrightarrow> granted api raw (snd y)",
      OF _ assms], goal_cases)
  case (1 f api raw h rc w y)
  have again: "granted api raw w'"
    if "auth_attempt api raw op (ssh_userauth_kbdint api raw) v = Some (Inr Auth_success, w')" for op v w'
    using that by (rule auth_attempt_granted) (simp add: granting_call_def)
  have step: "granted api raw b"
    if "f api raw h' rc' v' = Some (Inr Auth_success, b)" "ssh_userauth_kbdint api raw v = (rc', v')" for h' rc' v v' b
    using 1(1) [OF that(1)] that(2) kbdint_granted [of api raw v v'] by auto
  show ?case
    using 1(2) by (cases y) (auto simp: map_success dest: step again
        split: option.splits prod.splits sum.splits if_splits)
qed

lemma password_granted: "password_attempt api raw p v = Some (Inr Auth_success, w) \<Longrightarrow> granted api raw w"
  unfolding password_attempt_def by (erule auth_attempt_granted) (auto simp: granting_call_def)

lemma publickey_granted:
  assumes "publickey_attempt api raw k v = Some (Inr Auth_success, w)"
  shows "granted api raw w"
proof -
  have "granting_call api raw (ssh_userauth_publickey api raw (k_native k))" by (auto simp: granting_call_def)
  then show ?thesis
    using assms unfolding publickey_attempt_def by (auto split: option.splits if_splits dest: auth_attempt_granted)
qed

lemma kbdint_attempt_granted: "kbdint_attempt api raw h v = Some (Inr Auth_success, w) \<Longrightarrow> granted api raw w"
  unfolding kbdint_attempt_def
  by (auto split: prod.splits dest!: kbdint_dialogue_granted dest: kbdint_granted)

lemma publickey_auto_granted:
  "auth_attempt api raw op (ssh_userauth_publickey_auto api raw pp) v = Some (Inr Auth_success, w)
     \<Longrightarrow> granted api raw w"
  by (erule auth_attempt_granted) (auto simp: granting_call_def)

lemmas attempt_granted =
  auth_attempt_granted publickey_auto_granted password_granted publickey_granted kbdint_attempt_granted

lemma attempt_granted_aux:
  "attempt api raw a w = Some (Inr Auth_success, w') \<Longrightarrow> granted api raw w'"
  "attempt_list api raw prev as w = Some (Inr Auth_success, w') \<Longrightarrow> prev \<noteq> Auth_success \<Longrightarrow> granted api raw w'"
  by (induction api raw a w and api raw prev as w arbitrary: w' and w' rule: attempt_attempt_list.induct)
    (auto dest: attempt_granted simp: granting_call_def split: option.splits prod.splits sum.splits if_splits)

text \<open>
  An authenticator of any kind, also a chain, reports success only when a libssh call that
  authenticates returned success and nothing was called after it; the mere acceptance of an
  offered public key is never reported as success.
\<close>
theorem attempt_success_is_granted:
  assumes "attempt api raw a w = Some (Inr Auth_success, w')"
  shows "granted api raw w'"
  using assms by (rule attempt_granted_aux(1))

theorem attempt_success_is_granted_witness:
  "attempt sim_auth_api 1 (A_password ''pw'') sim_start = Some (Inr Auth_success, tick sim_start)
   \<and> granted sim_auth_api 1 (tick sim_start)"
  using attempt_success_is_granted [of sim_auth_api 1 "A_password ''pw''" sim_start "tick sim_start"]
  by (simp add: sim_password)

section \<open>Retrying\<close>

lemma auth_retry_returns:
  assumes "d > 0" and adv: "\<And>v. steady_now api (snd (call v)) \<ge> steady_now api v + d"
  shows "\<exists>y. auth_retry api raw op deadline call w = Some y"
proof (induction "nat (deadline - steady_now api w)" arbitrary: w rule: less_induct)
  case less
  obtain rc w' where c: "call w = (rc, w')" by (metis prod.exhaust)
  show ?case
  proof (cases "(rc \<noteq> SSH_AUTH_AGAIN \<or> \<not> ssh_is_blocking api raw w') \<or> steady_now api w' \<ge> deadline")
    case True
    then show ?thesis using c by (subst auth_retry.simps) auto
  next
    case False
    have "nat (deadline - steady_now api w') < nat (deadline - steady_now api w)"
      using adv [of w] c False assms(1) by auto
    then obtain y where "auth_retry api raw op deadline call w' = Some y" using less by blast
    then show ?thesis using c False by (subst auth_retry.simps) auto
  qed
qed

text \<open>
  When every libssh call takes time, a retried call returns: the retry loop ends with the
  call's own result or with the time-out error after its thirty seconds, never hangs.
\<close>
theorem auth_attempt_returns:
  assumes "d > 0" and "\<And>v. steady_now api (snd (call v)) \<ge> steady_now api v + d"
  shows "\<exists>r w'. auth_attempt api raw op call w = Some (r, w')"
  using auth_retry_returns [OF assms] unfolding auth_attempt_def by fastforce

theorem auth_attempt_returns_witness:
  "(1 :: int) > 0 \<and> (\<exists>r w'. auth_attempt sim_auth_api 1 ''again''
      (\<lambda>w. (SSH_AUTH_AGAIN, tick w)) sim_start = Some (r, w'))"
  using auth_attempt_returns [of 1 sim_auth_api "\<lambda>w. (SSH_AUTH_AGAIN, tick w)" 1 "''again''" sim_start]
  by (simp add: tick_def)

section \<open>Chains\<close>

text \<open>The world after all of \<open>as\<close> were tried without error and without success.\<close>

fun passed_over :: "('w, 'z) auth_api_scheme \<Rightarrow> handle \<Rightarrow> 'w authenticator list \<Rightarrow> 'w \<Rightarrow> 'w option" where
  "passed_over api raw [] w = Some w"
| "passed_over api raw (a # as) w =
     (case attempt api raw a w of
        Some (Inr st, w') \<Rightarrow> if st = Auth_success then None else passed_over api raw as w'
      | _ \<Rightarrow> None)"

lemma attempt_list_skip:
  "passed_over api raw pre w = Some v \<Longrightarrow>
     \<exists>prev'. (pre \<noteq> [] \<longrightarrow> prev' \<noteq> Auth_success) \<and> (pre = [] \<longrightarrow> prev' = prev)
       \<and> attempt_list api raw prev (pre @ as) w = attempt_list api raw prev' as v"
  by (induction pre arbitrary: w prev)
    (auto split: option.splits prod.splits sum.splits if_splits)

lemma attempt_list_success:
  assumes "attempt_list api raw prev as w = Some (Inr Auth_success, w')" and "prev \<noteq> Auth_success"
  shows "\<exists>pre a post v. as = pre @ a # post \<and> passed_over api raw pre w = Some v
     \<and> attempt api raw a v = Some (Inr Auth_success, w')"
  using assms
proof (induction as arbitrary: prev w)
  case (Cons a as)
  obtain st u where at: "attempt api raw a w = Some (Inr st, u)"
    using Cons.prems(1) by (auto split: option.splits sum.splits)
  show ?case
  proof (cases "st = Auth_success")
    case True
    then show ?thesis using Cons.prems(1) at by (intro exI [of _ "[]"]) auto
  next
    case False
    then obtain pre b post v where "as = pre @ b # post" "passed_over api raw pre u = Some v"
      "attempt api raw b v = Some (Inr Auth_success, w')"
      using Cons.IH [of st u] Cons.prems(1) at by auto
    then show ?thesis using at False by (intro exI [of _ "a # pre"]) auto
  qed
qed simp

text \<open>
  A chain succeeds exactly when one of its authenticators succeeds and all before it were
  tried and neither succeeded nor failed with an error; what stands behind it is not tried.
\<close>
theorem chain_first_success:
  "attempt api raw (A_chain as) w = Some (Inr Auth_success, w')
   \<longleftrightarrow> (\<exists>pre a post v. as = pre @ a # post \<and> passed_over api raw pre w = Some v
          \<and> attempt api raw a v = Some (Inr Auth_success, w'))"
proof
  assume "attempt api raw (A_chain as) w = Some (Inr Auth_success, w')"
  then show "\<exists>pre a post v. as = pre @ a # post \<and> passed_over api raw pre w = Some v
      \<and> attempt api raw a v = Some (Inr Auth_success, w')"
    using attempt_list_success [of api raw Auth_denied as w w'] by simp
next
  assume "\<exists>pre a post v. as = pre @ a # post \<and> passed_over api raw pre w = Some v
      \<and> attempt api raw a v = Some (Inr Auth_success, w')"
  then obtain pre a post v where as: "as = pre @ a # post" "passed_over api raw pre w = Some v"
    "attempt api raw a v = Some (Inr Auth_success, w')" by blast
  then show "attempt api raw (A_chain as) w = Some (Inr Auth_success, w')"
    using attempt_list_skip [OF as(2), of Auth_denied "a # post"] by auto
qed

text \<open>
  An error of one authenticator ends the whole chain with that error, and the authenticators
  behind it are never tried: the result does not depend on them.
\<close>
theorem chain_error_stops:
  assumes "passed_over api raw pre w = Some v" and "attempt api raw a v = Some (Inl e, w')"
  shows "attempt api raw (A_chain (pre @ a # post)) w = Some (Inl e, w')"
  using attempt_list_skip [OF assms(1), of Auth_denied "a # post"] assms(2) by auto

lemma sim_agent: "attempt sim_auth_api raw A_agent w
    = Some (Inl (mk_error errc_fatal ''failed'' ''ssh_userauth_agent''), tick w)"
  by (simp add: auth_attempt_def auth_retry.simps map_auth_result_def make_error_info_def)

theorem chain_error_stops_witness:
  "attempt sim_auth_api 1 (A_chain [A_agent, A_password ''pw'']) sim_start
     = Some (Inl (mk_error errc_fatal ''failed'' ''ssh_userauth_agent''), tick sim_start)"
  using chain_error_stops [of sim_auth_api 1 "[]" sim_start sim_start A_agent] sim_agent [of 1 sim_start]
  by simp

section \<open>Keyboard-interactive\<close>

lemma password_answers_used: "password_answers pw True ps = replicate (length ps) []"
  by (induction ps) simp_all

text \<open>
  The ready-made password dialogue gives one answer per prompt: the password to the first
  prompt that hides its input and empty text to every other.
\<close>
theorem password_answers_first_hidden:
  "length (password_answers pw False ps) = length ps
   \<and> (\<forall>i < length ps. password_answers pw False ps ! i
         = (if \<not> p_echo (ps ! i) \<and> (\<forall>j < i. p_echo (ps ! j)) then pw else []))"
proof (induction ps)
  case (Cons p ps)
  show ?case
  proof (cases "p_echo p")
    case True
    then show ?thesis using Cons by (auto simp: nth_Cons' All_less_Suc2 split: nat.splits)
  next
    case False
    then show ?thesis by (auto simp: password_answers_used nth_Cons')
  qed
qed simp

text \<open>
  When libssh answers the first dialogue step with "again" and then asks a question, the
  attempt ends with an error although the dialogue could go on: the handler is never consulted.
\<close>
theorem kbdint_again_loses_question:
  assumes "ssh_userauth_kbdint api raw w = (SSH_AUTH_AGAIN, w1)"
    and "ssh_userauth_kbdint api raw w1 = (SSH_AUTH_INFO, w2)"
  shows "attempt api raw (A_kbdint h) w
     = Some (Inl (make_error_info api w2 (Some raw) ''ssh_userauth_kbdint'' errc_fatal), w2)"
  using assms
  by (simp add: kbdint_attempt_def kbdint_dialogue.simps auth_attempt_def auth_retry.simps map_auth_result_def)

theorem kbdint_again_loses_question_witness:
  "attempt sim_auth_api 1 (A_kbdint (Some (with_password ''pw''))) sim_start
     = Some (Inl (mk_error errc_fatal ''failed'' ''ssh_userauth_kbdint''), tick (tick sim_start))"
  using kbdint_again_loses_question [of sim_auth_api 1 sim_start "tick sim_start" "tick (tick sim_start)"]
  by (simp add: make_error_info_def tick_def sim_start_def)

end
