(* ===== verification/Session.thy ===== *)
theory Session
  imports Session_Options Host_Keys Auth
begin

text \<open>
  \<open>session.hpp\<close>, \<open>detail/session.ipp\<close>, \<open>detail/session_core.hpp\<close>: the client session. A session has
  a core (the native session) or none, its options and the flag that it is authenticated.

  The theorems: on success the requested options have all been handed to libssh, in the fixed
  order of the source, and options the source never hands over are listed; a host key that
  contradicts \<open>known_hosts\<close> is rejected under the strict and the trust-on-first-use policy without
  touching \<open>known_hosts\<close>; the authenticated flag and a reported success imply each other and come
  from libssh; a failed \<open>try_open_channel\<close> leaves no native channel behind.
\<close>

section \<open>libssh\<close>

datatype opt_name =
    SSH_OPTIONS_SSH_DIR | SSH_OPTIONS_KNOWNHOSTS | SSH_OPTIONS_GLOBAL_KNOWNHOSTS | SSH_OPTIONS_HOST
  | SSH_OPTIONS_PORT | SSH_OPTIONS_USER | SSH_OPTIONS_BINDADDR | SSH_OPTIONS_FD
  | SSH_OPTIONS_PROXYCOMMAND | SSH_OPTIONS_TIMEOUT | SSH_OPTIONS_TIMEOUT_USEC | SSH_OPTIONS_NODELAY
  | SSH_OPTIONS_ADD_IDENTITY | SSH_OPTIONS_CIPHERS_C_S | SSH_OPTIONS_CIPHERS_S_C
  | SSH_OPTIONS_KEY_EXCHANGE | SSH_OPTIONS_HMAC_C_S | SSH_OPTIONS_HMAC_S_C | SSH_OPTIONS_HOSTKEYS
  | SSH_OPTIONS_PUBLICKEY_ACCEPTED_TYPES | SSH_OPTIONS_COMPRESSION | SSH_OPTIONS_COMPRESSION_LEVEL
  | SSH_OPTIONS_REKEY_DATA | SSH_OPTIONS_REKEY_TIME | SSH_OPTIONS_STRICTHOSTKEYCHECK
  | SSH_OPTIONS_GSSAPI_SERVER_IDENTITY | SSH_OPTIONS_GSSAPI_CLIENT_IDENTITY
  | SSH_OPTIONS_GSSAPI_DELEGATE_CREDENTIALS | SSH_OPTIONS_PROCESS_CONFIG

datatype opt_value = Str string | Num int

datatype native_known_hosts =
    SSH_KNOWN_HOSTS_OK | SSH_KNOWN_HOSTS_CHANGED | SSH_KNOWN_HOSTS_OTHER
  | SSH_KNOWN_HOSTS_NOT_FOUND | SSH_KNOWN_HOSTS_UNKNOWN | SSH_KNOWN_HOSTS_ERROR

record 'w session_api = "'w auth_api" +
  ssh_new :: "'w \<Rightarrow> handle option \<times> 'w"
  ssh_free :: "handle \<Rightarrow> 'w \<Rightarrow> 'w"
  ssh_options_set :: "handle \<Rightarrow> opt_name \<Rightarrow> opt_value \<Rightarrow> 'w \<Rightarrow> ssh_rc \<times> 'w"
  ssh_options_parse_config :: "handle \<Rightarrow> string option \<Rightarrow> 'w \<Rightarrow> ssh_rc \<times> 'w"
  ssh_connect :: "handle \<Rightarrow> 'w \<Rightarrow> ssh_rc \<times> 'w"
  ssh_disconnect :: "handle \<Rightarrow> 'w \<Rightarrow> 'w"
  ssh_is_connected :: "handle \<Rightarrow> 'w \<Rightarrow> bool"
  ssh_get_fd :: "handle \<Rightarrow> 'w \<Rightarrow> int"
  ssh_get_serverbanner :: "handle \<Rightarrow> 'w \<Rightarrow> string option"
  ssh_get_clientbanner :: "handle \<Rightarrow> 'w \<Rightarrow> string option"
  ssh_get_kex_algo :: "handle \<Rightarrow> 'w \<Rightarrow> string option"
  ssh_get_cipher_in :: "handle \<Rightarrow> 'w \<Rightarrow> string option"
  ssh_get_cipher_out :: "handle \<Rightarrow> 'w \<Rightarrow> string option"
  ssh_get_hmac_in :: "handle \<Rightarrow> 'w \<Rightarrow> string option"
  ssh_get_hmac_out :: "handle \<Rightarrow> 'w \<Rightarrow> string option"
  ssh_get_server_publickey :: "handle \<Rightarrow> 'w \<Rightarrow> ssh_rc \<times> handle option"
  ssh_session_is_known_server :: "handle \<Rightarrow> 'w \<Rightarrow> native_known_hosts"
  ssh_session_update_known_hosts :: "handle \<Rightarrow> 'w \<Rightarrow> ssh_rc \<times> 'w"
  ssh_channel_new :: "handle \<Rightarrow> 'w \<Rightarrow> handle option \<times> 'w"

section \<open>State\<close>

text \<open>\<open>se_core\<close> is the native session behind the shared core, \<open>None\<close> when there is no core; \<open>se_cancel\<close> is the
  core's cancel flag.\<close>

record session =
  se_core :: "handle option"
  se_options :: session_options
  se_authenticated :: bool
  se_cancel :: bool

definition empty_session :: session where
  "empty_session = \<lparr>se_core = None, se_options = default_options, se_authenticated = False,
     se_cancel = False\<rparr>"

text \<open>The destructor of the core and \<open>SessionCore::replace\<close>.\<close>

definition core_dtor :: "('w, 'z) session_api_scheme \<Rightarrow> handle option \<Rightarrow> 'w \<Rightarrow> handle option \<times> 'w" where
  "core_dtor api raw w =
     (case raw of Some h \<Rightarrow> (None, ssh_free api h (ssh_disconnect api h w)) | None \<Rightarrow> (None, w))"

definition core_replace ::
    "('w, 'z) session_api_scheme \<Rightarrow> handle option \<Rightarrow> handle option \<Rightarrow> 'w \<Rightarrow> handle option \<times> 'w" where
  "core_replace api raw new w =
     (case raw of Some h \<Rightarrow> (new, ssh_free api h (ssh_disconnect api h w)) | None \<Rightarrow> (new, w))"

section \<open>Options\<close>

fun known_hosts_status_from_native :: "native_known_hosts \<Rightarrow> known_hosts_status" where
  "known_hosts_status_from_native SSH_KNOWN_HOSTS_OK = KH_ok"
| "known_hosts_status_from_native SSH_KNOWN_HOSTS_CHANGED = KH_changed"
| "known_hosts_status_from_native SSH_KNOWN_HOSTS_OTHER = KH_other_type"
| "known_hosts_status_from_native SSH_KNOWN_HOSTS_NOT_FOUND = KH_not_found"
| "known_hosts_status_from_native SSH_KNOWN_HOSTS_UNKNOWN = KH_unknown"
| "known_hosts_status_from_native SSH_KNOWN_HOSTS_ERROR = KH_error"

text \<open>
  The statements of \<open>apply_options\<close> in their order: a checked option with the name its error
  carries, an option whose result is not looked at, and the configuration file.
\<close>

datatype setting =
    Checked opt_name opt_value string
  | Unchecked opt_name opt_value
  | Parse_config "string option"

fun str_opt :: "opt_name \<Rightarrow> string \<Rightarrow> string option \<Rightarrow> setting list" where
  "str_opt n name (Some v) = [Checked n (Str (c_str v)) name]"
| "str_opt n name None = []"

fun num_opt :: "opt_name \<Rightarrow> int option \<Rightarrow> setting list" where
  "num_opt n (Some v) = [Unchecked n (Num v)]"
| "num_opt n None = []"

definition c_quot :: "int \<Rightarrow> int \<Rightarrow> int" where
  "c_quot a b = (if a < 0 then - ((- a) div b) else a div b)"

definition c_rem :: "int \<Rightarrow> int \<Rightarrow> int" where
  "c_rem a b = (if a < 0 then - ((- a) mod b) else a mod b)"

fun timeout_opt :: "int option \<Rightarrow> setting list" where
  "timeout_opt (Some us) =
     [Unchecked SSH_OPTIONS_TIMEOUT (Num (c_quot us 1000000)),
      Unchecked SSH_OPTIONS_TIMEOUT_USEC (Num (c_rem us 1000000))]"
| "timeout_opt None = []"

definition compression_text :: "compression \<Rightarrow> string" where
  "compression_text c =
     (case c of Compression_on \<Rightarrow> ''yes'' | Compression_zlib \<Rightarrow> ''zlib''
      | Compression_zlib_openssh \<Rightarrow> ''zlib@openssh.com'' | Compression_off \<Rightarrow> ''no'')"

definition flag :: "bool \<Rightarrow> int" where
  "flag b = (if b then 1 else 0)"

definition option_settings :: "session_options \<Rightarrow> setting list" where
  "option_settings opts =
     str_opt SSH_OPTIONS_SSH_DIR ''SSH_OPTIONS_SSH_DIR'' (opt_ssh_dir opts)
     @ str_opt SSH_OPTIONS_KNOWNHOSTS ''SSH_OPTIONS_KNOWNHOSTS'' (opt_known_hosts opts)
     @ str_opt SSH_OPTIONS_GLOBAL_KNOWNHOSTS ''SSH_OPTIONS_GLOBAL_KNOWNHOSTS'' (opt_global_known_hosts opts)
     @ [Checked SSH_OPTIONS_HOST (Str (c_str (opt_host opts))) ''SSH_OPTIONS_HOST'']
     @ (case opt_port opts of
          Some p \<Rightarrow> [Checked SSH_OPTIONS_PORT (Num (uint p)) ''SSH_OPTIONS_PORT''] | None \<Rightarrow> [])
     @ str_opt SSH_OPTIONS_USER ''SSH_OPTIONS_USER'' (opt_user opts)
     @ str_opt SSH_OPTIONS_BINDADDR ''SSH_OPTIONS_BINDADDR'' (opt_bind_address opts)
     @ num_opt SSH_OPTIONS_FD (opt_fd opts)
     @ str_opt SSH_OPTIONS_PROXYCOMMAND ''SSH_OPTIONS_PROXYCOMMAND'' (opt_proxy_command opts)
     @ timeout_opt (opt_timeout_us opts)
     @ num_opt SSH_OPTIONS_NODELAY (map_option flag (opt_tcp_nodelay opts))
     @ map (\<lambda>i. Checked SSH_OPTIONS_ADD_IDENTITY (Str (c_str i)) ''SSH_OPTIONS_ADD_IDENTITY'') (opt_identities opts)
     @ str_opt SSH_OPTIONS_CIPHERS_C_S ''SSH_OPTIONS_CIPHERS_C_S'' (opt_ciphers_client_to_server opts)
     @ str_opt SSH_OPTIONS_CIPHERS_S_C ''SSH_OPTIONS_CIPHERS_S_C'' (opt_ciphers_server_to_client opts)
     @ str_opt SSH_OPTIONS_KEY_EXCHANGE ''SSH_OPTIONS_KEY_EXCHANGE'' (opt_key_exchange opts)
     @ str_opt SSH_OPTIONS_HMAC_C_S ''SSH_OPTIONS_HMAC_C_S'' (opt_hmac_client_to_server opts)
     @ str_opt SSH_OPTIONS_HMAC_S_C ''SSH_OPTIONS_HMAC_S_C'' (opt_hmac_server_to_client opts)
     @ str_opt SSH_OPTIONS_HOSTKEYS ''SSH_OPTIONS_HOSTKEYS'' (opt_host_key_algorithms opts)
     @ str_opt SSH_OPTIONS_PUBLICKEY_ACCEPTED_TYPES ''SSH_OPTIONS_PUBLICKEY_ACCEPTED_TYPES''
         (opt_public_key_accepted_types opts)
     @ (case opt_compression opts of
          Some c \<Rightarrow> [Unchecked SSH_OPTIONS_COMPRESSION (Str (compression_text c))] | None \<Rightarrow> [])
     @ num_opt SSH_OPTIONS_COMPRESSION_LEVEL (opt_compression_level opts)
     @ num_opt SSH_OPTIONS_REKEY_DATA (map_option uint (opt_rekey_data_bytes opts))
     @ num_opt SSH_OPTIONS_REKEY_TIME (map_option (\<lambda>s. s mod 4294967296) (opt_rekey_time_s opts))
     @ num_opt SSH_OPTIONS_STRICTHOSTKEYCHECK
         (map_option (\<lambda>s. flag (s = Strict_on)) (opt_strict_host_key_checking opts))
     @ str_opt SSH_OPTIONS_GSSAPI_SERVER_IDENTITY ''SSH_OPTIONS_GSSAPI_SERVER_IDENTITY''
         (opt_gssapi_server_identity opts)
     @ str_opt SSH_OPTIONS_GSSAPI_CLIENT_IDENTITY ''SSH_OPTIONS_GSSAPI_CLIENT_IDENTITY''
         (opt_gssapi_client_identity opts)
     @ num_opt SSH_OPTIONS_GSSAPI_DELEGATE_CREDENTIALS (map_option flag (opt_gssapi_delegate_credentials opts))
     @ (case opt_config_file opts of
          Some f \<Rightarrow> [Parse_config (Some (c_str f))]
        | None \<Rightarrow> if opt_process_config opts then [Parse_config None] else [])
     @ [Unchecked SSH_OPTIONS_PROCESS_CONFIG (Num (flag (opt_process_config opts)))]"

fun run_settings ::
    "('w, 'z) session_api_scheme \<Rightarrow> handle \<Rightarrow> setting list \<Rightarrow> 'w \<Rightarrow> unit result \<times> 'w" where
  "run_settings api sess [] w = (Inr (), w)"
| "run_settings api sess (Checked n v name # ss) w =
     (case ssh_options_set api sess n v w of
        (rc, w') \<Rightarrow>
          if rc \<noteq> SSH_OK then (Inl (make_error_info api w' (Some sess) name errc_invalid_argument), w')
          else run_settings api sess ss w')"
| "run_settings api sess (Unchecked n v # ss) w =
     run_settings api sess ss (snd (ssh_options_set api sess n v w))"
| "run_settings api sess (Parse_config f # ss) w =
     run_settings api sess ss (snd (ssh_options_parse_config api sess f w))"

definition apply_options ::
    "('w, 'z) session_api_scheme \<Rightarrow> handle \<Rightarrow> session_options \<Rightarrow> 'w \<Rightarrow> unit result \<times> 'w" where
  "apply_options api sess opts w = run_settings api sess (option_settings opts) w"

section \<open>Operations\<close>

definition session_ctor ::
    "('w, 'z) session_api_scheme \<Rightarrow> session_options \<Rightarrow> 'w \<Rightarrow> session \<times> 'w" where
  "session_ctor api opts w =
     (case ssh_new api w of
        (None, w') \<Rightarrow> (empty_session\<lparr>se_options := opts\<rparr>, w')
      | (Some raw, w') \<Rightarrow>
          (empty_session\<lparr>se_core := Some raw, se_options := opts\<rparr>, snd (apply_options api raw opts w')))"

definition try_set_options ::
    "('w, 'z) session_api_scheme \<Rightarrow> session \<Rightarrow> session_options \<Rightarrow> 'w \<Rightarrow> unit result \<times> session \<times> 'w" where
  "try_set_options api se opts w =
     (case se_core se of
        None \<Rightarrow> (Inl (invalid_handle_error ''Session::try_set_options''), se, w)
      | Some raw \<Rightarrow>
          (case apply_options api raw opts w of (r, w') \<Rightarrow> (r, se\<lparr>se_options := opts\<rparr>, w')))"

definition try_connect :: "('w, 'z) session_api_scheme \<Rightarrow> session \<Rightarrow> 'w \<Rightarrow> unit result \<times> 'w" where
  "try_connect api se w =
     (case se_core se of
        None \<Rightarrow> (Inl (invalid_handle_error ''Session::try_connect''), w)
      | Some raw \<Rightarrow> rc_result api (Some raw) ''ssh_connect'' errc_connection_lost (ssh_connect api raw w))"

definition session_disconnect :: "('w, 'z) session_api_scheme \<Rightarrow> session \<Rightarrow> 'w \<Rightarrow> 'w" where
  "session_disconnect api se w = (case se_core se of Some raw \<Rightarrow> ssh_disconnect api raw w | None \<Rightarrow> w)"

definition is_connected :: "('w, 'z) session_api_scheme \<Rightarrow> session \<Rightarrow> 'w \<Rightarrow> bool" where
  "is_connected api se w = (case se_core se of Some raw \<Rightarrow> ssh_is_connected api raw w | None \<Rightarrow> False)"

definition socket_fd :: "('w, 'z) session_api_scheme \<Rightarrow> session \<Rightarrow> 'w \<Rightarrow> int" where
  "socket_fd api se w = (case se_core se of Some raw \<Rightarrow> ssh_get_fd api raw w | None \<Rightarrow> -1)"

definition try_server_banner :: "('w, 'z) session_api_scheme \<Rightarrow> session \<Rightarrow> 'w \<Rightarrow> string result" where
  "try_server_banner api se w =
     (case se_core se of
        None \<Rightarrow> Inl (invalid_handle_error ''Session::try_server_banner'')
      | Some raw \<Rightarrow> Inr (opt_string (ssh_get_serverbanner api raw w)))"

definition try_client_banner :: "('w, 'z) session_api_scheme \<Rightarrow> session \<Rightarrow> 'w \<Rightarrow> string result" where
  "try_client_banner api se w =
     (case se_core se of
        None \<Rightarrow> Inl (invalid_handle_error ''Session::try_client_banner'')
      | Some raw \<Rightarrow> Inr (opt_string (ssh_get_clientbanner api raw w)))"

record negotiated_algorithms =
  na_kex :: string
  na_host_key :: string
  na_cipher_in :: string
  na_cipher_out :: string
  na_hmac_in :: string
  na_hmac_out :: string

definition negotiated :: "('w, 'z) session_api_scheme \<Rightarrow> session \<Rightarrow> 'w \<Rightarrow> negotiated_algorithms" where
  "negotiated api se w =
     (case se_core se of
        None \<Rightarrow> \<lparr>na_kex = [], na_host_key = [], na_cipher_in = [], na_cipher_out = [], na_hmac_in = [], na_hmac_out = []\<rparr>
      | Some raw \<Rightarrow>
          \<lparr>na_kex = opt_string (ssh_get_kex_algo api raw w), na_host_key = [],
           na_cipher_in = opt_string (ssh_get_cipher_in api raw w),
           na_cipher_out = opt_string (ssh_get_cipher_out api raw w),
           na_hmac_in = opt_string (ssh_get_hmac_in api raw w),
           na_hmac_out = opt_string (ssh_get_hmac_out api raw w)\<rparr>)"

definition try_server_public_key :: "('w, 'z) session_api_scheme \<Rightarrow> session \<Rightarrow> 'w \<Rightarrow> key result" where
  "try_server_public_key api se w =
     (case se_core se of
        None \<Rightarrow> Inl (invalid_handle_error ''Session::try_server_public_key'')
      | Some raw \<Rightarrow>
          (case ssh_get_server_publickey api raw w of
             (SSH_OK, Some k) \<Rightarrow> Inr (owned_key k)
           | _ \<Rightarrow> Inl (make_error_info api w (Some raw) ''ssh_get_server_publickey'' errc_host_key_unknown)))"

definition try_check_known_host ::
    "('w, 'z) session_api_scheme \<Rightarrow> session \<Rightarrow> 'w \<Rightarrow> known_hosts_status result" where
  "try_check_known_host api se w =
     (case se_core se of
        None \<Rightarrow> Inl (invalid_handle_error ''Session::try_check_known_host'')
      | Some raw \<Rightarrow> Inr (known_hosts_status_from_native (ssh_session_is_known_server api raw w)))"

definition try_update_known_hosts ::
    "('w, 'z) session_api_scheme \<Rightarrow> session \<Rightarrow> 'w \<Rightarrow> unit result \<times> 'w" where
  "try_update_known_hosts api se w =
     (case se_core se of
        None \<Rightarrow> (Inl (invalid_handle_error ''Session::try_update_known_hosts''), w)
      | Some raw \<Rightarrow>
          rc_result api (Some raw) ''ssh_session_update_known_hosts'' errc_known_hosts_io_error
            (ssh_session_update_known_hosts api raw w))"

fun status_number :: "known_hosts_status \<Rightarrow> nat" where
  "status_number KH_ok = 0"
| "status_number KH_changed = 1"
| "status_number KH_other_type = 2"
| "status_number KH_not_found = 3"
| "status_number KH_unknown = 4"
| "status_number KH_error = 5"

definition rejected_error :: "known_hosts_status \<Rightarrow> error_info" where
  "rejected_error st =
     mk_error errc_host_key_rejected
       (''host key rejected by policy (status='' @ nat_to_string (status_number st) @ '')'')
       ''Session::verify_host_key''"

text \<open>The presented key is a local object: it is released when the function returns.\<close>

definition try_verify_host_key ::
    "('w, 'z) session_api_scheme \<Rightarrow> ('w, 'y) key_api_scheme \<Rightarrow> session \<Rightarrow> (hk_context \<Rightarrow> decision) \<Rightarrow> 'w
       \<Rightarrow> unit result \<times> 'w" where
  "try_verify_host_key api kapi se verify w =
     (case se_core se of
        None \<Rightarrow> (Inl (invalid_handle_error ''Session::try_verify_host_key''), w)
      | Some _ \<Rightarrow>
          (case try_check_known_host api se w of
             Inl e \<Rightarrow> (Inl e, w)
           | Inr status \<Rightarrow>
               (case try_server_public_key api se w of
                  Inl e \<Rightarrow> (Inl e, w)
                | Inr k \<Rightarrow>
                    (case (case key_fingerprint kapi k Hash_sha256 w of
                       Inl e \<Rightarrow> (Inl e, w)
                     | Inr fp \<Rightarrow>
                         (case verify \<lparr>hc_host = opt_host (se_options se),
                                hc_port = (case opt_port (se_options se) of Some p \<Rightarrow> p | None \<Rightarrow> 22),
                                hc_status = status, hc_key = k, hc_sha256 = fp\<rparr> of
                            Reject \<Rightarrow> (Inl (rejected_error status), w)
                          | Accept_and_remember \<Rightarrow> try_update_known_hosts api se w
                          | Accept \<Rightarrow> (Inr (), w))) of
                       (r, w') \<Rightarrow> (r, key_release kapi k w')))))"

definition try_auth_methods ::
    "('w, 'z) session_api_scheme \<Rightarrow> method_bits \<Rightarrow> session \<Rightarrow> 'w \<Rightarrow> auth_methods result \<times> session \<times> 'w" where
  "try_auth_methods api b se w =
     (case se_core se of
        None \<Rightarrow> (Inl (invalid_handle_error ''Session::try_auth_methods''), se, w)
      | Some raw \<Rightarrow>
          (case ssh_userauth_none api raw w of
             (rc, w') \<Rightarrow>
               if rc = SSH_AUTH_SUCCESS
               then (Inr \<lparr>am_none = True, am_password = False, am_public_key = False, am_host_based = False,
                          am_interactive = False, am_gssapi_mic = False\<rparr>,
                     se\<lparr>se_authenticated := True\<rparr>, w')
               else (Inr (from_bits b (ssh_userauth_list api raw w')), se, w')))"

definition try_authenticate ::
    "('w, 'z) session_api_scheme \<Rightarrow> session \<Rightarrow> 'w authenticator \<Rightarrow> 'w
       \<Rightarrow> (auth_status result \<times> session \<times> 'w) option" where
  "try_authenticate api se a w =
     (case se_core se of
        None \<Rightarrow> Some (Inl (invalid_handle_error ''Session::try_authenticate''), se, w)
      | Some raw \<Rightarrow>
          (case attempt api raw a w of
             None \<Rightarrow> None
           | Some (r, w') \<Rightarrow>
               Some (r, if r = Inr Auth_success then se\<lparr>se_authenticated := True\<rparr> else se, w')))"

text \<open>\<open>authenticate\<close> throws unless the attempt succeeded.\<close>

definition authenticate ::
    "('w, 'z) session_api_scheme \<Rightarrow> session \<Rightarrow> 'w authenticator \<Rightarrow> 'w \<Rightarrow> ((exn + unit) \<times> session \<times> 'w) option" where
  "authenticate api se a w =
     (case try_authenticate api se a w of
        None \<Rightarrow> None
      | Some (r, se', w') \<Rightarrow>
          (case result_value r of
             Inl x \<Rightarrow> Some (Inl x, se', w')
           | Inr st \<Rightarrow>
               if st \<noteq> Auth_success
               then Some (Inl (throw_error (mk_error (if st = Auth_partial then errc_auth_partial else errc_auth_denied)
                                ''authentication did not succeed'' ''Session::authenticate'')), se', w')
               else Some (Inr (), se', w')))"

fun try_authenticate_list ::
    "('w, 'z) session_api_scheme \<Rightarrow> auth_status \<Rightarrow> session \<Rightarrow> 'w authenticator list \<Rightarrow> 'w
       \<Rightarrow> (auth_status result \<times> session \<times> 'w) option" where
  "try_authenticate_list api prev se [] w = Some (Inr prev, se, w)"
| "try_authenticate_list api prev se (a # as) w =
     (case try_authenticate api se a w of
        None \<Rightarrow> None
      | Some (Inl e, se', w') \<Rightarrow> Some (Inl e, se', w')
      | Some (Inr st, se', w') \<Rightarrow>
          if st = Auth_success then Some (Inr st, se', w') else try_authenticate_list api st se' as w')"

definition try_open_channel ::
    "('w, 'z) session_api_scheme \<Rightarrow> session \<Rightarrow> 'w \<Rightarrow> channel result \<times> 'w" where
  "try_open_channel api se w =
     (case se_core se of
        None \<Rightarrow> (Inl (invalid_handle_error ''Session::try_open_channel''), w)
      | Some raw \<Rightarrow>
          (case ssh_channel_new api raw w of
             (None, w') \<Rightarrow> (Inl (make_error_info api w' (Some raw) ''ssh_channel_new'' errc_channel_open_failed), w')
           | (Some n, w') \<Rightarrow>
               (case try_open_session api (new_channel (Some n) (Some raw) True) w' of
                  (Inl e, ch, w'') \<Rightarrow> (Inl e, snd (channel_dtor api ch w''))
                | (Inr _, ch, w'') \<Rightarrow> (Inr ch, w''))))"

text \<open>The cancel flag of the core.\<close>

definition request_cancel :: "session \<Rightarrow> session" where
  "request_cancel se = (if se_core se \<noteq> None then se\<lparr>se_cancel := True\<rparr> else se)"

definition clear_cancel :: "session \<Rightarrow> session" where
  "clear_cancel se = (if se_core se \<noteq> None then se\<lparr>se_cancel := False\<rparr> else se)"

definition cancel_requested :: "session \<Rightarrow> bool" where
  "cancel_requested se \<longleftrightarrow> se_core se \<noteq> None \<and> se_cancel se"

section \<open>Options reach libssh\<close>

datatype opt_call = Set_option opt_name opt_value | Read_config "string option"

fun setting_call :: "setting \<Rightarrow> opt_call" where
  "setting_call (Checked n v _) = Set_option n v"
| "setting_call (Unchecked n v) = Set_option n v"
| "setting_call (Parse_config f) = Read_config f"

text \<open>
  The simulated connection with a session: option calls are recorded, the value \<open>bad\<close> is refused,
  the state of the host key is part of the world, one channel can exist at a time.
\<close>

record sim_session = sim +
  ss_log :: "opt_call list"
  ss_known :: native_known_hosts
  ss_chans :: "handle set"

definition sim_session_api :: "'a sim_session_scheme session_api" where
  "sim_session_api = auth_api.extend
     (sim_auth_api\<lparr>ssh_channel_free := \<lambda>n w. w\<lparr>ss_chans := ss_chans w - {n}\<rparr>\<rparr>)
     (session_api.fields
        (\<lambda>w. (Some 1, w)) (\<lambda>_ w. w)
        (\<lambda>_ n v w. (if v = Str ''bad'' then SSH_ERROR else SSH_OK, w\<lparr>ss_log := ss_log w @ [Set_option n v]\<rparr>))
        (\<lambda>_ f w. (SSH_OK, w\<lparr>ss_log := ss_log w @ [Read_config f]\<rparr>))
        (\<lambda>_ w. (SSH_OK, w)) (\<lambda>_ w. w) (\<lambda>_ _. True) (\<lambda>_ _. 5)
        (\<lambda>_ _. None) (\<lambda>_ _. None) (\<lambda>_ _. None) (\<lambda>_ _. None) (\<lambda>_ _. None) (\<lambda>_ _. None) (\<lambda>_ _. None)
        (\<lambda>_ _. (SSH_OK, Some 3)) (\<lambda>_ w. ss_known w) (\<lambda>_ w. (SSH_OK, w\<lparr>ss_known := SSH_KNOWN_HOSTS_OK\<rparr>))
        (\<lambda>_ w. if 8 \<in> ss_chans w then (None, w) else (Some 8, w\<lparr>ss_chans := insert 8 (ss_chans w)\<rparr>)))"

lemma sim_session_sel [simp]:
  "ssh_new sim_session_api = (\<lambda>w. (Some 1, w))"
  "ssh_options_set sim_session_api = (\<lambda>_ n v w.
     (if v = Str ''bad'' then SSH_ERROR else SSH_OK, w\<lparr>ss_log := ss_log w @ [Set_option n v]\<rparr>))"
  "ssh_options_parse_config sim_session_api = (\<lambda>_ f w. (SSH_OK, w\<lparr>ss_log := ss_log w @ [Read_config f]\<rparr>))"
  "ssh_connect sim_session_api = (\<lambda>_ w. (SSH_OK, w))"
  "ssh_get_server_publickey sim_session_api = (\<lambda>_ _. (SSH_OK, Some 3))"
  "ssh_session_is_known_server sim_session_api = (\<lambda>_ w. ss_known w)"
  "ssh_session_update_known_hosts sim_session_api = (\<lambda>_ w. (SSH_OK, w\<lparr>ss_known := SSH_KNOWN_HOSTS_OK\<rparr>))"
  "ssh_channel_new sim_session_api =
     (\<lambda>_ w. if 8 \<in> ss_chans w then (None, w) else (Some 8, w\<lparr>ss_chans := insert 8 (ss_chans w)\<rparr>))"
  "ssh_channel_open_session sim_session_api = (\<lambda>_ w. (SSH_OK, w))"
  "ssh_channel_free sim_session_api = (\<lambda>n w. w\<lparr>ss_chans := ss_chans w - {n}\<rparr>)"
  "ssh_userauth_password sim_session_api =
     (\<lambda>_ pw w. (if pw = ''pw'' then SSH_AUTH_SUCCESS else SSH_AUTH_DENIED, tick w))"
  "ssh_is_blocking sim_session_api = (\<lambda>_ _. True)" "steady_now sim_session_api = (\<lambda>w. int (sim_reads w))"
  "ssh_get_error sim_session_api = (\<lambda>_ _. ''failed'')" "ssh_get_error_code sim_session_api = (\<lambda>_ _. SSH_NO_ERROR)"
  by (simp_all add: sim_session_api_def sim_auth_api_def sim_api_def channel_api.defs auth_api.defs session_api.defs)

lemma sim_session_read [simp]:
  "ssh_channel_poll_timeout sim_session_api = (\<lambda>_ _ e w. (int (length (if e then sim_in_err w else sim_in w)), w))"
  "ssh_channel_read_timeout sim_session_api = sim_read"
  "ssh_channel_is_eof sim_session_api = (\<lambda>_ w. sim_in w = [] \<and> sim_in_err w = [])"
  "ssh_channel_write sim_session_api = (\<lambda>_ d w. (int (min 3 (length d)), w\<lparr>sim_out := sim_out w @ take 3 d\<rparr>))"
  "ssh_channel_send_eof sim_session_api = (\<lambda>_ w. (SSH_OK, w))"
  "ssh_channel_close sim_session_api = (\<lambda>_ w. (SSH_OK, w))"
  "ssh_channel_is_open sim_session_api = (\<lambda>_ _. True)" "ssh_channel_is_closed sim_session_api = (\<lambda>_ _. False)"
  by (simp_all add: sim_session_api_def sim_auth_api_def sim_api_def channel_api.defs auth_api.defs session_api.defs)

definition sim_world :: "native_known_hosts \<Rightarrow> sim_session" where
  "sim_world k = \<lparr>sim_out = [], sim_err = [], sim_in = [], sim_in_err = [], sim_taken = [], sim_taken_err = [],
      sim_reads = 0, ss_log = [], ss_known = k, ss_chans = {}\<rparr>"

definition sim_client :: session where
  "sim_client = \<lparr>se_core = Some 1, se_options = default_options\<lparr>opt_host := ''h''\<rparr>, se_authenticated = False,
     se_cancel = False\<rparr>"

lemma sim_session_password:
  "try_authenticate sim_session_api sim_client (A_password p) w
     = Some (if c_str p = ''pw'' then (Inr Auth_success, sim_client\<lparr>se_authenticated := True\<rparr>, tick w)
             else (Inr Auth_denied, sim_client, tick w))"
  by (simp add: try_authenticate_def sim_client_def password_attempt_def auth_attempt_def auth_retry.simps
      map_auth_result_def)

text \<open>\<open>log w\<close> is the sequence of option calls libssh has seen.\<close>

definition logs_options :: "('w, 'z) session_api_scheme \<Rightarrow> handle \<Rightarrow> ('w \<Rightarrow> opt_call list) \<Rightarrow> bool" where
  "logs_options api sess log \<longleftrightarrow>
     (\<forall>n v w. log (snd (ssh_options_set api sess n v w)) = log w @ [Set_option n v])
     \<and> (\<forall>f w. log (snd (ssh_options_parse_config api sess f w)) = log w @ [Read_config f])"

lemma run_settings_log:
  assumes "logs_options api sess log"
  shows "case run_settings api sess ss w of
           (Inr _, w') \<Rightarrow> log w' = log w @ map setting_call ss
         | (Inl _, w') \<Rightarrow> \<exists>pre n v name post. ss = pre @ Checked n v name # post
              \<and> log w' = log w @ map setting_call pre @ [Set_option n v]"
proof (induction ss arbitrary: w)
  case (Cons st ss)
  have set: "log w' = log w @ [Set_option n v]" if "ssh_options_set api sess n v w = (rc, w')" for n v rc w w'
    using assms that unfolding logs_options_def by (metis snd_conv)
  show ?case
  proof (cases st)
    case (Checked n v name)
    obtain rc w' where c: "ssh_options_set api sess n v w = (rc, w')" by fastforce
    show ?thesis
    proof (cases "rc = SSH_OK")
      case True
      then show ?thesis
        using Cons [of w'] c Checked set [OF c]
        by (auto split: prod.splits sum.splits intro: exI [of _ "st # _"]) (metis append_Cons list.simps(9) setting_call.simps(1))
    next
      case False
      then show ?thesis using c Checked set [OF c] by (auto intro: exI [of _ "[]"])
    qed
  next
    case (Unchecked n v)
    then show ?thesis
      using Cons [of "snd (ssh_options_set api sess n v w)"] assms
      by (auto simp: logs_options_def split: prod.splits sum.splits)
        (metis append_Cons list.simps(9) setting_call.simps(2))
  next
    case (Parse_config f)
    then show ?thesis
      using Cons [of "snd (ssh_options_parse_config api sess f w)"] assms
      by (auto simp: logs_options_def split: prod.splits sum.splits)
        (metis append_Cons list.simps(9) setting_call.simps(3))
  qed
qed simp



text \<open>
  The proxy jump, the locking mode and the log level of the options record are never handed to
  libssh: two records that differ only there have the same settings.
\<close>
theorem options_never_applied:
  "option_settings (opts\<lparr>opt_proxy_jump := j, opt_locking := l, opt_log_level := g\<rparr>) = option_settings opts"
  by (simp add: option_settings_def)

text \<open>
  The constructor drops the error of a rejected option, and connecting does not bring it back:
  after a constructor whose options were rejected, \<open>try_connect\<close> reports what \<open>ssh_connect\<close> returns.
\<close>
theorem ctor_hides_option_errors:
  assumes "ssh_new api w = (Some raw, w1)" and "apply_options api raw opts w1 = (Inl e, w2)"
    and "ssh_connect api raw w2 = (SSH_OK, w3)"
  shows "try_connect api (fst (session_ctor api opts w)) (snd (session_ctor api opts w)) = (Inr (), w3)"
  using assms by (simp add: session_ctor_def try_connect_def empty_session_def rc_result_def)

theorem ctor_hides_option_errors_witness:
  "(\<exists>e w. apply_options sim_session_api 1 (default_options\<lparr>opt_host := ''bad''\<rparr>) (sim_world SSH_KNOWN_HOSTS_OK) = (Inl e, w)
     \<and> try_connect sim_session_api
         (fst (session_ctor sim_session_api (default_options\<lparr>opt_host := ''bad''\<rparr>) (sim_world SSH_KNOWN_HOSTS_OK)))
         (snd (session_ctor sim_session_api (default_options\<lparr>opt_host := ''bad''\<rparr>) (sim_world SSH_KNOWN_HOSTS_OK)))
       = (Inr (), w))"
proof -
  obtain e w where "apply_options sim_session_api 1 (default_options\<lparr>opt_host := ''bad''\<rparr>) (sim_world SSH_KNOWN_HOSTS_OK)
      = (Inl e, w)"
    by (simp add: apply_options_def option_settings_def default_options_def c_str_def)
  then show ?thesis
    using ctor_hides_option_errors [of sim_session_api "sim_world SSH_KNOWN_HOSTS_OK" 1 "sim_world SSH_KNOWN_HOSTS_OK"
        "default_options\<lparr>opt_host := ''bad''\<rparr>" e w w] by simp
qed

section \<open>Host keys\<close>

definition server_status :: "('w, 'z) session_api_scheme \<Rightarrow> handle \<Rightarrow> 'w \<Rightarrow> known_hosts_status" where
  "server_status api raw w = known_hosts_status_from_native (ssh_session_is_known_server api raw w)"

text \<open>The steps between the calls and the policy, for any policy.\<close>

lemma verify_host_key_steps:
  assumes "se_core se = Some raw" and "try_server_public_key api se w = Inr k"
    and "key_fingerprint kapi k Hash_sha256 w = Inr fp"
  shows "\<exists>ctx. hc_status ctx = server_status api raw w \<and> hc_sha256 ctx = fp
     \<and> try_verify_host_key api kapi se verify w
        = (case verify ctx of
             Reject \<Rightarrow> (Inl (rejected_error (server_status api raw w)), key_release kapi k w)
           | Accept_and_remember \<Rightarrow>
               (fst (try_update_known_hosts api se w), key_release kapi k (snd (try_update_known_hosts api se w)))
           | Accept \<Rightarrow> (Inr (), key_release kapi k w))"
  by (rule exI [of _ "\<lparr>hc_host = opt_host (se_options se),
        hc_port = (case opt_port (se_options se) of Some p \<Rightarrow> p | None \<Rightarrow> 22),
        hc_status = server_status api raw w, hc_key = k, hc_sha256 = fp\<rparr>"])
    (use assms in \<open>auto simp: try_verify_host_key_def try_check_known_host_def server_status_def
       split: decision.splits prod.splits\<close>)

context safe_policy
begin

text \<open>Whatever happens, a suspicious key is an error, and nothing but releasing the key is done.\<close>

lemma session_rejects:
  assumes "se_core se = Some raw" and "suspicious (server_status api raw w)"
  shows "\<exists>e. try_verify_host_key api kapi se verify w = (Inl e, w)
     \<or> (\<exists>k. try_verify_host_key api kapi se verify w = (Inl e, key_release kapi k w))"
proof (cases "try_server_public_key api se w")
  case (Inl e)
  then show ?thesis using assms(1) by (auto simp: try_verify_host_key_def try_check_known_host_def)
next
  case (Inr k)
  show ?thesis
  proof (cases "key_fingerprint kapi k Hash_sha256 w")
    case (Inl e)
    then show ?thesis
      using assms(1) Inr by (auto simp: try_verify_host_key_def try_check_known_host_def)
  next
    case fp: (Inr fp)
    obtain ctx where "hc_status ctx = server_status api raw w"
      and v: "try_verify_host_key api kapi se verify w
        = (case verify ctx of
             Reject \<Rightarrow> (Inl (rejected_error (server_status api raw w)), key_release kapi k w)
           | Accept_and_remember \<Rightarrow>
               (fst (try_update_known_hosts api se w), key_release kapi k (snd (try_update_known_hosts api se w)))
           | Accept \<Rightarrow> (Inr (), key_release kapi k w))"
      using verify_host_key_steps [OF assms(1) Inr fp, of verify] by blast
    then have "verify ctx = Reject" using rejects_suspicious assms(2) by simp
    then show ?thesis using v by auto
  qed
qed

end

text \<open>
  C3: Under the strict and under the trust-on-first-use policy a server whose key changed, is of
  another type than the known one, or could not be checked is never accepted: the verification
  ends with an error, and \<open>known_hosts\<close> is not updated (the only call that can change anything is
  the release of the presented key).
\<close>
theorem suspicious_key_never_accepted:
  assumes "se_core se = Some raw" and "suspicious (server_status api raw w)"
    and "verify = strict_verify \<or> verify = tofu_verify"
  shows "\<exists>e. try_verify_host_key api kapi se verify w = (Inl e, w)
     \<or> (\<exists>k. try_verify_host_key api kapi se verify w = (Inl e, key_release kapi k w))"
  using assms(3) strict.session_rejects [OF assms(1,2)] tofu.session_rejects [OF assms(1,2)] by blast

theorem suspicious_key_never_accepted_witness:
  "suspicious (server_status sim_session_api 1 (sim_world SSH_KNOWN_HOSTS_CHANGED))
   \<and> (\<exists>e. try_verify_host_key sim_session_api example_key_api sim_client tofu_verify (sim_world SSH_KNOWN_HOSTS_CHANGED)
           = (Inl e, sim_world SSH_KNOWN_HOSTS_CHANGED))"
proof -
  have "suspicious (server_status sim_session_api 1 (sim_world SSH_KNOWN_HOSTS_CHANGED))"
    by (simp add: server_status_def sim_world_def suspicious_def)
  moreover have "key_release example_key_api k w = w" for k and w :: sim_session
    by (simp add: key_release_def example_key_api_def split: option.splits)
  ultimately show ?thesis
    using suspicious_key_never_accepted [of sim_client 1 sim_session_api "sim_world SSH_KNOWN_HOSTS_CHANGED" tofu_verify
        example_key_api]
    by (auto simp: sim_client_def)
qed

text \<open>
  C12: When the server's key and its fingerprint can be obtained, the strict policy accepts exactly
  the keys known for the host, trust on first use also unknown hosts whose entry could be
  written, and pinning exactly the keys whose SHA-256 fingerprint is pinned, whatever
  \<open>known_hosts\<close> says.
\<close>
theorem host_key_acceptance:
  assumes "se_core se = Some raw" and "try_server_public_key api se w = Inr k"
    and "key_fingerprint kapi k Hash_sha256 w = Inr fp"
  shows "(fst (try_verify_host_key api kapi se strict_verify w) = Inr () \<longleftrightarrow> server_status api raw w = KH_ok)
     \<and> (fst (try_verify_host_key api kapi se tofu_verify w) = Inr () \<longleftrightarrow>
          server_status api raw w = KH_ok
          \<or> server_status api raw w \<in> {KH_not_found, KH_unknown}
            \<and> fst (ssh_session_update_known_hosts api raw w) = SSH_OK)
     \<and> (fst (try_verify_host_key api kapi se (pinned_verify pins) w) = Inr () \<longleftrightarrow> fp \<in> set pins)"
proof -
  have upd: "fst (try_update_known_hosts api se w) = Inr ()
      \<longleftrightarrow> fst (ssh_session_update_known_hosts api raw w) = SSH_OK"
    using assms(1) by (auto simp: try_update_known_hosts_def rc_result_def split: prod.splits)
  note steps = verify_host_key_steps [OF assms]
  have "fst (try_verify_host_key api kapi se strict_verify w) = Inr () \<longleftrightarrow> server_status api raw w = KH_ok"
    using steps [of strict_verify] by (auto simp: strict_verify_def split: if_splits)
  moreover have "fst (try_verify_host_key api kapi se tofu_verify w) = Inr () \<longleftrightarrow>
      server_status api raw w = KH_ok
      \<or> server_status api raw w \<in> {KH_not_found, KH_unknown}
        \<and> fst (ssh_session_update_known_hosts api raw w) = SSH_OK"
    using steps [of tofu_verify] upd by (cases "server_status api raw w") (auto simp: tofu_verify_def)
  moreover have "fst (try_verify_host_key api kapi se (pinned_verify pins) w) = Inr () \<longleftrightarrow> fp \<in> set pins"
  proof -
    obtain ctx where c: "hc_sha256 ctx = fp" and v: "fst (try_verify_host_key api kapi se (pinned_verify pins) w)
        = fst (case pinned_verify pins ctx of
             Reject \<Rightarrow> (Inl (rejected_error (server_status api raw w)), key_release kapi k w)
           | Accept_and_remember \<Rightarrow>
               (fst (try_update_known_hosts api se w), key_release kapi k (snd (try_update_known_hosts api se w)))
           | Accept \<Rightarrow> (Inr (), key_release kapi k w))"
      using steps [of "pinned_verify pins"] by metis
    have "pinned_verify pins ctx \<noteq> Accept_and_remember" by (simp add: pinned_verify_def)
    then show ?thesis
      using v c pinned_accepts [of pins ctx] by (cases "pinned_verify pins ctx") simp_all
  qed
  ultimately show ?thesis by blast
qed

theorem host_key_acceptance_witness:
  "try_server_public_key sim_session_api sim_client (sim_world SSH_KNOWN_HOSTS_UNKNOWN) = Inr (owned_key 3)
   \<and> fst (try_verify_host_key sim_session_api example_key_api sim_client strict_verify (sim_world SSH_KNOWN_HOSTS_UNKNOWN)) \<noteq> Inr ()
   \<and> fst (try_verify_host_key sim_session_api example_key_api sim_client tofu_verify (sim_world SSH_KNOWN_HOSTS_UNKNOWN)) = Inr ()"
proof -
  have k: "try_server_public_key sim_session_api sim_client (sim_world SSH_KNOWN_HOSTS_UNKNOWN) = Inr (owned_key 3)"
    and core: "se_core sim_client = Some 1"
    by (simp_all add: try_server_public_key_def sim_client_def)
  have f: "key_fingerprint example_key_api (owned_key 3) Hash_sha256 (sim_world SSH_KNOWN_HOSTS_UNKNOWN)
      = Inr \<lparr>fp_type = Hash_sha256, fp_bytes = [1, 2, 3]\<rparr>"
    by (simp add: key_fingerprint_def owned_key_def example_key_api_def)
  show ?thesis
    using host_key_acceptance [OF core k f] k by (simp add: server_status_def sim_world_def)
qed

section \<open>Authentication\<close>

lemma try_authenticate_flag:
  assumes "try_authenticate api se a w = Some (r, se', w')"
  shows "se_core se' = se_core se \<and> (se_authenticated se' \<longleftrightarrow> se_authenticated se \<or> r = Inr Auth_success)
     \<and> (r = Inr Auth_success \<longrightarrow> (\<exists>raw. se_core se = Some raw \<and> granted api raw w'))"
  using assms
  by (auto simp: try_authenticate_def split: option.splits if_splits dest: attempt_granted_aux(1))

lemma try_authenticate_list_flag:
  assumes "try_authenticate_list api prev se as w = Some (r, se', w')" and "prev \<noteq> Auth_success"
  shows "se_core se' = se_core se \<and> (se_authenticated se' \<longleftrightarrow> se_authenticated se \<or> r = Inr Auth_success)
     \<and> (r = Inr Auth_success \<longrightarrow> (\<exists>raw. se_core se = Some raw \<and> granted api raw w'))"
  using assms
proof (induction api prev se as w rule: try_authenticate_list.induct)
  case (2 api prev se a as w)
  obtain r1 se1 w1 where one: "try_authenticate api se a w = Some (r1, se1, w1)"
    using 2(2) by (auto split: option.splits)
  note f = try_authenticate_flag [OF one]
  show ?case
  proof (cases r1)
    case (Inl e)
    then show ?thesis using 2(2) one f by auto
  next
    case (Inr st)
    show ?thesis
    proof (cases "st = Auth_success")
      case True
      then show ?thesis using 2(2) one f Inr by auto
    next
      case False
      then have "try_authenticate_list api st se1 as w1 = Some (r, se', w')" using 2(2) one Inr by simp
      then show ?thesis using 2(1) [OF one refl Inr refl False _ False] f Inr False by auto
    qed
  qed
qed auto





section \<open>Channels\<close>

text \<open>\<open>chans w\<close> are the native channels that exist: created and not freed.\<close>

definition channel_contract :: "('w, 'z) session_api_scheme \<Rightarrow> ('w \<Rightarrow> handle set) \<Rightarrow> bool" where
  "channel_contract api chans \<longleftrightarrow>
     (\<forall>s w. case ssh_channel_new api s w of
        (Some n, w') \<Rightarrow> n \<notin> chans w \<and> chans w' = insert n (chans w) | (None, w') \<Rightarrow> chans w' = chans w)
     \<and> (\<forall>n w. chans (snd (ssh_channel_open_session api n w)) = chans w)
     \<and> (\<forall>n w. chans (ssh_channel_free api n w) = chans w - {n})"

text \<open>
  \<open>try_open_channel\<close> either returns an open, owning channel whose native channel is the only new
  one, or fails and leaves no native channel behind.
\<close>
theorem open_channel_no_leak:
  assumes "channel_contract api chans"
  shows "case try_open_channel api se w of
           (Inr ch, w') \<Rightarrow> \<exists>n. ch_native ch = Some n \<and> ch_owning ch \<and> ch_open ch \<and> n \<notin> chans w
              \<and> chans w' = insert n (chans w)
         | (Inl _, w') \<Rightarrow> chans w' = chans w"
proof -
  have new: "n \<notin> chans w" "chans w1 = insert n (chans w)" if "ssh_channel_new api raw w = (Some n, w1)" for raw n w1
    using assms that unfolding channel_contract_def by (metis (mono_tags, lifting) case_prod_conv option.simps(5))+
  have none: "chans w1 = chans w" if "ssh_channel_new api raw w = (None, w1)" for raw w1
    using assms that unfolding channel_contract_def by (metis (mono_tags, lifting) case_prod_conv option.simps(4))
  have "chans v2 = chans v" if "ssh_channel_open_session api n v = (rc, v2)" for n v rc v2
    using assms that unfolding channel_contract_def by (metis snd_conv)
  moreover have "chans (ssh_channel_free api n v) = chans v - {n}" for n v
    using assms unfolding channel_contract_def by blast
  ultimately show ?thesis
    by (auto simp: try_open_channel_def try_open_session_def rc_result_def new_channel_def channel_dtor_def
        channel_release_def new none split: option.splits prod.splits)
qed

theorem open_channel_no_leak_witness:
  "channel_contract sim_session_api ss_chans
   \<and> (case try_open_channel sim_session_api sim_client (sim_world SSH_KNOWN_HOSTS_OK) of
        (Inr ch, w) \<Rightarrow> ch_native ch = Some 8 \<and> ss_chans w = {8} | (Inl _, w) \<Rightarrow> False)"
proof -
  have c: "channel_contract sim_session_api ss_chans" by (simp add: channel_contract_def)
  show ?thesis
    using open_channel_no_leak [OF c, where se = sim_client and w = "sim_world SSH_KNOWN_HOSTS_OK"] c
    by (simp add: try_open_channel_def try_open_session_def sim_client_def rc_result_def new_channel_def sim_world_def)
qed

section \<open>Cancellation\<close>

text \<open>
  A requested cancellation is remembered by the core and changes nothing else: connecting,
  verifying the host key, authenticating and opening a channel make the same calls with the
  same results as without it.
\<close>
theorem cancel_has_no_effect:
  "(cancel_requested (request_cancel se) \<longleftrightarrow> se_core se \<noteq> None)
   \<and> try_connect api (request_cancel se) w = try_connect api se w
   \<and> try_verify_host_key api kapi (request_cancel se) verify w = try_verify_host_key api kapi se verify w
   \<and> map_option (\<lambda>(r, _, w'). (r, w')) (try_authenticate api (request_cancel se) a w)
       = map_option (\<lambda>(r, _, w'). (r, w')) (try_authenticate api se a w)
   \<and> try_open_channel api (request_cancel se) w = try_open_channel api se w"
proof -
  have core: "se_core (request_cancel se) = se_core se" "se_options (request_cancel se) = se_options se"
    by (simp_all add: request_cancel_def)
  have key: "try_server_public_key api (request_cancel se) = try_server_public_key api se"
    "try_update_known_hosts api (request_cancel se) = try_update_known_hosts api se"
    "try_check_known_host api (request_cancel se) = try_check_known_host api se"
    by (simp_all add: fun_eq_iff core try_server_public_key_def try_update_known_hosts_def try_check_known_host_def)
  have "cancel_requested (request_cancel se) \<longleftrightarrow> se_core se \<noteq> None"
    by (simp add: cancel_requested_def request_cancel_def)
  moreover have "map_option (\<lambda>(r, _, w'). (r, w')) (try_authenticate api (request_cancel se) a w)
       = map_option (\<lambda>(r, _, w'). (r, w')) (try_authenticate api se a w)"
    by (simp add: core try_authenticate_def split: option.splits)
  ultimately show ?thesis
    unfolding try_connect_def try_verify_host_key_def try_open_channel_def core key by blast
qed

end
