(* ===== verification/Exec.thy ===== *)
theory Exec
  imports Session Shell_Quote "HOL-Library.Sublist"
begin

text \<open>
  \<open>exec.hpp\<close>, \<open>detail/exec.ipp\<close>: one-shot execution of a remote command. The pump that reads both output
  streams is a partial function: it ends at the end of file of the channel, at an error or at the
  deadline, and without a deadline may not end at all.

  The theorems: what is returned is what the command wrote, cut only behind the limit and then
  marked as cut; with a deadline the pump ends; without one it spins on a channel that fails
  without an end of file.
\<close>

section \<open>Data\<close>

record exec_result =
  er_exit_code :: int
  er_exit_signal :: "string option"
  er_stdout :: string
  er_stderr :: string
  er_stdout_truncated :: bool
  er_stderr_truncated :: bool

definition new_exec_result :: exec_result where
  "new_exec_result = \<lparr>er_exit_code = -1, er_exit_signal = None, er_stdout = [], er_stderr = [],
     er_stdout_truncated = False, er_stderr_truncated = False\<rparr>"

definition exec_check :: "exec_result \<Rightarrow> exn + exec_result" where
  "exec_check r =
     (if er_exit_code r \<noteq> 0
      then Inl (throw_error (mk_error errc_channel_request_failed
             (''command exited with status '' @ int_to_string (er_exit_code r)
                @ (if er_stderr r = [] then [] else '': '' @ er_stderr r)) ''ExecResult::check''))
      else Inr r)"

record 'w exec =
  ex_session :: session
  ex_env :: "(string \<times> string) list"
  ex_pty :: bool
  ex_pty_term :: string
  ex_pty_size :: pty_size
  ex_stdin :: "string option"
  ex_timeout :: "int option"
  ex_max_output :: nat
  ex_merge_stderr :: bool
  ex_sink :: "(stream \<Rightarrow> bytes \<Rightarrow> 'w \<Rightarrow> 'w) option"

definition new_exec :: "session \<Rightarrow> 'w exec" where
  "new_exec se = \<lparr>ex_session = se, ex_env = [], ex_pty = False, ex_pty_term = ''xterm-256color'',
     ex_pty_size = default_pty_size, ex_stdin = None, ex_timeout = None, ex_max_output = 16 * 1024 * 1024,
     ex_merge_stderr = False, ex_sink = None\<rparr>"

definition exec_env :: "string \<Rightarrow> string \<Rightarrow> 'w exec \<Rightarrow> 'w exec" where
  "exec_env name val ex = ex\<lparr>ex_env := ex_env ex @ [(name, val)]\<rparr>"

definition exec_pty :: "bool \<Rightarrow> string \<Rightarrow> pty_size \<Rightarrow> 'w exec \<Rightarrow> 'w exec" where
  "exec_pty enable term sz ex = ex\<lparr>ex_pty := enable, ex_pty_term := term, ex_pty_size := sz\<rparr>"

definition exec_stdin_data :: "string \<Rightarrow> 'w exec \<Rightarrow> 'w exec" where
  "exec_stdin_data d ex = ex\<lparr>ex_stdin := Some d\<rparr>"

definition exec_set_timeout :: "int \<Rightarrow> 'w exec \<Rightarrow> 'w exec" where
  "exec_set_timeout t ex = ex\<lparr>ex_timeout := Some t\<rparr>"

definition exec_set_max_output :: "nat \<Rightarrow> 'w exec \<Rightarrow> 'w exec" where
  "exec_set_max_output n ex = ex\<lparr>ex_max_output := n\<rparr>"

definition exec_set_merge_stderr :: "bool \<Rightarrow> 'w exec \<Rightarrow> 'w exec" where
  "exec_set_merge_stderr v ex = ex\<lparr>ex_merge_stderr := v\<rparr>"

definition exec_set_sink :: "(stream \<Rightarrow> bytes \<Rightarrow> 'w \<Rightarrow> 'w) option \<Rightarrow> 'w exec \<Rightarrow> 'w exec" where
  "exec_set_sink f ex = ex\<lparr>ex_sink := f\<rparr>"

section \<open>The pump\<close>

text \<open>Storing a chunk: into the stream's text, or the merged one, while it is below the limit.\<close>

definition exec_store :: "'w exec \<Rightarrow> stream \<Rightarrow> bytes \<Rightarrow> exec_result \<Rightarrow> 'w \<Rightarrow> exec_result \<times> 'w" where
  "exec_store ex st d res w =
     (case ex_sink ex of
        Some sink \<Rightarrow> (res, sink st d w)
      | None \<Rightarrow>
          (if st = Stream_stdout \<or> ex_merge_stderr ex
           then if length (er_stdout res) < ex_max_output ex
                then res\<lparr>er_stdout := er_stdout res @ string_of_bytes d\<rparr> else res\<lparr>er_stdout_truncated := True\<rparr>
           else if length (er_stderr res) < ex_max_output ex
                then res\<lparr>er_stderr := er_stderr res @ string_of_bytes d\<rparr> else res\<lparr>er_stderr_truncated := True\<rparr>, w))"

text \<open>
  One stream of one round: whether something was read and whether the stream had nothing to offer
  (also when asking failed).
\<close>

definition exec_drain ::
    "('w, 'z) session_api_scheme \<Rightarrow> 'w exec \<Rightarrow> channel \<Rightarrow> stream \<Rightarrow> bytes \<Rightarrow> exec_result \<Rightarrow> 'w
       \<Rightarrow> (error_info + bool \<times> bool \<times> exec_result) \<times> bytes \<times> 'w" where
  "exec_drain api ex ch st chunk res w =
     (case try_bytes_available api ch st w of
        (avail, w1) \<Rightarrow>
          (case avail of
             Inl _ \<Rightarrow> (Inr (False, True, res), chunk, w1)
           | Inr a \<Rightarrow>
               if a = 0 then (Inr (False, True, res), chunk, w1)
               else (case try_read_some api ch chunk st w1 of
                       (Inl e, chunk', w2) \<Rightarrow> (Inl e, chunk', w2)
                     | (Inr k, chunk', w2) \<Rightarrow>
                         if k = 0 then (Inr (False, False, res), chunk', w2)
                         else (case exec_store ex st (mem_prefix k chunk') res w2 of
                                 (res', w3) \<Rightarrow> (Inr (True, False, res'), chunk', w3)))))"

partial_function (option) exec_pump ::
    "('w, 'z) session_api_scheme \<Rightarrow> 'w exec \<Rightarrow> channel \<Rightarrow> int \<Rightarrow> bytes \<Rightarrow> exec_result \<Rightarrow> 'w
       \<Rightarrow> (exec_result result \<times> 'w) option" where
  "exec_pump api ex ch deadline chunk res w =
     (case exec_drain api ex ch Stream_stdout chunk res w of
        (Inl e, _, w1) \<Rightarrow> Some (Inl e, w1)
      | (Inr (progressed_out, idle_out, res1), chunk1, w1) \<Rightarrow>
          (case exec_drain api ex ch Stream_stderr chunk1 res1 w1 of
             (Inl e, _, w2) \<Rightarrow> Some (Inl e, w2)
           | (Inr (progressed_err, idle_err, res2), chunk2, w2) \<Rightarrow>
               if is_eof api ch w2 \<and> idle_out \<and> idle_err then Some (Inr res2, w2)
               else (let w3 = (if progressed_out \<or> progressed_err then w2
                               else snd (try_wait_readable api ch 50 Stream_stdout w2))
                     in if ex_timeout ex \<noteq> None \<and> steady_now api w3 > deadline
                        then Some (Inl (mk_error errc_timed_out [] ''Exec::try_run''), w3)
                        else exec_pump api ex ch deadline chunk2 res2 w3)))"

section \<open>Running\<close>

fun request_all_env :: "('w, 'z) session_api_scheme \<Rightarrow> channel \<Rightarrow> (string \<times> string) list \<Rightarrow> 'w \<Rightarrow> 'w" where
  "request_all_env api ch [] w = w"
| "request_all_env api ch ((name, val) # rest) w =
     request_all_env api ch rest (snd (try_request_env api ch name val w))"

text \<open>Everything before the pump on the open channel.\<close>

definition exec_start :: "('w, 'z) session_api_scheme \<Rightarrow> 'w exec \<Rightarrow> channel \<Rightarrow> string \<Rightarrow> 'w \<Rightarrow> unit result \<times> 'w" where
  "exec_start api ex ch command w =
     (let w1 = request_all_env api ch (ex_env ex) w
      in case (if ex_pty ex then try_request_pty api ch (ex_pty_term ex) (ex_pty_size ex) w1 else (Inr (), w1)) of
           (Inl e, w2) \<Rightarrow> (Inl e, w2)
         | (Inr _, w2) \<Rightarrow>
             (case try_request_exec api ch command w2 of
                (Inl e, w3) \<Rightarrow> (Inl e, w3)
              | (Inr _, w3) \<Rightarrow>
                  (case (case ex_stdin ex of Some d \<Rightarrow> try_write_all_string api ch d w3 | None \<Rightarrow> (Inr (), w3)) of
                     (Inl e, w4) \<Rightarrow> (Inl e, w4)
                   | (Inr _, w4) \<Rightarrow> (Inr (), snd (try_send_eof api ch w4)))))"

definition exec_finish ::
    "('w, 'z) session_api_scheme \<Rightarrow> channel \<Rightarrow> exec_result \<Rightarrow> 'w \<Rightarrow> exec_result \<times> channel \<times> 'w" where
  "exec_finish api ch res w =
     (case try_wait_exit api ch 5000 w of
        (exit_st, w1) \<Rightarrow>
          (case try_close api ch w1 of
             (_, ch', w2) \<Rightarrow>
               (case exit_st of
                  Inr es \<Rightarrow> res\<lparr>er_exit_code := (case es_status es of Some s \<Rightarrow> s | None \<Rightarrow> -1),
                              er_exit_signal := es_signal es\<rparr>
                | Inl _ \<Rightarrow> res, ch', w2)))"

text \<open>The channel is a local object: it is destroyed on every way out.\<close>

definition try_run ::
    "('w, 'z) session_api_scheme \<Rightarrow> 'w exec \<Rightarrow> string \<Rightarrow> 'w \<Rightarrow> (exec_result result \<times> 'w) option" where
  "try_run api ex command w =
     (case try_open_channel api (ex_session ex) w of
        (Inl e, w1) \<Rightarrow> Some (Inl e, w1)
      | (Inr ch, w1) \<Rightarrow>
          (case exec_start api ex ch command w1 of
             (Inl e, w2) \<Rightarrow> Some (Inl e, snd (channel_dtor api ch w2))
           | (Inr _, w2) \<Rightarrow>
               (case exec_pump api ex ch
                       (case ex_timeout ex of Some t \<Rightarrow> steady_now api w2 + t * 1000000 | None \<Rightarrow> 0)
                       (replicate chunk_size 0) new_exec_result w2 of
                  None \<Rightarrow> None
                | Some (Inl e, w3) \<Rightarrow> Some (Inl e, snd (channel_dtor api ch w3))
                | Some (Inr res, w3) \<Rightarrow>
                    (case exec_finish api ch res w3 of
                       (res', ch', w4) \<Rightarrow> Some (Inr res', snd (channel_dtor api ch' w4))))))"

definition exec_run ::
    "('w, 'z) session_api_scheme \<Rightarrow> 'w exec \<Rightarrow> string \<Rightarrow> 'w \<Rightarrow> ((exn + exec_result) \<times> 'w) option" where
  "exec_run api ex command w = map_option (apfst result_value) (try_run api ex command w)"

definition try_run_argv ::
    "('w, 'z) session_api_scheme \<Rightarrow> 'w exec \<Rightarrow> string list \<Rightarrow> 'w \<Rightarrow> (exec_result result \<times> 'w) option" where
  "try_run_argv api ex argv w = try_run api ex (argv_command argv) w"

section \<open>What is returned\<close>

text \<open>Asking how much there is takes nothing from a stream.\<close>

definition exec_contract ::
    "('w, 'z) session_api_scheme \<Rightarrow> (handle \<Rightarrow> bool \<Rightarrow> 'w \<Rightarrow> bytes) \<Rightarrow> bool" where
  "exec_contract api got \<longleftrightarrow> read_contract api got
     \<and> (\<forall>n t e w m b. got m b (snd (ssh_channel_poll_timeout api n t e w)) = got m b w)"

text \<open>
  Of what a stream delivered between two moments, a text holds a prefix; it is all of it unless the
  text is marked as truncated, and then the limit was reached.
\<close>

definition captured ::
    "nat \<Rightarrow> (handle \<Rightarrow> bool \<Rightarrow> 'w \<Rightarrow> bytes) \<Rightarrow> handle \<Rightarrow> bool \<Rightarrow> 'w \<Rightarrow> 'w \<Rightarrow> string \<Rightarrow> bool \<Rightarrow> bool" where
  "captured limit got n e w w' txt truncated \<longleftrightarrow>
     (\<exists>out p. got n e w' = got n e w @ out \<and> txt = string_of_bytes p \<and> prefix p out
        \<and> (truncated \<longleftrightarrow> p \<noteq> out) \<and> (p \<noteq> out \<longrightarrow> limit \<le> length p) \<and> length p < limit + chunk_size)"

lemma captured_append:
  assumes "captured limit got n e w w1 txt tr" and "got n e w2 = got n e w1 @ d"
    and "d \<noteq> []" and "length d \<le> chunk_size"
  shows "captured limit got n e w w2 (if length txt < limit then txt @ string_of_bytes d else txt)
           (\<not> length txt < limit \<or> tr)"
proof -
  obtain out p where o: "got n e w1 = got n e w @ out" "txt = string_of_bytes p" "prefix p out"
    "tr \<longleftrightarrow> p \<noteq> out" "p \<noteq> out \<longrightarrow> limit \<le> length p" "length p < limit + chunk_size"
    using assms(1) unfolding captured_def by blast
  show ?thesis
  proof (cases "length txt < limit")
    case True
    then have "p = out" using o by auto
    then show ?thesis
      unfolding captured_def using True o assms by (intro exI [of _ "out @ d"]) auto
  next
    case False
    moreover have "p \<noteq> out @ d" using o(3) assms(3) by (auto simp: prefix_def)
    ultimately show ?thesis
      unfolding captured_def using o assms
      by (intro exI [of _ "out @ d"] exI [of _ p]) (auto intro: prefix_order.trans)
  qed
qed

lemma captured_keep:
  "captured limit got n e w w1 txt tr \<Longrightarrow> got n e w2 = got n e w1 \<Longrightarrow> captured limit got n e w w2 txt tr"
  by (simp add: captured_def)

definition capturing :: "'w exec \<Rightarrow> (handle \<Rightarrow> bool \<Rightarrow> 'w \<Rightarrow> bytes) \<Rightarrow> handle \<Rightarrow> 'w \<Rightarrow> 'w \<Rightarrow> exec_result \<Rightarrow> bool" where
  "capturing ex got n w w' res \<longleftrightarrow>
     captured (ex_max_output ex) got n False w w' (er_stdout res) (er_stdout_truncated res)
     \<and> captured (ex_max_output ex) got n True w w' (er_stderr res) (er_stderr_truncated res)"

lemma poll_keeps:
  assumes "exec_contract api got" and "ch_native ch = Some n"
  shows "got m b (snd (try_bytes_available api ch st w)) = got m b w"
    and "got m b (snd (try_wait_readable api ch t st w)) = got m b w"
proof -
  have p: "got m b (snd (ssh_channel_poll_timeout api n t e w)) = got m b w" for t e
    using assms(1) by (simp add: exec_contract_def)
  show "got m b (snd (try_bytes_available api ch st w)) = got m b w"
    using assms(2) p [of 0 "st = Stream_stderr"]
    by (auto simp: try_bytes_available_def count_result_def split: prod.splits if_splits)
  show "got m b (snd (try_wait_readable api ch t st w)) = got m b w"
    using assms(2) p [of "to_int32 t" "st = Stream_stderr"]
    by (auto simp: try_wait_readable_def split: prod.splits if_splits)
qed

lemma drain_captures:
  assumes "exec_contract api got" and "ch_native ch = Some n" and "length chunk = chunk_size"
    and "ex_sink ex = None" and "\<not> ex_merge_stderr ex" and "capturing ex got n w0 w res"
    and "exec_drain api ex ch st chunk res w = (r, chunk', w')"
  shows "length chunk' = chunk_size
     \<and> (case r of Inl _ \<Rightarrow> True | Inr (_, _, res') \<Rightarrow> capturing ex got n w0 w' res')"
proof -
  obtain av w1 where av: "try_bytes_available api ch st w = (av, w1)" by fastforce
  have w1: "capturing ex got n w0 w1 res"
    using assms(6) poll_keeps(1) [OF assms(1,2), of _ _ st w] av
    by (auto simp: capturing_def intro: captured_keep)
  obtain rr c2 w2 where rd: "try_read_some_timeout api ch chunk st (-1) w1 = (rr, c2, w2)" by (metis prod_cases3)
  have rc: "read_contract api got" using assms(1) by (simp add: exec_contract_def)
  obtain new where new: "c2 = overlay new chunk" "length new \<le> length chunk"
    "got n (st = Stream_stderr) w2 = got n (st = Stream_stderr) w1 @ new"
    "got n (st \<noteq> Stream_stderr) w2 = got n (st \<noteq> Stream_stderr) w1" "\<And>k. rr = Inr k \<Longrightarrow> k = length new"
    by (rule read_some_contract [OF rc assms(2) rd]) blast
  have len: "length c2 = chunk_size" using new(1) assms(3) by simp
  show ?thesis
  proof (cases "\<exists>k. rr = Inr k \<and> k \<noteq> 0 \<and> (\<exists>a. av = Inr a \<and> a \<noteq> 0)")
    case False
    have "rr = Inr 0 \<Longrightarrow> capturing ex got n w0 w2 res"
      using w1 new(3,4) new(5) [of 0] by (cases st) (auto simp: capturing_def intro: captured_keep)
    then show ?thesis
      using False assms(3,7) av rd len w1
      by (auto simp: exec_drain_def try_read_some_def split: sum.splits if_splits)
  next
    case True
    then have k: "rr = Inr (length new)" "new \<noteq> []" using new(5) by auto
    have "mem_prefix (length new) c2 = new" using new(1,2) by simp
    then have r: "chunk' = c2" "w' = w2" "r = Inr (True, False, fst (exec_store ex st new res w2))"
      using assms(4,7) av rd True k by (auto simp: exec_drain_def try_read_some_def exec_store_def)
    have "capturing ex got n w0 w2 (fst (exec_store ex st new res w2))"
    proof (cases st)
      case Stream_stdout
      then show ?thesis
        using captured_append [of "ex_max_output ex" got n False w0 w1 _ _ w2 new] w1 k(2) new assms(3-5)
        by (fastforce simp: capturing_def exec_store_def intro: captured_keep)
    next
      case Stream_stderr
      then show ?thesis
        using captured_append [of "ex_max_output ex" got n True w0 w1 _ _ w2 new] w1 k(2) new assms(3-5)
        by (fastforce simp: capturing_def exec_store_def intro: captured_keep)
    qed
    then show ?thesis using r len by auto
  qed
qed

lemma pump_captures_aux:
  assumes "exec_pump api ex ch deadline chunk res w = Some y"
  shows "exec_contract api got \<longrightarrow> ch_native ch = Some n \<longrightarrow> ex_sink ex = None \<longrightarrow> \<not> ex_merge_stderr ex
     \<longrightarrow> length chunk = chunk_size \<longrightarrow> capturing ex got n w0 w res
     \<longrightarrow> (case fst y of Inr res' \<Rightarrow> capturing ex got n w0 (snd y) res' | Inl _ \<Rightarrow> True)"
proof (rule exec_pump.raw_induct [where P = "\<lambda>api ex ch deadline chunk res w y.
     exec_contract api got \<longrightarrow> ch_native ch = Some n \<longrightarrow> ex_sink ex = None \<longrightarrow> \<not> ex_merge_stderr ex
     \<longrightarrow> length chunk = chunk_size \<longrightarrow> capturing ex got n w0 w res
     \<longrightarrow> (case fst y of Inr res' \<Rightarrow> capturing ex got n w0 (snd y) res' | Inl _ \<Rightarrow> True)", OF _ assms], goal_cases)
  case (1 f api ex ch deadline chunk res w y)
  show ?case
  proof (intro impI)
    assume h: "exec_contract api got" "ch_native ch = Some n" "ex_sink ex = None" "\<not> ex_merge_stderr ex"
      "length chunk = chunk_size" "capturing ex got n w0 w res"
    obtain r1 c1 w1 where d1: "exec_drain api ex ch Stream_stdout chunk res w = (r1, c1, w1)" by (metis prod_cases3)
    note i1 = drain_captures [OF h(1,2,5,3,4,6) d1]
    show "case fst y of Inr res' \<Rightarrow> capturing ex got n w0 (snd y) res' | Inl _ \<Rightarrow> True"
    proof (cases r1)
      case (Inl e)
      then show ?thesis using 1(2) d1 by auto
    next
      case (Inr x)
      obtain p1 l1 res1 where x: "x = (p1, l1, res1)" by (cases x)
      obtain r2 c2 w2 where d2: "exec_drain api ex ch Stream_stderr c1 res1 w1 = (r2, c2, w2)" by (metis prod_cases3)
      have c1: "length c1 = chunk_size" "capturing ex got n w0 w1 res1" using i1 Inr x by auto
      note i2 = drain_captures [OF h(1,2) c1(1) h(3,4) c1(2) d2]
      show ?thesis
      proof (cases r2)
        case (Inl e)
        then show ?thesis using 1(2) d1 Inr x d2 by auto
      next
        case r2: (Inr x2)
        obtain p2 l2 res2 where x2: "x2 = (p2, l2, res2)" by (cases x2)
        have c2: "length c2 = chunk_size" "capturing ex got n w0 w2 res2" using i2 r2 x2 by auto
        define w3 where "w3 = (if p1 \<or> p2 then w2 else snd (try_wait_readable api ch 50 Stream_stdout w2))"
        have w3: "capturing ex got n w0 w3 res2"
          using c2(2) poll_keeps(2) [OF h(1,2)] by (auto simp: w3_def capturing_def intro: captured_keep)
        show ?thesis
          using 1(2) 1(1) [of api ex ch deadline c2 res2 w3 y] d1 Inr x d2 r2 x2 c2 w3 h
          by (auto simp: Let_def w3_def [symmetric] split: if_splits)
      qed
    qed
  qed
qed


definition sim_exec :: "sim_session exec" where
  "sim_exec = new_exec sim_client"

definition sim_output :: "sim_session" where
  "sim_output = (sim_world SSH_KNOWN_HOSTS_OK)\<lparr>sim_in := [104, 101, 108, 108, 111]\<rparr>"

lemma sim_exec_contract: "exec_contract sim_session_api sim_got"
  by (auto simp: exec_contract_def read_contract_def sim_got_def sim_read_def Let_def)


section \<open>Ending\<close>

text \<open>Asking for data takes time, and reading does not turn the clock back.\<close>

definition clock_contract :: "('w, 'z) session_api_scheme \<Rightarrow> int \<Rightarrow> bool" where
  "clock_contract api d \<longleftrightarrow>
     (\<forall>n t e w. steady_now api (snd (ssh_channel_poll_timeout api n t e w)) \<ge> steady_now api w + d)
     \<and> (\<forall>n c e t w. steady_now api (snd (snd (ssh_channel_read_timeout api n c e t w))) \<ge> steady_now api w)"

lemma drain_takes_time:
  assumes "clock_contract api d" and "d > 0" and "ch_native ch = Some n" and "ex_sink ex = None"
    and "exec_drain api ex ch st chunk res w = (r, chunk', w')"
  shows "steady_now api w' \<ge> steady_now api w + d"
proof -
  obtain rc w1 where p: "ssh_channel_poll_timeout api n 0 (st = Stream_stderr) w = (rc, w1)" by fastforce
  have t1: "steady_now api w1 \<ge> steady_now api w + d" using assms(1) p unfolding clock_contract_def by (metis snd_conv)
  have av: "snd (try_bytes_available api ch st w) = w1"
    using assms(3) p by (simp add: try_bytes_available_def count_result_def)
  obtain rr c2 w2 where rd: "try_read_some api ch chunk st w1 = (rr, c2, w2)" by (metis prod_cases3)
  then have "\<exists>c e t. w2 = snd (snd (ssh_channel_read_timeout api n c e t w1))"
    using assms(3) by (auto simp: try_read_some_def try_read_some_timeout_def split: prod.splits) (metis snd_conv)
  then have t2: "steady_now api w2 \<ge> steady_now api w1" using assms(1) unfolding clock_contract_def by blast
  have "w' = w1 \<or> w' = w2"
    using assms(4,5) av rd by (auto simp: exec_drain_def exec_store_def split: prod.splits sum.splits if_splits)
  then show ?thesis using t1 t2 by auto
qed

lemma pump_returns:
  assumes "clock_contract api d" and "d > 0" and "ch_native ch = Some n" and "ex_sink ex = None"
    and "ex_timeout ex \<noteq> None"
  shows "\<exists>y. exec_pump api ex ch deadline chunk res w = Some y"
proof (induction "nat (deadline + 1 - steady_now api w)" arbitrary: chunk res w rule: less_induct)
  case less
  obtain r1 c1 w1 where d1: "exec_drain api ex ch Stream_stdout chunk res w = (r1, c1, w1)" by (metis prod_cases3)
  show ?case
  proof (cases r1)
    case (Inl e)
    then show ?thesis using d1 by (subst exec_pump.simps) simp
  next
    case (Inr x)
    obtain p1 l1 res1 where x: "x = (p1, l1, res1)" by (cases x)
    obtain r2 c2 w2 where d2: "exec_drain api ex ch Stream_stderr c1 res1 w1 = (r2, c2, w2)" by (metis prod_cases3)
    show ?thesis
    proof (cases r2)
      case (Inl e)
      then show ?thesis using d1 Inr x d2 by (subst exec_pump.simps) simp
    next
      case r2: (Inr x2)
      obtain p2 l2 res2 where x2: "x2 = (p2, l2, res2)" by (cases x2)
      define w3 where "w3 = (if p1 \<or> p2 then w2 else snd (try_wait_readable api ch 50 Stream_stdout w2))"
      have "steady_now api (snd (try_wait_readable api ch 50 Stream_stdout w2)) \<ge> steady_now api w2 + d"
        using assms(1,3) unfolding clock_contract_def
        by (auto simp: try_wait_readable_def split: prod.splits) (metis snd_conv)+
      then have t: "steady_now api w3 \<ge> steady_now api w + 2 * d"
        using drain_takes_time [OF assms(1-4) d1] drain_takes_time [OF assms(1-4) d2] assms(2) by (auto simp: w3_def)
      show ?thesis
      proof (cases "is_eof api ch w2 \<and> l1 \<and> l2 \<or> steady_now api w3 > deadline")
        case True
        then show ?thesis
          using d1 Inr x d2 r2 x2 assms(5) by (subst exec_pump.simps) (auto simp: Let_def w3_def [symmetric])
      next
        case False
        then have "nat (deadline + 1 - steady_now api w3) < nat (deadline + 1 - steady_now api w)"
          using t assms(2) by auto
        then obtain y where "exec_pump api ex ch deadline c2 res2 w3 = Some y" using less by blast
        then show ?thesis
          using False d1 Inr x d2 r2 x2 by (subst exec_pump.simps) (auto simp: Let_def w3_def [symmetric])
      qed
    qed
  qed
qed

text \<open>
  C34: With a time limit the pump always ends, with the command's output, an error of the channel or
  the time-out error, whatever the peer does, as long as asking libssh for data takes time.
\<close>
theorem exec_ends_with_deadline:
  assumes "clock_contract api d" and "d > 0" and "ch_native ch = Some n" and "ex_sink ex = None"
    and "ex_timeout ex \<noteq> None"
  shows "\<exists>r w'. exec_pump api ex ch deadline chunk res w = Some (r, w')"
  using pump_returns [OF assms] by force

definition ticking_api :: "sim_session session_api" where
  "ticking_api = sim_session_api\<lparr>ssh_channel_poll_timeout := \<lambda>_ _ _ w. (0, tick w),
     ssh_channel_is_eof := \<lambda>_ _. False\<rparr>"

theorem exec_ends_with_deadline_witness:
  "clock_contract ticking_api 1
   \<and> (\<exists>r w'. exec_pump ticking_api (sim_exec\<lparr>ex_timeout := Some 1000\<rparr>) sim_channel 1000 [] new_exec_result
          (sim_world SSH_KNOWN_HOSTS_OK) = Some (r, w'))"
proof -
  have "clock_contract ticking_api 1"
    by (auto simp: clock_contract_def ticking_api_def tick_def sim_read_def Let_def)
  then show ?thesis
    using exec_ends_with_deadline [of ticking_api 1 sim_channel 7 "sim_exec\<lparr>ex_timeout := Some 1000\<rparr>"]
    by (simp add: sim_channel_def sim_exec_def new_exec_def)
qed

text \<open>
  Without a time limit, a channel whose state cannot be read any more but which never reports an
  end of file keeps the pump running for ever: the errors are ignored.
\<close>
theorem exec_spins_on_failed_channel:
  assumes "ch_native ch = Some n" and "ex_timeout ex = None"
    and "\<And>t e w. fst (ssh_channel_poll_timeout api n t e w) < 0" and "\<And>w. \<not> ssh_channel_is_eof api n w"
  shows "exec_pump api ex ch deadline chunk res w = None"
proof -
  have fail: "exec_drain api ex ch st chunk res w
      = (Inr (False, True, res), chunk, snd (ssh_channel_poll_timeout api n 0 (st = Stream_stderr) w))"
    for st chunk res w
    using assms(1) assms(3) [of 0 "st = Stream_stderr" w]
    by (auto simp: exec_drain_def try_bytes_available_def count_result_def split: prod.splits)
  have "False" if "exec_pump api ex ch deadline chunk res w = Some y" for y
  proof -
    have "api' = api \<longrightarrow> ex' = ex \<longrightarrow> ch' = ch \<longrightarrow> False"
      if e: "exec_pump api' ex' ch' deadline' chunk' res' w' = Some y'" for api' ex' ch' deadline' chunk' res' w' y'
    proof (rule exec_pump.raw_induct [where P = "\<lambda>api' ex' ch' deadline chunk res w y.
        api' = api \<longrightarrow> ex' = ex \<longrightarrow> ch' = ch \<longrightarrow> False", OF _ e], goal_cases)
      case (1 f api' ex' ch' deadline' chunk' res' w' y')
      show ?case using 1(2) 1(1) [of api ex ch deadline' chunk' res' _ y'] by (auto simp: fail is_eof_def assms Let_def)
    qed
    then show False using that by blast
  qed
  then show ?thesis by (cases "exec_pump api ex ch deadline chunk res w") auto
qed

theorem exec_spins_on_failed_channel_witness:
  "exec_pump (sim_session_api\<lparr>ssh_channel_poll_timeout := \<lambda>_ _ _ w. (-1, w), ssh_channel_is_eof := \<lambda>_ _. False\<rparr>)
     sim_exec sim_channel 0 [] new_exec_result (sim_world SSH_KNOWN_HOSTS_OK) = None"
  using exec_spins_on_failed_channel [of sim_channel 7 sim_exec
      "sim_session_api\<lparr>ssh_channel_poll_timeout := \<lambda>_ _ _ w. (-1, w), ssh_channel_is_eof := \<lambda>_ _. False\<rparr>"]
  by (simp add: sim_channel_def sim_exec_def new_exec_def)

end
