(* ===== verification/Shell.thy ===== *)
theory Shell
  imports Exec
begin

text \<open>
  \<open>shell.hpp\<close>, \<open>detail/shell.ipp\<close>: an interactive shell on a channel, and the relay between it and the
  local terminal. The terminal is the record \<open>tty\<close>; the relay may run for ever, so it is a partial
  function.

  The theorems: the relay forwards what is typed unchanged and detaches exactly at the escape
  sequence typed at the start of a line; the terminal is restored on every way out.
\<close>

section \<open>Shell\<close>

record shell_options =
  so_term :: string
  so_size :: pty_size
  so_env :: "(string \<times> string) list"
  so_request_pty :: bool

definition default_shell_options :: shell_options where
  "default_shell_options = \<lparr>so_term = ''xterm-256color'', so_size = default_pty_size, so_env = [], so_request_pty = True\<rparr>"

record shell =
  sh_session :: session
  sh_options :: shell_options
  sh_channel :: channel

definition no_channel :: channel where
  "no_channel = \<lparr>ch_native = None, ch_session = None, ch_owning = True, ch_open = False\<rparr>"

definition new_shell :: "session \<Rightarrow> shell_options \<Rightarrow> shell" where
  "new_shell se opts = \<lparr>sh_session = se, sh_options = opts, sh_channel = no_channel\<rparr>"

definition shell_start :: "('w, 'z) session_api_scheme \<Rightarrow> shell \<Rightarrow> 'w \<Rightarrow> unit result \<times> shell \<times> 'w" where
  "shell_start api sh w =
     (case try_open_channel api (sh_session sh) w of
        (Inl e, w1) \<Rightarrow> (Inl e, sh, w1)
      | (Inr ch, w1) \<Rightarrow>
          (case channel_move_assign api (sh_channel sh) ch w1 of
             (ch', _, w2) \<Rightarrow>
               let sh' = sh\<lparr>sh_channel := ch'\<rparr>
               in case (if so_request_pty (sh_options sh)
                        then try_request_pty api ch' (so_term (sh_options sh)) (so_size (sh_options sh)) w2
                        else (Inr (), w2)) of
                    (Inl e, w3) \<Rightarrow> (Inl e, sh', w3)
                  | (Inr _, w3) \<Rightarrow>
                      (case try_request_shell api ch' (request_all_env api ch' (so_env (sh_options sh)) w3) of
                         (r, w4) \<Rightarrow> (r, sh', w4))))"

definition shell_write :: "('w, 'z) session_api_scheme \<Rightarrow> shell \<Rightarrow> string \<Rightarrow> 'w \<Rightarrow> nat result \<times> 'w" where
  "shell_write api sh d w =
     (case try_write_all_string api (sh_channel sh) d w of
        (Inl e, w') \<Rightarrow> (Inl e, w') | (Inr _, w') \<Rightarrow> (Inr (length d), w'))"

definition shell_read ::
    "('w, 'z) session_api_scheme \<Rightarrow> shell \<Rightarrow> int \<Rightarrow> stream \<Rightarrow> 'w \<Rightarrow> string result \<times> 'w" where
  "shell_read api sh timeout st w =
     (case try_read_some_timeout api (sh_channel sh) (replicate chunk_size 0) st timeout w of
        (Inl e, _, w') \<Rightarrow> (Inl e, w')
      | (Inr n, buf, w') \<Rightarrow> (Inr (string_of_bytes (mem_prefix n buf)), w'))"

definition shell_resize :: "('w, 'z) session_api_scheme \<Rightarrow> shell \<Rightarrow> pty_size \<Rightarrow> 'w \<Rightarrow> unit result \<times> shell \<times> 'w" where
  "shell_resize api sh sz w =
     (case try_change_pty_size api (sh_channel sh) sz w of
        (r, w') \<Rightarrow> (r, sh\<lparr>sh_options := (sh_options sh)\<lparr>so_size := sz\<rparr>\<rparr>, w'))"

definition shell_send_signal :: "('w, 'z) session_api_scheme \<Rightarrow> shell \<Rightarrow> ssh_signal \<Rightarrow> 'w \<Rightarrow> unit result \<times> 'w" where
  "shell_send_signal api sh s w = Channel.try_send_signal api (sh_channel sh) s w"

section \<open>The relay\<close>

record interact_options =
  io_enable_escape :: bool
  io_escape_char :: char

definition default_interact_options :: interact_options where
  "default_interact_options = \<lparr>io_enable_escape = True, io_escape_char = CHR ''~''\<rparr>"

text \<open>
  The local terminal: raw mode on (whether there was a mode to save) and off, the handler for
  window changes, the window-change flag, the size, output, and whether a key is waiting and
  which (\<open>None\<close> for the end of the input).
\<close>

record 'w tty =
  tty_raw_on :: "'w \<Rightarrow> bool \<times> 'w"
  tty_raw_off :: "'w \<Rightarrow> 'w"
  tty_watch :: "'w \<Rightarrow> 'w"
  tty_unwatch :: "'w \<Rightarrow> 'w"
  tty_resized :: "'w \<Rightarrow> bool \<times> 'w"
  tty_size :: "'w \<Rightarrow> (int \<times> int) option"
  tty_write :: "bool \<Rightarrow> bytes \<Rightarrow> 'w \<Rightarrow> 'w"
  tty_poll :: "'w \<Rightarrow> bool \<times> 'w"
  tty_read :: "'w \<Rightarrow> char option \<times> 'w"

definition current_terminal_size :: "'w tty \<Rightarrow> 'w \<Rightarrow> pty_size" where
  "current_terminal_size tty w =
     (case tty_size tty w of
        Some (cols, lines) \<Rightarrow> if cols > 0 \<and> lines > 0 then \<lparr>columns = cols, rows = lines\<rparr> else default_pty_size
      | None \<Rightarrow> default_pty_size)"

text \<open>\<open>at_line_start\<close> and \<open>escape_seen\<close>.\<close>

type_synonym keys_state = "bool \<times> bool"

text \<open>One key: whether to detach, the next state, and the bytes to send, one write each.\<close>

fun interact_key :: "interact_options \<Rightarrow> keys_state \<Rightarrow> char \<Rightarrow> bool \<times> keys_state \<times> string" where
  "interact_key opts (at_line_start, escape_seen) c =
     (if io_enable_escape opts \<and> at_line_start \<and> c = io_escape_char opts then (False, (False, True), [])
      else if io_enable_escape opts \<and> escape_seen
      then if c = CHR ''.'' then (True, (at_line_start, False), [])
           else (False, (c = CHR 0x0A \<or> c = CHR 0x0D, False), [io_escape_char opts, c])
      else (False, (c = CHR 0x0A \<or> c = CHR 0x0D, escape_seen), [c]))"

fun send_keys :: "('w, 'z) session_api_scheme \<Rightarrow> channel \<Rightarrow> string \<Rightarrow> 'w \<Rightarrow> 'w" where
  "send_keys api ch [] w = w"
| "send_keys api ch (c # cs) w = send_keys api ch cs (snd (try_write_all_string api ch [c] w))"

text \<open>Remote output to the terminal; errors are ignored.\<close>

definition relay_output ::
    "('w, 'z) session_api_scheme \<Rightarrow> 'w tty \<Rightarrow> channel \<Rightarrow> stream \<Rightarrow> 'w \<Rightarrow> 'w" where
  "relay_output api tty ch st w =
     (case try_bytes_available api ch st w of
        (Inr a, w1) \<Rightarrow>
          if a = 0 then w1
          else (case try_read_some api ch (replicate (min chunk_size a) 0) st w1 of
                  (Inr n, buf, w2) \<Rightarrow> if n > 0 then tty_write tty (st = Stream_stderr) (mem_prefix n buf) w2 else w2
                | (Inl _, _, w2) \<Rightarrow> w2)
      | (Inl _, w1) \<Rightarrow> w1)"

definition relay_round :: "('w, 'z) session_api_scheme \<Rightarrow> 'w tty \<Rightarrow> shell \<Rightarrow> 'w \<Rightarrow> shell \<times> 'w" where
  "relay_round api tty sh w =
     (case tty_resized tty w of
        (changed, w1) \<Rightarrow>
          (case (if changed then snd (shell_resize api sh (current_terminal_size tty w1) w1) else (sh, w1)) of
             (sh', w2) \<Rightarrow>
               let w3 = relay_output api tty (sh_channel sh) Stream_stdout w2;
                   w4 = relay_output api tty (sh_channel sh) Stream_stderr w3
               in (sh', snd (try_wait_readable api (sh_channel sh) 20 Stream_stdout w4))))"

partial_function (option) interact_loop ::
    "('w, 'z) session_api_scheme \<Rightarrow> 'w tty \<Rightarrow> interact_options \<Rightarrow> keys_state \<Rightarrow> shell \<Rightarrow> 'w
       \<Rightarrow> (bool \<times> shell \<times> 'w) option" where
  "interact_loop api tty opts ks sh w =
     (if \<not> ch_open (sh_channel sh) \<or> is_eof api (sh_channel sh) w then Some (False, sh, w)
      else (case relay_round api tty sh w of
              (sh', w1) \<Rightarrow>
                (case tty_poll tty w1 of
                   (ready, w2) \<Rightarrow>
                     if \<not> ready then interact_loop api tty opts ks sh' w2
                     else (case tty_read tty w2 of
                             (None, w3) \<Rightarrow> Some (False, sh', w3)
                           | (Some c, w3) \<Rightarrow>
                               (case interact_key opts ks c of
                                  (detach, ks', out) \<Rightarrow>
                                    if detach then Some (True, sh', w3)
                                    else interact_loop api tty opts ks' sh' (send_keys api (sh_channel sh) out w3))))))"

text \<open>The raw mode is a local object: it is undone when the function returns.\<close>

definition try_interact ::
    "('w, 'z) session_api_scheme \<Rightarrow> 'w tty \<Rightarrow> interact_options \<Rightarrow> shell \<Rightarrow> 'w
       \<Rightarrow> (exit_state result \<times> shell \<times> 'w) option" where
  "try_interact api tty opts sh w =
     (case tty_raw_on tty w of
        (valid, w1) \<Rightarrow>
          (case interact_loop api tty opts (True, False) sh (tty_watch tty w1) of
             None \<Rightarrow> None
           | Some (detached, sh', w2) \<Rightarrow>
               (case (if detached then (Inr no_exit_state, tty_unwatch tty w2)
                      else (case try_wait_exit api (sh_channel sh') 2000 (tty_unwatch tty w2) of
                              (Inr es, w3) \<Rightarrow> (Inr es, w3)
                            | (Inl _, w3) \<Rightarrow>
                                (case exit_state_of api (sh_channel sh') w3 of (es, w4) \<Rightarrow> (Inr es, w4)))) of
                  (r, w5) \<Rightarrow> Some (r, sh', if valid then tty_raw_off tty w5 else w5))))"

section \<open>What is typed\<close>

text \<open>A sequence of keys up to the detaching: whether it detached, the state, and what was sent.\<close>

fun interact_keys :: "interact_options \<Rightarrow> keys_state \<Rightarrow> string \<Rightarrow> bool \<times> keys_state \<times> string" where
  "interact_keys opts ks [] = (False, ks, [])"
| "interact_keys opts ks (c # cs) =
     (case interact_key opts ks c of
        (True, ks', out) \<Rightarrow> (True, ks', out)
      | (False, ks', out) \<Rightarrow> (case interact_keys opts ks' cs of (d, ks'', out') \<Rightarrow> (d, ks'', out @ out')))"

definition withheld :: "interact_options \<Rightarrow> keys_state \<Rightarrow> string" where
  "withheld opts ks = (if snd ks then [io_escape_char opts] else [])"

lemma keys_forwarded:
  assumes "interact_keys opts ks cs = (False, ks', out)" and "snd ks \<Longrightarrow> io_enable_escape opts \<and> \<not> fst ks"
  shows "out @ withheld opts ks' = withheld opts ks @ cs"
  using assms
proof (induction opts ks cs arbitrary: ks' out rule: interact_keys.induct)
  case (2 opts ks c cs)
  obtain d k1 o1 where k: "interact_key opts ks c = (d, k1, o1)" by (metis prod_cases3)
  then have d: "\<not> d" using 2(2) by (cases d) auto
  then obtain o2 where rest: "interact_keys opts k1 cs = (False, ks', o2)" "out = o1 @ o2"
    using 2(2) k by (auto split: prod.splits)
  have "snd k1 \<Longrightarrow> io_enable_escape opts \<and> \<not> fst k1" using k 2(3) by (cases ks) (auto split: if_splits)
  note inv = this
  have step: "o1 @ withheld opts k1 = withheld opts ks @ [c]"
    using k d 2(3) by (cases ks) (auto simp: withheld_def split: if_splits)
  have "o2 @ withheld opts ks' = withheld opts k1 @ cs"
    using 2(1) [OF k [symmetric]] rest(1) d inv by auto
  then show ?case using rest(2) step by (metis append.assoc append_Cons append_Nil)
qed simp

text \<open>The escape sequence at the start of a line.\<close>

definition escaped :: "interact_options \<Rightarrow> string \<Rightarrow> bool" where
  "escaped opts cs \<longleftrightarrow> io_enable_escape opts
     \<and> (\<exists>pre post. cs = pre @ [io_escape_char opts, CHR ''.''] @ post
          \<and> (pre \<noteq> [] \<longrightarrow> last pre \<in> {CHR 0x0A, CHR 0x0D}))"

text \<open>The same with the relay at the start of a line or not, and in the middle of an escape sequence.\<close>

definition escapes_at :: "interact_options \<Rightarrow> bool \<Rightarrow> string \<Rightarrow> bool" where
  "escapes_at opts start cs \<longleftrightarrow>
     (\<exists>pre post. cs = pre @ [io_escape_char opts, CHR ''.''] @ post
        \<and> (if pre = [] then start else last pre \<in> {CHR 0x0A, CHR 0x0D}))"

definition escaped_from :: "interact_options \<Rightarrow> keys_state \<Rightarrow> string \<Rightarrow> bool" where
  "escaped_from opts ks cs \<longleftrightarrow> io_enable_escape opts
     \<and> (snd ks \<and> cs \<noteq> [] \<and> hd cs = CHR ''.'' \<or> escapes_at opts (fst ks) cs)"

lemma escapes_at_Nil [simp]: "\<not> escapes_at opts start []"
  by (simp add: escapes_at_def)

lemma escapes_at_Cons:
  "escapes_at opts start (c # cs) \<longleftrightarrow>
     start \<and> c = io_escape_char opts \<and> cs \<noteq> [] \<and> hd cs = CHR ''.''
     \<or> escapes_at opts (c = CHR 0x0A \<or> c = CHR 0x0D) cs"
  (is "?l \<longleftrightarrow> ?here \<or> ?later")
proof
  assume ?l
  then obtain pre post where *: "c # cs = pre @ [io_escape_char opts, CHR ''.''] @ post"
      "if pre = [] then start else last pre \<in> {CHR 0x0A, CHR 0x0D}"
    unfolding escapes_at_def by blast
  show "?here \<or> ?later"
  proof (cases pre)
    case Nil
    then show ?thesis using * by simp
  next
    case (Cons a pre')
    then have "cs = pre' @ [io_escape_char opts, CHR ''.''] @ post"
        "if pre' = [] then c = CHR 0x0A \<or> c = CHR 0x0D else last pre' \<in> {CHR 0x0A, CHR 0x0D}"
      using * by (auto split: if_splits)
    then show ?thesis unfolding escapes_at_def by blast
  qed
next
  assume "?here \<or> ?later"
  then show ?l
  proof
    assume h: ?here
    then have "c # cs = [] @ [io_escape_char opts, CHR ''.''] @ tl cs" by (cases cs) auto
    then show ?l using h unfolding escapes_at_def by (metis (full_types))
  next
    assume ?later
    then obtain pre post where *: "cs = pre @ [io_escape_char opts, CHR ''.''] @ post"
        "if pre = [] then c = CHR 0x0A \<or> c = CHR 0x0D else last pre \<in> {CHR 0x0A, CHR 0x0D}"
      unfolding escapes_at_def by blast
    then have "c # cs = (c # pre) @ [io_escape_char opts, CHR ''.''] @ post" 
        "if c # pre = [] then start else last (c # pre) \<in> {CHR 0x0A, CHR 0x0D}"
      by (auto split: if_splits)
    then show ?l unfolding escapes_at_def by blast
  qed
qed

lemma keys_detach:
  assumes "io_escape_char opts \<notin> {CHR 0x0A, CHR 0x0D}" and "snd ks \<Longrightarrow> \<not> fst ks"
    and "io_enable_escape opts \<or> \<not> snd ks"
  shows "fst (interact_keys opts ks cs) \<longleftrightarrow> escaped_from opts ks cs"
  using assms(2,3)
proof (induction cs arbitrary: ks)
  case Nil
  then show ?case by (simp add: escaped_from_def)
next
  case (Cons c cs)
  obtain d k1 o1 where k: "interact_key opts ks c = (d, k1, o1)" by (metis prod_cases3)
  have inv: "snd k1 \<Longrightarrow> \<not> fst k1" "io_enable_escape opts \<or> \<not> snd k1"
    using k Cons.prems by (cases ks; auto split: if_splits)+
  have next_key: "fst (interact_keys opts k1 cs) \<longleftrightarrow> escaped_from opts k1 cs" using Cons.IH inv by blast
  show ?case
  proof (cases d)
    case True
    then show ?thesis using k by (cases ks) (auto simp: escaped_from_def split: if_splits)
  next
    case False
    have "escaped_from opts k1 cs \<longleftrightarrow> escaped_from opts ks (c # cs)"
      using k False assms(1) Cons.prems
      by (cases ks) (auto simp: escapes_at_Cons escaped_from_def split: if_splits)
    then show ?thesis using k False next_key by (auto split: prod.splits)
  qed
qed

text \<open>
  C35: As long as the user does not detach, the relay sends exactly what was typed, in order; only an
  escape character at the start of a line is held back until the next key. It detaches exactly
  when the escape character and a full stop are typed at the start of a line.
\<close>
theorem relay_forwards_keys:
  assumes "io_escape_char opts \<notin> {CHR 0x0A, CHR 0x0D}" and "interact_keys opts (True, False) cs = (detached, ks, out)"
  shows "(detached \<longleftrightarrow> escaped opts cs) \<and> (\<not> detached \<longrightarrow> out @ withheld opts ks = cs)"
proof -
  have "escaped_from opts (True, False) cs \<longleftrightarrow> escaped opts cs" unfolding escaped_from_def escaped_def escapes_at_def by (auto split: if_splits)
  then have "detached \<longleftrightarrow> escaped opts cs" using keys_detach [OF assms(1), of "(True, False)" cs] assms(2) by simp
  moreover have "out @ withheld opts ks = cs" if "\<not> detached"
    using keys_forwarded [of opts "(True, False)" cs ks out] assms(2) that by (simp add: withheld_def)
  ultimately show ?thesis by blast
qed

theorem relay_forwards_keys_witness:
  "interact_keys default_interact_options (True, False) ''ls~~'' = (False, (False, False), ''ls~~'')
   \<and> withheld default_interact_options (False, False) = []
   \<and> \<not> escaped default_interact_options ''ls~~''"
proof -
  have r: "interact_keys default_interact_options (True, False) ''ls~~'' = (False, (False, False), ''ls~~'')"
    by (simp add: default_interact_options_def)
  show ?thesis
    using relay_forwards_keys [OF _ r] r by (simp add: withheld_def default_interact_options_def)
qed

section \<open>The terminal\<close>

lemma terminal_restored:
  assumes "try_interact api tty opts sh w = Some (r, sh', w')"
  shows "\<exists>v. w' = (if fst (tty_raw_on tty w) then tty_raw_off tty v else v)"
  using assms by (auto simp: try_interact_def split: prod.splits option.splits)

end
