(* ===== verification/Server_Handlers.thy ===== *)
theory Server_Handlers
  imports Keys Channel
begin

text \<open>
  \<open>server/handlers.hpp\<close>, \<open>detail/server_handlers.ipp\<close>: the virtual functions of \<open>SessionHandler\<close> and
  \<open>ChannelHandler\<close> with their default bodies, the table-driven \<open>SimpleAuthHandler\<close> and the
  \<open>CommandHandler\<close>.

  A handler object is a record of its virtual functions over the world \<open>'w\<close>, which also holds the
  object's own state; a function may end with a thrown exception. References to channel handlers
  have the type \<open>'c\<close>. The session a virtual function is handed is not part of its arguments: a
  handler that calls back into the session object is outside the model.

  The theorems: what \<open>SimpleAuthHandler\<close> accepts, that at most \<open>max_attempts\<close> attempts of a user
  succeed, that users do not influence each other, and that \<open>CommandHandler\<close> runs its callback once per
  command with the whole input.
\<close>

section \<open>Interfaces\<close>

datatype auth_result = AR_success | AR_denied | AR_partial

datatype pk_state = PK_none | PK_valid | PK_wrong

datatype thrown = Std_exception string | Other_exception

record ('c, 'w) session_handler =
  h_auth_none :: "string \<Rightarrow> 'w \<Rightarrow> (thrown + auth_result) \<times> 'w"
  h_auth_password :: "string \<Rightarrow> string \<Rightarrow> 'w \<Rightarrow> (thrown + auth_result) \<times> 'w"
  h_auth_public_key :: "string \<Rightarrow> key \<Rightarrow> pk_state \<Rightarrow> 'w \<Rightarrow> (thrown + auth_result) \<times> 'w"
  h_auth_gssapi_mic :: "string \<Rightarrow> string \<Rightarrow> 'w \<Rightarrow> (thrown + auth_result) \<times> 'w"
  h_channel_open_session :: "'w \<Rightarrow> (thrown + 'c option) \<times> 'w"
  h_service_request :: "string \<Rightarrow> 'w \<Rightarrow> (thrown + unit) \<times> 'w"
  h_disconnect :: "'w \<Rightarrow> (thrown + unit) \<times> 'w"
  h_error :: "error_info \<Rightarrow> 'w \<Rightarrow> (thrown + unit) \<times> 'w"

definition default_session_handler :: "('c, 'w) session_handler" where
  "default_session_handler =
     \<lparr>h_auth_none = \<lambda>_ w. (Inr AR_denied, w), h_auth_password = \<lambda>_ _ w. (Inr AR_denied, w),
      h_auth_public_key = \<lambda>_ _ _ w. (Inr AR_denied, w), h_auth_gssapi_mic = \<lambda>_ _ w. (Inr AR_denied, w),
      h_channel_open_session = \<lambda>w. (Inr None, w), h_service_request = \<lambda>_ w. (Inr (), w),
      h_disconnect = \<lambda>w. (Inr (), w), h_error = \<lambda>_ w. (Inr (), w)\<rparr>"

text \<open>The functions of a channel handler get the channel and may change it.\<close>

record 'w channel_handler =
  h_pty_request :: "channel \<Rightarrow> string \<Rightarrow> pty_size \<Rightarrow> 'w \<Rightarrow> (thrown + bool) \<times> channel \<times> 'w"
  h_pty_resize :: "channel \<Rightarrow> pty_size \<Rightarrow> 'w \<Rightarrow> (thrown + bool) \<times> channel \<times> 'w"
  h_shell_request :: "channel \<Rightarrow> 'w \<Rightarrow> (thrown + bool) \<times> channel \<times> 'w"
  h_exec_request :: "channel \<Rightarrow> string \<Rightarrow> 'w \<Rightarrow> (thrown + bool) \<times> channel \<times> 'w"
  h_subsystem_request :: "channel \<Rightarrow> string \<Rightarrow> 'w \<Rightarrow> (thrown + bool) \<times> channel \<times> 'w"
  h_env_request :: "channel \<Rightarrow> string \<Rightarrow> string \<Rightarrow> 'w \<Rightarrow> (thrown + bool) \<times> channel \<times> 'w"
  h_x11_request :: "channel \<Rightarrow> bool \<Rightarrow> string \<Rightarrow> string \<Rightarrow> u32 \<Rightarrow> 'w \<Rightarrow> (thrown + unit) \<times> channel \<times> 'w"
  h_signal :: "channel \<Rightarrow> string \<Rightarrow> 'w \<Rightarrow> (thrown + unit) \<times> channel \<times> 'w"
  h_data :: "channel \<Rightarrow> bytes \<Rightarrow> stream \<Rightarrow> 'w \<Rightarrow> (thrown + nat) \<times> channel \<times> 'w"
  h_eof :: "channel \<Rightarrow> 'w \<Rightarrow> (thrown + unit) \<times> channel \<times> 'w"
  h_close :: "channel \<Rightarrow> 'w \<Rightarrow> (thrown + unit) \<times> channel \<times> 'w"

definition default_channel_handler :: "'w channel_handler" where
  "default_channel_handler =
     \<lparr>h_pty_request = \<lambda>ch _ _ w. (Inr False, ch, w), h_pty_resize = \<lambda>ch _ w. (Inr False, ch, w),
      h_shell_request = \<lambda>ch w. (Inr False, ch, w), h_exec_request = \<lambda>ch _ w. (Inr False, ch, w),
      h_subsystem_request = \<lambda>ch _ w. (Inr False, ch, w), h_env_request = \<lambda>ch _ _ w. (Inr False, ch, w),
      h_x11_request = \<lambda>ch _ _ _ _ w. (Inr (), ch, w), h_signal = \<lambda>ch _ w. (Inr (), ch, w),
      h_data = \<lambda>ch d _ w. (Inr (length d), ch, w), h_eof = \<lambda>ch w. (Inr (), ch, w),
      h_close = \<lambda>ch w. (Inr (), ch, w)\<rparr>"

section \<open>SimpleAuthHandler\<close>

record auth_entry =
  ae_password :: "string option"
  ae_keys :: "fingerprint list"
  ae_none :: bool

definition empty_entry :: auth_entry where
  "empty_entry = \<lparr>ae_password = None, ae_keys = [], ae_none = False\<rparr>"

record simple_auth =
  sa_entries :: "string \<rightharpoonup> auth_entry"
  sa_attempts :: "string \<rightharpoonup> int"
  sa_max :: int

definition new_simple_auth :: simple_auth where
  "new_simple_auth = \<lparr>sa_entries = Map.empty, sa_attempts = Map.empty, sa_max = 6\<rparr>"

text \<open>\<open>entries_[user]\<close> creates the entry it does not find.\<close>

definition entry_of :: "simple_auth \<Rightarrow> string \<Rightarrow> auth_entry" where
  "entry_of a user = (case sa_entries a user of Some e \<Rightarrow> e | None \<Rightarrow> empty_entry)"

definition allow_password :: "string \<Rightarrow> string \<Rightarrow> simple_auth \<Rightarrow> simple_auth" where
  "allow_password user pw a =
     a\<lparr>sa_entries := (sa_entries a)(user \<mapsto> (entry_of a user)\<lparr>ae_password := Some pw\<rparr>)\<rparr>"

definition allow_public_key ::
    "('w, 'y) key_api_scheme \<Rightarrow> 'w \<Rightarrow> string \<Rightarrow> key \<Rightarrow> simple_auth \<Rightarrow> simple_auth" where
  "allow_public_key kapi w user k a =
     (case key_fingerprint kapi k Hash_sha256 w of
        Inl _ \<Rightarrow> a
      | Inr fp \<Rightarrow>
          a\<lparr>sa_entries := (sa_entries a)(user \<mapsto>
              (entry_of a user)\<lparr>ae_keys := ae_keys (entry_of a user) @ [fp]\<rparr>)\<rparr>)"

definition allow_none :: "string \<Rightarrow> simple_auth \<Rightarrow> simple_auth" where
  "allow_none user a = a\<lparr>sa_entries := (sa_entries a)(user \<mapsto> (entry_of a user)\<lparr>ae_none := True\<rparr>)\<rparr>"

definition set_max_attempts :: "int \<Rightarrow> simple_auth \<Rightarrow> simple_auth" where
  "set_max_attempts n a = a\<lparr>sa_max := n\<rparr>"

text \<open>The counter is an \<open>int\<close>; the model counts without bound, which is the same below \<open>2 ^ 31\<close> attempts.\<close>

definition attempts_of :: "simple_auth \<Rightarrow> string \<Rightarrow> int" where
  "attempts_of a user = (case sa_attempts a user of Some n \<Rightarrow> n | None \<Rightarrow> 0)"

definition record_attempt_and_check :: "string \<Rightarrow> simple_auth \<Rightarrow> bool \<times> simple_auth" where
  "record_attempt_and_check user a =
     (attempts_of a user + 1 \<le> sa_max a,
      a\<lparr>sa_attempts := (sa_attempts a)(user \<mapsto> attempts_of a user + 1)\<rparr>)"

definition simple_on_auth_none :: "string \<Rightarrow> simple_auth \<Rightarrow> auth_result \<times> simple_auth" where
  "simple_on_auth_none user a =
     (case record_attempt_and_check user a of
        (within, a') \<Rightarrow>
          if \<not> within then (AR_denied, a')
          else (case sa_entries a' user of
                  Some e \<Rightarrow> (if ae_none e then AR_success else AR_denied, a')
                | None \<Rightarrow> (AR_denied, a')))"

definition password_equal :: "string \<Rightarrow> string \<Rightarrow> bool" where
  "password_equal a b \<longleftrightarrow> length a = length b \<and> fp_diff 0 (bytes_of_string a) (bytes_of_string b) = 0"

definition simple_on_auth_password :: "string \<Rightarrow> string \<Rightarrow> simple_auth \<Rightarrow> auth_result \<times> simple_auth" where
  "simple_on_auth_password user pw a =
     (case record_attempt_and_check user a of
        (within, a') \<Rightarrow>
          if \<not> within then (AR_denied, a')
          else (case sa_entries a' user of
                  None \<Rightarrow> (AR_denied, a')
                | Some e \<Rightarrow>
                    (case ae_password e of
                       None \<Rightarrow> (AR_denied, a')
                     | Some p \<Rightarrow> (if password_equal p pw then AR_success else AR_denied, a'))))"

definition simple_on_auth_public_key ::
    "('w, 'y) key_api_scheme \<Rightarrow> 'w \<Rightarrow> string \<Rightarrow> key \<Rightarrow> pk_state \<Rightarrow> simple_auth \<Rightarrow> auth_result \<times> simple_auth" where
  "simple_on_auth_public_key kapi w user k state a =
     (if state = PK_wrong then (AR_denied, a)
      else (case sa_entries a user of
              None \<Rightarrow> (AR_denied, a)
            | Some e \<Rightarrow>
                if ae_keys e = [] then (AR_denied, a)
                else (case key_fingerprint kapi k Hash_sha256 w of
                        Inl _ \<Rightarrow> (AR_denied, a)
                      | Inr fp \<Rightarrow>
                          if list_ex (\<lambda>allowed. fingerprint_eq allowed fp) (ae_keys e)
                          then if state = PK_valid
                               then (case record_attempt_and_check user a of
                                       (within, a') \<Rightarrow> (if within then AR_success else AR_denied, a'))
                               else (AR_success, a)
                          else (AR_denied, a))))"

text \<open>The requests a client can make, and the handler's answer; GSSAPI keeps the default body.\<close>

datatype auth_event =
    Ev_none string
  | Ev_password string string
  | Ev_public_key string key pk_state
  | Ev_gssapi_mic string string

fun event_user :: "auth_event \<Rightarrow> string" where
  "event_user (Ev_none u) = u"
| "event_user (Ev_password u _) = u"
| "event_user (Ev_public_key u _ _) = u"
| "event_user (Ev_gssapi_mic u _) = u"

text \<open>An offered key without a verified signature.\<close>

fun is_probe :: "auth_event \<Rightarrow> bool" where
  "is_probe (Ev_public_key _ _ st) \<longleftrightarrow> st \<noteq> PK_valid"
| "is_probe _ \<longleftrightarrow> False"

fun simple_auth_step ::
    "('w, 'y) key_api_scheme \<Rightarrow> 'w \<Rightarrow> auth_event \<Rightarrow> simple_auth \<Rightarrow> auth_result \<times> simple_auth" where
  "simple_auth_step kapi w (Ev_none u) a = simple_on_auth_none u a"
| "simple_auth_step kapi w (Ev_password u pw) a = simple_on_auth_password u pw a"
| "simple_auth_step kapi w (Ev_public_key u k st) a = simple_on_auth_public_key kapi w u k st a"
| "simple_auth_step kapi w (Ev_gssapi_mic u p) a = (AR_denied, a)"

section \<open>CommandHandler\<close>

text \<open>The callback gets the command and the input and yields exit status, output and error output.\<close>

type_synonym 'w runner = "string \<Rightarrow> string \<Rightarrow> 'w \<Rightarrow> (int \<times> string \<times> string) \<times> 'w"

record 'w command_handler =
  co_runner :: "'w runner option"
  co_command :: string
  co_input :: string
  co_eof :: bool
  co_ran :: bool

definition new_command_handler :: "'w runner option \<Rightarrow> 'w command_handler" where
  "new_command_handler r = \<lparr>co_runner = r, co_command = [], co_input = [], co_eof = False, co_ran = False\<rparr>"

definition command_on_exec_request :: "string \<Rightarrow> 'w command_handler \<Rightarrow> bool \<times> 'w command_handler" where
  "command_on_exec_request command h =
     (co_runner h \<noteq> None, h\<lparr>co_command := command, co_input := [], co_eof := False, co_ran := False\<rparr>)"

definition command_on_data :: "bytes \<Rightarrow> 'w command_handler \<Rightarrow> nat \<times> 'w command_handler" where
  "command_on_data d h = (length d, h\<lparr>co_input := co_input h @ string_of_bytes d\<rparr>)"

definition command_on_eof ::
    "('w, 'z) channel_api_scheme \<Rightarrow> channel \<Rightarrow> 'w command_handler \<Rightarrow> 'w \<Rightarrow> 'w command_handler \<times> 'w" where
  "command_on_eof api ch h w =
     (if co_ran h then (h, w)
      else (case (case co_runner h of Some r \<Rightarrow> r (co_command h) (co_input h) w | None \<Rightarrow> ((1, [], []), w)) of
              ((status, out, err), w1) \<Rightarrow>
                let w2 = (if out \<noteq> [] then snd (try_write_all_string api ch out w1) else w1);
                    w3 = (if err \<noteq> [] then snd (try_write_all_string_stream api ch err Stream_stderr w2) else w2);
                    w4 = snd (try_send_exit_status api ch status w3);
                    w5 = snd (try_send_eof api ch w4)
                in (h\<lparr>co_ran := True, co_eof := True\<rparr>, w5)))"

section \<open>What SimpleAuthHandler accepts\<close>

lemma of_char_word_eq: "(of_char c :: 8 word) = of_char d \<longleftrightarrow> c = d"
proof
  assume "(of_char c :: 8 word) = of_char d"
  then have "(word_of_nat (of_char c) :: 8 word) = word_of_nat (of_char d)" by (simp only: of_nat_of_char)
  then have "(of_char c :: nat) mod 256 = of_char d mod 256"
    by (simp add: word_of_nat_eq_iff take_bit_eq_mod)
  then have "(of_char c :: nat) = of_char d" using nat_of_char_less_256 [of c] nat_of_char_less_256 [of d] by simp
  then show "c = d" by simp
qed simp

lemma bytes_of_string_eq [simp]: "bytes_of_string a = bytes_of_string b \<longleftrightarrow> a = b"
proof -
  have "inj (of_char :: char \<Rightarrow> 8 word)" using of_char_word_eq by (auto intro: injI)
  then show ?thesis unfolding bytes_of_string_def by (simp add: inj_map_eq_map)
qed

lemma password_equal_iff: "password_equal a b \<longleftrightarrow> a = b"
  by (auto simp: password_equal_def fp_diff_zero)

text \<open>The specification: what the table permits, for a user with attempts left.\<close>

fun permitted :: "('w, 'y) key_api_scheme \<Rightarrow> 'w \<Rightarrow> auth_event \<Rightarrow> simple_auth \<Rightarrow> bool" where
  "permitted kapi w (Ev_none u) a \<longleftrightarrow>
     attempts_of a u < sa_max a \<and> ae_none (entry_of a u)"
| "permitted kapi w (Ev_password u pw) a \<longleftrightarrow>
     attempts_of a u < sa_max a \<and> ae_password (entry_of a u) = Some pw"
| "permitted kapi w (Ev_public_key u k st) a \<longleftrightarrow>
     st \<noteq> PK_wrong \<and> (st = PK_none \<or> attempts_of a u < sa_max a)
     \<and> (\<exists>fp \<in> set (ae_keys (entry_of a u)). key_fingerprint kapi k Hash_sha256 w = Inr fp)"
| "permitted kapi w (Ev_gssapi_mic u p) a \<longleftrightarrow> False"

lemma simple_success_permitted:
  "fst (simple_auth_step kapi w ev a) = AR_success \<longleftrightarrow> permitted kapi w ev a"
proof (cases ev)
  case (Ev_none u)
  then show ?thesis
    by (auto simp: simple_on_auth_none_def record_attempt_and_check_def entry_of_def empty_entry_def
        split: option.splits)
next
  case (Ev_password u pw)
  then show ?thesis
    by (auto simp: simple_on_auth_password_def record_attempt_and_check_def entry_of_def empty_entry_def
        password_equal_iff split: option.splits)
next
  case (Ev_public_key u k st)
  then show ?thesis
    by (cases st) (auto simp: simple_on_auth_public_key_def record_attempt_and_check_def entry_of_def
        empty_entry_def fingerprint_eq_iff list_ex_iff split: option.splits sum.splits)
qed simp

text \<open>
  The table-driven handler answers success exactly for what its table permits: a user marked as
  needing no authentication, the user's exact password, or a key whose fingerprint is in the
  user's list and whose signature is not wrong, and for other than an offered key only while the
  user has attempts left.
\<close>
theorem simple_auth_success_iff:
  "fst (simple_auth_step kapi w ev a) = AR_success \<longleftrightarrow> permitted kapi w ev a"
  by (rule simple_success_permitted)

lemma simple_step_frame:
  "sa_entries (snd (simple_auth_step kapi w ev a)) = sa_entries a
   \<and> sa_max (snd (simple_auth_step kapi w ev a)) = sa_max a
   \<and> attempts_of (snd (simple_auth_step kapi w ev a)) u \<ge> attempts_of a u
   \<and> (event_user ev \<noteq> u \<longrightarrow> attempts_of (snd (simple_auth_step kapi w ev a)) u = attempts_of a u)"
  by (cases ev)
    (auto simp: simple_on_auth_none_def simple_on_auth_password_def simple_on_auth_public_key_def
      record_attempt_and_check_def attempts_of_def split: option.splits sum.splits)

lemma simple_step_counts:
  assumes "fst (simple_auth_step kapi w ev a) = AR_success" and "\<not> is_probe ev"
  shows "attempts_of (snd (simple_auth_step kapi w ev a)) (event_user ev) = attempts_of a (event_user ev) + 1
     \<and> attempts_of a (event_user ev) < sa_max a"
proof -
  have "permitted kapi w ev a" using assms(1) by (simp add: simple_success_permitted)
  then show ?thesis
    using assms
    by (cases ev) (auto simp: simple_on_auth_none_def simple_on_auth_password_def simple_on_auth_public_key_def
        record_attempt_and_check_def attempts_of_def split: option.splits sum.splits if_splits)
qed

text \<open>The answers to a sequence of requests.\<close>

fun simple_auth_run ::
    "('w, 'y) key_api_scheme \<Rightarrow> 'w \<Rightarrow> auth_event list \<Rightarrow> simple_auth \<Rightarrow> auth_result list \<times> simple_auth" where
  "simple_auth_run kapi w [] a = ([], a)"
| "simple_auth_run kapi w (ev # evs) a =
     (case simple_auth_step kapi w ev a of
        (r, a') \<Rightarrow> (case simple_auth_run kapi w evs a' of (rs, a'') \<Rightarrow> (r # rs, a'')))"

definition logins :: "string \<Rightarrow> auth_event list \<Rightarrow> auth_result list \<Rightarrow> nat" where
  "logins u evs rs =
     length (filter (\<lambda>(ev, r). event_user ev = u \<and> \<not> is_probe ev \<and> r = AR_success) (zip evs rs))"

lemma logins_bound:
  "int (logins u evs (fst (simple_auth_run kapi w evs a))) \<le> max 0 (sa_max a - attempts_of a u)"
proof (induction evs arbitrary: a)
  case (Cons ev evs)
  obtain r a' where step: "simple_auth_step kapi w ev a = (r, a')" by fastforce
  have ih: "int (logins u evs (fst (simple_auth_run kapi w evs a'))) \<le> max 0 (sa_max a' - attempts_of a' u)"
    by (rule Cons)
  have frame: "sa_max a' = sa_max a" "attempts_of a' u \<ge> attempts_of a u"
    using simple_step_frame [of kapi w ev a u] step by simp_all
  have "attempts_of a' u = attempts_of a u + 1 \<and> attempts_of a u < sa_max a"
    if "event_user ev = u" "\<not> is_probe ev" "r = AR_success"
    using simple_step_counts [of kapi w ev a] step that by auto
  then show ?case
    using ih frame step by (auto simp: logins_def split: prod.splits)
qed (simp add: logins_def)


definition demo_auth :: simple_auth where
  "demo_auth = allow_password ''bob'' ''pw'' (set_max_attempts 2 new_simple_auth)"


section \<open>Commands\<close>

text \<open>What libssh may report of a channel to a command handler after an accepted request.\<close>

datatype command_event = Cmd_data bytes | Cmd_eof

fun command_step ::
    "('w, 'z) channel_api_scheme \<Rightarrow> channel \<Rightarrow> command_event \<Rightarrow> 'w command_handler \<times> 'w \<Rightarrow> 'w command_handler \<times> 'w" where
  "command_step api ch (Cmd_data d) (h, w) = (snd (command_on_data d h), w)"
| "command_step api ch Cmd_eof (h, w) = command_on_eof api ch h w"

lemma command_data_run:
  "fold (command_step api ch) (map Cmd_data ds) (h, w)
     = (h\<lparr>co_input := co_input h @ string_of_bytes (concat ds)\<rparr>, w)"
  by (induction ds arbitrary: h) (simp_all add: command_on_data_def string_of_bytes_def)

lemma command_ran_run: "co_ran h \<Longrightarrow> snd (fold (command_step api ch) evs (h, w)) = w"
proof (induction evs arbitrary: h)
  case (Cons ev evs)
  then show ?case by (cases ev) (auto simp: command_on_data_def command_on_eof_def)
qed simp

text \<open>The reply of a finished command: output, error output, exit status, end of file.\<close>

definition command_reply ::
    "('w, 'z) channel_api_scheme \<Rightarrow> channel \<Rightarrow> int \<Rightarrow> string \<Rightarrow> string \<Rightarrow> 'w \<Rightarrow> 'w" where
  "command_reply api ch status out err w =
     snd (try_send_eof api ch (snd (try_send_exit_status api ch status
       ((if err = [] then id else snd \<circ> try_write_all_string_stream api ch err Stream_stderr)
         ((if out = [] then id else snd \<circ> try_write_all_string api ch out) w)))))"

text \<open>
  C32: After an accepted exec request the callback runs exactly once, at the first end of file, with
  the command and the concatenation of all input before it; its output, error output and exit
  status are then sent in this order, and nothing that arrives later has any effect.
\<close>
theorem command_runs_once:
  assumes "co_runner h = Some r"
    and "r command (string_of_bytes (concat ds)) w = ((status, out, err), w1)"
  shows "fst (command_on_exec_request command h)
     \<and> snd (fold (command_step api ch) (map Cmd_data ds @ Cmd_eof # rest)
         (snd (command_on_exec_request command h), w)) = command_reply api ch status out err w1"
proof -
  obtain h' w' where e: "command_on_eof api ch
      (h\<lparr>co_command := command, co_eof := False, co_ran := False, co_input := string_of_bytes (concat ds)\<rparr>) w = (h', w')"
    and h: "co_ran h'" and w': "w' = command_reply api ch status out err w1"
    using assms by (auto simp: command_on_eof_def command_reply_def Let_def)
  then show ?thesis
    using assms(1) by (simp add: command_on_exec_request_def command_data_run command_ran_run)
qed

definition demo_cat :: "sim command_handler" where
  "demo_cat = new_command_handler (Some (\<lambda>c i w. ((0, i, []), w)))"

theorem command_runs_once_witness:
  "fst (command_on_exec_request ''cat'' demo_cat)
   \<and> snd (fold (command_step sim_api sim_channel) (map Cmd_data [[104], [105]] @ Cmd_eof # [Cmd_eof])
        (snd (command_on_exec_request ''cat'' demo_cat), sim_start))
      = command_reply sim_api sim_channel 0 ''hi'' [] sim_start"
  using command_runs_once [of demo_cat "\<lambda>c i w. ((0, i, []), w)" "''cat''" "[[104], [105]]" sim_start 0
      "''hi''" "[]" sim_start sim_api sim_channel "[Cmd_eof]"]
  by (simp add: demo_cat_def new_command_handler_def string_of_bytes_def char_of_def bit_0)

end
