(* ===== verification/Server_Session.thy ===== *)
theory Server_Session
  imports Session Server_Handlers
begin

text \<open>
  \<open>server/server_session.hpp\<close>, \<open>detail/server_session.ipp\<close>, \<open>detail/handler_bridge.ipp\<close>,
  \<open>server/message.hpp\<close>, \<open>detail/server_message.ipp\<close>: the server side of a connection, in the message
  style and in the callback style.

  Sessions and bridges refer to each other by address, so both live in a store: \<open>st_sessions\<close> and
  \<open>st_bridges\<close> map addresses to objects. A bridge and a message remember the address of the session
  they were made for, as the pointers of the source do. Where no object is left at that address the
  access of the source is undefined; the model then changes nothing.

  The theorems: a session becomes authenticated only for a verified credential of the user it then
  names; a channel is freed only outside the callbacks and no native channel is lost or freed
  twice; the two styles are never mixed; a moved session no longer learns of the authentication.
\<close>

section \<open>libssh\<close>

datatype native_message_type =
    SSH_REQUEST_AUTH | SSH_REQUEST_SERVICE | SSH_REQUEST_CHANNEL_OPEN | SSH_REQUEST_CHANNEL | SSH_REQUEST_other

datatype native_pk_state = SSH_PUBLICKEY_STATE_NONE | SSH_PUBLICKEY_STATE_VALID | SSH_PUBLICKEY_STATE_WRONG
  | SSH_PUBLICKEY_STATE_other

datatype native_subtype =
    SSH_AUTH_METHOD_NONE | SSH_AUTH_METHOD_PASSWORD | SSH_AUTH_METHOD_PUBLICKEY | SSH_AUTH_METHOD_INTERACTIVE
  | SSH_CHANNEL_SESSION | SSH_CHANNEL_DIRECT_TCPIP
  | SSH_CHANNEL_REQUEST_PTY | SSH_CHANNEL_REQUEST_EXEC | SSH_CHANNEL_REQUEST_SHELL | SSH_CHANNEL_REQUEST_ENV
  | SSH_CHANNEL_REQUEST_SUBSYSTEM | SSH_CHANNEL_REQUEST_WINDOW_CHANGE | SSH_CHANNEL_REQUEST_X11 | Subtype_other

record 'w server_api = "'w session_api" +
  ssh_handle_key_exchange :: "handle \<Rightarrow> 'w \<Rightarrow> ssh_rc \<times> 'w"
  ssh_set_auth_methods :: "handle \<Rightarrow> u32 \<Rightarrow> 'w \<Rightarrow> 'w"
  ssh_set_server_callbacks :: "handle \<Rightarrow> nat \<Rightarrow> 'w \<Rightarrow> ssh_rc \<times> 'w"
  ssh_set_channel_callbacks :: "handle \<Rightarrow> 'w \<Rightarrow> 'w"
  ssh_remove_channel_callbacks :: "handle \<Rightarrow> 'w \<Rightarrow> 'w"
  ssh_message_get :: "handle \<Rightarrow> 'w \<Rightarrow> handle option \<times> 'w"
  ssh_message_type :: "handle \<Rightarrow> 'w \<Rightarrow> native_message_type"
  ssh_message_subtype :: "handle \<Rightarrow> 'w \<Rightarrow> native_subtype"
  ssh_message_auth_user :: "handle \<Rightarrow> 'w \<Rightarrow> string option"
  ssh_message_auth_password :: "handle \<Rightarrow> 'w \<Rightarrow> string option"
  ssh_message_auth_publickey_state :: "handle \<Rightarrow> 'w \<Rightarrow> native_pk_state"
  ssh_message_auth_pubkey :: "handle \<Rightarrow> 'w \<Rightarrow> handle option"
  ssh_message_request_command :: "handle \<Rightarrow> 'w \<Rightarrow> string option"
  ssh_message_request_subsystem :: "handle \<Rightarrow> 'w \<Rightarrow> string option"
  ssh_message_request_env_name :: "handle \<Rightarrow> 'w \<Rightarrow> string option"
  ssh_message_request_env_value :: "handle \<Rightarrow> 'w \<Rightarrow> string option"
  ssh_message_reply_default :: "handle \<Rightarrow> 'w \<Rightarrow> ssh_rc \<times> 'w"
  ssh_message_auth_reply_success :: "handle \<Rightarrow> 'w \<Rightarrow> ssh_rc \<times> 'w"
  ssh_message_auth_reply_pk_ok_simple :: "handle \<Rightarrow> 'w \<Rightarrow> ssh_rc \<times> 'w"
  ssh_message_request_reply_success :: "handle \<Rightarrow> 'w \<Rightarrow> ssh_rc \<times> 'w"
  ssh_message_open_reply_accept :: "handle \<Rightarrow> 'w \<Rightarrow> handle option \<times> 'w"
  ssh_message_free :: "handle \<Rightarrow> 'w \<Rightarrow> 'w"
  ssh_event_new :: "'w \<Rightarrow> handle option \<times> 'w"
  ssh_event_free :: "handle \<Rightarrow> 'w \<Rightarrow> 'w"
  ssh_event_add_session :: "handle option \<Rightarrow> handle option \<Rightarrow> 'w \<Rightarrow> ssh_rc \<times> 'w"
  ssh_event_remove_session :: "handle \<Rightarrow> handle option \<Rightarrow> 'w \<Rightarrow> 'w"
  ssh_event_add_connector :: "handle \<Rightarrow> handle \<Rightarrow> 'w \<Rightarrow> ssh_rc \<times> 'w"
  ssh_event_remove_connector :: "handle \<Rightarrow> handle \<Rightarrow> 'w \<Rightarrow> 'w"
  posix_poll_in :: "int \<Rightarrow> int \<Rightarrow> 'w \<Rightarrow> int \<times> 'w"

section \<open>State\<close>

record server_session =
  ses_core :: "handle option"
  ses_authenticated :: bool
  ses_user :: string
  ses_message_style :: bool
  ses_bridge :: "nat option"
  ses_event :: "handle option"

text \<open>\<open>cs_callbacks\<close>: libssh knows the callbacks of the channel.\<close>

record 'c channel_state =
  cs_channel :: channel
  cs_handler :: 'c
  cs_callbacks :: bool

record ('c, 'w) bridge =
  br_session :: nat
  br_handler :: "('c, 'w) session_handler"
  br_channels :: "handle \<rightharpoonup> 'c channel_state"
  br_pending :: "handle list"

record ('c, 'w) server =
  st_sessions :: "nat \<rightharpoonup> server_session"
  st_bridges :: "nat \<rightharpoonup> ('c, 'w) bridge"
  st_world :: 'w

definition new_server_session :: "handle option \<Rightarrow> server_session" where
  "new_server_session core =
     \<lparr>ses_core = core, ses_authenticated = False, ses_user = [], ses_message_style = False,
      ses_bridge = None, ses_event = None\<rparr>"

text \<open>The defaulted move constructor: pointers and the string leave the source empty.\<close>

definition server_session_move :: "server_session \<Rightarrow> server_session \<times> server_session" where
  "server_session_move other =
     (other, other\<lparr>ses_core := None, ses_user := [], ses_bridge := None, ses_event := None\<rparr>)"

definition move_session :: "nat \<Rightarrow> nat \<Rightarrow> ('c, 'w) server \<Rightarrow> ('c, 'w) server" where
  "move_session src dst st =
     (case st_sessions st src of
        None \<Rightarrow> st
      | Some s \<Rightarrow>
          (case server_session_move s of
             (new, old) \<Rightarrow> st\<lparr>st_sessions := (st_sessions st)(src \<mapsto> old, dst \<mapsto> new)\<rparr>))"

section \<open>Bridge: authentication\<close>

definition report_error :: "('c, 'w) bridge \<Rightarrow> error_info \<Rightarrow> ('c, 'w) server \<Rightarrow> ('c, 'w) server" where
  "report_error b info st = st\<lparr>st_world := snd (h_error (br_handler b) info (st_world st))\<rparr>"

definition apply_auth_result ::
    "('c, 'w) bridge \<Rightarrow> auth_result \<Rightarrow> string option \<Rightarrow> bool \<Rightarrow> ('c, 'w) server \<Rightarrow> ssh_auth_rc \<times> ('c, 'w) server" where
  "apply_auth_result b r user finalize st =
     (case r of
        AR_success \<Rightarrow>
          (SSH_AUTH_SUCCESS,
           if finalize
           then st\<lparr>st_sessions := (st_sessions st)(br_session b :=
                  map_option (\<lambda>s. s\<lparr>ses_authenticated := True, ses_user := opt_string user\<rparr>)
                    (st_sessions st (br_session b)))\<rparr>
           else st)
      | AR_partial \<Rightarrow> (SSH_AUTH_PARTIAL, st)
      | AR_denied \<Rightarrow> (SSH_AUTH_DENIED, st))"

text \<open>
  The shape of the authentication trampolines: the virtual function, then the result; a thrown
  exception is a denial, a \<open>std::exception\<close> is also reported when \<open>reported\<close> names the function.
\<close>

definition auth_trampoline ::
    "('c, 'w) bridge \<Rightarrow> ('w \<Rightarrow> (thrown + auth_result) \<times> 'w) \<Rightarrow> string option \<Rightarrow> bool \<Rightarrow> string option
       \<Rightarrow> ('c, 'w) server \<Rightarrow> ssh_auth_rc \<times> ('c, 'w) server" where
  "auth_trampoline b call user finalize reported st =
     (case call (st_world st) of
        (Inr r, w) \<Rightarrow> apply_auth_result b r user finalize (st\<lparr>st_world := w\<rparr>)
      | (Inl (Std_exception what), w) \<Rightarrow>
          (SSH_AUTH_DENIED,
           case reported of
             Some op \<Rightarrow> report_error b (mk_error errc_unknown what op) (st\<lparr>st_world := w\<rparr>)
           | None \<Rightarrow> st\<lparr>st_world := w\<rparr>)
      | (Inl Other_exception, w) \<Rightarrow> (SSH_AUTH_DENIED, st\<lparr>st_world := w\<rparr>))"

definition auth_none_cb ::
    "('c, 'w) bridge \<Rightarrow> string option \<Rightarrow> ('c, 'w) server \<Rightarrow> ssh_auth_rc \<times> ('c, 'w) server" where
  "auth_none_cb b user =
     auth_trampoline b (h_auth_none (br_handler b) (opt_string user)) user True (Some ''on_auth_none'')"

definition auth_password_cb ::
    "('c, 'w) bridge \<Rightarrow> string option \<Rightarrow> string option \<Rightarrow> ('c, 'w) server \<Rightarrow> ssh_auth_rc \<times> ('c, 'w) server" where
  "auth_password_cb b user password =
     auth_trampoline b (h_auth_password (br_handler b) (opt_string user) (opt_string password)) user True
       (Some ''on_auth_password'')"

fun pk_state_from_native :: "native_pk_state \<Rightarrow> pk_state" where
  "pk_state_from_native SSH_PUBLICKEY_STATE_VALID = PK_valid"
| "pk_state_from_native SSH_PUBLICKEY_STATE_WRONG = PK_wrong"
| "pk_state_from_native _ = PK_none"

definition auth_pubkey_cb ::
    "('c, 'w) bridge \<Rightarrow> string option \<Rightarrow> handle option \<Rightarrow> native_pk_state \<Rightarrow> ('c, 'w) server
       \<Rightarrow> ssh_auth_rc \<times> ('c, 'w) server" where
  "auth_pubkey_cb b user pubkey signature_state =
     (let state = pk_state_from_native signature_state
      in auth_trampoline b
           (h_auth_public_key (br_handler b) (opt_string user) (key_from_native pubkey False) state)
           user (state = PK_valid) (Some ''on_auth_public_key''))"

definition auth_gssapi_mic_cb ::
    "('c, 'w) bridge \<Rightarrow> string option \<Rightarrow> string option \<Rightarrow> ('c, 'w) server \<Rightarrow> ssh_auth_rc \<times> ('c, 'w) server" where
  "auth_gssapi_mic_cb b user princ =
     auth_trampoline b (h_auth_gssapi_mic (br_handler b) (opt_string user) (opt_string princ)) user True None"

section \<open>Bridge: channels\<close>

definition set_bridge :: "nat \<Rightarrow> ('c, 'w) bridge \<Rightarrow> ('c, 'w) server \<Rightarrow> ('c, 'w) server" where
  "set_bridge bid b st = st\<lparr>st_bridges := (st_bridges st)(bid \<mapsto> b)\<rparr>"

definition bridge_core :: "('c, 'w) bridge \<Rightarrow> ('c, 'w) server \<Rightarrow> handle option" where
  "bridge_core b st = (case st_sessions st (br_session b) of Some s \<Rightarrow> ses_core s | None \<Rightarrow> None)"

definition register_channel ::
    "('w, 'z) server_api_scheme \<Rightarrow> nat \<Rightarrow> ('c, 'w) bridge \<Rightarrow> handle \<Rightarrow> 'c \<Rightarrow> ('c, 'w) server \<Rightarrow> ('c, 'w) server" where
  "register_channel api bid b raw handler st =
     set_bridge bid
       (b\<lparr>br_channels := (br_channels b)(raw \<mapsto>
          \<lparr>cs_channel = from_native api (Some raw) (bridge_core b st) Owning (st_world st),
           cs_handler = handler, cs_callbacks = True\<rparr>)\<rparr>)
       (st\<lparr>st_world := ssh_set_channel_callbacks api raw (st_world st)\<rparr>)"

definition channel_open_session_cb ::
    "('w, 'z) server_api_scheme \<Rightarrow> nat \<Rightarrow> ('c, 'w) bridge \<Rightarrow> handle \<Rightarrow> ('c, 'w) server
       \<Rightarrow> handle option \<times> ('c, 'w) server" where
  "channel_open_session_cb api bid b sess st =
     (case h_channel_open_session (br_handler b) (st_world st) of
        (Inl (Std_exception what), w) \<Rightarrow>
          (None, report_error b (mk_error errc_unknown what ''on_channel_open_session'') (st\<lparr>st_world := w\<rparr>))
      | (Inl Other_exception, w) \<Rightarrow> (None, st\<lparr>st_world := w\<rparr>)
      | (Inr None, w) \<Rightarrow> (None, st\<lparr>st_world := w\<rparr>)
      | (Inr (Some h), w) \<Rightarrow>
          (case ssh_channel_new api sess w of
             (None, w') \<Rightarrow> (None, st\<lparr>st_world := w'\<rparr>)
           | (Some raw, w') \<Rightarrow> (Some raw, register_channel api bid b raw h (st\<lparr>st_world := w'\<rparr>))))"

definition service_request_cb ::
    "('c, 'w) bridge \<Rightarrow> string option \<Rightarrow> ('c, 'w) server \<Rightarrow> int \<times> ('c, 'w) server" where
  "service_request_cb b service st =
     (0, st\<lparr>st_world := snd (h_service_request (br_handler b) (opt_string service) (st_world st))\<rparr>)"

text \<open>
  The shape of the channel trampolines: the virtual function on the channel of the state object,
  its result as libssh wants it, \<open>failed\<close> after an exception.
\<close>

definition channel_trampoline ::
    "nat \<Rightarrow> ('c, 'w) bridge \<Rightarrow> handle \<Rightarrow> 'c channel_state \<Rightarrow> (channel \<Rightarrow> 'w \<Rightarrow> (thrown + 'r) \<times> channel \<times> 'w)
       \<Rightarrow> ('r \<Rightarrow> int) \<Rightarrow> int \<Rightarrow> ('c, 'w) server \<Rightarrow> int \<times> ('c, 'w) server" where
  "channel_trampoline bid b raw cs call answer failed st =
     (case call (cs_channel cs) (st_world st) of
        (r, ch, w) \<Rightarrow>
          (case r of Inr v \<Rightarrow> answer v | Inl _ \<Rightarrow> failed,
           set_bridge bid (b\<lparr>br_channels := (br_channels b)(raw \<mapsto> cs\<lparr>cs_channel := ch\<rparr>)\<rparr>)
             (st\<lparr>st_world := w\<rparr>)))"

definition accepted :: "int \<Rightarrow> bool \<Rightarrow> int" where
  "accepted refused ok = (if ok then 0 else refused)"

text \<open>The channel callbacks of libssh.\<close>

datatype channel_event =
    Ch_data bytes bool
  | Ch_eof
  | Ch_close
  | Ch_signal "string option"
  | Ch_pty "string option" int int
  | Ch_resize int int
  | Ch_shell
  | Ch_exec "string option"
  | Ch_env "string option" "string option"
  | Ch_subsystem "string option"
  | Ch_x11 bool "string option" "string option" u32

definition channel_close_cb ::
    "nat \<Rightarrow> ('c \<Rightarrow> 'w channel_handler) \<Rightarrow> ('c, 'w) bridge \<Rightarrow> handle \<Rightarrow> 'c channel_state \<Rightarrow> ('c, 'w) server
       \<Rightarrow> int \<times> ('c, 'w) server" where
  "channel_close_cb bid cht b raw cs st =
     (case h_close (cht (cs_handler cs)) (cs_channel cs) (st_world st) of
        (r, ch, w) \<Rightarrow>
          (0, set_bridge bid
                (b\<lparr>br_channels := (br_channels b)(raw \<mapsto> cs\<lparr>cs_channel := ch\<rparr>), br_pending := br_pending b @ [raw]\<rparr>)
                (st\<lparr>st_world := w\<rparr>)))"

definition channel_subsystem_request_cb ::
    "('w, 'z) server_api_scheme \<Rightarrow> nat \<Rightarrow> ('c \<Rightarrow> 'w channel_handler) \<Rightarrow> ('c, 'w) bridge \<Rightarrow> handle
       \<Rightarrow> 'c channel_state \<Rightarrow> string option \<Rightarrow> ('c, 'w) server \<Rightarrow> int \<times> ('c, 'w) server" where
  "channel_subsystem_request_cb api bid cht b raw cs name st =
     (case h_subsystem_request (cht (cs_handler cs)) (cs_channel cs) (opt_string name) (st_world st) of
        (Inr True, ch, w) \<Rightarrow>
          (0, set_bridge bid
                (b\<lparr>br_channels := (br_channels b)(raw \<mapsto> cs\<lparr>cs_channel := ch, cs_callbacks := False\<rparr>)\<rparr>)
                (st\<lparr>st_world := ssh_remove_channel_callbacks api raw w\<rparr>))
      | (_, ch, w) \<Rightarrow>
          (1, set_bridge bid (b\<lparr>br_channels := (br_channels b)(raw \<mapsto> cs\<lparr>cs_channel := ch\<rparr>)\<rparr>)
                (st\<lparr>st_world := w\<rparr>)))"

fun channel_cb ::
    "('w, 'z) server_api_scheme \<Rightarrow> nat \<Rightarrow> ('c \<Rightarrow> 'w channel_handler) \<Rightarrow> ('c, 'w) bridge \<Rightarrow> handle
       \<Rightarrow> 'c channel_state \<Rightarrow> channel_event \<Rightarrow> ('c, 'w) server \<Rightarrow> int \<times> ('c, 'w) server" where
  "channel_cb api bid cht b raw cs (Ch_data d is_err) =
     channel_trampoline bid b raw cs
       (\<lambda>ch. h_data (cht (cs_handler cs)) ch d (if is_err then Stream_stderr else Stream_stdout))
       (\<lambda>n. to_int32 (int n)) 0"
| "channel_cb api bid cht b raw cs Ch_eof =
     channel_trampoline bid b raw cs (h_eof (cht (cs_handler cs))) (\<lambda>_. 0) 0"
| "channel_cb api bid cht b raw cs Ch_close = channel_close_cb bid cht b raw cs"
| "channel_cb api bid cht b raw cs (Ch_signal sig) =
     channel_trampoline bid b raw cs (\<lambda>ch. h_signal (cht (cs_handler cs)) ch (opt_string sig)) (\<lambda>_. 0) 0"
| "channel_cb api bid cht b raw cs (Ch_pty term width height) =
     channel_trampoline bid b raw cs
       (\<lambda>ch. h_pty_request (cht (cs_handler cs)) ch (opt_string term) \<lparr>columns = width, rows = height\<rparr>)
       (accepted (-1)) (-1)"
| "channel_cb api bid cht b raw cs (Ch_resize width height) =
     channel_trampoline bid b raw cs
       (\<lambda>ch. h_pty_resize (cht (cs_handler cs)) ch \<lparr>columns = width, rows = height\<rparr>) (accepted (-1)) (-1)"
| "channel_cb api bid cht b raw cs Ch_shell =
     channel_trampoline bid b raw cs (h_shell_request (cht (cs_handler cs))) (accepted 1) 1"
| "channel_cb api bid cht b raw cs (Ch_exec command) =
     channel_trampoline bid b raw cs (\<lambda>ch. h_exec_request (cht (cs_handler cs)) ch (opt_string command))
       (accepted 1) 1"
| "channel_cb api bid cht b raw cs (Ch_env name val) =
     channel_trampoline bid b raw cs
       (\<lambda>ch. h_env_request (cht (cs_handler cs)) ch (opt_string name) (opt_string val)) (accepted 1) 1"
| "channel_cb api bid cht b raw cs (Ch_subsystem name) = channel_subsystem_request_cb api bid cht b raw cs name"
| "channel_cb api bid cht b raw cs (Ch_x11 single proto cookie screen) =
     channel_trampoline bid b raw cs
       (\<lambda>ch. h_x11_request (cht (cs_handler cs)) ch single (opt_string proto) (opt_string cookie) screen)
       (\<lambda>_. 0) 0"

text \<open>Erasing an entry destroys its channel object, which frees the native channel.\<close>

fun erase_channels ::
    "('w, 'z) server_api_scheme \<Rightarrow> handle list \<Rightarrow> (handle \<rightharpoonup> 'c channel_state) \<Rightarrow> 'w
       \<Rightarrow> (handle \<rightharpoonup> 'c channel_state) \<times> 'w" where
  "erase_channels api [] m w = (m, w)"
| "erase_channels api (raw # rest) m w =
     (case m raw of
        None \<Rightarrow> erase_channels api rest m w
      | Some cs \<Rightarrow> erase_channels api rest (m(raw := None)) (snd (channel_dtor api (cs_channel cs) w)))"

definition reap_closed_channels ::
    "('w, 'z) server_api_scheme \<Rightarrow> nat \<Rightarrow> ('c, 'w) bridge \<Rightarrow> ('c, 'w) server \<Rightarrow> ('c, 'w) server" where
  "reap_closed_channels api bid b st =
     (case erase_channels api (br_pending b) (br_channels b) (st_world st) of
        (m, w) \<Rightarrow> set_bridge bid (b\<lparr>br_channels := m, br_pending := []\<rparr>) (st\<lparr>st_world := w\<rparr>))"

definition bridge_notify_disconnect :: "('c, 'w) bridge \<Rightarrow> ('c, 'w) server \<Rightarrow> ('c, 'w) server" where
  "bridge_notify_disconnect b st = st\<lparr>st_world := snd (h_disconnect (br_handler b) (st_world st))\<rparr>"

section \<open>Session operations\<close>

text \<open>\<open>AuthMethodSet\<close> has the fields of \<open>AuthMethods\<close>.\<close>

definition auth_method_set_to_bits :: "method_bits \<Rightarrow> auth_methods \<Rightarrow> u32" where
  "auth_method_set_to_bits b m = to_bits b m"

definition try_handle_key_exchange ::
    "('w, 'z) server_api_scheme \<Rightarrow> server_session \<Rightarrow> 'w \<Rightarrow> unit result \<times> 'w" where
  "try_handle_key_exchange api s w =
     (case ses_core s of
        None \<Rightarrow> (Inl (invalid_handle_error ''server::Session::try_handle_key_exchange''), w)
      | Some raw \<Rightarrow>
          rc_result api (Some raw) ''ssh_handle_key_exchange'' errc_key_exchange_failed
            (ssh_handle_key_exchange api raw w))"

definition set_auth_methods ::
    "('w, 'z) server_api_scheme \<Rightarrow> method_bits \<Rightarrow> server_session \<Rightarrow> auth_methods \<Rightarrow> 'w \<Rightarrow> 'w" where
  "set_auth_methods api b s m w =
     (case ses_core s of Some raw \<Rightarrow> ssh_set_auth_methods api raw (auth_method_set_to_bits b m) w | None \<Rightarrow> w)"

definition server_notify_disconnect :: "server_session \<Rightarrow> ('c, 'w) server \<Rightarrow> ('c, 'w) server" where
  "server_notify_disconnect s st =
     (case Option.bind (ses_bridge s) (st_bridges st) of Some b \<Rightarrow> bridge_notify_disconnect b st | None \<Rightarrow> st)"

definition server_try_disconnect ::
    "('w, 'z) server_api_scheme \<Rightarrow> server_session \<Rightarrow> ('c, 'w) server \<Rightarrow> unit result \<times> ('c, 'w) server" where
  "server_try_disconnect api s st =
     (case ses_core s of
        None \<Rightarrow> (Inl (invalid_handle_error ''server::Session::try_disconnect''), st)
      | Some raw \<Rightarrow>
          (Inr (), server_notify_disconnect s (st\<lparr>st_world := ssh_disconnect api raw (st_world st)\<rparr>)))"

definition server_client_banner :: "('w, 'z) server_api_scheme \<Rightarrow> server_session \<Rightarrow> 'w \<Rightarrow> string result" where
  "server_client_banner api s w =
     (case ses_core s of
        None \<Rightarrow> Inl (invalid_handle_error ''server::Session::try_client_banner'')
      | Some raw \<Rightarrow> Inr (opt_string (ssh_get_clientbanner api raw w)))"

text \<open>
  \<open>try_set_handler\<close> makes the bridge at the fresh address \<open>bid\<close>; when installing fails it is
  destroyed again. \<open>handler = None\<close> is the null pointer.
\<close>

definition try_set_handler ::
    "('w, 'z) server_api_scheme \<Rightarrow> nat \<Rightarrow> nat \<Rightarrow> ('c, 'w) session_handler option \<Rightarrow> ('c, 'w) server
       \<Rightarrow> unit result \<times> ('c, 'w) server" where
  "try_set_handler api a bid handler st =
     (case st_sessions st a of
        None \<Rightarrow> (Inl (invalid_handle_error ''server::Session::try_set_handler''), st)
      | Some s \<Rightarrow>
          (case ses_core s of
             None \<Rightarrow> (Inl (invalid_handle_error ''server::Session::try_set_handler''), st)
           | Some raw \<Rightarrow>
               if ses_message_style s \<or> ses_bridge s \<noteq> None
               then (Inl (mk_error errc_invalid_argument
                            ''session already uses the message style or already has a handler''
                            ''server::Session::try_set_handler''), st)
               else (case handler of
                       None \<Rightarrow> (Inl (mk_error errc_invalid_argument ''handler is null''
                                       ''server::Session::try_set_handler''), st)
                     | Some h \<Rightarrow>
                         (case ssh_set_server_callbacks api raw bid (st_world st) of
                            (rc, w) \<Rightarrow>
                              if rc \<noteq> SSH_OK
                              then (Inl (mk_error errc_unknown [] ''ssh_set_server_callbacks''), st\<lparr>st_world := w\<rparr>)
                              else (Inr (),
                                    set_bridge bid
                                      \<lparr>br_session = a, br_handler = h, br_channels = Map.empty, br_pending = []\<rparr>
                                      (st\<lparr>st_sessions := (st_sessions st)(a \<mapsto> s\<lparr>ses_bridge := Some bid\<rparr>),
                                          st_world := w\<rparr>))))))"

section \<open>Messages\<close>

datatype message_type = Msg_request_auth | Msg_request_service | Msg_channel_open | Msg_channel_request | Msg_unknown
datatype auth_subtype = Sub_none | Sub_password | Sub_public_key | Sub_keyboard_interactive | Sub_unknown
datatype channel_open_subtype = Open_session | Open_direct_tcpip | Open_unknown
datatype channel_request_subtype =
  Req_pty | Req_exec | Req_shell | Req_env | Req_subsystem | Req_window_change | Req_x11 | Req_unknown

fun auth_subtype_from_native :: "native_subtype \<Rightarrow> auth_subtype" where
  "auth_subtype_from_native SSH_AUTH_METHOD_NONE = Sub_none"
| "auth_subtype_from_native SSH_AUTH_METHOD_PASSWORD = Sub_password"
| "auth_subtype_from_native SSH_AUTH_METHOD_PUBLICKEY = Sub_public_key"
| "auth_subtype_from_native SSH_AUTH_METHOD_INTERACTIVE = Sub_keyboard_interactive"
| "auth_subtype_from_native _ = Sub_unknown"

fun channel_open_subtype_from_native :: "native_subtype \<Rightarrow> channel_open_subtype" where
  "channel_open_subtype_from_native SSH_CHANNEL_SESSION = Open_session"
| "channel_open_subtype_from_native SSH_CHANNEL_DIRECT_TCPIP = Open_direct_tcpip"
| "channel_open_subtype_from_native _ = Open_unknown"

fun channel_request_subtype_from_native :: "native_subtype \<Rightarrow> channel_request_subtype" where
  "channel_request_subtype_from_native SSH_CHANNEL_REQUEST_PTY = Req_pty"
| "channel_request_subtype_from_native SSH_CHANNEL_REQUEST_EXEC = Req_exec"
| "channel_request_subtype_from_native SSH_CHANNEL_REQUEST_SHELL = Req_shell"
| "channel_request_subtype_from_native SSH_CHANNEL_REQUEST_ENV = Req_env"
| "channel_request_subtype_from_native SSH_CHANNEL_REQUEST_SUBSYSTEM = Req_subsystem"
| "channel_request_subtype_from_native SSH_CHANNEL_REQUEST_WINDOW_CHANGE = Req_window_change"
| "channel_request_subtype_from_native SSH_CHANNEL_REQUEST_X11 = Req_x11"
| "channel_request_subtype_from_native _ = Req_unknown"

record message =
  m_native :: "handle option"
  m_session :: "nat option"
  m_replied :: bool

definition new_message :: "handle \<Rightarrow> nat \<Rightarrow> message" where
  "new_message n a = \<lparr>m_native = Some n, m_session = Some a, m_replied = False\<rparr>"

definition message_release :: "('w, 'z) server_api_scheme \<Rightarrow> message \<Rightarrow> 'w \<Rightarrow> 'w" where
  "message_release api m w =
     (case m_native m of
        Some n \<Rightarrow> ssh_message_free api n (if m_replied m then w else snd (ssh_message_reply_default api n w))
      | None \<Rightarrow> w)"

definition message_move_ctor :: "message \<Rightarrow> message \<times> message" where
  "message_move_ctor other = (other, other\<lparr>m_native := None, m_replied := True\<rparr>)"

definition message_move_assign ::
    "('w, 'z) server_api_scheme \<Rightarrow> message \<Rightarrow> message \<Rightarrow> 'w \<Rightarrow> message \<times> message \<times> 'w" where
  "message_move_assign api this other w =
     (\<lparr>m_native = m_native other, m_session = m_session other, m_replied = m_replied other\<rparr>,
      other\<lparr>m_native := None, m_replied := True\<rparr>, message_release api this w)"

definition message_type_of :: "('w, 'z) server_api_scheme \<Rightarrow> message \<Rightarrow> 'w \<Rightarrow> message_type" where
  "message_type_of api m w =
     (case m_native m of
        None \<Rightarrow> Msg_unknown
      | Some n \<Rightarrow>
          (case ssh_message_type api n w of
             SSH_REQUEST_AUTH \<Rightarrow> Msg_request_auth | SSH_REQUEST_SERVICE \<Rightarrow> Msg_request_service
           | SSH_REQUEST_CHANNEL_OPEN \<Rightarrow> Msg_channel_open | SSH_REQUEST_CHANNEL \<Rightarrow> Msg_channel_request
           | SSH_REQUEST_other \<Rightarrow> Msg_unknown))"

definition message_auth_subtype :: "('w, 'z) server_api_scheme \<Rightarrow> message \<Rightarrow> 'w \<Rightarrow> auth_subtype" where
  "message_auth_subtype api m w =
     (case m_native m of Some n \<Rightarrow> auth_subtype_from_native (ssh_message_subtype api n w) | None \<Rightarrow> Sub_unknown)"

definition message_channel_open_subtype ::
    "('w, 'z) server_api_scheme \<Rightarrow> message \<Rightarrow> 'w \<Rightarrow> channel_open_subtype" where
  "message_channel_open_subtype api m w =
     (case m_native m of
        Some n \<Rightarrow> channel_open_subtype_from_native (ssh_message_subtype api n w) | None \<Rightarrow> Open_unknown)"

definition message_channel_request_subtype ::
    "('w, 'z) server_api_scheme \<Rightarrow> message \<Rightarrow> 'w \<Rightarrow> channel_request_subtype" where
  "message_channel_request_subtype api m w =
     (case m_native m of
        Some n \<Rightarrow> channel_request_subtype_from_native (ssh_message_subtype api n w) | None \<Rightarrow> Req_unknown)"

text \<open>The accessors that read a C string of the message, empty for a null pointer.\<close>

definition message_text :: "(handle \<Rightarrow> 'w \<Rightarrow> string option) \<Rightarrow> message \<Rightarrow> 'w \<Rightarrow> string" where
  "message_text get m w = (case m_native m of Some n \<Rightarrow> opt_string (get n w) | None \<Rightarrow> [])"

definition auth_user :: "('w, 'z) server_api_scheme \<Rightarrow> message \<Rightarrow> 'w \<Rightarrow> string" where
  "auth_user api = message_text (ssh_message_auth_user api)"

definition auth_password :: "('w, 'z) server_api_scheme \<Rightarrow> message \<Rightarrow> 'w \<Rightarrow> string" where
  "auth_password api = message_text (ssh_message_auth_password api)"

definition auth_public_key_state :: "('w, 'z) server_api_scheme \<Rightarrow> message \<Rightarrow> 'w \<Rightarrow> pk_state" where
  "auth_public_key_state api m w =
     (case m_native m of
        Some n \<Rightarrow> pk_state_from_native (ssh_message_auth_publickey_state api n w) | None \<Rightarrow> PK_none)"

definition auth_public_key :: "('w, 'z) server_api_scheme \<Rightarrow> message \<Rightarrow> 'w \<Rightarrow> key" where
  "auth_public_key api m w =
     (case m_native m of
        None \<Rightarrow> no_key
      | Some n \<Rightarrow>
          (case ssh_message_auth_pubkey api n w of Some k \<Rightarrow> key_from_native (Some k) False | None \<Rightarrow> no_key))"

definition exec_command :: "('w, 'z) server_api_scheme \<Rightarrow> message \<Rightarrow> 'w \<Rightarrow> string" where
  "exec_command api = message_text (ssh_message_request_command api)"

definition subsystem_name :: "('w, 'z) server_api_scheme \<Rightarrow> message \<Rightarrow> 'w \<Rightarrow> string" where
  "subsystem_name api = message_text (ssh_message_request_subsystem api)"

definition env_pair :: "('w, 'z) server_api_scheme \<Rightarrow> message \<Rightarrow> 'w \<Rightarrow> string \<times> string" where
  "env_pair api m w =
     (message_text (ssh_message_request_env_name api) m w, message_text (ssh_message_request_env_value api) m w)"

text \<open>The replies without further effect: guard, one call, the mark, error translation.\<close>

definition message_reply ::
    "message \<Rightarrow> string \<Rightarrow> string \<Rightarrow> errc \<Rightarrow> (handle \<Rightarrow> 'w \<Rightarrow> ssh_rc \<times> 'w) \<Rightarrow> 'w \<Rightarrow> unit result \<times> message \<times> 'w" where
  "message_reply m name op fallback call w =
     (case m_native m of
        None \<Rightarrow> (Inl (invalid_handle_error name), m, w)
      | Some n \<Rightarrow>
          (case call n w of
             (rc, w') \<Rightarrow>
               (if rc \<noteq> SSH_OK then Inl (mk_error fallback [] op) else Inr (), m\<lparr>m_replied := True\<rparr>, w')))"

definition try_reply_auth_failure ::
    "('w, 'z) server_api_scheme \<Rightarrow> message \<Rightarrow> bool \<Rightarrow> 'w \<Rightarrow> unit result \<times> message \<times> 'w" where
  "try_reply_auth_failure api m partial =
     message_reply m ''Message::try_reply_auth_failure'' ''ssh_message_reply_default'' errc_fatal
       (ssh_message_reply_default api)"

definition try_reply_auth_pk_ok ::
    "('w, 'z) server_api_scheme \<Rightarrow> message \<Rightarrow> 'w \<Rightarrow> unit result \<times> message \<times> 'w" where
  "try_reply_auth_pk_ok api m =
     message_reply m ''Message::try_reply_auth_pk_ok'' ''ssh_message_auth_reply_pk_ok_simple'' errc_fatal
       (ssh_message_auth_reply_pk_ok_simple api)"

definition try_reply_default ::
    "('w, 'z) server_api_scheme \<Rightarrow> message \<Rightarrow> 'w \<Rightarrow> unit result \<times> message \<times> 'w" where
  "try_reply_default api m =
     message_reply m ''Message::try_reply_default'' ''ssh_message_reply_default'' errc_fatal
       (ssh_message_reply_default api)"

definition try_reply_success ::
    "('w, 'z) server_api_scheme \<Rightarrow> message \<Rightarrow> 'w \<Rightarrow> unit result \<times> message \<times> 'w" where
  "try_reply_success api m =
     message_reply m ''Message::try_reply_success'' ''ssh_message_channel_request_reply_success''
       errc_channel_request_failed (ssh_message_request_reply_success api)"

definition try_reply_failure ::
    "('w, 'z) server_api_scheme \<Rightarrow> message \<Rightarrow> 'w \<Rightarrow> unit result \<times> message \<times> 'w" where
  "try_reply_failure api m =
     message_reply m ''Message::try_reply_failure'' ''ssh_message_reply_default''
       errc_channel_request_failed (ssh_message_reply_default api)"

definition try_reply_auth_success ::
    "('w, 'z) server_api_scheme \<Rightarrow> message \<Rightarrow> ('c, 'w) server \<Rightarrow> unit result \<times> message \<times> ('c, 'w) server" where
  "try_reply_auth_success api m st =
     (case m_native m of
        None \<Rightarrow> (Inl (invalid_handle_error ''Message::try_reply_auth_success''), m, st)
      | Some n \<Rightarrow>
          (case ssh_message_auth_reply_success api n (st_world st) of
             (rc, w) \<Rightarrow>
               (if rc \<noteq> SSH_OK then Inl (mk_error errc_auth_denied [] ''ssh_message_auth_reply_success'') else Inr (),
                m\<lparr>m_replied := True\<rparr>,
                case m_session m of
                  None \<Rightarrow> st\<lparr>st_world := w\<rparr>
                | Some a \<Rightarrow>
                    st\<lparr>st_sessions := (st_sessions st)(a :=
                         map_option (\<lambda>s. s\<lparr>ses_authenticated := True, ses_user := auth_user api m w\<rparr>)
                           (st_sessions st a)),
                       st_world := w\<rparr>)))"

definition try_accept_channel_open ::
    "('w, 'z) server_api_scheme \<Rightarrow> message \<Rightarrow> ('c, 'w) server \<Rightarrow> channel result \<times> message \<times> 'w" where
  "try_accept_channel_open api m st =
     (case m_native m of
        None \<Rightarrow> (Inl (invalid_handle_error ''Message::try_accept_channel_open''), m, st_world st)
      | Some n \<Rightarrow>
          (case ssh_message_open_reply_accept api n (st_world st) of
             (None, w) \<Rightarrow>
               (Inl (mk_error errc_channel_open_failed [] ''ssh_message_channel_request_open_reply_accept''),
                m\<lparr>m_replied := True\<rparr>, w)
           | (Some raw, w) \<Rightarrow>
               (Inr (from_native api (Some raw) (Option.bind (Option.bind (m_session m) (st_sessions st)) ses_core)
                       Owning w),
                m\<lparr>m_replied := True\<rparr>, w)))"

definition try_next_message ::
    "('w, 'z) server_api_scheme \<Rightarrow> nat \<Rightarrow> int \<Rightarrow> ('c, 'w) server \<Rightarrow> message option result \<times> ('c, 'w) server" where
  "try_next_message api a timeout st =
     (case st_sessions st a of
        None \<Rightarrow> (Inl (invalid_handle_error ''server::Session::try_next_message''), st)
      | Some s \<Rightarrow>
          (case ses_core s of
             None \<Rightarrow> (Inl (invalid_handle_error ''server::Session::try_next_message''), st)
           | Some raw \<Rightarrow>
               if ses_bridge s \<noteq> None
               then (Inl (mk_error errc_invalid_argument
                            ''session already uses the callback style (try_set_handler)''
                            ''server::Session::try_next_message''), st)
               else let st' = st\<lparr>st_sessions := (st_sessions st)(a \<mapsto> s\<lparr>ses_message_style := True\<rparr>)\<rparr>;
                        (rv, w) = (if timeout \<ge> 0
                                   then posix_poll_in api (ssh_get_fd api raw (st_world st)) (to_int32 timeout) (st_world st)
                                   else (1, st_world st))
                    in if rv \<le> 0 then (Inr None, st'\<lparr>st_world := w\<rparr>)
                       else (case ssh_message_get api raw w of
                               (None, w') \<Rightarrow> (Inr None, st'\<lparr>st_world := w'\<rparr>)
                             | (Some n, w') \<Rightarrow> (Inr (Some (new_message n a)), st'\<lparr>st_world := w'\<rparr>))))"

section \<open>Who becomes authenticated\<close>

fun pk_state_to_native :: "pk_state \<Rightarrow> native_pk_state" where
  "pk_state_to_native PK_none = SSH_PUBLICKEY_STATE_NONE"
| "pk_state_to_native PK_valid = SSH_PUBLICKEY_STATE_VALID"
| "pk_state_to_native PK_wrong = SSH_PUBLICKEY_STATE_WRONG"

lemma pk_state_native_inverse [simp]: "pk_state_from_native (pk_state_to_native p) = p"
  by (cases p) simp_all

text \<open>The callback libssh makes for a request, and the request as the handler sees it.\<close>

fun auth_callback :: "('c, 'w) bridge \<Rightarrow> auth_event \<Rightarrow> ('c, 'w) server \<Rightarrow> ssh_auth_rc \<times> ('c, 'w) server" where
  "auth_callback b (Ev_none u) = auth_none_cb b (Some u)"
| "auth_callback b (Ev_password u pw) = auth_password_cb b (Some u) (Some pw)"
| "auth_callback b (Ev_public_key u k p) = auth_pubkey_cb b (Some u) (k_native k) (pk_state_to_native p)"
| "auth_callback b (Ev_gssapi_mic u p) = auth_gssapi_mic_cb b (Some u) (Some p)"

fun seen :: "auth_event \<Rightarrow> auth_event" where
  "seen (Ev_public_key u k p) = Ev_public_key u (key_from_native (k_native k) False) p"
| "seen ev = ev"

lemma seen_sel [simp]: "event_user (seen ev) = event_user ev" "is_probe (seen ev) = is_probe ev"
  by (cases ev; simp)+

definition auth_requests :: "('c, 'w) bridge \<Rightarrow> auth_event list \<Rightarrow> ('c, 'w) server \<Rightarrow> ('c, 'w) server" where
  "auth_requests b evs st = fold (\<lambda>ev st. snd (auth_callback b ev st)) evs st"

text \<open>
  The contract of a session handler: \<open>ok ev w\<close> says that the credential in \<open>ev\<close> is good in the world
  \<open>w\<close>; success is only answered for good credentials, and no answer changes which ones are good.
\<close>

locale session_policy =
  fixes handler :: "('c, 'w) session_handler" and ok :: "auth_event \<Rightarrow> 'w \<Rightarrow> bool"
  assumes none_sound: "fst (h_auth_none handler u w) = Inr AR_success \<Longrightarrow> ok (Ev_none u) w"
    and password_sound: "fst (h_auth_password handler u pw w) = Inr AR_success \<Longrightarrow> ok (Ev_password u pw) w"
    and public_key_sound:
      "fst (h_auth_public_key handler u k PK_valid w) = Inr AR_success \<Longrightarrow> ok (Ev_public_key u k PK_valid) w"
    and gssapi_sound: "fst (h_auth_gssapi_mic handler u p w) = Inr AR_success \<Longrightarrow> ok (Ev_gssapi_mic u p) w"
    and none_keeps: "ok ev (snd (h_auth_none handler u w)) \<longleftrightarrow> ok ev w"
    and password_keeps: "ok ev (snd (h_auth_password handler u pw w)) \<longleftrightarrow> ok ev w"
    and public_key_keeps: "ok ev (snd (h_auth_public_key handler u k st w)) \<longleftrightarrow> ok ev w"
    and gssapi_keeps: "ok ev (snd (h_auth_gssapi_mic handler u p w)) \<longleftrightarrow> ok ev w"
    and error_keeps: "ok ev (snd (h_error handler info w)) \<longleftrightarrow> ok ev w"
begin

lemmas keeps = none_keeps password_keeps public_key_keeps gssapi_keeps error_keeps

lemma trampoline_step:
  assumes "\<And>w. fst (call w) = Inr AR_success \<Longrightarrow> finalize \<Longrightarrow> ok ev w"
    and "\<And>e w. ok e (snd (call w)) \<longleftrightarrow> ok e w" and "br_handler b = handler"
    and "auth_trampoline b call user finalize rep st = (rc, st')"
  shows "(\<forall>e. ok e (st_world st') \<longleftrightarrow> ok e (st_world st))
     \<and> (st_sessions st' = st_sessions st
        \<or> finalize \<and> ok ev (st_world st)
          \<and> st_sessions st' = (st_sessions st)(br_session b :=
              map_option (\<lambda>s. s\<lparr>ses_authenticated := True, ses_user := opt_string user\<rparr>)
                (st_sessions st (br_session b))))"
proof -
  obtain r w where c: "call (st_world st) = (r, w)" by fastforce
  have "ok e w \<longleftrightarrow> ok e (st_world st)" for e using assms(2) [of e "st_world st"] c by simp
  moreover have "r = Inr AR_success \<Longrightarrow> finalize \<Longrightarrow> ok ev (st_world st)" using assms(1) [of "st_world st"] c by simp
  ultimately show ?thesis
    using assms(3,4) c error_keeps
    by (auto simp: auth_trampoline_def apply_auth_result_def report_error_def split: sum.splits thrown.splits
        auth_result.splits option.splits if_splits)
qed

lemma callback_step:
  assumes "br_handler b = handler" and "auth_callback b ev st = (rc, st')"
  shows "(\<forall>e. ok e (st_world st') \<longleftrightarrow> ok e (st_world st))
     \<and> (st_sessions st' = st_sessions st
        \<or> \<not> is_probe ev \<and> ok (seen ev) (st_world st)
          \<and> st_sessions st' = (st_sessions st)(br_session b :=
              map_option (\<lambda>s. s\<lparr>ses_authenticated := True, ses_user := event_user ev\<rparr>)
                (st_sessions st (br_session b))))"
proof (cases ev)
  case (Ev_none u)
  show ?thesis
    using trampoline_step [of "h_auth_none handler u" True "Ev_none u" b "Some u" "Some ''on_auth_none''" st rc st'] none_sound none_keeps assms Ev_none
    by (simp add: auth_none_cb_def opt_string_def)
next
  case (Ev_password u pw)
  show ?thesis
    using trampoline_step [of "h_auth_password handler u pw" True "Ev_password u pw" b "Some u"
        "Some ''on_auth_password''" st rc st'] password_sound password_keeps assms Ev_password
    by (simp add: auth_password_cb_def opt_string_def)
next
  case (Ev_public_key u k p)
  show ?thesis
    using trampoline_step [of "h_auth_public_key handler u (key_from_native (k_native k) False) p" "p = PK_valid"
        "Ev_public_key u (key_from_native (k_native k) False) p" b "Some u" "Some ''on_auth_public_key''" st rc st']
      public_key_sound public_key_keeps assms Ev_public_key
    by (auto simp: auth_pubkey_cb_def opt_string_def)
next
  case (Ev_gssapi_mic u p)
  show ?thesis
    using trampoline_step [of "h_auth_gssapi_mic handler u p" True "Ev_gssapi_mic u p" b "Some u" None st rc st']
      gssapi_sound gssapi_keeps assms Ev_gssapi_mic
    by (simp add: auth_gssapi_mic_cb_def opt_string_def)
qed

lemma requests_sound:
  assumes "br_handler b = handler" and "st_sessions st (br_session b) = Some s0" and "\<not> ses_authenticated s0"
  shows "\<exists>s. st_sessions (auth_requests b evs st) (br_session b) = Some s
     \<and> (ses_authenticated s \<longrightarrow>
          (\<exists>ev \<in> set evs. \<not> is_probe ev \<and> event_user ev = ses_user s \<and> ok (seen ev) (st_world st)))
     \<and> (\<forall>e. ok e (st_world (auth_requests b evs st)) \<longleftrightarrow> ok e (st_world st))"
proof (induction evs rule: rev_induct)
  case Nil
  then show ?case using assms by (simp add: auth_requests_def)
next
  case (snoc ev evs)
  obtain rc st' where c: "auth_callback b ev (auth_requests b evs st) = (rc, st')" by fastforce
  then have run: "auth_requests b (evs @ [ev]) st = st'" by (simp add: auth_requests_def)
  show ?case using snoc callback_step [OF assms(1) c] unfolding run by auto
qed

end

text \<open>\<open>SimpleAuthHandler\<close> as a handler object; its state is the first part of the world.\<close>

definition simple_handler :: "('v, 'y) key_api_scheme \<Rightarrow> ('c, simple_auth \<times> 'v) session_handler" where
  "simple_handler kapi = default_session_handler
     \<lparr>h_auth_none := \<lambda>u (a, v). (case simple_on_auth_none u a of (r, a') \<Rightarrow> (Inr r, a', v)),
      h_auth_password := \<lambda>u pw (a, v). (case simple_on_auth_password u pw a of (r, a') \<Rightarrow> (Inr r, a', v)),
      h_auth_public_key := \<lambda>u k p (a, v).
        (case simple_on_auth_public_key kapi v u k p a of (r, a') \<Rightarrow> (Inr r, a', v))\<rparr>"

text \<open>A credential the table holds, whatever the number of attempts.\<close>

fun good_credential :: "('v, 'y) key_api_scheme \<Rightarrow> auth_event \<Rightarrow> simple_auth \<times> 'v \<Rightarrow> bool" where
  "good_credential kapi (Ev_none u) (a, v) \<longleftrightarrow> ae_none (entry_of a u)"
| "good_credential kapi (Ev_password u pw) (a, v) \<longleftrightarrow> ae_password (entry_of a u) = Some pw"
| "good_credential kapi (Ev_public_key u k p) (a, v) \<longleftrightarrow>
     p = PK_valid \<and> (\<exists>fp \<in> set (ae_keys (entry_of a u)). key_fingerprint kapi k Hash_sha256 v = Inr fp)"
| "good_credential kapi (Ev_gssapi_mic u p) (a, v) \<longleftrightarrow> False"

lemma good_credential_entries:
  "sa_entries a = sa_entries a' \<Longrightarrow> good_credential kapi ev (a, v) \<longleftrightarrow> good_credential kapi ev (a', v)"
  by (cases ev) (simp_all add: entry_of_def)

lemma good_credential_step [simp]:
  "good_credential kapi ev (snd (simple_auth_step kapi v e a), v) \<longleftrightarrow> good_credential kapi ev (a, v)"
  by (rule good_credential_entries) (simp add: simple_step_frame)

lemma permitted_good: "permitted kapi v ev a \<Longrightarrow> \<not> is_probe ev \<Longrightarrow> good_credential kapi ev (a, v)"
  by (cases ev) auto

lemma simple_handler_step:
  "h_auth_none (simple_handler kapi) u (a, v) = (Inr (fst (simple_auth_step kapi v (Ev_none u) a)),
     snd (simple_auth_step kapi v (Ev_none u) a), v)"
  "h_auth_password (simple_handler kapi) u pw (a, v) = (Inr (fst (simple_auth_step kapi v (Ev_password u pw) a)),
     snd (simple_auth_step kapi v (Ev_password u pw) a), v)"
  "h_auth_public_key (simple_handler kapi) u k p (a, v) = (Inr (fst (simple_auth_step kapi v (Ev_public_key u k p) a)),
     snd (simple_auth_step kapi v (Ev_public_key u k p) a), v)"
  by (simp_all add: simple_handler_def split: prod.splits)

interpretation simple: session_policy "simple_handler kapi" "good_credential kapi" for kapi
proof unfold_locales
  fix u w assume "fst (h_auth_none (simple_handler kapi) u w) = Inr AR_success"
  then show "good_credential kapi (Ev_none u) w"
    using permitted_good [of kapi _ "Ev_none u"] by (cases w) (auto simp: simple_handler_step(1) simple_success_permitted
        simp del: simple_auth_step.simps)
next
  fix u pw w assume "fst (h_auth_password (simple_handler kapi) u pw w) = Inr AR_success"
  then show "good_credential kapi (Ev_password u pw) w"
    by (cases w) (auto simp: simple_handler_step(2) simple_success_permitted simp del: simple_auth_step.simps)
next
  fix u k w assume "fst (h_auth_public_key (simple_handler kapi) u k PK_valid w) = Inr AR_success"
  then show "good_credential kapi (Ev_public_key u k PK_valid) w"
    by (cases w) (auto simp: simple_handler_step(3) simple_success_permitted simp del: simple_auth_step.simps)
next
  fix u p w assume "fst (h_auth_gssapi_mic (simple_handler kapi) u p w) = Inr AR_success"
  then show "good_credential kapi (Ev_gssapi_mic u p) w"
    by (simp add: simple_handler_def default_session_handler_def)
next
  fix ev u w show "good_credential kapi ev (snd (h_auth_none (simple_handler kapi) u w)) \<longleftrightarrow> good_credential kapi ev w"
    by (cases w) (simp add: simple_handler_step(1) del: simple_auth_step.simps)
next
  fix ev u pw w
  show "good_credential kapi ev (snd (h_auth_password (simple_handler kapi) u pw w)) \<longleftrightarrow> good_credential kapi ev w"
    by (cases w) (simp add: simple_handler_step(2) del: simple_auth_step.simps)
next
  fix ev u k p w
  show "good_credential kapi ev (snd (h_auth_public_key (simple_handler kapi) u k p w)) \<longleftrightarrow> good_credential kapi ev w"
    by (cases w) (simp add: simple_handler_step(3) del: simple_auth_step.simps)
next
  fix ev u p w
  show "good_credential kapi ev (snd (h_auth_gssapi_mic (simple_handler kapi) u p w)) \<longleftrightarrow> good_credential kapi ev w"
    by (simp add: simple_handler_def default_session_handler_def)
next
  fix ev info w show "good_credential kapi ev (snd (h_error (simple_handler kapi) info w)) \<longleftrightarrow> good_credential kapi ev w"
    by (simp add: simple_handler_def default_session_handler_def)
qed

text \<open>
  C4: With the table-driven handler a server session becomes authenticated only when, among the
  requests libssh passed on, there was one for the user the session then names with that user's
  exact password, with a key of that user and a verified signature, or for a user who needs none;
  offering a key is never enough, and an exception never authenticates.
\<close>
theorem server_login_needs_credential:
  assumes "br_handler b = simple_handler kapi" and "st_sessions st (br_session b) = Some s0"
    and "\<not> ses_authenticated s0" and "st_sessions (auth_requests b evs st) (br_session b) = Some s"
    and "ses_authenticated s"
  shows "\<exists>ev \<in> set evs. \<not> is_probe ev \<and> event_user ev = ses_user s \<and> good_credential kapi (seen ev) (st_world st)"
  using simple.requests_sound [OF assms(1-3), of evs] assms(4,5) by auto

definition demo_bridge :: "(unit, simple_auth \<times> unit) bridge" where
  "demo_bridge = \<lparr>br_session = 0, br_handler = simple_handler example_key_api, br_channels = Map.empty,
     br_pending = []\<rparr>"

definition demo_server :: "(unit, simple_auth \<times> unit) server" where
  "demo_server = \<lparr>st_sessions = [0 \<mapsto> (new_server_session (Some 1))\<lparr>ses_bridge := Some 9\<rparr>],
     st_bridges = [9 \<mapsto> demo_bridge], st_world = (demo_auth, ())\<rparr>"

lemma demo_login:
  "st_sessions (auth_requests demo_bridge [Ev_password ''bob'' ''no'', Ev_password ''bob'' ''pw''] demo_server) 0
     = Some \<lparr>ses_core = Some 1, ses_authenticated = True, ses_user = ''bob'', ses_message_style = False,
         ses_bridge = Some 9, ses_event = None\<rparr>"
  by (simp add: auth_requests_def auth_password_cb_def auth_trampoline_def apply_auth_result_def demo_bridge_def
      demo_server_def simple_handler_def default_session_handler_def demo_auth_def simple_on_auth_password_def
      allow_password_def set_max_attempts_def new_simple_auth_def record_attempt_and_check_def attempts_of_def
      entry_of_def password_equal_iff opt_string_def new_server_session_def)

theorem server_login_needs_credential_witness:
  "\<exists>ev \<in> set [Ev_password ''bob'' ''no'', Ev_password ''bob'' ''pw''].
     \<not> is_probe ev \<and> event_user ev = ''bob'' \<and> good_credential example_key_api (seen ev) (demo_auth, ())"
  using server_login_needs_credential [of demo_bridge example_key_api demo_server
      "(new_server_session (Some 1))\<lparr>ses_bridge := Some 9\<rparr>"
      "[Ev_password ''bob'' ''no'', Ev_password ''bob'' ''pw'']"
      "\<lparr>ses_core = Some 1, ses_authenticated = True, ses_user = ''bob'', ses_message_style = False,
         ses_bridge = Some 9, ses_event = None\<rparr>"] demo_login
  by (simp add: demo_bridge_def demo_server_def new_server_session_def)

text \<open>
  A session object that is moved after its handler was set no longer learns of the
  authentication: the bridge moves along, but a successful request is recorded in the moved-from
  object, and the new owner stays unauthenticated.
\<close>
theorem moved_session_misses_login:
  assumes "st_sessions st src = Some s" and "src \<noteq> dst" and "br_session b = src" and "\<not> ses_authenticated s"
    and "fst (h_auth_password (br_handler b) user pw (st_world st)) = Inr AR_success"
    and "auth_password_cb b (Some user) (Some pw) (move_session src dst st) = (rc, st')"
  shows "rc = SSH_AUTH_SUCCESS
     \<and> map_option ses_authenticated (st_sessions st' dst) = Some False
     \<and> map_option ses_bridge (st_sessions st' dst) = Some (ses_bridge s)
     \<and> map_option ses_authenticated (st_sessions st' src) = Some True"
  using assms
  by (auto simp: auth_password_cb_def auth_trampoline_def apply_auth_result_def move_session_def
      server_session_move_def opt_string_def split: prod.splits)

theorem moved_session_misses_login_witness:
  "map_option ses_authenticated (st_sessions (snd (auth_password_cb demo_bridge (Some ''bob'') (Some ''pw'')
       (move_session 0 5 demo_server))) 5) = Some False"
proof -
  have "fst (h_auth_password (br_handler demo_bridge) ''bob'' ''pw'' (st_world demo_server)) = Inr AR_success"
    by (simp add: demo_bridge_def simple_handler_def demo_auth_def simple_on_auth_password_def demo_server_def
        allow_password_def set_max_attempts_def new_simple_auth_def record_attempt_and_check_def attempts_of_def
        entry_of_def password_equal_iff)
  then show ?thesis
    using moved_session_misses_login [of demo_server 0 _ 5 demo_bridge "''bob''" "''pw''"
        "fst (auth_password_cb demo_bridge (Some ''bob'') (Some ''pw'') (move_session 0 5 demo_server))"
        "snd (auth_password_cb demo_bridge (Some ''bob'') (Some ''pw'') (move_session 0 5 demo_server))"]
    by (simp add: demo_server_def demo_bridge_def new_server_session_def)
qed

section \<open>Message style and callback style\<close>

datatype ('c, 'w) style_op = Set_handler nat "('c, 'w) session_handler option" | Next_message int

fun style_step ::
    "('w, 'z) server_api_scheme \<Rightarrow> nat \<Rightarrow> ('c, 'w) style_op \<Rightarrow> ('c, 'w) server \<Rightarrow> ('c, 'w) server" where
  "style_step api a (Set_handler bid h) st = snd (try_set_handler api a bid h st)"
| "style_step api a (Next_message t) st = snd (try_next_message api a t st)"

definition mixed :: "nat \<Rightarrow> ('c, 'w) server \<Rightarrow> bool" where
  "mixed a st \<longleftrightarrow> (\<exists>s. st_sessions st a = Some s \<and> ses_message_style s \<and> ses_bridge s \<noteq> None)"

lemma style_step_mixed: "\<not> mixed a st \<Longrightarrow> \<not> mixed a (style_step api a x st)"
  by (cases x)
    (auto simp: mixed_def try_set_handler_def try_next_message_def set_bridge_def Let_def
      split: option.splits prod.splits if_splits)

text \<open>
  Whatever order a server calls \<open>try_set_handler\<close> and \<open>try_next_message\<close> in, a session never ends up
  with both a handler and the message style.
\<close>
theorem styles_never_mixed:
  "\<not> mixed a (fold (style_step api a) ops (st\<lparr>st_sessions := (st_sessions st)(a \<mapsto> new_server_session core)\<rparr>))"
proof -
  have "\<not> mixed a (fold (style_step api a) ops st')" if "\<not> mixed a st'" for st'
    using that by (induction ops arbitrary: st') (simp_all add: style_step_mixed)
  moreover have "\<not> mixed a (st\<lparr>st_sessions := (st_sessions st)(a \<mapsto> new_server_session core)\<rparr>)"
    by (simp add: mixed_def new_server_session_def)
  ultimately show ?thesis by blast
qed

section \<open>Replies\<close>

text \<open>
  A success reply that libssh could not send is reported as an error, but the session counts as
  authenticated for the message's user all the same.
\<close>
theorem failed_success_reply_authenticates:
  assumes "m_native m = Some n" and "m_session m = Some a" and "st_sessions st a = Some s"
    and "ssh_message_auth_reply_success api n (st_world st) = (SSH_ERROR, w)"
  shows "\<exists>e m' st' s'. try_reply_auth_success api m st = (Inl e, m', st') \<and> st_sessions st' a = Some s'
     \<and> ses_authenticated s' \<and> ses_user s' = auth_user api m w"
  using assms by (auto simp: try_reply_auth_success_def)

theorem failed_success_reply_authenticates_witness:
  "\<forall>api. \<exists>e m' st' s'. try_reply_auth_success (api\<lparr>ssh_message_auth_reply_success := \<lambda>_ w. (SSH_ERROR, w)\<rparr>)
       (new_message 3 0) demo_server = (Inl e, m', st') \<and> st_sessions st' 0 = Some s' \<and> ses_authenticated s'"
proof
  fix api :: "((simple_auth \<times> unit), 'z) server_api_scheme"
  show "\<exists>e m' st' s'. try_reply_auth_success (api\<lparr>ssh_message_auth_reply_success := \<lambda>_ w. (SSH_ERROR, w)\<rparr>)
       (new_message 3 0) demo_server = (Inl e, m', st') \<and> st_sessions st' 0 = Some s' \<and> ses_authenticated s'"
    using failed_success_reply_authenticates [of "new_message 3 0" 3 0 demo_server
        "(new_server_session (Some 1))\<lparr>ses_bridge := Some 9\<rparr>"
        "api\<lparr>ssh_message_auth_reply_success := \<lambda>_ w. (SSH_ERROR, w)\<rparr>" "(demo_auth, ())"]
    by (auto simp: demo_server_def new_message_def)
qed

section \<open>Ownership of messages\<close>

text \<open>
  The world logs every reply and every release of a message. A message that leaves its owner
  unanswered is answered by default, and is released.
\<close>

datatype msg_call = Replied handle | Released handle

definition log_messages :: "(msg_call list, 'z) server_api_scheme \<Rightarrow> (msg_call list, 'z) server_api_scheme" where
  "log_messages api = api\<lparr>ssh_message_reply_default := \<lambda>n w. (SSH_OK, w @ [Replied n]),
     ssh_message_free := \<lambda>n w. w @ [Released n],
     ssh_message_auth_reply_pk_ok_simple := \<lambda>n w. (SSH_OK, w @ [Replied n]),
     ssh_message_request_reply_success := \<lambda>n w. (SSH_OK, w @ [Replied n])\<rparr>"

text \<open>
  A message that is answered once by any of the plain replies, or not at all, and then
  destroyed has had exactly one reply and is released after it; one that was moved from is not
  touched again.
\<close>
theorem message_one_reply:
  "message_release (log_messages api) (new_message n a) w = w @ [Replied n, Released n]
   \<and> list_all (\<lambda>reply. case reply (new_message n a) w of
          (r, m, w') \<Rightarrow> r = Inr () \<and> message_release (log_messages api) m w' = w @ [Replied n, Released n])
        [try_reply_default (log_messages api), try_reply_success (log_messages api),
         try_reply_failure (log_messages api), try_reply_auth_pk_ok (log_messages api)]
   \<and> message_release api (snd (message_move_ctor m)) v = v"
  by (simp add: message_release_def new_message_def log_messages_def try_reply_default_def try_reply_success_def
      try_reply_failure_def try_reply_auth_pk_ok_def message_reply_def message_move_ctor_def)

end
