(* ===== verification/Server_Channels.thy ===== *)
theory Server_Channels
  imports Server_Session
begin

text \<open>
  The life of the channels of a server session (\<open>detail/handler_bridge.ipp\<close>): opened by a callback, marked
  by the close callback, freed by \<open>reap_closed_channels\<close>, which \<open>Session::try_poll\<close> calls after the poll.

  \<open>bridge_step\<close> is one callback of libssh or one reaping; libssh calls back only for channels whose
  callbacks are set. The theorems: the native channels in existence are at every moment exactly
  those the bridge owns, so that none is lost, freed twice or used after it was freed; a channel
  whose subsystem request was accepted is never freed before the bridge itself.
\<close>

section \<open>Well-behaved handlers\<close>

text \<open>\<open>chans w\<close> are the native channels in existence.\<close>

definition tame :: "('w \<Rightarrow> handle set) \<Rightarrow> (channel \<Rightarrow> 'w \<Rightarrow> 'r \<times> channel \<times> 'w) \<Rightarrow> bool" where
  "tame chans f \<longleftrightarrow> (\<forall>ch w. case f ch w of (_, ch', w') \<Rightarrow>
     ch_native ch' = ch_native ch \<and> ch_owning ch' = ch_owning ch \<and> chans w' = chans w)"

definition tame_channel_handler :: "('w \<Rightarrow> handle set) \<Rightarrow> 'w channel_handler \<Rightarrow> bool" where
  "tame_channel_handler chans h \<longleftrightarrow>
     (\<forall>d s. tame chans (\<lambda>ch. h_data h ch d s)) \<and> tame chans (h_eof h) \<and> tame chans (h_close h)
     \<and> (\<forall>n. tame chans (\<lambda>ch. h_signal h ch n)) \<and> (\<forall>t z. tame chans (\<lambda>ch. h_pty_request h ch t z))
     \<and> (\<forall>z. tame chans (\<lambda>ch. h_pty_resize h ch z)) \<and> tame chans (h_shell_request h)
     \<and> (\<forall>c. tame chans (\<lambda>ch. h_exec_request h ch c)) \<and> (\<forall>n v. tame chans (\<lambda>ch. h_env_request h ch n v))
     \<and> (\<forall>n. tame chans (\<lambda>ch. h_subsystem_request h ch n))
     \<and> (\<forall>b p c n. tame chans (\<lambda>ch. h_x11_request h ch b p c n))"

text \<open>The contract of libssh used here.\<close>

definition bridge_contract :: "('w, 'z) server_api_scheme \<Rightarrow> ('w \<Rightarrow> handle set) \<Rightarrow> bool" where
  "bridge_contract api chans \<longleftrightarrow> channel_contract api chans
     \<and> (\<forall>n w. chans (snd (ssh_channel_close api n w)) = chans w)
     \<and> (\<forall>n w. chans (ssh_set_channel_callbacks api n w) = chans w)
     \<and> (\<forall>n w. chans (ssh_remove_channel_callbacks api n w) = chans w)"

section \<open>Steps\<close>

inductive bridge_step ::
    "('w, 'z) server_api_scheme \<Rightarrow> ('c \<Rightarrow> 'w channel_handler) \<Rightarrow> nat \<Rightarrow> ('c, 'w) server \<Rightarrow> ('c, 'w) server \<Rightarrow> bool"
  for api cht bid where
  step_auth: "st_bridges st bid = Some b \<Longrightarrow> bridge_step api cht bid st (snd (auth_callback b ev st))"
| step_service: "st_bridges st bid = Some b \<Longrightarrow> bridge_step api cht bid st (snd (service_request_cb b name st))"
| step_open: "st_bridges st bid = Some b \<Longrightarrow>
     bridge_step api cht bid st (snd (channel_open_session_cb api bid b sess st))"
| step_event: "st_bridges st bid = Some b \<Longrightarrow> br_channels b raw = Some cs \<Longrightarrow> cs_callbacks cs \<Longrightarrow>
     bridge_step api cht bid st (snd (channel_cb api bid cht b raw cs ev st))"
| step_reap: "st_bridges st bid = Some b \<Longrightarrow> bridge_step api cht bid st (reap_closed_channels api bid b st)"

definition owns_channel :: "handle \<Rightarrow> 'c channel_state \<Rightarrow> bool" where
  "owns_channel raw cs \<longleftrightarrow> ch_native (cs_channel cs) = Some raw \<and> ch_owning (cs_channel cs)"

definition channels_exact :: "('w \<Rightarrow> handle set) \<Rightarrow> (handle \<rightharpoonup> 'c channel_state) \<Rightarrow> 'w \<Rightarrow> bool" where
  "channels_exact chans m w \<longleftrightarrow> dom m = chans w \<and> (\<forall>raw cs. m raw = Some cs \<longrightarrow> owns_channel raw cs)"

text \<open>The bridge at \<open>bid\<close> has the handler \<open>hnd\<close> and owns exactly the native channels in existence.\<close>

definition bridge_exact ::
    "('w \<Rightarrow> handle set) \<Rightarrow> ('c, 'w) session_handler \<Rightarrow> nat \<Rightarrow> ('c, 'w) server \<Rightarrow> bool" where
  "bridge_exact chans hnd bid st \<longleftrightarrow> (\<exists>b. st_bridges st bid = Some b \<and> br_handler b = hnd
     \<and> channels_exact chans (br_channels b) (st_world st))"

text \<open>A channel whose callbacks were removed and that is not marked for removal.\<close>

definition detached :: "nat \<Rightarrow> handle \<Rightarrow> ('c, 'w) server \<Rightarrow> bool" where
  "detached bid raw st \<longleftrightarrow> (\<exists>b cs. st_bridges st bid = Some b \<and> br_channels b raw = Some cs
     \<and> \<not> cs_callbacks cs \<and> raw \<notin> set (br_pending b))"

lemma contract_simps:
  assumes "bridge_contract api chans"
  shows "chans (snd (ssh_channel_close api n w)) = chans w" "chans (ssh_set_channel_callbacks api n w) = chans w"
    "chans (ssh_remove_channel_callbacks api n w) = chans w" "chans (ssh_channel_free api n w) = chans w - {n}"
  using assms by (simp_all add: bridge_contract_def channel_contract_def)

lemma contract_new:
  assumes "bridge_contract api chans" and "ssh_channel_new api sess w = (r, w')"
  shows "case r of Some n \<Rightarrow> n \<notin> chans w \<and> chans w' = insert n (chans w) | None \<Rightarrow> chans w' = chans w"
  using assms unfolding bridge_contract_def channel_contract_def
  by (cases r) (metis (mono_tags, lifting) case_prod_conv option.simps(4,5))+

lemma erase_exact:
  assumes "bridge_contract api chans" and "channels_exact chans m w" and "erase_channels api raws m w = (m', w')"
  shows "channels_exact chans m' w' \<and> m' = m |` (- set raws)"
  using assms(2,3)
proof (induction raws arbitrary: m w)
  case (Cons raw raws)
  show ?case
  proof (cases "m raw")
    case None
    then have "m |` (- set raws) = m |` (- set (raw # raws))" by (auto simp: restrict_map_def)
    then show ?thesis using Cons None by simp
  next
    case (Some cs)
    have own: "owns_channel raw cs" using Cons.prems(1) Some by (simp add: channels_exact_def)
    have "chans (snd (channel_dtor api (cs_channel cs) w)) = chans w - {raw}"
      using own by (simp add: channel_dtor_def channel_release_def owns_channel_def contract_simps [OF assms(1)])
    then have "channels_exact chans (m(raw := None)) (snd (channel_dtor api (cs_channel cs) w))"
      using Cons.prems(1) by (auto simp: channels_exact_def)
    then have "channels_exact chans m' w' \<and> m' = (m(raw := None)) |` (- set raws)"
      using Cons.IH [of "m(raw := None)"] Cons.prems(2) Some by (simp only: erase_channels.simps option.case)
    moreover have "(m(raw := None)) |` (- set raws) = m |` (- set (raw # raws))" by (auto simp: restrict_map_def)
    ultimately show ?thesis by metis
  qed
qed (simp add: restrict_map_def)

text \<open>
  Handlers that neither create nor free channels nor take the channel object they are handed; what
  follows holds for all of them.
\<close>

locale tame_handlers =
  fixes hnd :: "('c, 'w) session_handler" and cht :: "'c \<Rightarrow> 'w channel_handler" and chans :: "'w \<Rightarrow> handle set"
  assumes channel_handlers: "tame_channel_handler chans (cht c)"
    and auth_keeps: "chans (snd (h_auth_none hnd u w)) = chans w" "chans (snd (h_auth_password hnd u p w)) = chans w"
      "chans (snd (h_auth_public_key hnd u k s w)) = chans w" "chans (snd (h_auth_gssapi_mic hnd u p w)) = chans w"
    and other_keeps: "chans (snd (h_channel_open_session hnd w)) = chans w" "chans (snd (h_error hnd i w)) = chans w"
      "chans (snd (h_service_request hnd n w)) = chans w"
begin

lemma auth_world:
  assumes "\<And>w. chans (snd (call w)) = chans w" and "br_handler b = hnd"
  shows "chans (st_world (snd (auth_trampoline b call user fin rep st))) = chans (st_world st)
     \<and> st_bridges (snd (auth_trampoline b call user fin rep st)) = st_bridges st"
proof -
  obtain r w where c: "call (st_world st) = (r, w)" by fastforce
  then have "chans w = chans (st_world st)" using assms(1) [of "st_world st"] by simp
  then show ?thesis
    using c assms(2) other_keeps(2)
    by (auto simp: auth_trampoline_def apply_auth_result_def report_error_def split: sum.splits thrown.splits
        auth_result.splits option.splits)
qed

lemma auth_exact:
  assumes "bridge_exact chans hnd bid st" and "st_bridges st bid = Some b"
  shows "bridge_exact chans hnd bid (snd (auth_callback b ev st))"
proof -
  have h: "br_handler b = hnd" using assms by (simp add: bridge_exact_def)
  have "chans (st_world (snd (auth_callback b ev st))) = chans (st_world st)
      \<and> st_bridges (snd (auth_callback b ev st)) = st_bridges st"
    by (cases ev) (simp_all add: auth_none_cb_def auth_password_cb_def auth_pubkey_cb_def auth_gssapi_mic_cb_def
        Let_def auth_world auth_keeps h)
  then show ?thesis using assms by (auto simp: bridge_exact_def channels_exact_def)
qed

lemma trampoline_exact:
  assumes "bridge_exact chans hnd bid st" and "st_bridges st bid = Some b" and "br_channels b raw = Some cs" and "tame chans call"
  shows "bridge_exact chans hnd bid (snd (channel_trampoline bid b raw cs call answer failed st))"
proof -
  obtain r ch w where c: "call (cs_channel cs) (st_world st) = (r, ch, w)" by (metis prod_cases3)
  then have t: "ch_native ch = ch_native (cs_channel cs)" "ch_owning ch = ch_owning (cs_channel cs)"
    "chans w = chans (st_world st)"
    using assms(4) unfolding tame_def by (metis (mono_tags, lifting) case_prod_conv)+
  have "channels_exact chans ((br_channels b)(raw \<mapsto> cs\<lparr>cs_channel := ch\<rparr>)) w"
    using assms(1-3) t by (auto simp: bridge_exact_def channels_exact_def owns_channel_def)
  then show ?thesis using assms(1,2) c by (auto simp: channel_trampoline_def set_bridge_def bridge_exact_def)
qed

lemma close_exact:
  assumes "bridge_exact chans hnd bid st" and "st_bridges st bid = Some b" and "br_channels b raw = Some cs"
  shows "bridge_exact chans hnd bid (snd (channel_close_cb bid cht b raw cs st))"
proof -
  have "tame chans (h_close (cht (cs_handler cs)))"
    using channel_handlers by (simp add: tame_channel_handler_def)
  then have "bridge_exact chans hnd bid (snd (channel_trampoline bid b raw cs (h_close (cht (cs_handler cs))) (\<lambda>_. 0) 0 st))"
    by (rule trampoline_exact [OF assms])
  then show ?thesis
    by (auto simp: channel_close_cb_def channel_trampoline_def set_bridge_def bridge_exact_def split: prod.splits)
qed

lemma subsystem_exact:
  assumes "bridge_contract api chans"
    and "bridge_exact chans hnd bid st" and "st_bridges st bid = Some b" and "br_channels b raw = Some cs"
  shows "bridge_exact chans hnd bid (snd (channel_subsystem_request_cb api bid cht b raw cs name st))"
proof -
  obtain r ch w where c: "h_subsystem_request (cht (cs_handler cs)) (cs_channel cs) (opt_string name) (st_world st)
      = (r, ch, w)" by (metis prod_cases3)
  have "tame chans (\<lambda>ch. h_subsystem_request (cht (cs_handler cs)) ch (opt_string name))"
    using channel_handlers by (simp add: tame_channel_handler_def)
  then have t: "ch_native ch = ch_native (cs_channel cs)" "ch_owning ch = ch_owning (cs_channel cs)"
    "chans w = chans (st_world st)"
    using c unfolding tame_def by (metis (mono_tags, lifting) case_prod_conv)+
  have "channels_exact chans ((br_channels b)(raw \<mapsto> cs\<lparr>cs_channel := ch\<rparr>)) w"
    and "channels_exact chans ((br_channels b)(raw \<mapsto> cs\<lparr>cs_channel := ch, cs_callbacks := False\<rparr>))
      (ssh_remove_channel_callbacks api raw w)"
    using assms(2-4) t contract_simps(3) [OF assms(1)] by (auto simp: bridge_exact_def channels_exact_def owns_channel_def)
  then show ?thesis
    using assms(2,3) c
    by (cases r) (auto simp: channel_subsystem_request_cb_def set_bridge_def bridge_exact_def split: bool.splits)
qed

lemma event_exact:
  assumes "bridge_contract api chans"
    and "bridge_exact chans hnd bid st" and "st_bridges st bid = Some b" and "br_channels b raw = Some cs"
  shows "bridge_exact chans hnd bid (snd (channel_cb api bid cht b raw cs ev st))"
proof -
  note t = channel_handlers [of "cs_handler cs", unfolded tame_channel_handler_def]
  show ?thesis
    by (cases ev; simp only: channel_cb.simps; rule close_exact subsystem_exact trampoline_exact;
        (rule assms | use t in simp)?)
qed

lemma open_exact:
  assumes "bridge_contract api chans" and "bridge_exact chans hnd bid st" and "st_bridges st bid = Some b"
  shows "bridge_exact chans hnd bid (snd (channel_open_session_cb api bid b sess st))"
proof -
  have hnd: "br_handler b = hnd" and ex: "channels_exact chans (br_channels b) (st_world st)"
    using assms(2,3) by (auto simp: bridge_exact_def)
  obtain r w where c: "h_channel_open_session hnd (st_world st) = (r, w)" by fastforce
  then have w: "chans w = chans (st_world st)" using other_keeps(1) [of "st_world st"] by simp
  have keep: "bridge_exact chans hnd bid (st\<lparr>st_world := v\<rparr>)" if "chans v = chans (st_world st)" for v
    using assms(2) that by (auto simp: bridge_exact_def channels_exact_def)
  show ?thesis
  proof (cases r)
    case (Inl t)
    then show ?thesis
      using c hnd w keep [of w] keep [of "snd (h_error hnd _ w)"] other_keeps(2)
      by (auto simp: channel_open_session_cb_def report_error_def split: thrown.splits)
  next
    case (Inr ho)
    show ?thesis
    proof (cases ho)
      case None
      then show ?thesis using c hnd w keep [of w] Inr by (simp add: channel_open_session_cb_def)
    next
      case (Some h)
      obtain ro w1 where new: "ssh_channel_new api sess w = (ro, w1)" by fastforce
      note n = contract_new [OF assms(1) new]
      show ?thesis
      proof (cases ro)
        case None
        then show ?thesis
          using c hnd w keep [of w1] Inr Some new n by (simp add: channel_open_session_cb_def)
      next
        case raw: (Some raw)
        then have "channels_exact chans ((br_channels b)(raw \<mapsto>
             \<lparr>cs_channel = from_native api (Some raw) (bridge_core b (st\<lparr>st_world := w1\<rparr>)) Owning w1,
              cs_handler = h, cs_callbacks = True\<rparr>)) (ssh_set_channel_callbacks api raw w1)"
          using ex n w contract_simps(2) [OF assms(1)]
          by (auto simp: channels_exact_def owns_channel_def from_native_def new_channel_def)
        then show ?thesis
          using c hnd Inr Some new raw
          by (simp add: channel_open_session_cb_def register_channel_def set_bridge_def bridge_exact_def)
      qed
    qed
  qed
qed

lemma reap_exact:
  assumes "bridge_contract api chans" and "bridge_exact chans hnd bid st" and "st_bridges st bid = Some b"
  shows "bridge_exact chans hnd bid (reap_closed_channels api bid b st)"
proof -
  obtain m w where e: "erase_channels api (br_pending b) (br_channels b) (st_world st) = (m, w)" by fastforce
  have "channels_exact chans (br_channels b) (st_world st)" and "br_handler b = hnd"
    using assms(2,3) by (auto simp: bridge_exact_def)
  then show ?thesis
    using erase_exact [OF assms(1) _ e] e by (auto simp: reap_closed_channels_def set_bridge_def bridge_exact_def)
qed

lemma step_exact:
  assumes "bridge_contract api chans" and "bridge_step api cht bid st st'" and "bridge_exact chans hnd bid st"
  shows "bridge_exact chans hnd bid st'"
  using assms(2)
proof cases
  case (step_auth b ev)
  then show ?thesis using auth_exact assms(3) by simp
next
  case (step_service b name)
  then show ?thesis
    using assms(3) other_keeps(3) by (auto simp: service_request_cb_def bridge_exact_def channels_exact_def)
next
  case (step_open b sess)
  then show ?thesis using open_exact assms(1,3) by simp
next
  case (step_event b raw cs ev)
  then show ?thesis using event_exact assms(1,3) by simp
next
  case (step_reap b)
  then show ?thesis using reap_exact assms(1,3) by simp
qed

lemma reachable_exact:
  assumes "bridge_contract api chans" and "(bridge_step api cht bid)\<^sup>*\<^sup>* st st'" and "bridge_exact chans hnd bid st"
  shows "bridge_exact chans hnd bid st'"
  using assms(2,3) by (induction rule: rtranclp_induct) (auto intro: step_exact [OF assms(1)])

lemma detached_exists:
  "bridge_exact chans hnd bid st \<Longrightarrow> detached bid raw st \<Longrightarrow> raw \<in> chans (st_world st)"
  by (auto simp: detached_def bridge_exact_def channels_exact_def)

lemma event_detached:
  assumes "detached bid raw st" and "st_bridges st bid = Some b" and "br_channels b r = Some cs" and "cs_callbacks cs"
  shows "detached bid raw (snd (channel_cb api bid cht b r cs ev st))"
proof -
  have "raw \<noteq> r" using assms by (auto simp: detached_def)
  then show ?thesis
    using assms(1,2)
    by (cases ev) (auto simp: detached_def channel_trampoline_def channel_close_cb_def channel_subsystem_request_cb_def
        set_bridge_def split: prod.splits sum.splits bool.splits)
qed

lemma open_detached:
  assumes "bridge_contract api chans" and "bridge_exact chans hnd bid st"
    and "detached bid raw st" and "st_bridges st bid = Some b"
  shows "detached bid raw (snd (channel_open_session_cb api bid b sess st))"
proof -
  have hnd: "br_handler b = hnd" using assms(2,4) by (simp add: bridge_exact_def)
  have "raw \<in> chans (snd (h_channel_open_session hnd (st_world st)))"
    using detached_exists [OF assms(2,3)] by (simp add: other_keeps(1))
  then have "raw \<noteq> n" if "h_channel_open_session hnd (st_world st) = (r, w)" "ssh_channel_new api sess w = (Some n, w')"
    for r w n w'
    using contract_new [OF assms(1) that(2)] that(1) by auto
  then show ?thesis
    using assms(3,4) hnd
    by (fastforce simp: channel_open_session_cb_def register_channel_def set_bridge_def report_error_def detached_def
        split: prod.splits sum.splits option.splits thrown.splits)
qed

lemma reap_detached:
  assumes "bridge_contract api chans" and "bridge_exact chans hnd bid st"
    and "detached bid raw st" and "st_bridges st bid = Some b"
  shows "detached bid raw (reap_closed_channels api bid b st)"
proof -
  obtain m w where e: "erase_channels api (br_pending b) (br_channels b) (st_world st) = (m, w)" by fastforce
  have "channels_exact chans (br_channels b) (st_world st)" using assms(2,4) by (auto simp: bridge_exact_def)
  then have "m = br_channels b |` (- set (br_pending b))" using erase_exact [OF assms(1) _ e] by simp
  then show ?thesis
    using assms(3,4) e by (auto simp: reap_closed_channels_def set_bridge_def detached_def restrict_map_def)
qed

lemma step_detached:
  assumes "bridge_contract api chans" and "bridge_step api cht bid st st'"
    and "bridge_exact chans hnd bid st" and "detached bid raw st"
  shows "detached bid raw st'"
  using assms(2)
proof cases
  case (step_auth b ev)
  have "br_handler b = hnd" using assms(3) step_auth(2) by (simp add: bridge_exact_def)
  then have "st_bridges st' = st_bridges st"
    unfolding step_auth(1)
    by (cases ev) (simp_all add: auth_none_cb_def auth_password_cb_def auth_pubkey_cb_def auth_gssapi_mic_cb_def
        Let_def auth_world auth_keeps)
  then show ?thesis using assms(4) by (simp add: detached_def)
next
  case (step_service b name)
  then show ?thesis using assms(4) by (simp add: service_request_cb_def detached_def)
next
  case (step_open b sess)
  then show ?thesis using open_detached assms(1,3,4) by simp
next
  case (step_event b r cs ev)
  then show ?thesis using event_detached assms(4) by simp
next
  case (step_reap b)
  then show ?thesis using reap_detached assms(1,3,4) by simp
qed

lemma reachable_detached:
  assumes "bridge_contract api chans" and "(bridge_step api cht bid)\<^sup>*\<^sup>* st st'"
    and "bridge_exact chans hnd bid st" and "detached bid raw st"
  shows "detached bid raw st' \<and> bridge_exact chans hnd bid st'"
  using assms(2-4)
  by (induction rule: rtranclp_induct) (auto intro: step_exact [OF assms(1)] step_detached [OF assms(1)])

end

text \<open>
  The table-driven handler of a server that accepts every session channel, with the default channel
  handler: an instance.
\<close>

definition accepting_handler :: "('v, 'y) key_api_scheme \<Rightarrow> (unit, simple_auth \<times> 'v) session_handler" where
  "accepting_handler kapi = (simple_handler kapi)\<lparr>h_channel_open_session := \<lambda>w. (Inr (Some ()), w)\<rparr>"

interpretation accepting: tame_handlers "accepting_handler kapi" "\<lambda>_. default_channel_handler" "chans \<circ> snd"
  for kapi and chans :: "'v \<Rightarrow> handle set"
  by unfold_locales
    (auto simp: accepting_handler_def simple_handler_def default_session_handler_def default_channel_handler_def
      tame_channel_handler_def tame_def split: prod.splits)

text \<open>
  C5: Over any sequence of libssh callbacks and reapings, for any handlers that leave channel
  objects to the bridge, the native channels in existence are exactly those the bridge owns: no
  channel is lost, none is freed twice, and none is freed while the bridge still has it.
\<close>
theorem bridge_channels_exact:
  assumes "tame_handlers hnd cht chans" and "bridge_contract api chans" and "bridge_exact chans hnd bid st"
    and "(bridge_step api cht bid)\<^sup>*\<^sup>* st st'"
  shows "bridge_exact chans hnd bid st'"
  by (rule tame_handlers.reachable_exact [OF assms(1,2,4,3)])

text \<open>
  A channel whose subsystem request was accepted has no callbacks any more, so its closing is
  never seen and it is never reaped: its native channel exists as long as the bridge does.
\<close>
theorem subsystem_channel_never_reaped:
  assumes "tame_handlers hnd cht chans" and "bridge_contract api chans" and "bridge_exact chans hnd bid st"
    and "detached bid raw st" and "(bridge_step api cht bid)\<^sup>*\<^sup>* st st'"
  shows "raw \<in> chans (st_world st')"
  using tame_handlers.reachable_detached [OF assms(1,2,5,3,4)] by (auto simp: detached_def bridge_exact_def channels_exact_def)

section \<open>An example\<close>

type_synonym demo_w = "simple_auth \<times> handle set"

definition demo_api :: "(demo_w, 'z) server_api_scheme \<Rightarrow> (demo_w, 'z) server_api_scheme" where
  "demo_api api = api\<lparr>
     ssh_channel_new := \<lambda>_ (a, s). if 8 \<in> s then (None, a, s) else (Some 8, a, insert 8 s),
     ssh_channel_open_session := \<lambda>_ w. (SSH_OK, w), ssh_channel_free := \<lambda>n (a, s). (a, s - {n}),
     ssh_channel_close := \<lambda>_ w. (SSH_OK, w), ssh_channel_is_open := \<lambda>_ _. True,
     ssh_set_channel_callbacks := \<lambda>_ w. w, ssh_remove_channel_callbacks := \<lambda>_ w. w\<rparr>"

definition demo_conn :: "(unit, demo_w) server" where
  "demo_conn = \<lparr>st_sessions = [0 \<mapsto> (new_server_session (Some 1))\<lparr>ses_bridge := Some 9\<rparr>],
     st_bridges = [9 \<mapsto> \<lparr>br_session = 0, br_handler = accepting_handler example_key_api, br_channels = Map.empty,
        br_pending = []\<rparr>], st_world = (demo_auth, {})\<rparr>"

lemma demo_contract: "bridge_contract (demo_api api) (id \<circ> snd)"
  by (auto simp: bridge_contract_def channel_contract_def demo_api_def split: prod.splits)

lemma demo_exact: "bridge_exact (id \<circ> snd) (accepting_handler example_key_api) 9 demo_conn"
  by (simp add: bridge_exact_def demo_conn_def channels_exact_def)

text \<open>The connection after a channel was opened, and after it was handed to a subsystem.\<close>

definition demo_opened :: "(demo_w, 'z) server_api_scheme \<Rightarrow> (unit, demo_w) server" where
  "demo_opened api = snd (channel_open_session_cb (demo_api api) 9 (the (st_bridges demo_conn 9)) 1 demo_conn)"

lemma demo_open_step: "(bridge_step (demo_api api) (\<lambda>_. default_channel_handler) 9)\<^sup>*\<^sup>* demo_conn (demo_opened api)"
  unfolding demo_opened_def by (rule r_into_rtranclp, rule step_open) (simp add: demo_conn_def)

theorem bridge_channels_exact_witness:
  "\<forall>api :: demo_w server_api. bridge_exact (id \<circ> snd) (accepting_handler example_key_api) 9 (demo_opened api)
     \<and> snd (st_world (demo_opened api)) = {8}"
proof
  fix api :: "demo_w server_api"
  show "bridge_exact (id \<circ> snd) (accepting_handler example_key_api) 9 (demo_opened api)
      \<and> snd (st_world (demo_opened api)) = {8}"
    using bridge_channels_exact [OF accepting.tame_handlers_axioms demo_contract demo_exact demo_open_step [of api]]
    by (simp add: demo_opened_def channel_open_session_cb_def demo_conn_def accepting_handler_def demo_api_def
        register_channel_def set_bridge_def)
qed

definition demo_detached :: "(unit, demo_w) server" where
  "demo_detached = demo_conn\<lparr>st_bridges := [9 \<mapsto> \<lparr>br_session = 0, br_handler = accepting_handler example_key_api,
     br_channels = [8 \<mapsto> \<lparr>cs_channel = new_channel (Some 8) (Some 1) True, cs_handler = (), cs_callbacks = False\<rparr>],
     br_pending = []\<rparr>], st_world := (demo_auth, {8})\<rparr>"

theorem subsystem_channel_never_reaped_witness:
  "\<forall>api :: demo_w server_api. detached 9 8 demo_detached
     \<and> 8 \<in> snd (st_world (reap_closed_channels (demo_api api) 9 (the (st_bridges demo_detached 9)) demo_detached))"
proof
  fix api :: "demo_w server_api"
  have d: "detached 9 8 demo_detached" by (simp add: detached_def demo_detached_def)
  have e: "bridge_exact (id \<circ> snd) (accepting_handler example_key_api) 9 demo_detached"
    by (simp add: bridge_exact_def demo_detached_def channels_exact_def owns_channel_def new_channel_def)
  have "(bridge_step (demo_api api) (\<lambda>_. default_channel_handler) 9)\<^sup>*\<^sup>* demo_detached
      (reap_closed_channels (demo_api api) 9 (the (st_bridges demo_detached 9)) demo_detached)"
    by (rule r_into_rtranclp, rule step_reap) (simp add: demo_detached_def)
  from subsystem_channel_never_reaped [OF accepting.tame_handlers_axioms demo_contract e d this] d
  show "detached 9 8 demo_detached
     \<and> 8 \<in> snd (st_world (reap_closed_channels (demo_api api) 9 (the (st_bridges demo_detached 9)) demo_detached))"
    by simp
qed

end
