(* ===== verification/Server_Bind.thy ===== *)
theory Server_Bind
  imports Server_Session Handles
begin

text \<open>
  \<open>server/bind.hpp\<close>, \<open>detail/server_bind.ipp\<close>: the listening socket; \<open>event.hpp\<close>, \<open>detail/event.ipp\<close>: the
  poll loop; and the operations of a server session that use an event (\<open>try_attach\<close>, \<open>try_poll\<close>).

  The theorems: a failed accept leaves no native session behind, what the constructor hands to
  libssh, and that the wrapper objects free their handles exactly once.
\<close>

section \<open>libssh\<close>

datatype bind_option =
  SSH_BIND_OPTIONS_BINDADDR | SSH_BIND_OPTIONS_BINDPORT_STR | SSH_BIND_OPTIONS_BANNER | SSH_BIND_OPTIONS_HOSTKEY

record 'w bind_api = "'w server_api" +
  ssh_bind_new :: "'w \<Rightarrow> handle option \<times> 'w"
  ssh_bind_free :: "handle \<Rightarrow> 'w \<Rightarrow> 'w"
  ssh_bind_options_set :: "handle \<Rightarrow> bind_option \<Rightarrow> string \<Rightarrow> 'w \<Rightarrow> ssh_rc \<times> 'w"
  ssh_bind_import_key :: "handle \<Rightarrow> handle \<Rightarrow> 'w \<Rightarrow> ssh_rc \<times> 'w"
  ssh_key_dup :: "handle option \<Rightarrow> 'w \<Rightarrow> handle option \<times> 'w"
  ssh_bind_listen :: "handle \<Rightarrow> 'w \<Rightarrow> ssh_rc \<times> 'w"
  ssh_bind_get_fd :: "handle \<Rightarrow> 'w \<Rightarrow> int"
  ssh_bind_accept :: "handle \<Rightarrow> handle \<Rightarrow> 'w \<Rightarrow> ssh_rc \<times> 'w"
  ssh_bind_get_error :: "handle \<Rightarrow> 'w \<Rightarrow> string"
  ssh_event_dopoll :: "handle \<Rightarrow> int \<Rightarrow> 'w \<Rightarrow> ssh_rc \<times> 'w"

section \<open>Bind\<close>

record bind_options =
  bo_address :: string
  bo_port :: u16
  bo_host_key_files :: "string list"
  bo_host_keys :: "key list"
  bo_banner :: "string option"

definition default_bind_options :: bind_options where
  "default_bind_options = \<lparr>bo_address = ''0.0.0.0'', bo_port = 22, bo_host_key_files = [], bo_host_keys = [],
     bo_banner = None\<rparr>"

definition bind_validate :: "bind_options \<Rightarrow> unit result" where
  "bind_validate opts =
     (if bo_host_key_files opts = [] \<and> bo_host_keys opts = []
      then Inl (mk_error errc_invalid_argument ''at least one host key is required'' ''BindOptions::validate'')
      else Inr ())"

record bind_obj =
  bi_native :: "handle option"
  bi_port :: u16

definition bind_error :: "('w, 'z) bind_api_scheme \<Rightarrow> handle option \<Rightarrow> string \<Rightarrow> errc \<Rightarrow> 'w \<Rightarrow> error_info" where
  "bind_error api b op fallback w =
     mk_error fallback (case b of Some h \<Rightarrow> ssh_bind_get_error api h w | None \<Rightarrow> []) op"

text \<open>The results of the option calls are not looked at.\<close>

fun bind_set_all :: "('w, 'z) bind_api_scheme \<Rightarrow> handle \<Rightarrow> (bind_option \<times> string) list \<Rightarrow> 'w \<Rightarrow> 'w" where
  "bind_set_all api n [] w = w"
| "bind_set_all api n ((k, v) # rest) w = bind_set_all api n rest (snd (ssh_bind_options_set api n k (c_str v) w))"

fun bind_import_all :: "('w, 'z) bind_api_scheme \<Rightarrow> handle \<Rightarrow> key list \<Rightarrow> 'w \<Rightarrow> 'w" where
  "bind_import_all api n [] w = w"
| "bind_import_all api n (k # ks) w =
     (case ssh_key_dup api (k_native k) w of
        (Some d, w') \<Rightarrow> bind_import_all api n ks (snd (ssh_bind_import_key api n d w'))
      | (None, w') \<Rightarrow> bind_import_all api n ks w')"

definition bind_settings :: "bind_options \<Rightarrow> (bind_option \<times> string) list" where
  "bind_settings opts =
     [(SSH_BIND_OPTIONS_BINDADDR, bo_address opts),
      (SSH_BIND_OPTIONS_BINDPORT_STR, nat_to_string (unat (bo_port opts)))]
     @ (case bo_banner opts of Some b \<Rightarrow> [(SSH_BIND_OPTIONS_BANNER, b)] | None \<Rightarrow> [])
     @ map (Pair SSH_BIND_OPTIONS_HOSTKEY) (bo_host_key_files opts)"

definition bind_ctor :: "('w, 'z) bind_api_scheme \<Rightarrow> bind_options \<Rightarrow> 'w \<Rightarrow> bind_obj \<times> 'w" where
  "bind_ctor api opts w =
     (case ssh_bind_new api w of
        (None, w') \<Rightarrow> (\<lparr>bi_native = None, bi_port = bo_port opts\<rparr>, w')
      | (Some n, w') \<Rightarrow>
          (\<lparr>bi_native = Some n, bi_port = bo_port opts\<rparr>,
           bind_import_all api n (bo_host_keys opts) (bind_set_all api n (bind_settings opts) w')))"

definition bind_release :: "('w, 'z) bind_api_scheme \<Rightarrow> bind_obj \<Rightarrow> 'w \<Rightarrow> 'w" where
  "bind_release api b w = (case bi_native b of Some n \<Rightarrow> ssh_bind_free api n w | None \<Rightarrow> w)"

definition bind_move_ctor :: "bind_obj \<Rightarrow> bind_obj \<times> bind_obj" where
  "bind_move_ctor other = (other, other\<lparr>bi_native := None\<rparr>)"

definition bind_move_assign ::
    "('w, 'z) bind_api_scheme \<Rightarrow> bind_obj \<Rightarrow> bind_obj \<Rightarrow> 'w \<Rightarrow> bind_obj \<times> bind_obj \<times> 'w" where
  "bind_move_assign api this other w =
     (\<lparr>bi_native = bi_native other, bi_port = bi_port other\<rparr>, other\<lparr>bi_native := None\<rparr>, bind_release api this w)"

definition try_listen :: "('w, 'z) bind_api_scheme \<Rightarrow> bind_obj \<Rightarrow> 'w \<Rightarrow> unit result \<times> 'w" where
  "try_listen api b w =
     (case bi_native b of
        None \<Rightarrow> (Inl (invalid_handle_error ''Bind::try_listen''), w)
      | Some n \<Rightarrow>
          (case ssh_bind_listen api n w of
             (rc, w') \<Rightarrow>
               (if rc \<noteq> SSH_OK then Inl (bind_error api (Some n) ''ssh_bind_listen'' errc_fatal w') else Inr (), w')))"

definition bind_fd :: "('w, 'z) bind_api_scheme \<Rightarrow> bind_obj \<Rightarrow> 'w \<Rightarrow> int" where
  "bind_fd api b w = (case bi_native b of Some n \<Rightarrow> ssh_bind_get_fd api n w | None \<Rightarrow> -1)"

definition try_accept :: "('w, 'z) bind_api_scheme \<Rightarrow> bind_obj \<Rightarrow> 'w \<Rightarrow> server_session result \<times> 'w" where
  "try_accept api b w =
     (case bi_native b of
        None \<Rightarrow> (Inl (invalid_handle_error ''Bind::try_accept''), w)
      | Some n \<Rightarrow>
          (case ssh_new api w of
             (None, w') \<Rightarrow> (Inl (mk_error errc_out_of_memory [] ''ssh_new''), w')
           | (Some raw, w') \<Rightarrow>
               (case ssh_bind_accept api n raw w' of
                  (rc, w'') \<Rightarrow>
                    if rc \<noteq> SSH_OK
                    then (Inl (make_error_info api w'' (Some raw) ''ssh_bind_accept'' errc_fatal), ssh_free api raw w'')
                    else (Inr (new_server_session (Some raw)), w''))))"

definition try_accept_timeout ::
    "('w, 'z) bind_api_scheme \<Rightarrow> bind_obj \<Rightarrow> int \<Rightarrow> 'w \<Rightarrow> server_session option result \<times> 'w" where
  "try_accept_timeout api b timeout w =
     (case bi_native b of
        None \<Rightarrow> (Inl (invalid_handle_error ''Bind::try_accept''), w)
      | Some n \<Rightarrow>
          (case posix_poll_in api (bind_fd api b w) (to_int32 timeout) w of
             (rv, w') \<Rightarrow>
               if rv \<le> 0 then (Inr None, w')
               else (case try_accept api b w' of
                       (Inl e, w'') \<Rightarrow> (Inl e, w'') | (Inr s, w'') \<Rightarrow> (Inr (Some s), w''))))"

section \<open>Event\<close>

record event_obj =
  ev_native :: "handle option"

definition event_ctor :: "('w, 'z) bind_api_scheme \<Rightarrow> 'w \<Rightarrow> event_obj \<times> 'w" where
  "event_ctor api w = (case ssh_event_new api w of (n, w') \<Rightarrow> (\<lparr>ev_native = n\<rparr>, w'))"

definition event_release :: "('w, 'z) bind_api_scheme \<Rightarrow> event_obj \<Rightarrow> 'w \<Rightarrow> 'w" where
  "event_release api e w = (case ev_native e of Some n \<Rightarrow> ssh_event_free api n w | None \<Rightarrow> w)"

definition event_move_ctor :: "event_obj \<Rightarrow> event_obj \<times> event_obj" where
  "event_move_ctor other = (other, \<lparr>ev_native = None\<rparr>)"

definition event_move_assign ::
    "('w, 'z) bind_api_scheme \<Rightarrow> event_obj \<Rightarrow> event_obj \<Rightarrow> 'w \<Rightarrow> event_obj \<times> event_obj \<times> 'w" where
  "event_move_assign api this other w = (\<lparr>ev_native = ev_native other\<rparr>, \<lparr>ev_native = None\<rparr>, event_release api this w)"

definition try_add_session ::
    "('w, 'z) bind_api_scheme \<Rightarrow> event_obj \<Rightarrow> handle option \<Rightarrow> 'w \<Rightarrow> unit result \<times> 'w" where
  "try_add_session api e sess w =
     (case ev_native e of
        None \<Rightarrow> (Inl (invalid_handle_error ''Event::try_add_session''), w)
      | Some n \<Rightarrow>
          (case ssh_event_add_session api (Some n) sess w of
             (rc, w') \<Rightarrow> (if rc \<noteq> SSH_OK then Inl (mk_error errc_unknown [] ''ssh_event_add_session'') else Inr (), w')))"

definition try_remove_session ::
    "('w, 'z) bind_api_scheme \<Rightarrow> event_obj \<Rightarrow> handle option \<Rightarrow> 'w \<Rightarrow> unit result \<times> 'w" where
  "try_remove_session api e sess w =
     (case ev_native e of
        None \<Rightarrow> (Inl (invalid_handle_error ''Event::try_remove_session''), w)
      | Some n \<Rightarrow> (Inr (), ssh_event_remove_session api n sess w))"

definition try_add_connector ::
    "('w, 'z) bind_api_scheme \<Rightarrow> event_obj \<Rightarrow> handle \<Rightarrow> 'w \<Rightarrow> unit result \<times> 'w" where
  "try_add_connector api e c w =
     (case ev_native e of
        None \<Rightarrow> (Inl (invalid_handle_error ''Event::try_add_connector''), w)
      | Some n \<Rightarrow>
          (case ssh_event_add_connector api n c w of
             (rc, w') \<Rightarrow> (if rc \<noteq> SSH_OK then Inl (mk_error errc_unknown [] ''ssh_event_add_connector'') else Inr (), w')))"

definition try_remove_connector ::
    "('w, 'z) bind_api_scheme \<Rightarrow> event_obj \<Rightarrow> handle \<Rightarrow> 'w \<Rightarrow> unit result \<times> 'w" where
  "try_remove_connector api e c w =
     (case ev_native e of
        None \<Rightarrow> (Inl (invalid_handle_error ''Event::try_remove_connector''), w)
      | Some n \<Rightarrow> (Inr (), ssh_event_remove_connector api n c w))"

definition event_try_poll :: "('w, 'z) bind_api_scheme \<Rightarrow> event_obj \<Rightarrow> int \<Rightarrow> 'w \<Rightarrow> unit result \<times> 'w" where
  "event_try_poll api e timeout w =
     (case ev_native e of
        None \<Rightarrow> (Inl (invalid_handle_error ''Event::try_poll''), w)
      | Some n \<Rightarrow>
          (case ssh_event_dopoll api n (to_int32 timeout) w of
             (rc, w') \<Rightarrow> (if rc = SSH_ERROR then Inl (mk_error errc_unknown [] ''ssh_event_dopoll'') else Inr (), w')))"

text \<open>The session's \<open>try_attach\<close>; it does not check the event for a null handle.\<close>

definition try_attach ::
    "('w, 'z) bind_api_scheme \<Rightarrow> server_session \<Rightarrow> event_obj \<Rightarrow> 'w \<Rightarrow> unit result \<times> 'w" where
  "try_attach api s e w =
     (case ses_core s of
        None \<Rightarrow> (Inl (invalid_handle_error ''server::Session::try_attach''), w)
      | Some raw \<Rightarrow>
          (case ssh_event_add_session api (ev_native e) (Some raw) w of
             (rc, w') \<Rightarrow> (if rc \<noteq> SSH_OK then Inl (mk_error errc_unknown [] ''ssh_event_add_session'') else Inr (), w')))"

text \<open>
  \<open>try_poll\<close>: the session's own event is made and attached on first use, then libssh polls and runs
  the callbacks (\<open>dopoll\<close>, on the whole state), and only after that closed channels are freed.
\<close>

definition poll_event ::
    "('w, 'z) bind_api_scheme \<Rightarrow> server_session \<Rightarrow> 'w \<Rightarrow> (error_info + event_obj) \<times> 'w" where
  "poll_event api s w =
     (case ses_event s of
        Some n \<Rightarrow> (Inr \<lparr>ev_native = Some n\<rparr>, w)
      | None \<Rightarrow>
          (case event_ctor api w of
             (e, w1) \<Rightarrow>
               (case try_attach api s e w1 of
                  (Inl i, w2) \<Rightarrow> (Inl i, event_release api e w2) | (Inr _, w2) \<Rightarrow> (Inr e, w2))))"

definition server_try_poll ::
    "('w, 'z) bind_api_scheme \<Rightarrow> (handle option \<Rightarrow> int \<Rightarrow> ('c, 'w) server \<Rightarrow> unit result \<times> ('c, 'w) server)
       \<Rightarrow> nat \<Rightarrow> int \<Rightarrow> ('c, 'w) server \<Rightarrow> unit result \<times> ('c, 'w) server" where
  "server_try_poll api dopoll a timeout st =
     (case st_sessions st a of
        None \<Rightarrow> (Inl (invalid_handle_error ''server::Session::try_attach''), st)
      | Some s \<Rightarrow>
          (case poll_event api s (st_world st) of
             (Inl i, w) \<Rightarrow> (Inl i, st\<lparr>st_world := w\<rparr>)
           | (Inr e, w) \<Rightarrow>
               (case dopoll (ev_native e) timeout
                       (st\<lparr>st_world := w, st_sessions := (st_sessions st)(a \<mapsto> s\<lparr>ses_event := ev_native e\<rparr>)\<rparr>) of
                  (r, st') \<Rightarrow>
                    (r, case Option.bind (Option.bind (st_sessions st' a) ses_bridge)
                               (\<lambda>bid. map_option (Pair bid) (st_bridges st' bid)) of
                          Some (bid, b) \<Rightarrow> reap_closed_channels api bid b st'
                        | None \<Rightarrow> st'))))"

section \<open>Accepting\<close>

text \<open>\<open>sess w\<close> are the native sessions in existence.\<close>

definition accept_contract :: "('w, 'z) bind_api_scheme \<Rightarrow> ('w \<Rightarrow> handle set) \<Rightarrow> bool" where
  "accept_contract api sess \<longleftrightarrow>
     (\<forall>w. case ssh_new api w of
        (Some n, w') \<Rightarrow> n \<notin> sess w \<and> sess w' = insert n (sess w) | (None, w') \<Rightarrow> sess w' = sess w)
     \<and> (\<forall>b n w. sess (snd (ssh_bind_accept api b n w)) = sess w)
     \<and> (\<forall>n w. sess (ssh_free api n w) = sess w - {n})"

text \<open>
  Accepting a connection either yields an unauthenticated session with one new native session,
  or fails and leaves no native session behind.
\<close>
theorem accept_no_leak:
  assumes "accept_contract api sess"
  shows "case try_accept api b w of
           (Inr s, w') \<Rightarrow> \<exists>n. s = new_server_session (Some n) \<and> n \<notin> sess w \<and> sess w' = insert n (sess w)
         | (Inl _, w') \<Rightarrow> sess w' = sess w"
proof (cases "bi_native b")
  case None
  then show ?thesis by (simp add: try_accept_def)
next
  case (Some n)
  obtain r w1 where new: "ssh_new api w = (r, w1)" by fastforce
  have c: "case r of Some m \<Rightarrow> m \<notin> sess w \<and> sess w1 = insert m (sess w) | None \<Rightarrow> sess w1 = sess w"
    using assms new unfolding accept_contract_def by (cases r) (metis (mono_tags, lifting) case_prod_conv option.simps(4,5))+
  show ?thesis
  proof (cases r)
    case None
    then show ?thesis using Some new c by (simp add: try_accept_def)
  next
    case raw: (Some raw)
    obtain rc w2 where acc: "ssh_bind_accept api n raw w1 = (rc, w2)" by fastforce
    have "sess (snd (ssh_bind_accept api n raw w1)) = sess w1" using assms unfolding accept_contract_def by blast
    then have "sess w2 = insert raw (sess w)" using c raw acc by simp
    moreover have "sess (ssh_free api raw w2) = sess w2 - {raw}" using assms unfolding accept_contract_def by blast
    ultimately show ?thesis using Some new c raw acc by (auto simp: try_accept_def)
  qed
qed

theorem accept_no_leak_witness:
  "\<forall>api :: handle set bind_api.
     case try_accept (api\<lparr>ssh_new := \<lambda>w. if 4 \<in> w then (None, w) else (Some 4, insert 4 w),
         ssh_bind_accept := \<lambda>_ _ w. (SSH_ERROR, w), ssh_free := \<lambda>n w. w - {n}\<rparr>)
       \<lparr>bi_native = Some 2, bi_port = 22\<rparr> {} of (Inr s, w') \<Rightarrow> False | (Inl _, w') \<Rightarrow> w' = {}"
proof
  fix api :: "handle set bind_api"
  let ?api = "api\<lparr>ssh_new := \<lambda>w. if 4 \<in> w then (None, w) else (Some 4, insert 4 w),
         ssh_bind_accept := \<lambda>_ _ w. (SSH_ERROR, w), ssh_free := \<lambda>n w. w - {n}\<rparr>"
  have "accept_contract ?api id" by (simp add: accept_contract_def)
  from accept_no_leak [OF this, where b = "\<lparr>bi_native = Some 2, bi_port = 22\<rparr>" and w = "{}"]
  show "case try_accept ?api \<lparr>bi_native = Some 2, bi_port = 22\<rparr> {} of (Inr s, w') \<Rightarrow> False | (Inl _, w') \<Rightarrow> w' = {}"
    by (simp add: try_accept_def)
qed

section \<open>Ownership\<close>

definition bind_raii :: "handle list bind_api \<Rightarrow> bind_obj raii_ops" where
  "bind_raii api0 = (let api = api0\<lparr>ssh_bind_free := \<lambda>h w. w @ [h]\<rparr> in
     \<lparr>r_native = bi_native, r_owns = \<lambda>_. True, r_adopt = \<lambda>h. \<lparr>bi_native = Some h, bi_port = 22\<rparr>,
      r_destroy = \<lambda>x. bind_release api x [], r_move = bind_move_ctor,
      r_assign = \<lambda>x y. case bind_move_assign api x y [] of (x', y', fs) \<Rightarrow> (fs, x', y')\<rparr>)"

interpretation bind: move_only "bind_raii api" for api
  by unfold_locales
    (auto simp: bind_raii_def held_def bind_release_def bind_move_ctor_def bind_move_assign_def Let_def
      split: option.splits)

definition event_raii :: "handle list bind_api \<Rightarrow> event_obj raii_ops" where
  "event_raii api0 = (let api = api0\<lparr>ssh_event_free := \<lambda>h w. w @ [h]\<rparr> in
     \<lparr>r_native = ev_native, r_owns = \<lambda>_. True, r_adopt = \<lambda>h. \<lparr>ev_native = Some h\<rparr>,
      r_destroy = \<lambda>x. event_release api x [], r_move = event_move_ctor,
      r_assign = \<lambda>x y. case event_move_assign api x y [] of (x', y', fs) \<Rightarrow> (fs, x', y')\<rparr>)"

interpretation event: move_only "event_raii api" for api
  by unfold_locales
    (auto simp: event_raii_def held_def event_release_def event_move_ctor_def event_move_assign_def Let_def
      split: option.splits)

definition message_raii :: "handle list server_api \<Rightarrow> message raii_ops" where
  "message_raii api0 = (let api = api0\<lparr>ssh_message_free := \<lambda>h w. w @ [h],
        ssh_message_reply_default := \<lambda>_ w. (SSH_OK, w)\<rparr> in
     \<lparr>r_native = m_native, r_owns = \<lambda>_. True, r_adopt = \<lambda>h. new_message h 0,
      r_destroy = \<lambda>x. message_release api x [], r_move = message_move_ctor,
      r_assign = \<lambda>x y. case message_move_assign api x y [] of (x', y', fs) \<Rightarrow> (fs, x', y')\<rparr>)"

interpretation message: move_only "message_raii api" for api
  by unfold_locales
    (auto simp: message_raii_def held_def new_message_def message_release_def message_move_ctor_def
      message_move_assign_def Let_def split: option.splits)

end
