(* ===== verification/Sockets.thy ===== *)
theory Sockets
  imports Session
begin

text \<open>
  \<open>forwarding.hpp\<close>, \<open>detail/forwarding.ipp\<close>: endpoints, the connections and listening sockets of the
  forwarders, and the exact-length transfers of the SOCKS proxy.

  The libssh calls of forwarding and the POSIX socket calls are the fields of \<open>fwd_api\<close>. The atomic
  flags through which another thread stops a loop, and the threads themselves, are part of the
  world: what other threads do happens inside the calls that wait.

  The lemmas: \<open>recv_exact\<close> takes exactly the bytes asked for off the stream and \<open>send_exact\<close> sends exactly
  the bytes given, however the system cuts them up; connecting and listening leak no descriptor.
\<close>

section \<open>Endpoints\<close>

record tcp_endpoint =
  ep_host :: string
  ep_port :: u16

record unix_endpoint =
  ep_path :: string

datatype forward_target = Tcp_target tcp_endpoint | Unix_target unix_endpoint

text \<open>One address of the list \<open>getaddrinfo\<close> returns; \<open>-1\<close> is no descriptor.\<close>

type_synonym sockaddr = nat

section \<open>The system\<close>

record 'w fwd_api = "'w session_api" +
  ssh_channel_open_forward :: "handle \<Rightarrow> string \<Rightarrow> u16 \<Rightarrow> string \<Rightarrow> u16 \<Rightarrow> 'w \<Rightarrow> ssh_rc \<times> 'w"
  ssh_channel_open_forward_unix :: "handle \<Rightarrow> string \<Rightarrow> string \<Rightarrow> u16 \<Rightarrow> 'w \<Rightarrow> ssh_rc \<times> 'w"
  ssh_channel_listen_forward :: "handle option \<Rightarrow> string option \<Rightarrow> u16 \<Rightarrow> 'w \<Rightarrow> ssh_rc \<times> int \<times> 'w"
  ssh_channel_cancel_forward :: "handle \<Rightarrow> string option \<Rightarrow> u16 \<Rightarrow> 'w \<Rightarrow> ssh_rc \<times> 'w"
  ssh_channel_open_forward_port :: "handle \<Rightarrow> int \<Rightarrow> 'w \<Rightarrow> handle option \<times> int \<times> string option \<times> int \<times> 'w"
  ssh_channel_request_x11 :: "handle option \<Rightarrow> bool \<Rightarrow> string \<Rightarrow> string \<Rightarrow> int \<Rightarrow> 'w \<Rightarrow> ssh_rc \<times> 'w"
  ssh_channel_accept_x11 :: "handle option \<Rightarrow> int \<Rightarrow> 'w \<Rightarrow> handle option \<times> 'w"
  sys_getaddrinfo :: "string \<Rightarrow> string \<Rightarrow> bool \<Rightarrow> 'w \<Rightarrow> int \<times> sockaddr list \<times> 'w"
  sys_gai_strerror :: "int \<Rightarrow> string"
  sys_strerror :: "'w \<Rightarrow> string"
  sys_socket :: "sockaddr \<Rightarrow> 'w \<Rightarrow> int \<times> 'w"
  sys_socket_unix :: "'w \<Rightarrow> int \<times> 'w"
  sys_connect :: "int \<Rightarrow> sockaddr \<Rightarrow> 'w \<Rightarrow> bool \<times> 'w"
  sys_connect_unix :: "int \<Rightarrow> string \<Rightarrow> 'w \<Rightarrow> bool \<times> 'w"
  sys_reuseaddr :: "int \<Rightarrow> 'w \<Rightarrow> 'w"
  sys_bind :: "int \<Rightarrow> sockaddr \<Rightarrow> 'w \<Rightarrow> bool \<times> 'w"
  sys_listen :: "int \<Rightarrow> nat \<Rightarrow> 'w \<Rightarrow> bool \<times> 'w"
  sys_getsockname :: "int \<Rightarrow> 'w \<Rightarrow> (bool \<times> u16) option"
  sys_getpeername :: "int \<Rightarrow> 'w \<Rightarrow> (bool \<times> string \<times> u16) option"
  sys_close :: "int \<Rightarrow> 'w \<Rightarrow> 'w"
  sys_poll_in :: "int \<Rightarrow> int \<Rightarrow> 'w \<Rightarrow> bool \<times> 'w"
  sys_accept :: "int \<Rightarrow> 'w \<Rightarrow> int \<times> 'w"
  sys_recv :: "int \<Rightarrow> nat \<Rightarrow> 'w \<Rightarrow> int \<times> bytes \<times> 'w"
  sys_send :: "int \<Rightarrow> bytes \<Rightarrow> 'w \<Rightarrow> int \<times> 'w"
  sys_shutdown_wr :: "int \<Rightarrow> 'w \<Rightarrow> 'w"
  sys_inet_ntop4 :: "bytes \<Rightarrow> string"
  sys_inet_ntop6 :: "bytes \<Rightarrow> string"
  sys_getenv :: "string \<Rightarrow> 'w \<Rightarrow> string option"
  random_word :: "'w \<Rightarrow> u32 \<times> 'w"
  flag_load :: "nat \<Rightarrow> 'w \<Rightarrow> bool"
  flag_store :: "nat \<Rightarrow> bool \<Rightarrow> 'w \<Rightarrow> 'w"
  thread_spawn :: "nat \<Rightarrow> 'w \<Rightarrow> 'w"
  thread_join :: "nat \<Rightarrow> 'w \<Rightarrow> 'w"

section \<open>Connecting\<close>

text \<open>
  The loop over the addresses: a socket that does not connect is closed before the next address
  is tried. The result is \<open>-1\<close> when none is left.
\<close>

fun first_socket ::
    "('w, 'z) fwd_api_scheme \<Rightarrow> (int \<Rightarrow> sockaddr \<Rightarrow> 'w \<Rightarrow> bool \<times> 'w) \<Rightarrow> sockaddr list \<Rightarrow> 'w \<Rightarrow> int \<times> 'w" where
  "first_socket api try [] w = (-1, w)"
| "first_socket api try (a # as) w =
     (case sys_socket api a w of
        (fd, w1) \<Rightarrow>
          if fd < 0 then first_socket api try as w1
          else (case try fd a w1 of
                  (ok, w2) \<Rightarrow> if ok then (fd, w2) else first_socket api try as (sys_close api fd w2)))"

definition gai_error :: "('w, 'z) fwd_api_scheme \<Rightarrow> int \<Rightarrow> error_info" where
  "gai_error api rc = mk_error errc_forwarding_failed (sys_gai_strerror api rc) ''getaddrinfo''"

definition errno_error :: "('w, 'z) fwd_api_scheme \<Rightarrow> 'w \<Rightarrow> string \<Rightarrow> error_info" where
  "errno_error api w op = mk_error errc_forwarding_failed (sys_strerror api w) op"

definition connect_tcp :: "('w, 'z) fwd_api_scheme \<Rightarrow> tcp_endpoint \<Rightarrow> 'w \<Rightarrow> int result \<times> 'w" where
  "connect_tcp api target w =
     (case sys_getaddrinfo api (c_str (ep_host target)) (nat_to_string (unat (ep_port target))) False w of
        (rc, results, w1) \<Rightarrow>
          if rc \<noteq> 0 \<or> results = [] then (Inl (gai_error api rc), w1)
          else (case first_socket api (sys_connect api) results w1 of
                  (fd, w2) \<Rightarrow> if fd < 0 then (Inl (errno_error api w2 ''connect''), w2) else (Inr fd, w2)))"

text \<open>\<open>sizeof(sockaddr_un::sun_path)\<close>.\<close>

definition sun_path_size :: nat where
  "sun_path_size = 108"

definition connect_unix :: "('w, 'z) fwd_api_scheme \<Rightarrow> unix_endpoint \<Rightarrow> 'w \<Rightarrow> int result \<times> 'w" where
  "connect_unix api target w =
     (if length (ep_path target) \<ge> sun_path_size
      then (Inl (mk_error errc_invalid_argument ''path too long'' ''connect_unix''), w)
      else case sys_socket_unix api w of
        (fd, w1) \<Rightarrow>
          if fd < 0 then (Inl (errno_error api w1 ''socket''), w1)
          else (case sys_connect_unix api fd (c_str (ep_path target)) w1 of
                  (ok, w2) \<Rightarrow>
                    if \<not> ok then (Inl (errno_error api w2 ''connect''), sys_close api fd w2) else (Inr fd, w2)))"

fun connect_target :: "('w, 'z) fwd_api_scheme \<Rightarrow> forward_target \<Rightarrow> 'w \<Rightarrow> int result \<times> 'w" where
  "connect_target api (Tcp_target t) w = connect_tcp api t w"
| "connect_target api (Unix_target u) w = connect_unix api u w"

section \<open>Listening\<close>

text \<open>
  \<open>bind_listener\<close> of \<open>LocalForward\<close> and of \<open>SocksProxy\<close>, which differ in the check of the address family
  before the port is read back: the new descriptor and the port, when it could be read.
\<close>

definition bind_listener ::
    "('w, 'z) fwd_api_scheme \<Rightarrow> bool \<Rightarrow> tcp_endpoint \<Rightarrow> 'w \<Rightarrow> (int \<times> u16 option) result \<times> 'w" where
  "bind_listener api only_inet listen w =
     (case sys_getaddrinfo api (c_str (ep_host listen)) (nat_to_string (unat (ep_port listen))) True w of
        (rc, results, w1) \<Rightarrow>
          if rc \<noteq> 0 \<or> results = [] then (Inl (gai_error api rc), w1)
          else (case first_socket api (\<lambda>fd a v. sys_bind api fd a (sys_reuseaddr api fd v)) results w1 of
                  (fd, w2) \<Rightarrow>
                    if fd < 0 then (Inl (errno_error api w2 ''bind''), w2)
                    else (case sys_listen api fd 16 w2 of
                            (ok, w3) \<Rightarrow>
                              if \<not> ok then (let w4 = sys_close api fd w3 in (Inl (errno_error api w4 ''listen''), w4))
                              else (Inr (fd, case sys_getsockname api fd w3 of
                                               Some (inet, port) \<Rightarrow> if inet \<or> \<not> only_inet then Some port else None
                                             | None \<Rightarrow> None), w3))))"

section \<open>Transfers of an exact length\<close>

text \<open>Every round that does not fail transfers at least one byte, so the loops end.\<close>

function recv_exact ::
    "('w, 'z) fwd_api_scheme \<Rightarrow> int \<Rightarrow> bytes \<Rightarrow> nat \<Rightarrow> 'w \<Rightarrow> bytes option \<times> 'w" where
  "recv_exact api fd got left w =
     (if left = 0 then (Some got, w)
      else case sys_recv api fd left w of
        (n, new, w') \<Rightarrow>
          if n \<le> 0 then (None, w')
          else recv_exact api fd (got @ mem_prefix (nat n) new) (left - nat n) w')"
  by pat_completeness auto
termination
  by (relation "measure (\<lambda>(_, _, _, left, _). left)") auto

declare recv_exact.simps [simp del]

function send_exact :: "('w, 'z) fwd_api_scheme \<Rightarrow> int \<Rightarrow> bytes \<Rightarrow> 'w \<Rightarrow> bool \<times> 'w" where
  "send_exact api fd data w =
     (if data = [] then (True, w)
      else case sys_send api fd data w of
        (n, w') \<Rightarrow> if n \<le> 0 then (False, w') else send_exact api fd (drop (nat n) data) w')"
  by pat_completeness auto
termination
  by (relation "measure (\<lambda>(_, _, d, _). length d)") auto

declare send_exact.simps [simp del]

text \<open>
  \<open>pend fd w\<close> is what the peer of the socket has still to deliver, \<open>outp fd w\<close> what it has been sent.
\<close>

definition socket_contract ::
    "('w, 'z) fwd_api_scheme \<Rightarrow> (int \<Rightarrow> 'w \<Rightarrow> bytes) \<Rightarrow> (int \<Rightarrow> 'w \<Rightarrow> bytes) \<Rightarrow> bool" where
  "socket_contract api pend outp \<longleftrightarrow>
     (\<forall>fd len w n new w'. sys_recv api fd len w = (n, new, w') \<longrightarrow>
        int (length new) = max 0 n \<and> length new \<le> len \<and> pend fd w = new @ pend fd w' \<and> outp fd w' = outp fd w)
     \<and> (\<forall>fd d w n w'. sys_send api fd d w = (n, w') \<longrightarrow>
        n \<le> int (length d) \<and> outp fd w' = outp fd w @ take (nat n) d \<and> pend fd w' = pend fd w)"

text \<open>A connection that fails only at its end.\<close>

definition reliable :: "('w, 'z) fwd_api_scheme \<Rightarrow> (int \<Rightarrow> 'w \<Rightarrow> bytes) \<Rightarrow> bool" where
  "reliable api pend \<longleftrightarrow>
     (\<forall>fd len w. 0 < len \<longrightarrow> pend fd w \<noteq> [] \<longrightarrow> fst (sys_recv api fd len w) > 0)
     \<and> (\<forall>fd d w. d \<noteq> [] \<longrightarrow> fst (sys_send api fd d w) > 0)"

lemma socket_recv:
  assumes "socket_contract api pend outp" "sys_recv api fd len w = (n, new, w')"
  shows "int (length new) = max 0 n" "length new \<le> len" "pend fd w = new @ pend fd w'" "outp fd w' = outp fd w"
  using assms unfolding socket_contract_def by blast+

lemma socket_send:
  assumes "socket_contract api pend outp" "sys_send api fd d w = (n, w')"
  shows "n \<le> int (length d)" "outp fd w' = outp fd w @ take (nat n) d" "pend fd w' = pend fd w"
  using assms unfolding socket_contract_def by blast+

lemma recv_exact_takes:
  assumes "socket_contract api pend outp"
  shows "case recv_exact api fd got left w of
           (Some d, w') \<Rightarrow> \<exists>new. d = got @ new \<and> length new = left \<and> pend fd w = new @ pend fd w'
              \<and> outp fd w' = outp fd w
         | (None, w') \<Rightarrow> (reliable api pend \<longrightarrow> length (pend fd w) < left) \<and> outp fd w' = outp fd w"
proof (induction left arbitrary: got w rule: less_induct)
  case (less left)
  obtain n new v where r: "sys_recv api fd left w = (n, new, v)" by (metis prod_cases3)
  note c = socket_recv [OF assms r]
  consider "left = 0" | "left > 0" "n \<le> 0" | "left > 0" "n > 0" by linarith
  then show ?case
  proof cases
    case 1
    then show ?thesis by (simp add: recv_exact.simps)
  next
    case 2
    then have "reliable api pend \<Longrightarrow> pend fd w = []" using r unfolding reliable_def by (metis fst_conv not_less)
    then show ?thesis using 2 r c by (auto simp: recv_exact.simps [of _ _ _ left])
  next
    case 3
    then have n: "nat n = length new" "new \<noteq> []" using c(1) by auto
    have step: "recv_exact api fd got left w = recv_exact api fd (got @ new) (left - length new) v"
      using 3 r n by (simp add: recv_exact.simps [of _ _ _ left] mem_prefix_def)
    have "left - length new < left" using n 3 by simp
    from less [OF this, where got = "got @ new" and w = v] show ?thesis
      unfolding step using c by (auto split: prod.splits option.splits)
  qed
qed

lemma send_exact_sends:
  assumes "socket_contract api pend outp"
  shows "case send_exact api fd data w of
           (True, w') \<Rightarrow> outp fd w' = outp fd w @ data \<and> pend fd w' = pend fd w
         | (False, w') \<Rightarrow> \<not> reliable api pend \<and> (\<exists>k \<le> length data. outp fd w' = outp fd w @ take k data)
              \<and> pend fd w' = pend fd w"
proof (induction "length data" arbitrary: data w rule: less_induct)
  case less
  obtain n v where r: "sys_send api fd data w = (n, v)" by fastforce
  note c = socket_send [OF assms r]
  consider "data = []" | "data \<noteq> []" "n \<le> 0" | "data \<noteq> []" "n > 0" by linarith
  then show ?case
  proof cases
    case 1
    then show ?thesis by (simp add: send_exact.simps)
  next
    case 2
    then have "\<not> reliable api pend" using r unfolding reliable_def by (metis fst_conv not_less)
    then show ?thesis using 2 r c by (auto simp: send_exact.simps [of _ _ data] intro: exI [of _ 0])
  next
    case 3
    have step: "send_exact api fd data w = send_exact api fd (drop (nat n) data) v"
      using 3 r by (simp add: send_exact.simps [of _ _ data])
    have "length (drop (nat n) data) < length data" using 3 by simp
    note IH = less [OF this, where w = v]
    have "\<exists>k' \<le> length data. ys = outp fd w @ take k' data"
      if "k \<le> length (drop (nat n) data)" "ys = outp fd v @ take k (drop (nat n) data)" for k ys
      using that c 3 by (intro exI [of _ "nat n + k"]) (auto simp: take_add)
    then show ?thesis unfolding step using IH c by (auto split: prod.splits bool.splits)
  qed
qed

text \<open>The two directions as the readers of requests use them.\<close>

lemma recv_exact_SomeD:
  assumes "socket_contract api pend outp" "recv_exact api fd [] n w = (Some d, w')"
  shows "length d = n" "pend fd w = d @ pend fd w'" "outp fd w' = outp fd w"
  using recv_exact_takes [OF assms(1), where fd = fd and got = "[]" and left = n and w = w] assms(2) by auto

lemma recv_exact_prefix:
  assumes "socket_contract api pend outp" "reliable api pend" "pend fd w = d @ rest" "length d = n"
  obtains w' where "recv_exact api fd [] n w = (Some d, w')" "pend fd w' = rest" "outp fd w' = outp fd w"
proof -
  obtain r w' where e: "recv_exact api fd [] n w = (r, w')" by fastforce
  then obtain d' where "r = Some d'" using recv_exact_takes [OF assms(1), where fd = fd and got = "[]" and left = n and w = w] assms by (cases r) auto
  with e have e: "recv_exact api fd [] n w = (Some d', w')" by simp
  note recv_exact_SomeD [OF assms(1) e]
  then have "d' = d" "pend fd w' = rest" using assms(3,4) by (metis append_eq_append_conv)+
  then show ?thesis using that e recv_exact_SomeD(3) [OF assms(1) e] by blast
qed

lemma send_exact_reliable:
  assumes "socket_contract api pend outp" "reliable api pend"
  obtains w' where "send_exact api fd data w = (True, w')" "outp fd w' = outp fd w @ data" "pend fd w' = pend fd w"
  using send_exact_sends [OF assms(1), where fd = fd and data = data and w = w] assms(2) that
  by (cases "send_exact api fd data w") (auto split: bool.splits)

section \<open>Descriptors\<close>

text \<open>\<open>fds w\<close> is the set of open descriptors.\<close>

definition socket_fds :: "('w, 'z) fwd_api_scheme \<Rightarrow> ('w \<Rightarrow> int set) \<Rightarrow> bool" where
  "socket_fds api fds \<longleftrightarrow>
     (\<forall>a w fd w'. sys_socket api a w = (fd, w') \<longrightarrow>
        (if fd < 0 then fds w' = fds w else fd \<notin> fds w \<and> fds w' = insert fd (fds w)))
     \<and> (\<forall>w fd w'. sys_socket_unix api w = (fd, w') \<longrightarrow>
        (if fd < 0 then fds w' = fds w else fd \<notin> fds w \<and> fds w' = insert fd (fds w)))
     \<and> (\<forall>fd w. fds (sys_close api fd w) = fds w - {fd})
     \<and> (\<forall>h p b w. fds (snd (snd (sys_getaddrinfo api h p b w))) = fds w)
     \<and> (\<forall>fd a w. fds (snd (sys_connect api fd a w)) = fds w)
     \<and> (\<forall>fd a w. fds (snd (sys_connect_unix api fd a w)) = fds w)
     \<and> (\<forall>fd w. fds (sys_reuseaddr api fd w) = fds w)
     \<and> (\<forall>fd a w. fds (snd (sys_bind api fd a w)) = fds w)
     \<and> (\<forall>fd n w. fds (snd (sys_listen api fd n w)) = fds w)"

lemma socket_fdsD:
  assumes "socket_fds api fds"
  shows "sys_socket api a w = (fd, w') \<Longrightarrow>
        (if fd < 0 then fds w' = fds w else fd \<notin> fds w \<and> fds w' = insert fd (fds w))"
    and "sys_socket_unix api w = (fd, w') \<Longrightarrow>
        (if fd < 0 then fds w' = fds w else fd \<notin> fds w \<and> fds w' = insert fd (fds w))"
    and "fds (sys_close api fd w) = fds w - {fd}"
    and "sys_getaddrinfo api h p b w = (rc, rs, w') \<Longrightarrow> fds w' = fds w"
    and "sys_connect api fd a w = (ok, w') \<Longrightarrow> fds w' = fds w"
    and "sys_connect_unix api fd u w = (ok, w') \<Longrightarrow> fds w' = fds w"
    and "sys_bind api fd a (sys_reuseaddr api fd w) = (ok, w') \<Longrightarrow> fds w' = fds w"
    and "sys_listen api fd n w = (ok, w') \<Longrightarrow> fds w' = fds w"
  using assms unfolding socket_fds_def by (metis snd_conv)+

lemma first_socket_fds:
  assumes "socket_fds api fds" and "\<And>fd a v ok v'. try fd a v = (ok, v') \<Longrightarrow> fds v' = fds v"
    and "first_socket api try as w = (fd, w')"
  shows "if fd < 0 then fds w' = fds w else fd \<notin> fds w \<and> fds w' = insert fd (fds w)"
  using assms(3)
proof (induction as arbitrary: w)
  case (Cons a as)
  obtain f w1 where s: "sys_socket api a w = (f, w1)" by fastforce
  obtain ok w2 where t: "try f a w1 = (ok, w2)" by fastforce
  note f = socket_fdsD(1) [OF assms(1) s] and t' = assms(2) [OF t]
  show ?case
  proof (cases "f < 0 \<or> \<not> ok")
    case True
    define v where "v = (if f < 0 then w1 else sys_close api f w2)"
    have "fds v = fds w" using f t' True by (auto simp: v_def socket_fdsD(3) [OF assms(1)])
    moreover have "first_socket api try as v = (fd, w')" using Cons.prems s t True by (auto simp: v_def split: if_splits)
    ultimately show ?thesis using Cons.IH [of v] by (simp split: if_splits)
  next
    case False
    then show ?thesis using Cons.prems s t f t' by simp
  qed
qed simp

lemma connect_target_fds:
  assumes "socket_fds api fds" and "connect_target api target w = (r, w')"
  shows "case r of Inr fd \<Rightarrow> fd \<notin> fds w \<and> fds w' = insert fd (fds w) | Inl _ \<Rightarrow> fds w' = fds w"
proof (cases target)
  case (Tcp_target t)
  obtain rc rs w1 where g: "sys_getaddrinfo api (c_str (ep_host t)) (nat_to_string (unat (ep_port t))) False w = (rc, rs, w1)"
    by (metis prod_cases3)
  obtain fd w2 where f: "first_socket api (sys_connect api) rs w1 = (fd, w2)" by fastforce
  have "if fd < 0 then fds w2 = fds w1 else fd \<notin> fds w1 \<and> fds w2 = insert fd (fds w1)"
    by (rule first_socket_fds [OF assms(1) _ f]) (rule socket_fdsD(5) [OF assms(1)])
  then show ?thesis
    using assms(2) Tcp_target g f socket_fdsD(4) [OF assms(1) g] by (auto simp: connect_tcp_def split: if_splits)
next
  case (Unix_target u)
  obtain fd w1 where s: "sys_socket_unix api w = (fd, w1)" by fastforce
  obtain ok w2 where c: "sys_connect_unix api fd (c_str (ep_path u)) w1 = (ok, w2)" by fastforce
  show ?thesis
    using assms(2) Unix_target s c socket_fdsD(2) [OF assms(1) s] socket_fdsD(6) [OF assms(1) c]
    by (auto simp: connect_unix_def socket_fdsD(3) [OF assms(1)] split: if_splits)
qed

lemma bind_listener_fds:
  assumes "socket_fds api fds" and "bind_listener api inet listen w = (r, w')"
  shows "case r of Inr (fd, _) \<Rightarrow> fd \<ge> 0 \<and> fd \<notin> fds w \<and> fds w' = insert fd (fds w) | Inl _ \<Rightarrow> fds w' = fds w"
proof -
  obtain rc rs w1 where g: "sys_getaddrinfo api (c_str (ep_host listen)) (nat_to_string (unat (ep_port listen))) True w
      = (rc, rs, w1)" by (metis prod_cases3)
  obtain fd w2 where f: "first_socket api (\<lambda>fd a v. sys_bind api fd a (sys_reuseaddr api fd v)) rs w1 = (fd, w2)"
    by fastforce
  obtain ok w3 where l: "sys_listen api fd 16 w2 = (ok, w3)" by fastforce
  have "if fd < 0 then fds w2 = fds w1 else fd \<notin> fds w1 \<and> fds w2 = insert fd (fds w1)"
    by (rule first_socket_fds [OF assms(1) _ f]) (rule socket_fdsD(7) [OF assms(1)])
  then show ?thesis
    using assms(2) g f l socket_fdsD(4) [OF assms(1) g] socket_fdsD(8) [OF assms(1) l]
    by (auto simp: bind_listener_def socket_fdsD(3) [OF assms(1)] Let_def split: if_splits)
qed

end
