(* ===== verification/Forwarding.thy ===== *)
theory Forwarding
  imports Sockets Handles
begin

text \<open>
  \<open>forwarding.hpp\<close>, \<open>detail/forwarding.ipp\<close>: channels to remote endpoints, the listener for remote
  forwards, the byte pump between a channel and a socket, local and remote forwarding, connectors
  and X11.

  The pump and the accept loops may run for ever; they are partial functions. User callbacks
  (filters, error handlers) are functions on the world that return.
\<close>

section \<open>Direct channels\<close>

text \<open>
  The shape of both open operations: a new channel, one libssh call, and the channel freed when it
  fails. For a null session \<open>ssh_channel_new\<close> gives no channel.
\<close>

definition open_forward_with ::
    "('w, 'z) fwd_api_scheme \<Rightarrow> session \<Rightarrow> string \<Rightarrow> (handle \<Rightarrow> 'w \<Rightarrow> ssh_rc \<times> 'w) \<Rightarrow> 'w \<Rightarrow> channel result \<times> 'w" where
  "open_forward_with api se op call w =
     (case (case se_core se of Some raw \<Rightarrow> ssh_channel_new api raw w | None \<Rightarrow> (None, w)) of
        (None, w1) \<Rightarrow> (Inl (make_error_info api w1 (se_core se) ''ssh_channel_new'' errc_channel_open_failed), w1)
      | (Some n, w1) \<Rightarrow>
          (case call n w1 of
             (rc, w2) \<Rightarrow>
               if rc \<noteq> SSH_OK
               then (Inl (make_error_info api w2 (se_core se) op errc_forwarding_failed), ssh_channel_free api n w2)
               else (Inr (from_native api (Some n) (se_core se) Owning w2), w2)))"

definition open_forward ::
    "('w, 'z) fwd_api_scheme \<Rightarrow> session \<Rightarrow> string \<Rightarrow> u16 \<Rightarrow> string \<Rightarrow> u16 \<Rightarrow> 'w \<Rightarrow> channel result \<times> 'w" where
  "open_forward api se remote_host remote_port origin_host origin_port =
     open_forward_with api se ''ssh_channel_open_forward''
       (\<lambda>n. ssh_channel_open_forward api n (c_str remote_host) remote_port (c_str origin_host) origin_port)"

definition open_forward_unix ::
    "('w, 'z) fwd_api_scheme \<Rightarrow> session \<Rightarrow> string \<Rightarrow> string \<Rightarrow> u16 \<Rightarrow> 'w \<Rightarrow> channel result \<times> 'w" where
  "open_forward_unix api se remote_socket origin_host origin_port =
     open_forward_with api se ''ssh_channel_open_forward_unix''
       (\<lambda>n. ssh_channel_open_forward_unix api n (c_str remote_socket) (c_str origin_host) origin_port)"

definition default_origin :: tcp_endpoint where
  "default_origin = \<lparr>ep_host = ''127.0.0.1'', ep_port = 0\<rparr>"

fun open_direct ::
    "('w, 'z) fwd_api_scheme \<Rightarrow> session \<Rightarrow> forward_target \<Rightarrow> tcp_endpoint \<Rightarrow> 'w \<Rightarrow> channel result \<times> 'w" where
  "open_direct api se (Tcp_target t) origin w =
     open_forward api se (ep_host t) (ep_port t) (ep_host origin) (ep_port origin) w"
| "open_direct api se (Unix_target u) origin w =
     open_forward_unix api se (ep_path u) (ep_host origin) (ep_port origin) w"

section \<open>The pump\<close>

record forward_stats =
  fs_connections :: u64
  fs_bytes_out :: u64
  fs_bytes_in :: u64
  fs_rejected :: u64

definition no_stats :: forward_stats where
  "no_stats = \<lparr>fs_connections = 0, fs_bytes_out = 0, fs_bytes_in = 0, fs_rejected = 0\<rparr>"

text \<open>What a round carries along: the buffer, the two ends of file and the counters.\<close>

record pump_state =
  ps_buf :: bytes
  ps_client_eof :: bool
  ps_channel_eof :: bool
  ps_stats :: forward_stats

text \<open>
  From the channel to the socket: whether bytes were moved. The result of \<open>send\<close> is not looked at.
\<close>

definition pump_read ::
    "('w, 'z) fwd_api_scheme \<Rightarrow> channel \<Rightarrow> int \<Rightarrow> pump_state \<Rightarrow> 'w \<Rightarrow> bool \<times> pump_state \<times> 'w" where
  "pump_read api ch fd ps w =
     (case try_bytes_available api ch Stream_stdout w of
        (Inl _, w1) \<Rightarrow> (False, ps, w1)
      | (Inr a, w1) \<Rightarrow>
          if a = 0 then (False, ps, w1)
          else (case try_read_some api ch (take (min (length (ps_buf ps)) a) (ps_buf ps)) Stream_stdout w1 of
                  (r, part, w2) \<Rightarrow>
                    let buf = overlay part (ps_buf ps) in
                    case r of
                      Inl _ \<Rightarrow> (False, ps\<lparr>ps_buf := buf\<rparr>, w2)
                    | Inr k \<Rightarrow>
                        if k = 0 then (False, ps\<lparr>ps_buf := buf\<rparr>, w2)
                        else (True, ps\<lparr>ps_buf := buf,
                                ps_stats := (ps_stats ps)\<lparr>fs_bytes_out := fs_bytes_out (ps_stats ps) + of_nat k\<rparr>\<rparr>,
                              snd (sys_send api fd (mem_prefix k buf) w2))))"

definition pump_out ::
    "('w, 'z) fwd_api_scheme \<Rightarrow> channel \<Rightarrow> int \<Rightarrow> pump_state \<Rightarrow> 'w \<Rightarrow> bool \<times> pump_state \<times> 'w" where
  "pump_out api ch fd ps w =
     (if ps_channel_eof ps then (False, ps, w)
      else case pump_read api ch fd ps w of
        (progressed, ps1, w1) \<Rightarrow>
          if is_eof api ch w1 then (progressed, ps1\<lparr>ps_channel_eof := True\<rparr>, sys_shutdown_wr api fd w1)
          else (progressed, ps1, w1))"

text \<open>From the socket to the channel. The result of the write is not looked at either.\<close>

definition pump_in ::
    "('w, 'z) fwd_api_scheme \<Rightarrow> channel \<Rightarrow> int \<Rightarrow> bool \<Rightarrow> pump_state \<Rightarrow> 'w \<Rightarrow> pump_state \<times> 'w" where
  "pump_in api ch fd progressed ps w =
     (if ps_client_eof ps then (ps, w)
      else case sys_poll_in api fd (if progressed then 0 else 50) w of
        (ready, w1) \<Rightarrow>
          if \<not> ready then (ps, w1)
          else (case sys_recv api fd (length (ps_buf ps)) w1 of
                  (n, new, w2) \<Rightarrow>
                    let buf = overlay new (ps_buf ps) in
                    if n > 0
                    then (ps\<lparr>ps_buf := buf,
                             ps_stats := (ps_stats ps)\<lparr>fs_bytes_in := fs_bytes_in (ps_stats ps) + of_int n\<rparr>\<rparr>,
                          snd (try_write_all api ch (mem_prefix (nat n) buf) w2))
                    else (ps\<lparr>ps_buf := buf, ps_client_eof := True\<rparr>, snd (try_send_eof api ch w2))))"

partial_function (option) pump_loop ::
    "('w, 'z) fwd_api_scheme \<Rightarrow> channel \<Rightarrow> int \<Rightarrow> nat \<Rightarrow> pump_state \<Rightarrow> 'w \<Rightarrow> (pump_state \<times> 'w) option" where
  "pump_loop api ch fd stop ps w =
     (if flag_load api stop w \<or> ps_client_eof ps \<and> ps_channel_eof ps then Some (ps, w)
      else (case pump_out api ch fd ps w of
              (progressed, ps1, w1) \<Rightarrow>
                (case pump_in api ch fd progressed ps1 w1 of
                   (ps2, w2) \<Rightarrow> pump_loop api ch fd stop ps2 w2)))"

definition pump ::
    "('w, 'z) fwd_api_scheme \<Rightarrow> channel \<Rightarrow> int \<Rightarrow> nat \<Rightarrow> nat \<Rightarrow> forward_stats \<Rightarrow> 'w
       \<Rightarrow> (forward_stats \<times> channel \<times> 'w) option" where
  "pump api ch fd buffer_size stop stats w =
     (case pump_loop api ch fd stop
             \<lparr>ps_buf = replicate buffer_size 0, ps_client_eof = False, ps_channel_eof = False, ps_stats = stats\<rparr> w of
        None \<Rightarrow> None
      | Some (ps, w1) \<Rightarrow>
          (case try_close api ch w1 of (_, ch', w2) \<Rightarrow> Some (ps_stats ps, ch', sys_close api fd w2)))"

section \<open>Listening for local connections\<close>

text \<open>
  What \<open>LocalForward\<close> and \<open>SocksProxy\<close> have in common: the listening socket, the flags (as addresses of
  atomics) and the thread. Assigning a new thread to a joinable \<open>std::thread\<close> ends the program.
\<close>

datatype 'a call = Returned 'a | Terminated

record listener =
  ls_listen :: tcp_endpoint
  ls_fd :: int
  ls_port :: u16
  ls_running :: nat
  ls_stop :: nat
  ls_thread :: nat
  ls_joinable :: bool

definition already_running :: "string \<Rightarrow> error_info" where
  "already_running op = mk_error errc_already_connected [] op"

definition listener_bind ::
    "('w, 'z) fwd_api_scheme \<Rightarrow> bool \<Rightarrow> listener \<Rightarrow> 'w \<Rightarrow> unit result \<times> listener \<times> 'w" where
  "listener_bind api only_inet l w =
     (case bind_listener api only_inet (ls_listen l) w of
        (Inl e, w1) \<Rightarrow> (Inl e, l, w1)
      | (Inr (fd, port), w1) \<Rightarrow>
          (Inr (), l\<lparr>ls_port := (case port of Some p \<Rightarrow> p | None \<Rightarrow> ls_port l), ls_fd := fd\<rparr>, w1))"

definition listener_start ::
    "('w, 'z) fwd_api_scheme \<Rightarrow> bool \<Rightarrow> string \<Rightarrow> listener \<Rightarrow> 'w \<Rightarrow> (unit result \<times> listener \<times> 'w) call" where
  "listener_start api only_inet op l w =
     (if flag_load api (ls_running l) w then Returned (Inl (already_running op), l, w)
      else case listener_bind api only_inet l w of
        (Inl e, l1, w1) \<Rightarrow> Returned (Inl e, l1, w1)
      | (Inr _, l1, w1) \<Rightarrow>
          if ls_joinable l1 then Terminated
          else Returned (Inr (), l1\<lparr>ls_joinable := True\<rparr>, thread_spawn api (ls_thread l1) (flag_store api (ls_stop l1) False w1)))"

definition listener_stop :: "('w, 'z) fwd_api_scheme \<Rightarrow> listener \<Rightarrow> 'w \<Rightarrow> listener \<times> 'w" where
  "listener_stop api l w =
     (let w1 = flag_store api (ls_stop l) True w
      in if ls_joinable l then (l\<lparr>ls_joinable := False\<rparr>, thread_join api (ls_thread l) w1) else (l, w1))"

definition listener_dtor :: "('w, 'z) fwd_api_scheme \<Rightarrow> listener \<Rightarrow> 'w \<Rightarrow> 'w" where
  "listener_dtor api l w =
     (case listener_stop api l w of
        (l1, w1) \<Rightarrow> if ls_fd l1 \<ge> 0 then sys_close api (ls_fd l1) w1 else w1)"

text \<open>The loop over the connections; \<open>serve\<close> handles one of them.\<close>

partial_function (option) accept_loop ::
    "('w, 'z) fwd_api_scheme \<Rightarrow> listener \<Rightarrow> (int \<Rightarrow> forward_stats \<Rightarrow> 'w \<Rightarrow> (forward_stats \<times> 'w) option)
       \<Rightarrow> forward_stats \<Rightarrow> 'w \<Rightarrow> (forward_stats \<times> 'w) option" where
  "accept_loop api l serve stats w =
     (if flag_load api (ls_stop l) w then Some (stats, w)
      else (case sys_poll_in api (ls_fd l) 200 w of
              (ready, w1) \<Rightarrow>
                if \<not> ready then accept_loop api l serve stats w1
                else (case sys_accept api (ls_fd l) w1 of
                        (fd, w2) \<Rightarrow>
                          if fd < 0 then accept_loop api l serve stats w2
                          else (case serve fd stats w2 of
                                  None \<Rightarrow> None
                                | Some (stats', w3) \<Rightarrow> accept_loop api l serve stats' w3))))"

definition listener_loop ::
    "('w, 'z) fwd_api_scheme \<Rightarrow> listener \<Rightarrow> (int \<Rightarrow> forward_stats \<Rightarrow> 'w \<Rightarrow> (forward_stats \<times> 'w) option)
       \<Rightarrow> forward_stats \<Rightarrow> 'w \<Rightarrow> (forward_stats \<times> 'w) option" where
  "listener_loop api l serve stats w =
     map_option (\<lambda>(stats', w'). (stats', flag_store api (ls_running l) False w'))
       (accept_loop api l serve stats (flag_store api (ls_running l) True w))"

definition listener_run ::
    "('w, 'z) fwd_api_scheme \<Rightarrow> bool \<Rightarrow> string \<Rightarrow> (int \<Rightarrow> forward_stats \<Rightarrow> 'w \<Rightarrow> (forward_stats \<times> 'w) option)
       \<Rightarrow> listener \<Rightarrow> forward_stats \<Rightarrow> 'w \<Rightarrow> (unit result \<times> listener \<times> forward_stats \<times> 'w) option" where
  "listener_run api only_inet op serve l stats w =
     (if flag_load api (ls_running l) w then Some (Inl (already_running op), l, stats, w)
      else case (if ls_fd l < 0 then listener_bind api only_inet l w else (Inr (), l, w)) of
        (Inl e, l1, w1) \<Rightarrow> Some (Inl e, l1, stats, w1)
      | (Inr _, l1, w1) \<Rightarrow>
          map_option (\<lambda>(stats', w'). (Inr (), l1, stats', w'))
            (listener_loop api l1 serve stats (flag_store api (ls_stop l1) False w1)))"

section \<open>Local forwarding\<close>

record 'w local_options =
  lo_target :: forward_target
  lo_buffer_size :: nat
  lo_accept_filter :: "(tcp_endpoint \<Rightarrow> 'w \<Rightarrow> bool \<times> 'w) option"
  lo_on_error :: "(error_info \<Rightarrow> 'w \<Rightarrow> 'w) option"

record 'w local_forward =
  lf_session :: session
  lf_options :: "'w local_options"
  lf_listener :: listener
  lf_stats :: forward_stats

definition report_forward_error :: "(error_info \<Rightarrow> 'w \<Rightarrow> 'w) option \<Rightarrow> error_info \<Rightarrow> 'w \<Rightarrow> 'w" where
  "report_forward_error on_error e w = (case on_error of Some f \<Rightarrow> f e w | None \<Rightarrow> w)"

text \<open>The peer as the filter sees it: an address of another family than IPv4 is not filled in.\<close>

definition peer_endpoint :: "('w, 'z) fwd_api_scheme \<Rightarrow> int \<Rightarrow> 'w \<Rightarrow> tcp_endpoint" where
  "peer_endpoint api fd w =
     (case sys_getpeername api fd w of
        Some (inet, host, port) \<Rightarrow> if inet then \<lparr>ep_host = host, ep_port = port\<rparr> else \<lparr>ep_host = [], ep_port = 0\<rparr>
      | None \<Rightarrow> \<lparr>ep_host = [], ep_port = 0\<rparr>)"

text \<open>Opening the channel, counting and pumping; the channel is a local object.\<close>

definition pump_channel ::
    "('w, 'z) fwd_api_scheme \<Rightarrow> channel \<Rightarrow> int \<Rightarrow> nat \<Rightarrow> nat \<Rightarrow> forward_stats \<Rightarrow> 'w \<Rightarrow> (forward_stats \<times> 'w) option" where
  "pump_channel api ch fd buffer_size stop stats w =
     (case pump api ch fd buffer_size stop (stats\<lparr>fs_connections := fs_connections stats + 1\<rparr>) w of
        None \<Rightarrow> None
      | Some (stats', ch', w') \<Rightarrow> Some (stats', snd (channel_dtor api ch' w')))"

definition local_pump_one ::
    "('w, 'z) fwd_api_scheme \<Rightarrow> 'w local_forward \<Rightarrow> int \<Rightarrow> forward_stats \<Rightarrow> 'w \<Rightarrow> (forward_stats \<times> 'w) option" where
  "local_pump_one api lf fd stats w =
     (case (case lo_accept_filter (lf_options lf) of
              None \<Rightarrow> (True, w) | Some f \<Rightarrow> f (peer_endpoint api fd w) w) of
        (accepted, w1) \<Rightarrow>
          if \<not> accepted then Some (stats\<lparr>fs_rejected := fs_rejected stats + 1\<rparr>, sys_close api fd w1)
          else (case open_direct api (lf_session lf) (lo_target (lf_options lf)) default_origin w1 of
                  (Inl e, w2) \<Rightarrow> Some (stats, sys_close api fd (report_forward_error (lo_on_error (lf_options lf)) e w2))
                | (Inr ch, w2) \<Rightarrow>
                    pump_channel api ch fd (lo_buffer_size (lf_options lf)) (ls_stop (lf_listener lf)) stats w2))"

definition local_start ::
    "('w, 'z) fwd_api_scheme \<Rightarrow> 'w local_forward \<Rightarrow> 'w \<Rightarrow> (unit result \<times> 'w local_forward \<times> 'w) call" where
  "local_start api lf w =
     (case listener_start api False ''LocalForward::try_start'' (lf_listener lf) w of
        Terminated \<Rightarrow> Terminated
      | Returned (r, l, w') \<Rightarrow> Returned (r, lf\<lparr>lf_listener := l\<rparr>, w'))"

definition local_run ::
    "('w, 'z) fwd_api_scheme \<Rightarrow> 'w local_forward \<Rightarrow> 'w \<Rightarrow> (unit result \<times> 'w local_forward \<times> 'w) option" where
  "local_run api lf w =
     map_option (\<lambda>(r, l, stats, w'). (r, lf\<lparr>lf_listener := l, lf_stats := stats\<rparr>, w'))
       (listener_run api False ''LocalForward::try_run_until_stopped'' (local_pump_one api lf) (lf_listener lf)
          (lf_stats lf) w)"

definition local_stop :: "('w, 'z) fwd_api_scheme \<Rightarrow> 'w local_forward \<Rightarrow> 'w \<Rightarrow> 'w local_forward \<times> 'w" where
  "local_stop api lf w = (case listener_stop api (lf_listener lf) w of (l, w') \<Rightarrow> (lf\<lparr>lf_listener := l\<rparr>, w'))"

definition local_dtor :: "('w, 'z) fwd_api_scheme \<Rightarrow> 'w local_forward \<Rightarrow> 'w \<Rightarrow> 'w" where
  "local_dtor api lf w = listener_dtor api (lf_listener lf) w"

definition local_endpoint :: "'w local_forward \<Rightarrow> tcp_endpoint" where
  "local_endpoint lf = (ls_listen (lf_listener lf))\<lparr>ep_port := ls_port (lf_listener lf)\<rparr>"

section \<open>Remote forwarding\<close>

record incoming_forward =
  if_channel :: channel
  if_bound_port :: u16
  if_originator :: tcp_endpoint

record remote_listener =
  rl_core :: "handle option"
  rl_bind_address :: string
  rl_bound_port :: u16
  rl_cancelled :: bool

definition no_remote_listener :: remote_listener where
  "no_remote_listener = \<lparr>rl_core = None, rl_bind_address = [], rl_bound_port = 0, rl_cancelled = False\<rparr>"

definition bind_argument :: "string \<Rightarrow> string option" where
  "bind_argument s = (if s = [] then None else Some (c_str s))"

definition remote_listener_release :: "('w, 'z) fwd_api_scheme \<Rightarrow> remote_listener \<Rightarrow> 'w \<Rightarrow> 'w" where
  "remote_listener_release api l w =
     (case rl_core l of
        Some raw \<Rightarrow>
          if \<not> rl_cancelled l
          then snd (ssh_channel_cancel_forward api raw (bind_argument (rl_bind_address l)) (rl_bound_port l) w) else w
      | None \<Rightarrow> w)"

definition remote_listener_move_ctor :: "remote_listener \<Rightarrow> remote_listener \<times> remote_listener" where
  "remote_listener_move_ctor other =
     (\<lparr>rl_core = rl_core other, rl_bind_address = rl_bind_address other, rl_bound_port = rl_bound_port other,
       rl_cancelled = rl_cancelled other\<rparr>,
      other\<lparr>rl_core := None, rl_bind_address := [], rl_cancelled := True\<rparr>)"

definition remote_listener_move_assign ::
    "('w, 'z) fwd_api_scheme \<Rightarrow> remote_listener \<Rightarrow> remote_listener \<Rightarrow> 'w \<Rightarrow> remote_listener \<times> remote_listener \<times> 'w" where
  "remote_listener_move_assign api this other w =
     (case remote_listener_move_ctor other of
        (this', other') \<Rightarrow> (this', other', remote_listener_release api this w))"

definition remote_listener_create ::
    "('w, 'z) fwd_api_scheme \<Rightarrow> session \<Rightarrow> string \<Rightarrow> u16 \<Rightarrow> 'w \<Rightarrow> remote_listener result \<times> 'w" where
  "remote_listener_create api se addr port w =
     (case ssh_channel_listen_forward api (se_core se) (bind_argument addr) port w of
        (rc, bound, w') \<Rightarrow>
          if rc \<noteq> SSH_OK
          then (Inl (make_error_info api w' (se_core se) ''ssh_channel_listen_forward'' errc_forwarding_failed), w')
          else (Inr \<lparr>rl_core = se_core se, rl_bind_address = addr, rl_bound_port = to_u16 bound, rl_cancelled = False\<rparr>, w'))"

definition remote_listener_try_accept ::
    "('w, 'z) fwd_api_scheme \<Rightarrow> remote_listener \<Rightarrow> int \<Rightarrow> 'w \<Rightarrow> incoming_forward option result \<times> 'w" where
  "remote_listener_try_accept api l timeout w =
     (case rl_core l of
        None \<Rightarrow> (Inl (invalid_handle_error ''RemoteForwardListener::try_accept''), w)
      | Some core \<Rightarrow>
          (case ssh_channel_open_forward_port api core (to_int32 timeout) w of
             (None, _, _, _, w') \<Rightarrow>
               if ssh_get_error_code api w' core = SSH_NO_ERROR then (Inr None, w')
               else (Inl (make_error_info api w' (Some core) ''ssh_channel_open_forward_port'' errc_forwarding_failed), w')
           | (Some raw, destination_port, originator, originator_port, w') \<Rightarrow>
               (Inr (Some \<lparr>if_channel = from_native api (Some raw) (Some core) Owning w',
                    if_bound_port = to_u16 destination_port,
                    if_originator = \<lparr>ep_host = (case originator of Some s \<Rightarrow> s | None \<Rightarrow> []),
                                     ep_port = to_u16 originator_port\<rparr>\<rparr>), w')))"

definition remote_listener_try_cancel ::
    "('w, 'z) fwd_api_scheme \<Rightarrow> remote_listener \<Rightarrow> 'w \<Rightarrow> unit result \<times> remote_listener \<times> 'w" where
  "remote_listener_try_cancel api l w =
     (case rl_core l of
        None \<Rightarrow> (Inl (invalid_handle_error ''RemoteForwardListener::try_cancel''), l, w)
      | Some core \<Rightarrow>
          (case rc_result api (Some core) ''ssh_channel_cancel_forward'' errc_forwarding_failed
                  (ssh_channel_cancel_forward api core (bind_argument (rl_bind_address l)) (rl_bound_port l) w) of
             (r, w') \<Rightarrow> (r, l\<lparr>rl_cancelled := True\<rparr>, w')))"

record 'w remote_options =
  ro_bind_address :: string
  ro_remote_port :: u16
  ro_local_target :: forward_target
  ro_accept_filter :: "(tcp_endpoint \<Rightarrow> 'w \<Rightarrow> bool \<times> 'w) option"
  ro_on_error :: "(error_info \<Rightarrow> 'w \<Rightarrow> 'w) option"

record 'w remote_forward =
  rf_session :: session
  rf_options :: "'w remote_options"
  rf_listener :: remote_listener
  rf_stop :: nat
  rf_thread :: nat
  rf_joinable :: bool
  rf_stats :: forward_stats

text \<open>One inbound channel, destroyed at the end of the round whatever becomes of it.\<close>

definition remote_pump_one ::
    "('w, 'z) fwd_api_scheme \<Rightarrow> 'w remote_options \<Rightarrow> nat \<Rightarrow> incoming_forward \<Rightarrow> forward_stats \<Rightarrow> 'w
       \<Rightarrow> (forward_stats \<times> 'w) option" where
  "remote_pump_one api opts stop inc stats w =
     (case (case ro_accept_filter opts of None \<Rightarrow> (True, w) | Some f \<Rightarrow> f (if_originator inc) w) of
        (accepted, w1) \<Rightarrow>
          if \<not> accepted
          then Some (stats\<lparr>fs_rejected := fs_rejected stats + 1\<rparr>, snd (channel_dtor api (if_channel inc) w1))
          else (case connect_target api (ro_local_target opts) w1 of
                  (Inl e, w2) \<Rightarrow>
                    Some (stats, snd (channel_dtor api (if_channel inc) (report_forward_error (ro_on_error opts) e w2)))
                | (Inr fd, w2) \<Rightarrow> pump_channel api (if_channel inc) fd 65536 stop stats w2))"

partial_function (option) remote_loop ::
    "('w, 'z) fwd_api_scheme \<Rightarrow> 'w remote_options \<Rightarrow> remote_listener \<Rightarrow> nat \<Rightarrow> forward_stats \<Rightarrow> 'w
       \<Rightarrow> (forward_stats \<times> 'w) option" where
  "remote_loop api opts l stop stats w =
     (if flag_load api stop w then Some (stats, w)
      else (case remote_listener_try_accept api l 200 w of
              (Inl e, w1) \<Rightarrow> remote_loop api opts l stop stats (report_forward_error (ro_on_error opts) e w1)
            | (Inr None, w1) \<Rightarrow> remote_loop api opts l stop stats w1
            | (Inr (Some inc), w1) \<Rightarrow>
                (case remote_pump_one api opts stop inc stats w1 of
                   None \<Rightarrow> None
                 | Some (stats', w2) \<Rightarrow> remote_loop api opts l stop stats' w2)))"

definition remote_listen ::
    "('w, 'z) fwd_api_scheme \<Rightarrow> 'w remote_forward \<Rightarrow> 'w \<Rightarrow> unit result \<times> 'w remote_forward \<times> 'w" where
  "remote_listen api rf w =
     (case remote_listener_create api (rf_session rf) (ro_bind_address (rf_options rf)) (ro_remote_port (rf_options rf)) w of
        (Inl e, w1) \<Rightarrow> (Inl e, rf, w1)
      | (Inr l, w1) \<Rightarrow>
          (case remote_listener_move_assign api (rf_listener rf) l w1 of
             (l', _, w2) \<Rightarrow> (Inr (), rf\<lparr>rf_listener := l'\<rparr>, w2)))"

definition remote_start ::
    "('w, 'z) fwd_api_scheme \<Rightarrow> 'w remote_forward \<Rightarrow> 'w \<Rightarrow> (unit result \<times> 'w remote_forward \<times> 'w) call" where
  "remote_start api rf w =
     (case remote_listen api rf w of
        (Inl e, rf1, w1) \<Rightarrow> Returned (Inl e, rf1, w1)
      | (Inr _, rf1, w1) \<Rightarrow>
          if rf_joinable rf1 then Terminated
          else Returned (Inr (), rf1\<lparr>rf_joinable := True\<rparr>, thread_spawn api (rf_thread rf1) (flag_store api (rf_stop rf1) False w1)))"

definition remote_run ::
    "('w, 'z) fwd_api_scheme \<Rightarrow> 'w remote_forward \<Rightarrow> 'w \<Rightarrow> (unit result \<times> 'w remote_forward \<times> 'w) option" where
  "remote_run api rf w =
     (case (if rl_core (rf_listener rf) = None then remote_listen api rf w else (Inr (), rf, w)) of
        (Inl e, rf1, w1) \<Rightarrow> Some (Inl e, rf1, w1)
      | (Inr _, rf1, w1) \<Rightarrow>
          map_option (\<lambda>(stats, w'). (Inr (), rf1\<lparr>rf_stats := stats\<rparr>, w'))
            (remote_loop api (rf_options rf1) (rf_listener rf1) (rf_stop rf1) (rf_stats rf1)
               (flag_store api (rf_stop rf1) False w1)))"

definition remote_stop :: "('w, 'z) fwd_api_scheme \<Rightarrow> 'w remote_forward \<Rightarrow> 'w \<Rightarrow> 'w remote_forward \<times> 'w" where
  "remote_stop api rf w =
     (let w1 = flag_store api (rf_stop rf) True w
      in if rf_joinable rf then (rf\<lparr>rf_joinable := False\<rparr>, thread_join api (rf_thread rf) w1) else (rf, w1))"

definition remote_dtor :: "('w, 'z) fwd_api_scheme \<Rightarrow> 'w remote_forward \<Rightarrow> 'w \<Rightarrow> 'w" where
  "remote_dtor api rf w =
     (case remote_stop api rf w of (rf1, w1) \<Rightarrow> remote_listener_release api (rf_listener rf1) w1)"

section \<open>The pump as an object\<close>

record bidirectional_pump =
  bp_fd :: int
  bp_buffer_size :: nat
  bp_stop :: nat
  bp_finished :: bool
  bp_stats :: forward_stats

definition new_pump :: "int \<Rightarrow> nat \<Rightarrow> nat \<Rightarrow> bidirectional_pump" where
  "new_pump fd buffer_size stop =
     \<lparr>bp_fd = fd, bp_buffer_size = buffer_size, bp_stop = stop, bp_finished = False, bp_stats = no_stats\<rparr>"

definition pump_run ::
    "('w, 'z) fwd_api_scheme \<Rightarrow> bidirectional_pump \<Rightarrow> channel \<Rightarrow> 'w \<Rightarrow> (bidirectional_pump \<times> channel \<times> 'w) option" where
  "pump_run api bp ch w =
     (case pump api ch (bp_fd bp) (bp_buffer_size bp) (bp_stop bp) (bp_stats bp) (flag_store api (bp_stop bp) False w) of
        None \<Rightarrow> None
      | Some (stats, ch', w') \<Rightarrow> Some (bp\<lparr>bp_finished := True, bp_stats := stats\<rparr>, ch', w'))"

definition pump_stop :: "('w, 'z) fwd_api_scheme \<Rightarrow> bidirectional_pump \<Rightarrow> 'w \<Rightarrow> 'w" where
  "pump_stop api bp w = flag_store api (bp_stop bp) True w"

definition byte_counts :: "bidirectional_pump \<Rightarrow> u64 \<times> u64" where
  "byte_counts bp = (fs_bytes_out (bp_stats bp), fs_bytes_in (bp_stats bp))"

section \<open>X11\<close>

record x11_options =
  xo_single_connection :: bool
  xo_auth_protocol :: string
  xo_auth_cookie :: string
  xo_screen_number :: u32
  xo_display_target :: forward_target
  xo_trusted :: bool

definition default_x11_options :: x11_options where
  "default_x11_options = \<lparr>xo_single_connection = False, xo_auth_protocol = ''MIT-MAGIC-COOKIE-1'',
     xo_auth_cookie = [], xo_screen_number = 0, xo_display_target = Tcp_target \<lparr>ep_host = [], ep_port = 0\<rparr>,
     xo_trusted = False\<rparr>"

record x11_forwarder =
  xf_channel :: channel
  xf_options :: x11_options
  xf_stop :: nat

fun random_bytes :: "('w, 'z) fwd_api_scheme \<Rightarrow> nat \<Rightarrow> 'w \<Rightarrow> bytes \<times> 'w" where
  "random_bytes api 0 w = ([], w)"
| "random_bytes api (Suc n) w =
     (case random_word api w of (r, w1) \<Rightarrow> case random_bytes api n w1 of (bs, w2) \<Rightarrow> (ucast r # bs, w2))"

definition hex_digits :: string where
  "hex_digits = ''0123456789abcdef''"

definition hex_byte :: "byte \<Rightarrow> string" where
  "hex_byte b = [hex_digits ! unat (drop_bit 4 b), hex_digits ! unat (and b 0x0F)]"

definition random_hex_cookie :: "('w, 'z) fwd_api_scheme \<Rightarrow> 'w \<Rightarrow> string \<times> 'w" where
  "random_hex_cookie api w = (case random_bytes api 16 w of (bs, w') \<Rightarrow> (concat (map hex_byte bs), w'))"

definition x11_try_request ::
    "('w, 'z) fwd_api_scheme \<Rightarrow> x11_forwarder \<Rightarrow> 'w \<Rightarrow> unit result \<times> x11_forwarder \<times> 'w" where
  "x11_try_request api xf w =
     (case (if xo_auth_cookie (xf_options xf) = [] then random_hex_cookie api w
            else (xo_auth_cookie (xf_options xf), w)) of
        (cookie, w1) \<Rightarrow>
          let xf1 = xf\<lparr>xf_options := (xf_options xf)\<lparr>xo_auth_cookie := cookie\<rparr>\<rparr>
          in case ssh_channel_request_x11 api (ch_native (xf_channel xf)) (xo_single_connection (xf_options xf))
                    (c_str (xo_auth_protocol (xf_options xf))) (c_str cookie) (sint (xo_screen_number (xf_options xf))) w1 of
               (rc, w2) \<Rightarrow>
                 (if rc \<noteq> SSH_OK then Inl (mk_error errc_x11_failed [] ''ssh_channel_request_x11'') else Inr (), xf1, w2))"

definition x11_try_accept ::
    "('w, 'z) fwd_api_scheme \<Rightarrow> x11_forwarder \<Rightarrow> int \<Rightarrow> 'w \<Rightarrow> channel option \<times> 'w" where
  "x11_try_accept api xf timeout w =
     (case ssh_channel_accept_x11 api (ch_native (xf_channel xf)) (to_int32 timeout) w of
        (None, w') \<Rightarrow> (None, w')
      | (Some raw, w') \<Rightarrow> (Some (from_native api (Some raw) (ch_session (xf_channel xf)) Owning w'), w'))"

definition malformed_display :: "string \<Rightarrow> error_info" where
  "malformed_display msg = mk_error errc_invalid_argument msg ''X11Forwarder::target_from_display''"

text \<open>\<open>6000 + display_num\<close> is cast to 16 bits.\<close>

definition target_from_display :: "string \<Rightarrow> forward_target result" where
  "target_from_display display =
     (if display = [] then Inl (malformed_display ''DISPLAY is not set'')
      else case str_rfind CHR '':'' display of
        None \<Rightarrow> Inl (malformed_display ''malformed DISPLAY'')
      | Some colon \<Rightarrow>
          let host = take colon display;
              rest = drop (Suc colon) display;
              number_part = (case str_find CHR ''.'' rest of None \<Rightarrow> rest | Some dot \<Rightarrow> take dot rest)
          in case stoi number_part of
               Inl _ \<Rightarrow> Inl (malformed_display ''malformed DISPLAY'')
             | Inr display_num \<Rightarrow>
                 if host = [] \<or> host = ''unix''
                 then Inr (Unix_target \<lparr>ep_path = ''/tmp/.X11-unix/X'' @ int_to_string display_num\<rparr>)
                 else Inr (Tcp_target \<lparr>ep_host = host, ep_port = to_u16 (6000 + display_num)\<rparr>))"

text \<open>The pump of a round has its own stop flag, \<open>pump_flag\<close>, which nobody else sets.\<close>

partial_function (option) x11_loop ::
    "('w, 'z) fwd_api_scheme \<Rightarrow> x11_forwarder \<Rightarrow> nat \<Rightarrow> forward_target \<Rightarrow> 'w \<Rightarrow> 'w option" where
  "x11_loop api xf pump_flag target w =
     (if flag_load api (xf_stop xf) w then Some w
      else (case x11_try_accept api xf 200 w of
              (None, w1) \<Rightarrow> x11_loop api xf pump_flag target w1
            | (Some ch, w1) \<Rightarrow>
                (case connect_target api target w1 of
                   (Inl _, w2) \<Rightarrow> x11_loop api xf pump_flag target (snd (channel_dtor api ch w2))
                 | (Inr fd, w2) \<Rightarrow>
                     (case pump_run api (new_pump fd 65536 pump_flag) ch w2 of
                        None \<Rightarrow> None
                      | Some (bp, ch', w3) \<Rightarrow>
                          if xo_single_connection (xf_options xf)
                          then Some (snd (channel_dtor api ch' (pump_stop api bp w3)))
                          else x11_loop api xf pump_flag target (snd (channel_dtor api ch' (pump_stop api bp w3)))))))"

definition x11_run ::
    "('w, 'z) fwd_api_scheme \<Rightarrow> x11_forwarder \<Rightarrow> nat \<Rightarrow> 'w \<Rightarrow> (unit result \<times> 'w) option" where
  "x11_run api xf pump_flag w =
     (case (case xo_display_target (xf_options xf) of
              Tcp_target t \<Rightarrow>
                if ep_host t = []
                then target_from_display (case sys_getenv api ''DISPLAY'' w of Some d \<Rightarrow> d | None \<Rightarrow> [])
                else Inr (Tcp_target t)
            | Unix_target u \<Rightarrow> Inr (Unix_target u)) of
        Inl e \<Rightarrow> Some (Inl e, w)
      | Inr target \<Rightarrow> map_option (\<lambda>w'. (Inr (), w')) (x11_loop api xf pump_flag target w))"

section \<open>Connectors\<close>

record 'w connector_api = "'w fwd_api" +
  ssh_connector_new :: "handle option \<Rightarrow> 'w \<Rightarrow> handle option \<times> 'w"
  ssh_connector_free :: "handle \<Rightarrow> 'w \<Rightarrow> 'w"
  ssh_connector_set_in_channel :: "handle \<Rightarrow> handle option \<Rightarrow> bool \<Rightarrow> 'w \<Rightarrow> ssh_rc \<times> 'w"
  ssh_connector_set_out_channel :: "handle \<Rightarrow> handle option \<Rightarrow> bool \<Rightarrow> 'w \<Rightarrow> ssh_rc \<times> 'w"
  ssh_connector_set_in_fd :: "handle \<Rightarrow> int \<Rightarrow> 'w \<Rightarrow> 'w"
  ssh_connector_set_out_fd :: "handle \<Rightarrow> int \<Rightarrow> 'w \<Rightarrow> 'w"

record connector =
  cn_native :: "handle option"

definition connector_ctor :: "('w, 'z) connector_api_scheme \<Rightarrow> session \<Rightarrow> 'w \<Rightarrow> connector \<times> 'w" where
  "connector_ctor api se w = (case ssh_connector_new api (se_core se) w of (n, w') \<Rightarrow> (\<lparr>cn_native = n\<rparr>, w'))"

definition connector_release :: "('w, 'z) connector_api_scheme \<Rightarrow> connector \<Rightarrow> 'w \<Rightarrow> 'w" where
  "connector_release api c w = (case cn_native c of Some n \<Rightarrow> ssh_connector_free api n w | None \<Rightarrow> w)"

definition connector_move_ctor :: "connector \<Rightarrow> connector \<times> connector" where
  "connector_move_ctor other = (\<lparr>cn_native = cn_native other\<rparr>, other\<lparr>cn_native := None\<rparr>)"

definition connector_move_assign ::
    "('w, 'z) connector_api_scheme \<Rightarrow> connector \<Rightarrow> connector \<Rightarrow> 'w \<Rightarrow> connector \<times> connector \<times> 'w" where
  "connector_move_assign api this other w =
     (this\<lparr>cn_native := cn_native other\<rparr>, other\<lparr>cn_native := None\<rparr>, connector_release api this w)"

text \<open>The flag of a stream: \<open>SSH_CONNECTOR_STDERR\<close> or \<open>SSH_CONNECTOR_STDOUT\<close>.\<close>

definition connector_flags :: "stream \<Rightarrow> bool" where
  "connector_flags s \<longleftrightarrow> s = Stream_stderr"

definition connector_set_channel ::
    "connector \<Rightarrow> string \<Rightarrow> string \<Rightarrow> (handle \<Rightarrow> 'w \<Rightarrow> ssh_rc \<times> 'w) \<Rightarrow> 'w \<Rightarrow> unit result \<times> 'w" where
  "connector_set_channel c op native_op call w =
     (case cn_native c of
        None \<Rightarrow> (Inl (invalid_handle_error op), w)
      | Some n \<Rightarrow>
          (case call n w of
             (rc, w') \<Rightarrow> (if rc \<noteq> SSH_OK then Inl (mk_error errc_forwarding_failed [] native_op) else Inr (), w')))"

definition try_set_in_channel ::
    "('w, 'z) connector_api_scheme \<Rightarrow> connector \<Rightarrow> channel \<Rightarrow> stream \<Rightarrow> 'w \<Rightarrow> unit result \<times> 'w" where
  "try_set_in_channel api c ch st =
     connector_set_channel c ''Connector::try_set_in_channel'' ''ssh_connector_set_in_channel''
       (\<lambda>n. ssh_connector_set_in_channel api n (ch_native ch) (connector_flags st))"

definition try_set_out_channel ::
    "('w, 'z) connector_api_scheme \<Rightarrow> connector \<Rightarrow> channel \<Rightarrow> stream \<Rightarrow> 'w \<Rightarrow> unit result \<times> 'w" where
  "try_set_out_channel api c ch st =
     connector_set_channel c ''Connector::try_set_out_channel'' ''ssh_connector_set_out_channel''
       (\<lambda>n. ssh_connector_set_out_channel api n (ch_native ch) (connector_flags st))"

definition try_set_in_fd :: "('w, 'z) connector_api_scheme \<Rightarrow> connector \<Rightarrow> int \<Rightarrow> 'w \<Rightarrow> unit result \<times> 'w" where
  "try_set_in_fd api c fd w =
     (case cn_native c of
        None \<Rightarrow> (Inl (invalid_handle_error ''Connector::try_set_in_fd''), w)
      | Some n \<Rightarrow> (Inr (), ssh_connector_set_in_fd api n fd w))"

definition try_set_out_fd :: "('w, 'z) connector_api_scheme \<Rightarrow> connector \<Rightarrow> int \<Rightarrow> 'w \<Rightarrow> unit result \<times> 'w" where
  "try_set_out_fd api c fd w =
     (case cn_native c of
        None \<Rightarrow> (Inl (invalid_handle_error ''Connector::try_set_out_fd''), w)
      | Some n \<Rightarrow> (Inr (), ssh_connector_set_out_fd api n fd w))"

definition connector_raii :: "handle list connector_api \<Rightarrow> connector raii_ops" where
  "connector_raii api0 = (let api = api0\<lparr>ssh_connector_free := \<lambda>h w. w @ [h]\<rparr> in
     \<lparr>r_native = cn_native, r_owns = \<lambda>_. True, r_adopt = \<lambda>h. \<lparr>cn_native = Some h\<rparr>,
      r_destroy = \<lambda>x. connector_release api x [], r_move = connector_move_ctor,
      r_assign = \<lambda>x y. case connector_move_assign api x y [] of (x', y', fs) \<Rightarrow> (fs, x', y')\<rparr>)"

interpretation connector: move_only "connector_raii api" for api
  by unfold_locales
    (auto simp: connector_raii_def held_def connector_release_def connector_move_ctor_def connector_move_assign_def Let_def
      split: option.splits)

section \<open>Displays and cookies\<close>

text \<open>
  A \<open>DISPLAY\<close> of the form \<open>host:n\<close> or \<open>host:n.screen\<close> names the local socket of display \<open>n\<close> without a
  host or for the host \<open>unix\<close>, and otherwise the TCP port \<open>6000 + n\<close> of the host, taken modulo 65536.
\<close>
theorem x11_display_target:
  assumes "n \<le> 2147483647" and "CHR '':'' \<notin> set suffix" and "suffix = [] \<or> hd suffix = CHR ''.''"
  shows "target_from_display (host @ '':'' @ nat_to_string n @ suffix) =
     Inr (if host = [] \<or> host = ''unix'' then Unix_target \<lparr>ep_path = ''/tmp/.X11-unix/X'' @ nat_to_string n\<rparr>
          else Tcp_target \<lparr>ep_host = host, ep_port = of_nat (6000 + n)\<rparr>)"
proof -
  let ?rest = "nat_to_string n @ suffix"
  have colon: "str_rfind CHR '':'' (host @ CHR '':'' # ?rest) = Some (length host)"
    using assms(2) by (intro str_rfind_split) simp
  have num: "(case str_find CHR ''.'' ?rest of None \<Rightarrow> ?rest | Some dot \<Rightarrow> take dot ?rest) = nat_to_string n"
  proof (cases suffix)
    case (Cons c cs)
    then have "str_find CHR ''.'' ?rest = Some (length (nat_to_string n))"
      using assms(3) str_find_split [of "CHR ''.''" "nat_to_string n" cs] by simp
    then show ?thesis by simp
  qed simp
  have "to_u16 (6000 + int n) = of_nat (6000 + n)" by (simp add: to_u16_def)
  then show ?thesis
    using colon num stoi_nat_to_string [OF assms(1)]
    by (simp add: target_from_display_def Let_def int_to_string_def)
qed

theorem x11_display_target_witness:
  "target_from_display ''host:10.0'' = Inr (Tcp_target \<lparr>ep_host = ''host'', ep_port = 6010\<rparr>)
   \<and> target_from_display '':0'' = Inr (Unix_target \<lparr>ep_path = ''/tmp/.X11-unix/X0''\<rparr>)"
  using x11_display_target [of 10 "''.0''" "''host''"] x11_display_target [of 0 "[]" "[]"]
  by (simp add: nat_to_string.simps str_simps)

lemma hex_byte_digits: "length (hex_byte b) = 2 \<and> set (hex_byte b) \<subseteq> set hex_digits"
proof -
  have "unat (drop_bit 4 b) < 16"
    using unsigned_less [where ?'a = nat and w = b] by (simp add: drop_bit_eq_div unat_div less_mult_imp_div_less)
  moreover have "and b 0x0F \<le> 0x0F" by (rule word_and_le1)
  then have "unat (and b 0x0F) < 16" by (simp add: word_le_nat_alt)
  ultimately have "unat (drop_bit 4 b) < length hex_digits" "unat (and b 0x0F) < length hex_digits"
    by (simp_all add: hex_digits_def)
  then show ?thesis by (simp add: hex_byte_def)
qed

lemma length_random_bytes: "length (fst (random_bytes api n w)) = n"
  by (induction n arbitrary: w) (auto split: prod.splits simp: prod_eq_iff)

lemma random_hex_cookie_digits:
  "length (fst (random_hex_cookie api w)) = 32 \<and> set (fst (random_hex_cookie api w)) \<subseteq> set hex_digits"
proof -
  obtain bs w' where r: "random_bytes api 16 w = (bs, w')" by fastforce
  have "length (concat (map hex_byte bs)) = 2 * length bs"
    by (induction bs) (use hex_byte_digits in auto)
  moreover have "length bs = 16" using length_random_bytes [of api 16 w] r by simp
  moreover have "set (concat (map hex_byte bs)) \<subseteq> set hex_digits" using hex_byte_digits by fastforce
  ultimately show ?thesis using r by (simp add: random_hex_cookie_def)
qed

end
