(* ===== verification/Relay.thy ===== *)
theory Relay
  imports Forwarding
begin

text \<open>
  What the pump of \<open>detail/forwarding.ipp\<close> transfers and when it ends.

  The theorems: bytes cross the pump unchanged and in order in both directions and are counted,
  when the socket takes what it is given; a short send loses bytes; the pump ends once both sides
  have.
\<close>

section \<open>What the pump transfers\<close>

text \<open>
  The bytes that have crossed each side of a pump: taken from the channel, given to the channel,
  taken from the socket, given to the socket.
\<close>

record link =
  l_got :: bytes
  l_sent :: bytes
  l_recv :: bytes
  l_out :: bytes

definition relay_contract ::
    "('w, 'z) fwd_api_scheme \<Rightarrow> handle \<Rightarrow> int \<Rightarrow> ('w \<Rightarrow> link) \<Rightarrow> bool" where
  "relay_contract api n fd view \<longleftrightarrow>
     (\<forall>count t w rc new w'. ssh_channel_read_timeout api n count False t w = (rc, new, w') \<longrightarrow>
        length new \<le> count \<and> int (length new) = max 0 rc \<and> view w' = (view w)\<lparr>l_got := l_got (view w) @ new\<rparr>)
     \<and> (\<forall>d w rc w'. ssh_channel_write api n d w = (rc, w') \<longrightarrow>
        rc \<le> int (length d) \<and> view w' = (view w)\<lparr>l_sent := l_sent (view w) @ take (nat rc) d\<rparr>)
     \<and> (\<forall>len w k new w'. sys_recv api fd len w = (k, new, w') \<longrightarrow>
        length new \<le> len \<and> int (length new) = max 0 k \<and> view w' = (view w)\<lparr>l_recv := l_recv (view w) @ new\<rparr>)
     \<and> (\<forall>d w k w'. sys_send api fd d w = (k, w') \<longrightarrow>
        k \<le> int (length d) \<and> view w' = (view w)\<lparr>l_out := l_out (view w) @ take (nat k) d\<rparr>)
     \<and> (\<forall>t e w. view (snd (ssh_channel_poll_timeout api n t e w)) = view w)
     \<and> (\<forall>w. view (snd (ssh_channel_send_eof api n w)) = view w)
     \<and> (\<forall>w. view (snd (ssh_channel_close api n w)) = view w)
     \<and> (\<forall>t w. view (snd (sys_poll_in api fd t w)) = view w)
     \<and> (\<forall>w. view (sys_shutdown_wr api fd w) = view w)
     \<and> (\<forall>w. view (sys_close api fd w) = view w)"

lemma relay_contractD:
  assumes "relay_contract api n fd view"
  shows "ssh_channel_read_timeout api n count False t w = (rc, new, w') \<Longrightarrow>
        length new \<le> count \<and> int (length new) = max 0 rc \<and> view w' = (view w)\<lparr>l_got := l_got (view w) @ new\<rparr>"
    and "ssh_channel_write api n d w = (rc, w') \<Longrightarrow>
        rc \<le> int (length d) \<and> view w' = (view w)\<lparr>l_sent := l_sent (view w) @ take (nat rc) d\<rparr>"
    and "sys_recv api fd len w = (k, new, w') \<Longrightarrow>
        length new \<le> len \<and> int (length new) = max 0 k \<and> view w' = (view w)\<lparr>l_recv := l_recv (view w) @ new\<rparr>"
    and "sys_send api fd d w = (k, w') \<Longrightarrow>
        k \<le> int (length d) \<and> view w' = (view w)\<lparr>l_out := l_out (view w) @ take (nat k) d\<rparr>"
    and "ssh_channel_poll_timeout api n t e w = (rc, w') \<Longrightarrow> view w' = view w"
    and "ssh_channel_send_eof api n w = (r, w') \<Longrightarrow> view w' = view w"
    and "ssh_channel_close api n w = (r, w') \<Longrightarrow> view w' = view w"
    and "sys_poll_in api fd t w = (b, w') \<Longrightarrow> view w' = view w"
    and "view (sys_shutdown_wr api fd w) = view w"
    and "view (sys_close api fd w) = view w"
  using assms unfolding relay_contract_def by (blast | metis snd_conv)+

text \<open>A system that takes everything it is given, on the socket and on the channel.\<close>

definition sends_all :: "('w, 'z) fwd_api_scheme \<Rightarrow> int \<Rightarrow> bool" where
  "sends_all api fd \<longleftrightarrow> (\<forall>d w. fst (sys_send api fd d w) = int (length d))"

definition writes_some :: "('w, 'z) fwd_api_scheme \<Rightarrow> handle \<Rightarrow> bool" where
  "writes_some api n \<longleftrightarrow> (\<forall>d w. d \<noteq> [] \<longrightarrow> fst (ssh_channel_write api n d w) > 0)"

lemma write_all_view:
  assumes "relay_contract api n fd view" and "ch_native ch = Some n"
    and "write_all_loop (try_write_some api ch) short d w = (r, w')"
  shows "\<exists>k \<le> length d. view w' = (view w)\<lparr>l_sent := l_sent (view w) @ take k d\<rparr>
     \<and> (writes_some api n \<longrightarrow> length d < 4294967296 \<longrightarrow> k = length d)"
  using assms(3)
proof (induction "length d" arbitrary: d w rule: less_induct)
  case less
  define c where "c = take (to_uint32 (length d)) d"
  obtain rc w1 where wr: "ssh_channel_write api n c w = (rc, w1)" by fastforce
  note v = relay_contractD(2) [OF assms(1) wr]
  have rc: "rc \<le> int (length d)" "take (nat rc) c = take (nat rc) d"
    using v by (auto simp: c_def min_def split: if_splits)
  have nz: "d = [] \<or> rc > 0" if "writes_some api n" "length d < 4294967296"
    using that wr unfolding writes_some_def c_def by (metis fst_conv take_all_iff to_uint32_small order_refl)
  have some: "try_write_some api ch d w = count_result api (ch_session ch) ''ssh_channel_write'' errc_channel_closed (rc, w1)"
    using assms(2) wr by (simp add: try_write_some_def c_def)
  consider "d = []" | "d \<noteq> []" "rc \<le> 0" | "d \<noteq> []" "rc > 0" by linarith
  then show ?case
  proof cases
    case 1
    then show ?thesis using less.prems by (auto intro: exI [of _ 0])
  next
    case 2
    then have "w' = w1" using less.prems some
      by (auto simp: write_all_loop.simps [of _ _ d] count_result_def split: if_splits)
    then show ?thesis using v 2 nz by (auto intro: exI [of _ 0])
  next
    case 3
    then have "write_all_loop (try_write_some api ch) short (drop (nat rc) d) w1 = (r, w')"
      using less.prems some by (simp add: write_all_loop.simps [of _ _ d] count_result_def)
    moreover have "length (drop (nat rc) d) < length d" using 3 by simp
    ultimately obtain k where k: "k \<le> length (drop (nat rc) d)"
        "view w' = (view w1)\<lparr>l_sent := l_sent (view w1) @ take k (drop (nat rc) d)\<rparr>"
        "writes_some api n \<longrightarrow> length (drop (nat rc) d) < 4294967296 \<longrightarrow> k = length (drop (nat rc) d)"
      using less.hyps by blast
    have "view w' = (view w)\<lparr>l_sent := l_sent (view w) @ take (nat rc + k) d\<rparr>"
      using k(2) v rc by (simp add: take_add)
    moreover have "nat rc + k \<le> length d" using k(1) rc(1) by simp
    moreover have "nat rc + k = length d" if "writes_some api n" "length d < 4294967296"
      using k(3) that rc(1) by auto
    ultimately show ?thesis by blast
  qed
qed

text \<open>
  What a run from \<open>v\<close> to \<open>v'\<close> has transferred, and what it has added to the counters.
\<close>

definition relayed :: "bool \<Rightarrow> bool \<Rightarrow> link \<Rightarrow> forward_stats \<Rightarrow> link \<Rightarrow> forward_stats \<Rightarrow> bool" where
  "relayed full_out full_in v s v' s' \<longleftrightarrow>
     (\<exists>a b. l_got v' = l_got v @ a \<and> l_recv v' = l_recv v @ b
        \<and> (full_out \<longrightarrow> l_out v' = l_out v @ a) \<and> (full_in \<longrightarrow> l_sent v' = l_sent v @ b)
        \<and> fs_bytes_out s' = fs_bytes_out s + of_nat (length a)
        \<and> fs_bytes_in s' = fs_bytes_in s + of_nat (length b)
        \<and> fs_connections s' = fs_connections s \<and> fs_rejected s' = fs_rejected s)"

lemma relayed_refl [simp]: "relayed full_out full_in v s v s"
  by (auto simp: relayed_def intro: exI [of _ "[]"])

lemma relayed_trans:
  assumes "relayed fo fi v s v1 s1" "relayed fo fi v1 s1 v2 s2"
  shows "relayed fo fi v s v2 s2"
proof -
  obtain a b where 1: "l_got v1 = l_got v @ a" "l_recv v1 = l_recv v @ b" "fo \<longrightarrow> l_out v1 = l_out v @ a"
      "fi \<longrightarrow> l_sent v1 = l_sent v @ b" "fs_bytes_out s1 = fs_bytes_out s + of_nat (length a)"
      "fs_bytes_in s1 = fs_bytes_in s + of_nat (length b)" "fs_connections s1 = fs_connections s"
      "fs_rejected s1 = fs_rejected s"
    using assms(1) unfolding relayed_def by blast
  obtain a' b' where 2: "l_got v2 = l_got v1 @ a'" "l_recv v2 = l_recv v1 @ b'" "fo \<longrightarrow> l_out v2 = l_out v1 @ a'"
      "fi \<longrightarrow> l_sent v2 = l_sent v1 @ b'" "fs_bytes_out s2 = fs_bytes_out s1 + of_nat (length a')"
      "fs_bytes_in s2 = fs_bytes_in s1 + of_nat (length b')" "fs_connections s2 = fs_connections s1"
      "fs_rejected s2 = fs_rejected s1"
    using assms(2) unfolding relayed_def by blast
  show ?thesis unfolding relayed_def
    by (intro exI [of _ "a @ a'"] exI [of _ "b @ b'"]) (use 1 2 in \<open>simp add: add.assoc\<close>)
qed

lemma relayed_got:
  assumes "v' = v\<lparr>l_got := l_got v @ new, l_out := l_out v @ put\<rparr>" and "fo \<Longrightarrow> put = new"
    and "s' = s\<lparr>fs_bytes_out := fs_bytes_out s + of_nat (length new)\<rparr>"
  shows "relayed fo fi v s v' s'"
  unfolding relayed_def by (rule exI [of _ new], rule exI [of _ "[]"]) (use assms in auto)

lemma relayed_recv:
  assumes "v' = v\<lparr>l_recv := l_recv v @ new, l_sent := l_sent v @ put\<rparr>" and "fi \<Longrightarrow> put = new"
    and "s' = s\<lparr>fs_bytes_in := fs_bytes_in s + of_nat (length new)\<rparr>"
  shows "relayed fo fi v s v' s'"
  unfolding relayed_def by (rule exI [of _ "[]"], rule exI [of _ new]) (use assms in auto)

lemma mem_prefix_overlay_part:
  "length new \<le> m \<Longrightarrow> m \<le> length buf \<Longrightarrow>
     mem_prefix (length new) (overlay (overlay new (take m buf)) buf) = new"
  by (simp add: mem_prefix_def overlay_def)

lemma pump_read_relays:
  assumes c: "relay_contract api n fd view" and n: "ch_native ch = Some n"
    and p: "pump_read api ch fd ps w = (p, ps', w')"
  shows "relayed (sends_all api fd) fi (view w) (ps_stats ps) (view w') (ps_stats ps')
     \<and> length (ps_buf ps') = length (ps_buf ps) \<and> ps_client_eof ps' = ps_client_eof ps"
proof -
  obtain r1 w1 where av: "try_bytes_available api ch Stream_stdout w = (r1, w1)" by fastforce
  then have v1: "view w1 = view w"
    using n relay_contractD(5) [OF c] by (auto simp: try_bytes_available_def count_result_def split: prod.splits if_splits)
  consider "(p, ps', w') = (False, ps, w1)" | a where "r1 = Inr a" "a \<noteq> 0"
    using p av by (auto simp: pump_read_def split: sum.splits if_splits)
  then show ?thesis
  proof cases
    case 1
    then show ?thesis using v1 by simp
  next
    case (2 a)
    define m where "m = min (length (ps_buf ps)) a"
    obtain rc new w2 where rd: "ssh_channel_read_timeout api n (to_uint32 m) False (-1) w1 = (rc, new, w2)"
      by (metis prod_cases3)
    note v2 = relayed_def relay_contractD(1) [OF c rd]
    have len: "length new \<le> m" using v2(2) to_uint32_le [of m] by linarith
    define buf where "buf = overlay (overlay new (take m (ps_buf ps))) (ps_buf ps)"
    have pre: "mem_prefix (length new) buf = new"
      unfolding buf_def by (rule mem_prefix_overlay_part [OF len]) (simp add: m_def)
    have lm: "min (length (ps_buf ps)) m = m" by (simp add: m_def)
    have step: "(p, ps', w') =
        (if rc \<le> 0 then (False, ps\<lparr>ps_buf := buf\<rparr>, w2)
         else (True, ps\<lparr>ps_buf := buf,
                 ps_stats := (ps_stats ps)\<lparr>fs_bytes_out := fs_bytes_out (ps_stats ps) + of_nat (length new)\<rparr>\<rparr>,
               snd (sys_send api fd new w2)))"
      using p av 2 rd n v2(2) pre lm
      by (auto simp: pump_read_def try_read_some_def try_read_some_timeout_def m_def [symmetric] buf_def
          count_result_def Let_def min.absorb2 split: if_splits)
    show ?thesis
    proof (cases "rc \<le> 0")
      case True
      then have "new = []" using v2(2) by auto
      then show ?thesis using step True v1 v2(2) by (auto simp: buf_def)
    next
      case False
      obtain k w3 where sd: "sys_send api fd new w2 = (k, w3)" by fastforce
      note v3 = relay_contractD(4) [OF c sd]
      have "sends_all api fd \<Longrightarrow> take (nat k) new = new" using sd unfolding sends_all_def by (metis fst_conv nat_int take_all order_refl)
      then have "relayed (sends_all api fd) fi (view w) (ps_stats ps) (view w3)
          ((ps_stats ps)\<lparr>fs_bytes_out := fs_bytes_out (ps_stats ps) + of_nat (length new)\<rparr>)"
        using v1 v2(2) v3 by (intro relayed_got [where new = new and put = "take (nat k) new"]) auto
      then show ?thesis using step False sd by (auto simp: buf_def)
    qed
  qed
qed

lemma pump_out_relays:
  assumes c: "relay_contract api n fd view" and n: "ch_native ch = Some n"
    and p: "pump_out api ch fd ps w = (p, ps', w')"
  shows "relayed (sends_all api fd) fi (view w) (ps_stats ps) (view w') (ps_stats ps')
     \<and> length (ps_buf ps') = length (ps_buf ps)"
proof (cases "ps_channel_eof ps")
  case False
  obtain q ps1 w1 where r: "pump_read api ch fd ps w = (q, ps1, w1)" by (metis prod_cases3)
  show ?thesis
    using pump_read_relays [OF c n r, of fi] p False r relay_contractD(9) [OF c]
    by (auto simp: pump_out_def split: if_splits)
qed (use p in \<open>simp add: pump_out_def\<close>)

lemma pump_in_relays:
  assumes c: "relay_contract api n fd view" and n: "ch_native ch = Some n"
    and p: "pump_in api ch fd q ps w = (ps', w')" and b: "length (ps_buf ps) < 4294967296"
  shows "relayed fo (writes_some api n) (view w) (ps_stats ps) (view w') (ps_stats ps')
     \<and> length (ps_buf ps') = length (ps_buf ps)"
proof -
  obtain ready w1 where po: "sys_poll_in api fd (if q then 0 else 50) w = (ready, w1)" by fastforce
  note v1 = relay_contractD(8) [OF c po]
  obtain k new w2 where rc: "sys_recv api fd (length (ps_buf ps)) w1 = (k, new, w2)" by (metis prod_cases3)
  note v2 = relay_contractD(3) [OF c rc]
  consider "(ps', w') = (ps, w)" | "(ps', w') = (ps, w1)" | "\<not> ps_client_eof ps" "ready"
    using p po by (auto simp: pump_in_def split: if_splits)
  then show ?thesis
  proof cases
    case 3
    show ?thesis
    proof (cases "k > 0")
      case True
      then have k: "nat k = length new" using v2 by auto
      then have m: "mem_prefix (length new) (overlay new (ps_buf ps)) = new" using v2 by simp
      obtain r w3 where wr: "try_write_all api ch new w2 = (r, w3)" by fastforce
      then obtain j where j: "view w3 = (view w2)\<lparr>l_sent := l_sent (view w2) @ take j new\<rparr>"
          "writes_some api n \<longrightarrow> length new < 4294967296 \<longrightarrow> j = length new"
        using write_all_view [OF c n] unfolding try_write_all_def by blast
      have "(of_int k :: u64) = of_nat (length new)" using k True by (metis of_int_of_nat_eq zero_less_imp_eq_int nat_int)
      then have st: "ps_stats ps' = (ps_stats ps)\<lparr>fs_bytes_in := fs_bytes_in (ps_stats ps) + of_nat (length new)\<rparr>"
          "w' = w3" "length (ps_buf ps') = length (ps_buf ps)"
        using p po 3 rc True wr m k by (auto simp: pump_in_def Let_def)
      have "relayed fo (writes_some api n) (view w) (ps_stats ps) (view w') (ps_stats ps')"
        unfolding st
        using v1 v2 j b by (intro relayed_recv [where new = new and put = "take j new"]) auto
      then show ?thesis using st by simp
    next
      case False
      then have "new = []" using v2 by auto
      then show ?thesis
        using p po 3 rc False v1 v2 n relay_contractD(6) [OF c]
        by (auto simp: pump_in_def Let_def try_send_eof_def channel_request_def rc_result_def split: prod.splits)
    qed
  qed (use v1 in auto)
qed

lemma pump_loop_relays:
  assumes "pump_loop api ch fd stop ps w = Some y"
  shows "relay_contract api n fd view \<longrightarrow> ch_native ch = Some n \<longrightarrow> length (ps_buf ps) < 4294967296 \<longrightarrow>
     relayed (sends_all api fd) (writes_some api n) (view w) (ps_stats ps) (view (snd y)) (ps_stats (fst y))"
proof (rule pump_loop.raw_induct [where P = "\<lambda>api ch fd stop ps w y.
     relay_contract api n fd view \<longrightarrow> ch_native ch = Some n \<longrightarrow> length (ps_buf ps) < 4294967296 \<longrightarrow>
     relayed (sends_all api fd) (writes_some api n) (view w) (ps_stats ps) (view (snd y)) (ps_stats (fst y))",
     OF _ assms], goal_cases)
  case (1 f api ch fd stop ps w y)
  show ?case
  proof (intro impI)
    assume h: "relay_contract api n fd view" "ch_native ch = Some n" "length (ps_buf ps) < 4294967296"
    obtain q ps1 w1 where o: "pump_out api ch fd ps w = (q, ps1, w1)" by (metis prod_cases3)
    obtain ps2 w2 where i: "pump_in api ch fd q ps1 w1 = (ps2, w2)" by fastforce
    note ro = pump_out_relays [OF h(1,2) o, of "writes_some api n"]
    then have b: "length (ps_buf ps1) < 4294967296" using h(3) by simp
    note ri = pump_in_relays [OF h(1,2) i b, of "sends_all api fd"]
    have "(if flag_load api stop w \<or> ps_client_eof ps \<and> ps_channel_eof ps then Some (ps, w)
        else f api ch fd stop ps2 w2) = Some y"
      using 1(2) by (simp only: o i prod.case)
    then consider "y = (ps, w)" | "f api ch fd stop ps2 w2 = Some y" by (metis option.inject)
    then show "relayed (sends_all api fd) (writes_some api n) (view w) (ps_stats ps) (view (snd y)) (ps_stats (fst y))"
    proof cases
      case 2
      have b2: "length (ps_buf ps2) < 4294967296" using conjunct2 [OF ri] b by (simp only:)
      note rest = 1(1) [OF 2, rule_format, OF h(1,2) b2]
      show ?thesis
        by (rule relayed_trans [OF conjunct1 [OF ro] relayed_trans [OF conjunct1 [OF ri] rest]])
    qed simp
  qed
qed

section \<open>A simulated network\<close>

text \<open>
  On top of the simulated session: one client connection with the bytes it has still to send, what
  was received from and sent to it, the open descriptors, the flags and the direct channels opened.
  A send takes at most \<open>cap\<close> bytes, if that is given.
\<close>

record sim_net = sim_session +
  net_in :: bytes
  net_recv :: bytes
  net_out :: bytes
  net_fds :: "int list"
  net_flags :: "nat set"
  net_opened :: "(string \<times> u16) list"

definition net_take :: "nat option \<Rightarrow> bytes \<Rightarrow> bytes" where
  "net_take cap d = (case cap of None \<Rightarrow> d | Some c \<Rightarrow> take c d)"

definition fresh_fd :: "int list \<Rightarrow> int" where
  "fresh_fd fds = 1 + sum_list (map abs fds)"

lemma fresh_fd: "fresh_fd fds > 0" "x \<in> set fds \<Longrightarrow> x < fresh_fd fds"
proof -
  have "0 \<le> sum_list (map abs fds)" by (rule sum_list_nonneg) auto
  then show "fresh_fd fds > 0" by (simp add: fresh_fd_def)
  assume "x \<in> set fds"
  then have "\<bar>x\<bar> \<le> sum_list (map abs fds)" by (intro member_le_sum_list) (auto simp: o_def)
  then show "x < fresh_fd fds" by (simp add: fresh_fd_def)
qed

definition net_socket :: "sim_net \<Rightarrow> int \<times> sim_net" where
  "net_socket w = (fresh_fd (net_fds w), w\<lparr>net_fds := fresh_fd (net_fds w) # net_fds w\<rparr>)"

definition sim_net_api :: "nat option \<Rightarrow> sim_net fwd_api" where
  "sim_net_api cap = session_api.extend sim_session_api
     \<lparr>ssh_channel_open_forward = \<lambda>_ h p _ _ w. (SSH_OK, w\<lparr>net_opened := net_opened w @ [(h, p)]\<rparr>),
      ssh_channel_open_forward_unix = \<lambda>_ _ _ _ w. (SSH_ERROR, w),
      ssh_channel_listen_forward = \<lambda>_ _ _ w. (SSH_OK, 22, w),
      ssh_channel_cancel_forward = \<lambda>_ _ _ w. (SSH_OK, w),
      ssh_channel_open_forward_port = \<lambda>_ _ w. (None, 0, None, 0, w),
      ssh_channel_request_x11 = \<lambda>_ _ _ _ _ w. (SSH_OK, w),
      ssh_channel_accept_x11 = \<lambda>_ _ w. (None, w),
      sys_getaddrinfo = \<lambda>_ _ _ w. (0, [1], w), sys_gai_strerror = \<lambda>_. [], sys_strerror = \<lambda>_. [],
      sys_socket = \<lambda>_. net_socket, sys_socket_unix = net_socket,
      sys_connect = \<lambda>_ _ w. (True, w), sys_connect_unix = \<lambda>_ _ w. (False, w), sys_reuseaddr = \<lambda>_ w. w,
      sys_bind = \<lambda>_ _ w. (True, w), sys_listen = \<lambda>_ _ w. (True, w),
      sys_getsockname = \<lambda>_ _. Some (True, 1080), sys_getpeername = \<lambda>_ _. Some (True, ''127.0.0.1'', 5000),
      sys_close = \<lambda>fd w. w\<lparr>net_fds := removeAll fd (net_fds w)\<rparr>,
      sys_poll_in = \<lambda>_ _ w. (True, w), sys_accept = \<lambda>_. net_socket,
      sys_recv = \<lambda>_ len w. (int (length (take len (net_in w))), take len (net_in w),
         w\<lparr>net_in := drop len (net_in w), net_recv := net_recv w @ take len (net_in w)\<rparr>),
      sys_send = \<lambda>_ d w. (int (length (net_take cap d)), w\<lparr>net_out := net_out w @ net_take cap d\<rparr>),
      sys_shutdown_wr = \<lambda>_ w. w, sys_inet_ntop4 = \<lambda>_. ''10.0.0.1'', sys_inet_ntop6 = \<lambda>_. ''::1'',
      sys_getenv = \<lambda>_ _. Some '':0'', random_word = \<lambda>w. (7, w),
      flag_load = \<lambda>f w. f \<in> net_flags w,
      flag_store = \<lambda>f b w. w\<lparr>net_flags := (if b then insert f (net_flags w) else net_flags w - {f})\<rparr>,
      thread_spawn = \<lambda>_ w. w, thread_join = \<lambda>_ w. w\<rparr>"

lemma sim_net_sel [simp]:
  "ssh_channel_open_forward (sim_net_api cap) = (\<lambda>_ h p _ _ w. (SSH_OK, w\<lparr>net_opened := net_opened w @ [(h, p)]\<rparr>))"
  "ssh_channel_open_forward_unix (sim_net_api cap) = (\<lambda>_ _ _ _ w. (SSH_ERROR, w))"
  "ssh_channel_listen_forward (sim_net_api cap) = (\<lambda>_ _ _ w. (SSH_OK, 22, w))"
  "ssh_channel_cancel_forward (sim_net_api cap) = (\<lambda>_ _ _ w. (SSH_OK, w))"
  "ssh_channel_open_forward_port (sim_net_api cap) = (\<lambda>_ _ w. (None, 0, None, 0, w))"
  "ssh_channel_request_x11 (sim_net_api cap) = (\<lambda>_ _ _ _ _ w. (SSH_OK, w))"
  "ssh_channel_accept_x11 (sim_net_api cap) = (\<lambda>_ _ w. (None, w))"
  "sys_getaddrinfo (sim_net_api cap) = (\<lambda>_ _ _ w. (0, [1], w))"
  "sys_gai_strerror (sim_net_api cap) = (\<lambda>_. [])"
  "sys_strerror (sim_net_api cap) = (\<lambda>_. [])"
  "sys_socket (sim_net_api cap) = (\<lambda>_. net_socket)"
  "sys_socket_unix (sim_net_api cap) = (net_socket)"
  "sys_connect (sim_net_api cap) = (\<lambda>_ _ w. (True, w))"
  "sys_connect_unix (sim_net_api cap) = (\<lambda>_ _ w. (False, w))"
  "sys_reuseaddr (sim_net_api cap) = (\<lambda>_ w. w)"
  "sys_bind (sim_net_api cap) = (\<lambda>_ _ w. (True, w))"
  "sys_listen (sim_net_api cap) = (\<lambda>_ _ w. (True, w))"
  "sys_getsockname (sim_net_api cap) = (\<lambda>_ _. Some (True, 1080))"
  "sys_getpeername (sim_net_api cap) = (\<lambda>_ _. Some (True, ''127.0.0.1'', 5000))"
  "sys_close (sim_net_api cap) = (\<lambda>fd w. w\<lparr>net_fds := removeAll fd (net_fds w)\<rparr>)"
  "sys_poll_in (sim_net_api cap) = (\<lambda>_ _ w. (True, w))"
  "sys_accept (sim_net_api cap) = (\<lambda>_. net_socket)"
  "sys_recv (sim_net_api cap) = (\<lambda>_ len w. (int (length (take len (net_in w))), take len (net_in w), w\<lparr>net_in := drop len (net_in w), net_recv := net_recv w @ take len (net_in w)\<rparr>))"
  "sys_send (sim_net_api cap) = (\<lambda>_ d w. (int (length (net_take cap d)), w\<lparr>net_out := net_out w @ net_take cap d\<rparr>))"
  "sys_shutdown_wr (sim_net_api cap) = (\<lambda>_ w. w)"
  "sys_inet_ntop4 (sim_net_api cap) = (\<lambda>_. ''10.0.0.1'')"
  "sys_inet_ntop6 (sim_net_api cap) = (\<lambda>_. ''::1'')"
  "sys_getenv (sim_net_api cap) = (\<lambda>_ _. Some '':0'')"
  "random_word (sim_net_api cap) = (\<lambda>w. (7, w))"
  "flag_load (sim_net_api cap) = (\<lambda>f w. f \<in> net_flags w)"
  "flag_store (sim_net_api cap) = (\<lambda>f b w. w\<lparr>net_flags := (if b then insert f (net_flags w) else net_flags w - {f})\<rparr>)"
  "thread_spawn (sim_net_api cap) = (\<lambda>_ w. w)"
  "thread_join (sim_net_api cap) = (\<lambda>_ w. w)"
  "ssh_channel_read_timeout (sim_net_api cap) = ssh_channel_read_timeout sim_session_api"
  "ssh_channel_write (sim_net_api cap) = ssh_channel_write sim_session_api"
  "ssh_channel_poll_timeout (sim_net_api cap) = ssh_channel_poll_timeout sim_session_api"
  "ssh_channel_send_eof (sim_net_api cap) = ssh_channel_send_eof sim_session_api"
  "ssh_channel_close (sim_net_api cap) = ssh_channel_close sim_session_api"
  "ssh_channel_is_eof (sim_net_api cap) = ssh_channel_is_eof sim_session_api"
  "ssh_channel_is_closed (sim_net_api cap) = ssh_channel_is_closed sim_session_api"
  "ssh_channel_is_open (sim_net_api cap) = ssh_channel_is_open sim_session_api"
  "ssh_channel_free (sim_net_api cap) = ssh_channel_free sim_session_api"
  "ssh_channel_new (sim_net_api cap) = ssh_channel_new sim_session_api"
  "ssh_get_error (sim_net_api cap) = ssh_get_error sim_session_api"
  "ssh_get_error_code (sim_net_api cap) = ssh_get_error_code sim_session_api"
  by (simp_all add: sim_net_api_def session_api.defs)

definition net_view :: "sim_net \<Rightarrow> link" where
  "net_view w = \<lparr>l_got = sim_taken w, l_sent = sim_out w, l_recv = net_recv w, l_out = net_out w\<rparr>"

lemma net_relay_contract: "relay_contract (sim_net_api cap) n fd net_view"
  by (auto simp: relay_contract_def net_view_def sim_read_def Let_def min_def net_take_def split: option.splits)

section \<open>The relay is exact\<close>


definition net_world :: "bytes \<Rightarrow> bytes \<Rightarrow> sim_net" where
  "net_world from_channel from_client =
     sim_session.extend ((sim_world SSH_KNOWN_HOSTS_OK)\<lparr>sim_in := from_channel\<rparr>)
       \<lparr>net_in = from_client, net_recv = [], net_out = [], net_fds = [5], net_flags = {}, net_opened = []\<rparr>"

lemma net_world_sel [simp]:
  "sim_in (net_world c d) = c" "sim_in_err (net_world c d) = []" "sim_taken (net_world c d) = []"
  "sim_out (net_world c d) = []" "net_in (net_world c d) = d" "net_recv (net_world c d) = []"
  "net_out (net_world c d) = []" "net_fds (net_world c d) = [5]"
  "net_flags (net_world c d) = {}" "net_opened (net_world c d) = []" "ss_chans (net_world c d) = {}"
  by (simp_all add: net_world_def sim_session.defs sim_world_def)

lemmas pump_eval = pump_def pump_loop.simps pump_out_def pump_read_def pump_in_def try_bytes_available_def
  count_result_def try_read_some_def try_read_some_timeout_def sim_read_def overlay_def mem_prefix_def is_eof_def
  try_write_all_def write_all_loop.simps try_write_some_def try_send_eof_def channel_request_def rc_result_def
  try_close_def sim_channel_def net_take_def Let_def

lemma pump_net_run:
  "\<exists>w'. pump (sim_net_api None) sim_channel 5 8 0 no_stats (net_world [1, 2, 3, 4] [9, 8])
     = Some (no_stats\<lparr>fs_bytes_out := 4, fs_bytes_in := 2\<rparr>, sim_channel\<lparr>ch_open := False\<rparr>, w')
     \<and> net_out w' = [1, 2, 3, 4] \<and> sim_out w' = [9, 8]"
  by (simp add: pump_eval no_stats_def)


section \<open>Short sends\<close>

text \<open>
  The pump does not look at how much a send took: when the socket takes only part of a chunk the
  rest is lost to the client, although it is counted as forwarded and both sides end regularly.
\<close>
theorem short_send_loses_bytes:
  "\<exists>w' stats ch. pump (sim_net_api (Some 2)) sim_channel 5 8 0 no_stats (net_world [1, 2, 3, 4] []) = Some (stats, ch, w')
     \<and> sim_taken w' = [1, 2, 3, 4] \<and> net_out w' = [1, 2, 4] \<and> fs_bytes_out stats = 4"
  by (simp add: pump_eval no_stats_def)

section \<open>The pump ends\<close>

text \<open>
  Both sides come to an end: reading from a channel that has not ended, or asking it in vain, brings
  its end closer (\<open>cleft\<close>), and so does receiving from the client or waiting for it in vain (\<open>sleft\<close>);
  nothing brings an end further away, and an ended channel stays ended.
\<close>

definition ending ::
    "('w, 'z) fwd_api_scheme \<Rightarrow> handle \<Rightarrow> int \<Rightarrow> ('w \<Rightarrow> nat) \<Rightarrow> ('w \<Rightarrow> nat) \<Rightarrow> bool" where
  "ending api n fd cleft sleft \<longleftrightarrow>
     (\<forall>t w rc w'. ssh_channel_poll_timeout api n t False w = (rc, w') \<longrightarrow>
        (rc > 0 \<or> ssh_channel_is_eof api n w' \<or> cleft w' < cleft w) \<and> cleft w' \<le> cleft w \<and> sleft w' \<le> sleft w)
     \<and> (\<forall>count t w rc new w'. ssh_channel_read_timeout api n count False t w = (rc, new, w') \<longrightarrow>
        (count = 0 \<or> ssh_channel_is_eof api n w' \<or> cleft w' < cleft w) \<and> cleft w' \<le> cleft w \<and> sleft w' \<le> sleft w)
     \<and> (\<forall>d w k w'. sys_send api fd d w = (k, w') \<longrightarrow>
        (ssh_channel_is_eof api n w \<longrightarrow> ssh_channel_is_eof api n w') \<and> cleft w' \<le> cleft w \<and> sleft w' \<le> sleft w)
     \<and> (\<forall>w. cleft (sys_shutdown_wr api fd w) \<le> cleft w \<and> sleft (sys_shutdown_wr api fd w) \<le> sleft w)
     \<and> (\<forall>t w ready w'. sys_poll_in api fd t w = (ready, w') \<longrightarrow>
        (ready \<or> sleft w' < sleft w) \<and> cleft w' \<le> cleft w \<and> sleft w' \<le> sleft w)
     \<and> (\<forall>len w k new w'. sys_recv api fd len w = (k, new, w') \<longrightarrow>
        (k \<le> 0 \<or> sleft w' < sleft w) \<and> cleft w' \<le> cleft w \<and> sleft w' \<le> sleft w)
     \<and> (\<forall>d w rc w'. ssh_channel_write api n d w = (rc, w') \<longrightarrow> cleft w' \<le> cleft w \<and> sleft w' \<le> sleft w)
     \<and> (\<forall>w rc w'. ssh_channel_send_eof api n w = (rc, w') \<longrightarrow> cleft w' \<le> cleft w \<and> sleft w' \<le> sleft w)"

lemma endingD:
  assumes "ending api n fd cleft sleft"
  shows "ssh_channel_poll_timeout api n t False w = (rc, w') \<Longrightarrow>
        (rc > 0 \<or> ssh_channel_is_eof api n w' \<or> cleft w' < cleft w) \<and> cleft w' \<le> cleft w \<and> sleft w' \<le> sleft w"
    and "ssh_channel_read_timeout api n count False t w = (rc, new, w') \<Longrightarrow>
        (count = 0 \<or> ssh_channel_is_eof api n w' \<or> cleft w' < cleft w) \<and> cleft w' \<le> cleft w \<and> sleft w' \<le> sleft w"
    and "sys_send api fd d w = (k, w') \<Longrightarrow>
        (ssh_channel_is_eof api n w \<longrightarrow> ssh_channel_is_eof api n w') \<and> cleft w' \<le> cleft w \<and> sleft w' \<le> sleft w"
    and "cleft (sys_shutdown_wr api fd w) \<le> cleft w \<and> sleft (sys_shutdown_wr api fd w) \<le> sleft w"
    and "sys_poll_in api fd t w = (ready, w') \<Longrightarrow>
        (ready \<or> sleft w' < sleft w) \<and> cleft w' \<le> cleft w \<and> sleft w' \<le> sleft w"
    and "sys_recv api fd len w = (k, new, w') \<Longrightarrow>
        (k \<le> 0 \<or> sleft w' < sleft w) \<and> cleft w' \<le> cleft w \<and> sleft w' \<le> sleft w"
    and "ssh_channel_write api n d w = (rc, w') \<Longrightarrow> cleft w' \<le> cleft w \<and> sleft w' \<le> sleft w"
    and "ssh_channel_send_eof api n w = (rc', w') \<Longrightarrow> cleft w' \<le> cleft w \<and> sleft w' \<le> sleft w"
  using assms unfolding ending_def by metis+

lemma write_all_ending:
  assumes "ending api n fd cleft sleft" "ch_native ch = Some n"
    "write_all_loop (try_write_some api ch) short d w = (r, w')"
  shows "cleft w' \<le> cleft w \<and> sleft w' \<le> sleft w"
  using assms(3)
proof (induction "length d" arbitrary: d w rule: less_induct)
  case less
  obtain rc w1 where wr: "ssh_channel_write api n (take (to_uint32 (length d)) d) w = (rc, w1)" by fastforce
  note v = endingD(7) [OF assms(1) wr]
  consider "w' = w" | "w' = w1" | "d \<noteq> []" "rc > 0" "write_all_loop (try_write_some api ch) short (drop (nat rc) d) w1 = (r, w')"
    using less.prems wr assms(2)
    by (auto simp: write_all_loop.simps [of _ _ d] try_write_some_def count_result_def split: if_splits)
  then show ?case
  proof cases
    case 3
    then have "length (drop (nat rc) d) < length d" by simp
    from less.hyps [OF this 3(3)] show ?thesis using v by linarith
  qed (use v in auto)
qed

lemma pump_read_ending:
  assumes "ending api n fd cleft sleft" "ch_native ch = Some n" "0 < length (ps_buf ps)" "length (ps_buf ps) < 4294967296"
    "pump_read api ch fd ps w = (p, ps', w')"
  shows "(is_eof api ch w' \<or> cleft w' < cleft w) \<and> cleft w' \<le> cleft w \<and> sleft w' \<le> sleft w
     \<and> ps_client_eof ps' = ps_client_eof ps \<and> ps_channel_eof ps' = ps_channel_eof ps
     \<and> length (ps_buf ps') = length (ps_buf ps)"
proof -
  obtain rc w1 where po: "ssh_channel_poll_timeout api n 0 False w = (rc, w1)" by fastforce
  let ?m = "to_uint32 (length (take (min (length (ps_buf ps)) (nat rc)) (ps_buf ps)))"
  obtain k part w2 where rd: "ssh_channel_read_timeout api n ?m False (-1) w1 = (k, part, w2)" by (metis prod_cases3)
  note e1 = endingD(1) [OF assms(1) po] and e2 = endingD(2) [OF assms(1) rd]
  have m: "?m > 0" if "rc > 0" using that assms(3,4) by (simp add: min_def)
  have same: "ps_client_eof ps' = ps_client_eof ps" "ps_channel_eof ps' = ps_channel_eof ps"
    "length (ps_buf ps') = length (ps_buf ps)"
    using assms(2,5) po rd
    by (auto simp: pump_read_def try_bytes_available_def count_result_def try_read_some_def try_read_some_timeout_def
        Let_def split: if_splits)
  consider "rc \<le> 0" "w' = w1" | "rc > 0" "w' = w2" | d where "rc > 0" "w' = snd (sys_send api fd d w2)"
    using assms(2,5) po rd
    by (auto simp: pump_read_def try_bytes_available_def count_result_def try_read_some_def try_read_some_timeout_def
        Let_def split: if_splits)
  then show ?thesis
  proof cases
    case 1
    then show ?thesis using e1 same assms(2) by (auto simp: is_eof_def)
  next
    case 2
    then show ?thesis using e1 e2 m same assms(2) by (auto simp: is_eof_def)
  next
    case (3 d)
    obtain k' w3 where "sys_send api fd d w2 = (k', w3)" by fastforce
    with 3 endingD(3) [OF assms(1) this] show ?thesis using e1 e2 m same assms(2) by (auto simp: is_eof_def)
  qed
qed

text \<open>The distance of a pump from its end.\<close>

definition pump_rank :: "('w \<Rightarrow> nat) \<Rightarrow> ('w \<Rightarrow> nat) \<Rightarrow> pump_state \<Rightarrow> 'w \<Rightarrow> nat" where
  "pump_rank cleft sleft ps w =
     (if ps_channel_eof ps then 0 else Suc (cleft w)) + (if ps_client_eof ps then 0 else Suc (sleft w))"

lemma pump_out_rank:
  assumes "ending api n fd cleft sleft" "ch_native ch = Some n" "0 < length (ps_buf ps)" "length (ps_buf ps) < 4294967296"
    "pump_out api ch fd ps w = (p, ps', w')"
  shows "sleft w' \<le> sleft w \<and> ps_client_eof ps' = ps_client_eof ps \<and> length (ps_buf ps') = length (ps_buf ps)
     \<and> (if ps_channel_eof ps then ps_channel_eof ps' \<and> w' = w
        else ps_channel_eof ps' \<or> cleft w' < cleft w)"
proof (cases "ps_channel_eof ps")
  case False
  obtain q ps1 w1 where r: "pump_read api ch fd ps w = (q, ps1, w1)" by (metis prod_cases3)
  show ?thesis
    using pump_read_ending [OF assms(1-4) r] assms(5) False r endingD(4) [OF assms(1), of w1]
    by (auto simp: pump_out_def split: if_splits)
qed (use assms(5) in \<open>auto simp: pump_out_def\<close>)

lemma pump_in_rank:
  assumes "ending api n fd cleft sleft" "ch_native ch = Some n" "pump_in api ch fd q ps w = (ps', w')"
  shows "cleft w' \<le> cleft w \<and> ps_channel_eof ps' = ps_channel_eof ps \<and> length (ps_buf ps') = length (ps_buf ps)
     \<and> (if ps_client_eof ps then ps_client_eof ps' else ps_client_eof ps' \<or> sleft w' < sleft w)"
proof (cases "ps_client_eof ps")
  case False
  obtain ready w1 where po: "sys_poll_in api fd (if q then 0 else 50) w = (ready, w1)" by fastforce
  obtain k new w2 where rc: "sys_recv api fd (length (ps_buf ps)) w1 = (k, new, w2)" by (metis prod_cases3)
  note e1 = endingD(5) [OF assms(1) po] and e2 = endingD(6) [OF assms(1) rc]
  have e3: "cleft (snd (try_write_all api ch d w2)) \<le> cleft w2 \<and> sleft (snd (try_write_all api ch d w2)) \<le> sleft w2" for d
    using write_all_ending [OF assms(1,2)] unfolding try_write_all_def by (metis prod.collapse)
  have e4: "cleft (snd (try_send_eof api ch w2)) \<le> cleft w2"
    using assms(2) endingD(8) [OF assms(1)]
    by (auto simp: try_send_eof_def channel_request_def rc_result_def split: prod.splits)
  consider "(ps', w') = (ps, w1)" "\<not> ready"
    | d where "k > 0" "w' = snd (try_write_all api ch d w2)" "ps_client_eof ps' = ps_client_eof ps"
        "ps_channel_eof ps' = ps_channel_eof ps" "length (ps_buf ps') = length (ps_buf ps)"
    | "w' = snd (try_send_eof api ch w2)" "ps_client_eof ps'" "ps_channel_eof ps' = ps_channel_eof ps"
        "length (ps_buf ps') = length (ps_buf ps)"
    using assms(3) False po rc by (auto simp: pump_in_def Let_def split: if_splits)
  then show ?thesis
  proof cases
    case (2 d)
    then show ?thesis using e1 e2 e3 [of d] False by auto
  qed (use e1 e2 e4 False in auto)
qed (use assms(3) in \<open>auto simp: pump_in_def\<close>)

text \<open>
  C39: A pump ends when both of its sides do: if the channel reaches its end of file after finitely
  many polls and the client closes after finitely many waits and receptions, the pump returns, also
  when nobody stops it and whatever the writes in between do.
\<close>
theorem pump_ends:
  assumes "ending api n fd cleft sleft" and "ch_native ch = Some n" and "0 < buffer_size" and "buffer_size < 4294967296"
  shows "\<exists>stats' ch' w'. pump api ch fd buffer_size stop stats w = Some (stats', ch', w')"
proof -
  have "\<exists>r. pump_loop api ch fd stop ps w = Some r" if "length (ps_buf ps) = buffer_size" for ps w
    using that
  proof (induction "pump_rank cleft sleft ps w" arbitrary: ps w rule: less_induct)
    case less
    obtain q ps1 w1 where o: "pump_out api ch fd ps w = (q, ps1, w1)" by (metis prod_cases3)
    obtain ps2 w2 where i: "pump_in api ch fd q ps1 w1 = (ps2, w2)" by fastforce
    have b: "0 < length (ps_buf ps)" "length (ps_buf ps) < 4294967296" using less.prems assms(3,4) by simp_all
    note ro = pump_out_rank [OF assms(1,2) b o] and ri = pump_in_rank [OF assms(1,2) i]
    show ?case
    proof (cases "flag_load api stop w \<or> ps_client_eof ps \<and> ps_channel_eof ps")
      case False
      then have "pump_rank cleft sleft ps2 w2 < pump_rank cleft sleft ps w"
        using ro ri by (auto simp: pump_rank_def split: if_splits)
      from less.hyps [OF this] show ?thesis using False o i ro ri less.prems by (simp add: pump_loop.simps [of api ch fd stop ps])
    qed (auto simp: pump_loop.simps)
  qed
  then show ?thesis by (fastforce simp: pump_def split: option.splits prod.splits)
qed

definition eof_api :: "sim_net fwd_api" where
  "eof_api = (sim_net_api None)\<lparr>ssh_channel_is_eof := \<lambda>_ w. sim_in w = []\<rparr>"

theorem pump_ends_witness:
  "\<exists>stats' ch' w'. pump eof_api sim_channel 5 4096 1 no_stats (net_world [1, 2, 3, 4] [9, 8]) = Some (stats', ch', w')"
  by (rule pump_ends [where n = 7 and cleft = "length \<circ> sim_in" and sleft = "length \<circ> net_in"])
    (auto simp: ending_def eof_api_def sim_read_def Let_def sim_channel_def)

end
