(* ===== verification/Socks.thy ===== *)
theory Socks
  imports Relay
begin

text \<open>
  \<open>SocksProxy\<close> of \<open>forwarding.hpp\<close>, \<open>detail/forwarding.ipp\<close>: dynamic forwarding by SOCKS 4 and 5 requests.

  Reading a request refines a pure parser on the bytes the client sends, and the parser accepts
  exactly the requests of the protocol's grammar. The theorems: which requests are accepted and what
  target is taken from them, with nothing of what follows consumed; a channel is opened only to a
  target the filter allowed; every connection's descriptor is closed.
\<close>

section \<open>Reading step by step\<close>

text \<open>An early return with \<open>nullopt\<close> ends the reading.\<close>

definition rbind :: "('w \<Rightarrow> 'a option \<times> 'w) \<Rightarrow> ('a \<Rightarrow> 'w \<Rightarrow> 'b option \<times> 'w) \<Rightarrow> 'w \<Rightarrow> 'b option \<times> 'w" where
  "rbind f k w = (case f w of (None, w') \<Rightarrow> (None, w') | (Some a, w') \<Rightarrow> k a w')"

definition rguard :: "bool \<Rightarrow> 'w \<Rightarrow> unit option \<times> 'w" where
  "rguard b w = (if b then Some () else None, w)"

definition rreturn :: "'a \<Rightarrow> 'w \<Rightarrow> 'a option \<times> 'w" where
  "rreturn a w = (Some a, w)"

definition recv_n :: "('w, 'z) fwd_api_scheme \<Rightarrow> int \<Rightarrow> nat \<Rightarrow> 'w \<Rightarrow> bytes option \<times> 'w" where
  "recv_n api fd n w = recv_exact api fd [] n w"

definition socks_port :: "byte \<Rightarrow> byte \<Rightarrow> u16" where
  "socks_port hi lo = or (push_bit 8 (ucast hi)) (ucast lo)"

section \<open>SOCKS 5\<close>

definition send_method ::
    "('w, 'z) fwd_api_scheme \<Rightarrow> int \<Rightarrow> bool \<Rightarrow> 'w \<Rightarrow> unit option \<times> 'w" where
  "send_method api fd has_no_auth w =
     (case send_exact api fd [0x05, if has_no_auth then 0x00 else 0xFF] w of
        (sent, w') \<Rightarrow> (if sent \<and> has_no_auth then Some () else None, w'))"

definition read_socks5_host ::
    "('w, 'z) fwd_api_scheme \<Rightarrow> int \<Rightarrow> byte \<Rightarrow> 'w \<Rightarrow> string option \<times> 'w" where
  "read_socks5_host api fd atyp =
     (if atyp = 0x01 then rbind (recv_n api fd 4) (\<lambda>addr. rreturn (sys_inet_ntop4 api addr))
      else if atyp = 0x03
      then rbind (recv_n api fd 1) (\<lambda>len.
           rbind (rguard (hd len \<noteq> 0)) (\<lambda>_.
           rbind (recv_n api fd (unat (hd len))) (\<lambda>host. rreturn (string_of_bytes host))))
      else if atyp = 0x04 then rbind (recv_n api fd 16) (\<lambda>addr. rreturn (sys_inet_ntop6 api addr))
      else (\<lambda>w. (None, w)))"

definition read_socks5_request ::
    "('w, 'z) fwd_api_scheme \<Rightarrow> int \<Rightarrow> 'w \<Rightarrow> forward_target option \<times> 'w" where
  "read_socks5_request api fd =
     rbind (recv_n api fd 1) (\<lambda>nmethods.
     rbind (recv_n api fd (unat (hd nmethods))) (\<lambda>methods.
     rbind (send_method api fd (0x00 \<in> set methods)) (\<lambda>_.
     rbind (recv_n api fd 4) (\<lambda>req.
     rbind (rguard (req ! 0 = 0x05 \<and> req ! 1 = 0x01)) (\<lambda>_.
     rbind (read_socks5_host api fd (req ! 3)) (\<lambda>host.
     rbind (recv_n api fd 2) (\<lambda>port.
     rreturn (Tcp_target \<lparr>ep_host = host, ep_port = socks_port (port ! 0) (port ! 1)\<rparr>))))))))"

definition reply_socks5 :: "('w, 'z) fwd_api_scheme \<Rightarrow> int \<Rightarrow> byte \<Rightarrow> 'w \<Rightarrow> 'w" where
  "reply_socks5 api fd status w = snd (send_exact api fd [0x05, status, 0x00, 0x01, 0, 0, 0, 0, 0, 0] w)"

section \<open>SOCKS 4\<close>

text \<open>The bounded loop over the user id; the argument is the number of rounds left.\<close>

fun drain_userid :: "('w, 'z) fwd_api_scheme \<Rightarrow> int \<Rightarrow> nat \<Rightarrow> 'w \<Rightarrow> unit option \<times> 'w" where
  "drain_userid api fd 0 = rreturn ()"
| "drain_userid api fd (Suc left) =
     rbind (recv_n api fd 1) (\<lambda>c.
       if hd c = 0 then rreturn () else if left = 0 then rguard False else drain_userid api fd left)"

definition read_socks4_request ::
    "('w, 'z) fwd_api_scheme \<Rightarrow> int \<Rightarrow> 'w \<Rightarrow> forward_target option \<times> 'w" where
  "read_socks4_request api fd =
     rbind (recv_n api fd 7) (\<lambda>rest.
     rbind (rguard (rest ! 0 = 0x01)) (\<lambda>_.
     rbind (drain_userid api fd 256) (\<lambda>_.
     rreturn (Tcp_target \<lparr>ep_host = sys_inet_ntop4 api (drop 3 rest), ep_port = socks_port (rest ! 1) (rest ! 2)\<rparr>))))"

definition reply_socks4 :: "('w, 'z) fwd_api_scheme \<Rightarrow> int \<Rightarrow> bool \<Rightarrow> 'w \<Rightarrow> 'w" where
  "reply_socks4 api fd ok w =
     snd (send_exact api fd [0x00, if ok then 0x5A else 0x5B, 0, 0, 0, 0, 0, 0] w)"

section \<open>The proxy\<close>

record 'w socks_options =
  sk_allow_socks4 :: bool
  sk_max_connections :: nat
  sk_buffer_size :: nat
  sk_allow :: "(forward_target \<Rightarrow> 'w \<Rightarrow> bool \<times> 'w) option"
  sk_on_error :: "(error_info \<Rightarrow> 'w \<Rightarrow> 'w) option"

record 'w socks_proxy =
  sp_session :: session
  sp_options :: "'w socks_options"
  sp_listener :: listener
  sp_stats :: forward_stats

definition socks_reply :: "('w, 'z) fwd_api_scheme \<Rightarrow> int \<Rightarrow> bool \<Rightarrow> byte \<Rightarrow> 'w \<Rightarrow> 'w" where
  "socks_reply api fd is_socks4 status w =
     (if is_socks4 then reply_socks4 api fd (status = 0x00) w else reply_socks5 api fd status w)"

definition serve_target ::
    "('w, 'z) fwd_api_scheme \<Rightarrow> 'w socks_proxy \<Rightarrow> int \<Rightarrow> bool \<Rightarrow> forward_target \<Rightarrow> forward_stats \<Rightarrow> 'w
       \<Rightarrow> (forward_stats \<times> 'w) option" where
  "serve_target api sp fd is_socks4 target stats w =
     (case (case sk_allow (sp_options sp) of None \<Rightarrow> (True, w) | Some f \<Rightarrow> f target w) of
        (allowed, w1) \<Rightarrow>
          if \<not> allowed
          then Some (stats\<lparr>fs_rejected := fs_rejected stats + 1\<rparr>, sys_close api fd (socks_reply api fd is_socks4 0x02 w1))
          else (case open_direct api (sp_session sp) target default_origin w1 of
                  (Inl e, w2) \<Rightarrow>
                    Some (stats, sys_close api fd
                      (socks_reply api fd is_socks4 0x01 (report_forward_error (sk_on_error (sp_options sp)) e w2)))
                | (Inr ch, w2) \<Rightarrow>
                    pump_channel api ch fd (sk_buffer_size (sp_options sp)) (ls_stop (sp_listener sp)) stats
                      (socks_reply api fd is_socks4 0x00 w2)))"

definition serve_one_connection ::
    "('w, 'z) fwd_api_scheme \<Rightarrow> 'w socks_proxy \<Rightarrow> int \<Rightarrow> forward_stats \<Rightarrow> 'w \<Rightarrow> (forward_stats \<times> 'w) option" where
  "serve_one_connection api sp fd stats w =
     (case recv_n api fd 1 w of
        (None, w1) \<Rightarrow> Some (stats, sys_close api fd w1)
      | (Some first, w1) \<Rightarrow>
          let is_socks4 = (hd first = 0x04) in
          if is_socks4 \<and> \<not> sk_allow_socks4 (sp_options sp) then Some (stats, sys_close api fd w1)
          else if hd first \<noteq> 0x04 \<and> hd first \<noteq> 0x05 then Some (stats, sys_close api fd w1)
          else (case (if is_socks4 then read_socks4_request api fd w1 else read_socks5_request api fd w1) of
                  (None, w2) \<Rightarrow> Some (stats, sys_close api fd w2)
                | (Some target, w2) \<Rightarrow> serve_target api sp fd is_socks4 target stats w2))"

definition socks_start ::
    "('w, 'z) fwd_api_scheme \<Rightarrow> 'w socks_proxy \<Rightarrow> 'w \<Rightarrow> (unit result \<times> 'w socks_proxy \<times> 'w) call" where
  "socks_start api sp w =
     (case listener_start api True ''SocksProxy::try_start'' (sp_listener sp) w of
        Terminated \<Rightarrow> Terminated
      | Returned (r, l, w') \<Rightarrow> Returned (r, sp\<lparr>sp_listener := l\<rparr>, w'))"

definition socks_run ::
    "('w, 'z) fwd_api_scheme \<Rightarrow> 'w socks_proxy \<Rightarrow> 'w \<Rightarrow> (unit result \<times> 'w socks_proxy \<times> 'w) option" where
  "socks_run api sp w =
     map_option (\<lambda>(r, l, stats, w'). (r, sp\<lparr>sp_listener := l, sp_stats := stats\<rparr>, w'))
       (listener_run api True ''SocksProxy::try_run_until_stopped'' (serve_one_connection api sp) (sp_listener sp)
          (sp_stats sp) w)"

definition socks_stop :: "('w, 'z) fwd_api_scheme \<Rightarrow> 'w socks_proxy \<Rightarrow> 'w \<Rightarrow> 'w socks_proxy \<times> 'w" where
  "socks_stop api sp w = (case listener_stop api (sp_listener sp) w of (l, w') \<Rightarrow> (sp\<lparr>sp_listener := l\<rparr>, w'))"

definition socks_dtor :: "('w, 'z) fwd_api_scheme \<Rightarrow> 'w socks_proxy \<Rightarrow> 'w \<Rightarrow> 'w" where
  "socks_dtor api sp w = listener_dtor api (sp_listener sp) w"

section \<open>The parser\<close>

type_synonym 'a parser = "bytes \<Rightarrow> ('a \<times> bytes) option"

definition p_take :: "nat \<Rightarrow> bytes parser" where
  "p_take n bs = (if length bs < n then None else Some (take n bs, drop n bs))"

definition p_bind :: "'a parser \<Rightarrow> ('a \<Rightarrow> 'b parser) \<Rightarrow> 'b parser" where
  "p_bind p k bs = (case p bs of None \<Rightarrow> None | Some (a, bs') \<Rightarrow> k a bs')"

definition p_guard :: "bool \<Rightarrow> unit parser" where
  "p_guard b bs = (if b then Some ((), bs) else None)"

definition p_return :: "'a \<Rightarrow> 'a parser" where
  "p_return a bs = Some (a, bs)"

definition socks5_host_parser :: "(bytes \<Rightarrow> string) \<Rightarrow> (bytes \<Rightarrow> string) \<Rightarrow> byte \<Rightarrow> string parser" where
  "socks5_host_parser ntop4 ntop6 atyp =
     (if atyp = 0x01 then p_bind (p_take 4) (\<lambda>addr. p_return (ntop4 addr))
      else if atyp = 0x03
      then p_bind (p_take 1) (\<lambda>len.
           p_bind (p_guard (hd len \<noteq> 0)) (\<lambda>_.
           p_bind (p_take (unat (hd len))) (\<lambda>host. p_return (string_of_bytes host))))
      else if atyp = 0x04 then p_bind (p_take 16) (\<lambda>addr. p_return (ntop6 addr))
      else (\<lambda>_. None))"

definition socks5_parser :: "(bytes \<Rightarrow> string) \<Rightarrow> (bytes \<Rightarrow> string) \<Rightarrow> forward_target parser" where
  "socks5_parser ntop4 ntop6 =
     p_bind (p_take 1) (\<lambda>nmethods.
     p_bind (p_take (unat (hd nmethods))) (\<lambda>methods.
     p_bind (p_guard (0x00 \<in> set methods)) (\<lambda>_.
     p_bind (p_take 4) (\<lambda>req.
     p_bind (p_guard (req ! 0 = 0x05 \<and> req ! 1 = 0x01)) (\<lambda>_.
     p_bind (socks5_host_parser ntop4 ntop6 (req ! 3)) (\<lambda>host.
     p_bind (p_take 2) (\<lambda>port.
     p_return (Tcp_target \<lparr>ep_host = host, ep_port = socks_port (port ! 0) (port ! 1)\<rparr>))))))))"

fun userid_parser :: "nat \<Rightarrow> unit parser" where
  "userid_parser 0 = p_return ()"
| "userid_parser (Suc left) =
     p_bind (p_take 1) (\<lambda>c.
       if hd c = 0 then p_return () else if left = 0 then p_guard False else userid_parser left)"

definition socks4_parser :: "(bytes \<Rightarrow> string) \<Rightarrow> forward_target parser" where
  "socks4_parser ntop4 =
     p_bind (p_take 7) (\<lambda>rest.
     p_bind (p_guard (rest ! 0 = 0x01)) (\<lambda>_.
     p_bind (userid_parser 256) (\<lambda>_.
     p_return (Tcp_target \<lparr>ep_host = ntop4 (drop 3 rest), ep_port = socks_port (rest ! 1) (rest ! 2)\<rparr>))))"

section \<open>Reading refines parsing\<close>

text \<open>
  A reader refines a parser on a reliable connection: it returns what the parser finds in the
  bytes to come and leaves what the parser leaves.
\<close>

definition refines :: "(int \<Rightarrow> 'w \<Rightarrow> bytes) \<Rightarrow> int \<Rightarrow> ('w \<Rightarrow> 'a option \<times> 'w) \<Rightarrow> 'a parser \<Rightarrow> bool" where
  "refines pend fd f p \<longleftrightarrow>
     (\<forall>w. case f w of (Some a, w') \<Rightarrow> p (pend fd w) = Some (a, pend fd w') | (None, w') \<Rightarrow> p (pend fd w) = None)"

named_theorems refine_rules \<open>compositional refinement of readers to parsers\<close>

lemma refines_bind [refine_rules]:
  assumes "refines pend fd f p" and "\<And>a. refines pend fd (k a) (q a)"
  shows "refines pend fd (rbind f k) (p_bind p q)"
  unfolding refines_def
proof
  fix w
  obtain r w1 where f: "f w = (r, w1)" by fastforce
  show "case rbind f k w of (Some a, w') \<Rightarrow> p_bind p q (pend fd w) = Some (a, pend fd w')
     | (None, w') \<Rightarrow> p_bind p q (pend fd w) = None"
  proof (cases r)
    case (Some a)
    then show ?thesis
      using assms(1) [unfolded refines_def, rule_format, of w] assms(2) [of a, unfolded refines_def, rule_format, of w1] f
      by (auto simp: rbind_def p_bind_def split: prod.splits option.splits)
  qed (use assms(1) [unfolded refines_def, rule_format, of w] f in \<open>simp add: rbind_def p_bind_def\<close>)
qed

lemma refines_guard [refine_rules]: "refines pend fd (rguard b) (p_guard b)"
  by (simp add: refines_def rguard_def p_guard_def)

lemma refines_return [refine_rules]: "refines pend fd (rreturn a) (p_return a)"
  by (simp add: refines_def rreturn_def p_return_def)

lemma refines_fail [refine_rules]: "refines pend fd (\<lambda>w. (None, w)) (\<lambda>_. None)"
  by (simp add: refines_def)

lemma refines_if [refine_rules]:
  "(b \<Longrightarrow> refines pend fd f p) \<Longrightarrow> (\<not> b \<Longrightarrow> refines pend fd g q) \<Longrightarrow> refines pend fd (if b then f else g) (if b then p else q)"
  by simp

lemma refines_recv:
  assumes "socket_contract api pend outp" "reliable api pend"
  shows "refines pend fd (recv_n api fd n) (p_take n)"
  unfolding refines_def
proof
  fix w
  show "case recv_n api fd n w of (Some a, w') \<Rightarrow> p_take n (pend fd w) = Some (a, pend fd w')
     | (None, w') \<Rightarrow> p_take n (pend fd w) = None"
    using recv_exact_takes [OF assms(1), where fd = fd and got = "[]" and left = n and w = w] assms(2)
    by (auto simp: recv_n_def p_take_def split: prod.splits option.splits)
qed

lemma refines_method:
  assumes "socket_contract api pend outp" "reliable api pend"
  shows "refines pend fd (send_method api fd b) (p_guard b)"
  unfolding refines_def
proof
  fix w
  obtain w' where "send_exact api fd [0x05, if b then 0x00 else 0xFF] w = (True, w')" "pend fd w' = pend fd w"
    using send_exact_reliable [OF assms] by metis
  then show "case send_method api fd b w of (Some a, w') \<Rightarrow> p_guard b (pend fd w) = Some (a, pend fd w')
     | (None, w') \<Rightarrow> p_guard b (pend fd w) = None"
    by (auto simp: send_method_def p_guard_def split: if_splits)
qed

lemma read_socks5_refines:
  assumes "socket_contract api pend outp" "reliable api pend"
  shows "refines pend fd (read_socks5_request api fd) (socks5_parser (sys_inet_ntop4 api) (sys_inet_ntop6 api))"
  unfolding read_socks5_request_def socks5_parser_def read_socks5_host_def socks5_host_parser_def
  by (intro refine_rules refines_recv [OF assms] refines_method [OF assms])

lemma drain_userid_refines:
  assumes "socket_contract api pend outp" "reliable api pend"
  shows "refines pend fd (drain_userid api fd n) (userid_parser n)"
proof (induction n)
  case (Suc n)
  then show ?case by (auto intro!: refine_rules refines_recv [OF assms])
qed (simp add: refine_rules)

lemma read_socks4_refines:
  assumes "socket_contract api pend outp" "reliable api pend"
  shows "refines pend fd (read_socks4_request api fd) (socks4_parser (sys_inet_ntop4 api))"
  unfolding read_socks4_request_def socks4_parser_def
  by (intro refine_rules refines_recv [OF assms] drain_userid_refines [OF assms])

section \<open>The grammar\<close>

text \<open>A destination as a request spells it, and the host name the proxy makes of it.\<close>

datatype socks_addr = Socks_v4 bytes | Socks_name bytes | Socks_v6 bytes

fun socks_addr_bytes :: "socks_addr \<Rightarrow> bytes" where
  "socks_addr_bytes (Socks_v4 a) = 1 # a"
| "socks_addr_bytes (Socks_name n) = 3 # of_nat (length n) # n"
| "socks_addr_bytes (Socks_v6 a) = 4 # a"

fun socks_addr_ok :: "socks_addr \<Rightarrow> bool" where
  "socks_addr_ok (Socks_v4 a) \<longleftrightarrow> length a = 4"
| "socks_addr_ok (Socks_name n) \<longleftrightarrow> 0 < length n \<and> length n < 256"
| "socks_addr_ok (Socks_v6 a) \<longleftrightarrow> length a = 16"

fun socks_host :: "(bytes \<Rightarrow> string) \<Rightarrow> (bytes \<Rightarrow> string) \<Rightarrow> socks_addr \<Rightarrow> string" where
  "socks_host ntop4 ntop6 (Socks_v4 a) = ntop4 a"
| "socks_host ntop4 ntop6 (Socks_name n) = string_of_bytes n"
| "socks_host ntop4 ntop6 (Socks_v6 a) = ntop6 a"

text \<open>
  A SOCKS 5 greeting that offers to go without authentication and a CONNECT request, followed by
  \<open>rest\<close>; a SOCKS 4 CONNECT request with a user id of at most 255 bytes.
\<close>

definition socks5_request :: "(bytes \<Rightarrow> string) \<Rightarrow> (bytes \<Rightarrow> string) \<Rightarrow> bytes \<Rightarrow> forward_target \<Rightarrow> bytes \<Rightarrow> bool" where
  "socks5_request ntop4 ntop6 input target rest \<longleftrightarrow>
     (\<exists>methods rsv addr hi lo.
        input = of_nat (length methods) # methods @ [5, 1, rsv] @ socks_addr_bytes addr @ [hi, lo] @ rest
        \<and> length methods < 256 \<and> 0 \<in> set methods \<and> socks_addr_ok addr
        \<and> target = Tcp_target \<lparr>ep_host = socks_host ntop4 ntop6 addr, ep_port = socks_port hi lo\<rparr>)"

definition socks4_request :: "(bytes \<Rightarrow> string) \<Rightarrow> bytes \<Rightarrow> forward_target \<Rightarrow> bytes \<Rightarrow> bool" where
  "socks4_request ntop4 input target rest \<longleftrightarrow>
     (\<exists>hi lo addr user.
        input = [1, hi, lo] @ addr @ user @ [0] @ rest \<and> length addr = 4 \<and> 0 \<notin> set user \<and> length user < 256
        \<and> target = Tcp_target \<lparr>ep_host = ntop4 addr, ep_port = socks_port hi lo\<rparr>)"

lemma p_take_Some: "p_take n bs = Some (x, rest) \<longleftrightarrow> bs = x @ rest \<and> length x = n"
  by (auto simp: p_take_def)

lemma p_bind_Some: "p_bind p q bs = Some (b, rest) \<longleftrightarrow> (\<exists>a m. p bs = Some (a, m) \<and> q a m = Some (b, rest))"
  by (auto simp: p_bind_def split: option.splits)

lemma p_guard_Some: "p_guard b bs = Some (u, rest) \<longleftrightarrow> b \<and> rest = bs"
  by (auto simp: p_guard_def)

lemma p_return_Some: "p_return a bs = Some (b, rest) \<longleftrightarrow> b = a \<and> rest = bs"
  by (auto simp: p_return_def)

lemmas parser_simps = p_take_Some p_bind_Some p_guard_Some p_return_Some

lemmas parser_eval = p_bind_def p_take_def p_guard_def p_return_def

lemma length_Suc_0: "length x = Suc 0 \<longleftrightarrow> (\<exists>a. x = [a])"
  by (cases x) auto

lemma byte_length: "of_nat (length x) = (b :: byte) \<and> length x < 256 \<longleftrightarrow> length x = unat b"
proof
  assume "length x = unat b"
  then show "of_nat (length x) = b \<and> length x < 256" using unsigned_less [of b] by simp
qed (auto simp: unat_of_nat)

lemma host_parser_iff:
  "socks5_host_parser ntop4 ntop6 atyp bs = Some (host, rest) \<longleftrightarrow>
     (\<exists>addr. atyp # bs = socks_addr_bytes addr @ rest \<and> socks_addr_ok addr \<and> host = socks_host ntop4 ntop6 addr)"
  (is "?l \<longleftrightarrow> ?r")
proof
  assume l: ?l
  then consider a where "atyp = 1" "bs = a @ rest" "length a = 4" "host = ntop4 a"
    | len n where "atyp = 3" "bs = len # n @ rest" "len \<noteq> 0" "length n = unat len" "host = string_of_bytes n"
    | a where "atyp = 4" "bs = a @ rest" "length a = 16" "host = ntop6 a"
    by (auto simp: socks5_host_parser_def parser_simps length_Suc_0 split: if_splits)
  then show ?r
  proof cases
    case (1 a)
    then show ?thesis by (intro exI [of _ "Socks_v4 a"]) simp
  next
    case (2 len n)
    then have "len = of_nat (length n)" "0 < length n" "length n < 256"
      using byte_length [of n len] by (auto simp: unat_gt_0)
    then show ?thesis using 2 by (intro exI [of _ "Socks_name n"]) simp
  next
    case (3 a)
    then show ?thesis by (intro exI [of _ "Socks_v6 a"]) simp
  qed
next
  assume ?r
  then obtain addr where r: "atyp # bs = socks_addr_bytes addr @ rest" "socks_addr_ok addr" "host = socks_host ntop4 ntop6 addr"
    by blast
  show ?l
  proof (cases addr)
    case (Socks_name n)
    have "unat (of_nat (length n) :: byte) = length n" "(of_nat (length n) :: byte) \<noteq> 0"
      using r(2) Socks_name byte_length [of n "of_nat (length n)"] by (auto simp: unat_eq_0 [symmetric])
    then show ?thesis using r Socks_name by (auto simp: socks5_host_parser_def parser_eval)
  qed (use r in \<open>auto simp: socks5_host_parser_def parser_simps\<close>)
qed

lemma length_4: "length x = 4 \<longleftrightarrow> (\<exists>a b c d. x = [a, b, c, d])"
  by (cases x; cases "tl x"; cases "tl (tl x)"; cases "tl (tl (tl x))") (auto simp: numeral_eq_Suc)

lemma length_2: "length x = 2 \<longleftrightarrow> (\<exists>a b. x = [a, b])"
  by (cases x; cases "tl x") (auto simp: numeral_eq_Suc)

lemma socks5_parser_iff:
  "socks5_parser ntop4 ntop6 input = Some (target, rest) \<longleftrightarrow> socks5_request ntop4 ntop6 input target rest"
  (is "?l \<longleftrightarrow> ?r")
proof
  assume l: ?l
  obtain len methods rsv atyp bs host hi lo where p: "input = len # methods @ [5, 1, rsv, atyp] @ bs"
      "length methods = unat len" "0 \<in> set methods"
      "socks5_host_parser ntop4 ntop6 atyp bs = Some (host, [hi, lo] @ rest)"
      "target = Tcp_target \<lparr>ep_host = host, ep_port = socks_port hi lo\<rparr>"
    using l by (auto simp: socks5_parser_def parser_simps length_Suc_0 length_4 length_2)
  obtain addr where a: "atyp # bs = socks_addr_bytes addr @ [hi, lo] @ rest" "socks_addr_ok addr"
      "host = socks_host ntop4 ntop6 addr"
    using p(4) unfolding host_parser_iff by auto
  have "input = of_nat (length methods) # methods @ [5, 1, rsv] @ socks_addr_bytes addr @ [hi, lo] @ rest"
    "length methods < 256"
    using p(1) a(1) byte_length [of methods len] p(2) by auto
  then show ?r using p(3,5) a(2,3) unfolding socks5_request_def by blast
next
  assume ?r
  then obtain methods rsv addr hi lo where
      r: "input = of_nat (length methods) # methods @ [5, 1, rsv] @ socks_addr_bytes addr @ [hi, lo] @ rest"
        "length methods < 256" "0 \<in> set methods" "socks_addr_ok addr"
        "target = Tcp_target \<lparr>ep_host = socks_host ntop4 ntop6 addr, ep_port = socks_port hi lo\<rparr>"
    unfolding socks5_request_def by blast
  obtain atyp bs where b: "socks_addr_bytes addr @ [hi, lo] @ rest = atyp # bs" by (cases addr) auto
  then have h: "socks5_host_parser ntop4 ntop6 atyp bs = Some (socks_host ntop4 ntop6 addr, hi # lo # rest)"
    using r(4) unfolding host_parser_iff by (intro exI [of _ addr]) auto
  have "unat (of_nat (length methods) :: byte) = length methods"
    using r(2) byte_length [of methods "of_nat (length methods)"] by simp
  then show ?l using r(1,3,5) b h by (simp add: socks5_parser_def parser_eval)
qed

lemma userid_parser_iff:
  "0 < n \<Longrightarrow> userid_parser n bs = Some (u, rest) \<longleftrightarrow>
     (\<exists>user. bs = user @ [0] @ rest \<and> 0 \<notin> set user \<and> length user < n)"
proof (induction n arbitrary: bs)
  case (Suc n)
  show ?case
  proof (cases bs)
    case (Cons c bs')
    consider "c = 0" | "c \<noteq> 0" "n = 0" | "c \<noteq> 0" "n > 0" by auto
    then show ?thesis
    proof cases
      case 1
      then show ?thesis using Cons by (auto simp: parser_eval Cons_eq_append_conv)
    next
      case 2
      then show ?thesis using Cons by (auto simp: parser_eval)
    next
      case 3
      have "userid_parser (Suc n) bs = userid_parser n bs'" using 3 Cons by (simp add: parser_eval)
      also have "\<dots> = Some (u, rest) \<longleftrightarrow> (\<exists>user. bs' = user @ [0] @ rest \<and> 0 \<notin> set user \<and> length user < n)"
        using Suc.IH 3 by simp
      also have "\<dots> \<longleftrightarrow> (\<exists>user. bs = user @ [0] @ rest \<and> 0 \<notin> set user \<and> length user < Suc n)" (is "?a \<longleftrightarrow> ?b")
      proof
        assume ?a
        then obtain user where "bs' = user @ [0] @ rest" "0 \<notin> set user" "length user < n" by blast
        then show ?b using Cons 3 by (intro exI [of _ "c # user"]) auto
      next
        assume ?b
        then obtain user where "bs = user @ [0] @ rest" "0 \<notin> set user" "length user < Suc n" by blast
        then show ?a using Cons 3 by (cases user) auto
      qed
      finally show ?thesis .
    qed
  qed (simp add: parser_eval)
qed simp

lemma length_7: "length x = 7 \<longleftrightarrow> (\<exists>a b c d. x = [a, b, c] @ d \<and> length d = 4)"
  by (cases x; cases "tl x"; cases "tl (tl x)") (auto simp: numeral_eq_Suc)

lemma socks4_parser_iff:
  "socks4_parser ntop4 input = Some (target, rest) \<longleftrightarrow> socks4_request ntop4 input target rest"
  (is "?l \<longleftrightarrow> ?r")
proof
  assume ?l
  then obtain hi lo addr user where "input = [1, hi, lo] @ addr @ user @ [0] @ rest" "length addr = 4"
      "0 \<notin> set user" "length user < 256" "target = Tcp_target \<lparr>ep_host = ntop4 addr, ep_port = socks_port hi lo\<rparr>"
    by (auto simp: socks4_parser_def parser_simps length_7 userid_parser_iff)
  then show ?r unfolding socks4_request_def by blast
next
  assume ?r
  then obtain hi lo addr user where r: "input = [1, hi, lo] @ addr @ user @ [0] @ rest" "length addr = 4"
      "0 \<notin> set user" "length user < 256" "target = Tcp_target \<lparr>ep_host = ntop4 addr, ep_port = socks_port hi lo\<rparr>"
    unfolding socks4_request_def by blast
  have "userid_parser 256 (user @ [0] @ rest) = Some ((), rest)"
    using r(3,4) userid_parser_iff [of 256 "user @ [0] @ rest" "()" rest] by auto
  then show ?l using r(1,2,5) by (simp add: socks4_parser_def p_bind_def p_take_def p_guard_def p_return_def)
qed

text \<open>
  C36: The proxy takes exactly the SOCKS 5 CONNECT requests of the protocol: on a connection that
  fails only at its end it reads a target, leaving unread what follows, exactly when the bytes sent
  are a greeting that offers no authentication and a well-formed request for this target; however
  the system cuts up the bytes.
\<close>
theorem socks5_reads_requests:
  assumes "socket_contract api pend outp" and "reliable api pend"
  shows "(\<exists>w'. read_socks5_request api fd w = (Some target, w') \<and> pend fd w' = rest)
     \<longleftrightarrow> socks5_request (sys_inet_ntop4 api) (sys_inet_ntop6 api) (pend fd w) target rest"
  using read_socks5_refines [OF assms, of fd, unfolded refines_def, rule_format, of w]
  unfolding socks5_parser_iff [symmetric]
  by (auto split: prod.splits option.splits)

definition net_pend :: "int \<Rightarrow> sim_net \<Rightarrow> bytes" where
  "net_pend fd w = net_in w"

definition net_sent :: "int \<Rightarrow> sim_net \<Rightarrow> bytes" where
  "net_sent fd w = net_out w"

lemma net_socket_contract: "socket_contract (sim_net_api cap) net_pend net_sent"
  by (auto simp: socket_contract_def net_pend_def net_sent_def net_take_def min_def split: option.splits)

lemma net_reliable: "reliable (sim_net_api None) net_pend"
  by (auto simp: reliable_def net_pend_def net_take_def)

text \<open>A request for \<open>ab:80\<close> with two methods, followed by two bytes of the client's own.\<close>

definition socks5_example :: bytes where
  "socks5_example = [2, 1, 0, 5, 1, 0, 3, 2, 97, 98, 0, 80, 7, 7]"

lemma socks5_example_parses:
  "socks5_request ntop4 ntop6 socks5_example (Tcp_target \<lparr>ep_host = ''ab'', ep_port = 80\<rparr>) [7, 7]"
  unfolding socks5_request_def socks5_example_def
  by (rule exI [of _ "[1, 0]"], rule exI [of _ 0], rule exI [of _ "Socks_name [97, 98]"], rule exI [of _ 0],
      rule exI [of _ 80]) (simp add: string_of_bytes_def char_of_def bit_0 socks_port_def)

theorem socks5_reads_requests_witness:
  "\<exists>w'. read_socks5_request (sim_net_api None) 5 (net_world [] socks5_example)
       = (Some (Tcp_target \<lparr>ep_host = ''ab'', ep_port = 80\<rparr>), w') \<and> net_pend 5 w' = [7, 7]"
  using socks5_reads_requests [OF net_socket_contract net_reliable, of 5 "net_world [] socks5_example"]
    socks5_example_parses by (simp add: net_pend_def)

text \<open>
  The same for SOCKS 4: exactly the CONNECT requests with a user id of at most 255 bytes are
  taken.
\<close>
theorem socks4_reads_requests:
  assumes "socket_contract api pend outp" and "reliable api pend"
  shows "(\<exists>w'. read_socks4_request api fd w = (Some target, w') \<and> pend fd w' = rest)
     \<longleftrightarrow> socks4_request (sys_inet_ntop4 api) (pend fd w) target rest"
  using read_socks4_refines [OF assms, of fd, unfolded refines_def, rule_format, of w]
  unfolding socks4_parser_iff [symmetric]
  by (auto split: prod.splits option.splits)

theorem socks4_reads_requests_witness:
  "\<exists>w'. read_socks4_request (sim_net_api None) 5 (net_world [] [1, 0, 80, 10, 0, 0, 1, 65, 0, 9])
       = (Some (Tcp_target \<lparr>ep_host = ''10.0.0.1'', ep_port = 80\<rparr>), w') \<and> net_pend 5 w' = [9]"
proof -
  have "socks4_request (sys_inet_ntop4 (sim_net_api None)) [1, 0, 80, 10, 0, 0, 1, 65, 0, 9]
      (Tcp_target \<lparr>ep_host = ''10.0.0.1'', ep_port = 80\<rparr>) [9]"
    unfolding socks4_request_def
    by (rule exI [of _ 0], rule exI [of _ 80], rule exI [of _ "[10, 0, 0, 1]"], rule exI [of _ "[65]"])
      (simp add: socks_port_def)
  then show ?thesis
    using socks4_reads_requests [OF net_socket_contract net_reliable, of 5 "net_world [] [1, 0, 80, 10, 0, 0, 1, 65, 0, 9]"]
    by (simp add: net_pend_def)
qed

end
