(* ===== verification/Forward_Safety.thy ===== *)
theory Forward_Safety
  imports Socks
begin

text \<open>
  What the forwarders do with descriptors and channels, over one connection of each kind
  (\<open>detail/forwarding.ipp\<close>).

  The theorems: a SOCKS connection opens a channel only to a requested target that the filter
  allowed; the descriptor of every connection is closed when it has been served, by each forwarder
  on every path; restarting a stopped listener leaks its socket; a NUL in a SOCKS host name separates
  what the filter sees from what is connected to.
\<close>

section \<open>Following one quantity through a connection\<close>

text \<open>
  \<open>g\<close> is an observation of the world that only closing a descriptor (as \<open>cl\<close>) and opening a direct TCP
  channel (as \<open>opn\<close>) change.
\<close>

definition traced ::
    "('w, 'z) fwd_api_scheme \<Rightarrow> ('w \<Rightarrow> 'g) \<Rightarrow> (int \<Rightarrow> 'g \<Rightarrow> 'g) \<Rightarrow> (string \<times> u16 \<Rightarrow> 'g \<Rightarrow> 'g) \<Rightarrow> bool" where
  "traced api g cl opn \<longleftrightarrow>
     (\<forall>fd w. g (sys_close api fd w) = cl fd (g w))
     \<and> (\<forall>n h p oh opt w. g (snd (ssh_channel_open_forward api n h p oh opt w)) = opn (h, p) (g w))
     \<and> (\<forall>n h oh opt w. g (snd (ssh_channel_open_forward_unix api n h oh opt w)) = g w)
     \<and> (\<forall>raw w. g (snd (ssh_channel_new api raw w)) = g w)
     \<and> (\<forall>n w. g (ssh_channel_free api n w) = g w)
     \<and> (\<forall>n w. g (snd (ssh_channel_close api n w)) = g w)
     \<and> (\<forall>n w. g (snd (ssh_channel_send_eof api n w)) = g w)
     \<and> (\<forall>n d w. g (snd (ssh_channel_write api n d w)) = g w)
     \<and> (\<forall>n c e t w. g (snd (snd (ssh_channel_read_timeout api n c e t w))) = g w)
     \<and> (\<forall>n t e w. g (snd (ssh_channel_poll_timeout api n t e w)) = g w)
     \<and> (\<forall>fd len w. g (snd (snd (sys_recv api fd len w))) = g w)
     \<and> (\<forall>fd d w. g (snd (sys_send api fd d w)) = g w)
     \<and> (\<forall>fd t w. g (snd (sys_poll_in api fd t w)) = g w)
     \<and> (\<forall>fd w. g (sys_shutdown_wr api fd w) = g w)"

lemma tracedD:
  assumes "traced api g cl opn"
  shows "g (sys_close api fd w) = cl fd (g w)"
    and "g (snd (ssh_channel_open_forward api n h p oh opt w)) = opn (h, p) (g w)"
    and "g (snd (ssh_channel_open_forward_unix api n h oh opt w)) = g w"
    and "g (snd (ssh_channel_new api raw w)) = g w"
    and "g (ssh_channel_free api n w) = g w"
    and "g (snd (ssh_channel_close api n w)) = g w"
    and "g (snd (ssh_channel_send_eof api n w)) = g w"
    and "g (snd (ssh_channel_write api n d w)) = g w"
    and "g (snd (snd (ssh_channel_read_timeout api n c e t w))) = g w"
    and "g (snd (ssh_channel_poll_timeout api n t' e w)) = g w"
    and "g (snd (snd (sys_recv api fd len w))) = g w"
    and "g (snd (sys_send api fd d w)) = g w"
    and "g (snd (sys_poll_in api fd t w)) = g w"
    and "g (sys_shutdown_wr api fd w) = g w"
  using assms unfolding traced_def by simp_all

lemma traced_write_all:
  assumes "traced api g cl opn"
  shows "g (snd (write_all_loop (try_write_some api ch) short d w)) = g w"
proof (induction "length d" arbitrary: d w rule: less_induct)
  case less
  have some: "g (snd (try_write_some api ch d w)) = g w"
    using tracedD(8) [OF assms] by (auto simp: try_write_some_def count_result_def split: option.splits prod.splits) (metis snd_conv)+
  obtain r w1 where s: "try_write_some api ch d w = (r, w1)" by fastforce
  show ?case
  proof (cases "d = [] \<or> (\<exists>e. r = Inl e) \<or> r = Inr 0")
    case True
    then show ?thesis using s some by (auto simp: write_all_loop.simps [of _ _ d])
  next
    case False
    then obtain k where k: "r = Inr k" "k > 0" "d \<noteq> []" by (cases r) auto
    then have "length (drop k d) < length d" by simp
    from less [OF this, of w1] show ?thesis using k s some by (simp add: write_all_loop.simps [of _ _ d])
  qed
qed

lemma traced_recv_exact:
  assumes "traced api g cl opn"
  shows "g (snd (recv_exact api fd got left w)) = g w"
proof (induction left arbitrary: got w rule: less_induct)
  case (less left)
  obtain n new w1 where r: "sys_recv api fd left w = (n, new, w1)" by (metis prod_cases3)
  then have "g w1 = g w" using tracedD(11) [OF assms, of fd left w] by simp
  then show ?case using less [of "left - nat n" _ w1] r by (cases "left = 0 \<or> n \<le> 0") (auto simp: recv_exact.simps [of _ _ _ left])
qed

lemma traced_send_exact:
  assumes "traced api g cl opn"
  shows "g (snd (send_exact api fd d w)) = g w"
proof (induction "length d" arbitrary: d w rule: less_induct)
  case less
  obtain n w1 where r: "sys_send api fd d w = (n, w1)" by fastforce
  then have "g w1 = g w" using tracedD(12) [OF assms, of fd d w] by simp
  then show ?case using less [of "drop (nat n) d" w1] r by (cases "d = [] \<or> n \<le> 0") (auto simp: send_exact.simps [of _ _ d])
qed

lemma traced_channel_ops:
  assumes "traced api g cl opn"
  shows "try_bytes_available api ch st w = (r1, w') \<Longrightarrow> g w' = g w"
    and "try_read_some api ch buf st w = (r2, buf', w') \<Longrightarrow> g w' = g w"
    and "g (snd (try_write_all api ch d w)) = g w"
    and "g (snd (try_send_eof api ch w)) = g w"
    and "try_close api ch w = (r3, ch', w') \<Longrightarrow> g w' = g w"
    and "g (snd (channel_dtor api ch w)) = g w"
proof -
  show "try_bytes_available api ch st w = (r1, w') \<Longrightarrow> g w' = g w"
    using tracedD(10) [OF assms]
    by (auto simp: try_bytes_available_def count_result_def split: option.splits prod.splits if_splits) (metis snd_conv)+
  show "try_read_some api ch buf st w = (r2, buf', w') \<Longrightarrow> g w' = g w"
    using tracedD(9) [OF assms]
    by (auto simp: try_read_some_def try_read_some_timeout_def split: option.splits prod.splits) (metis snd_conv)+
  show "g (snd (try_write_all api ch d w)) = g w"
    unfolding try_write_all_def by (rule traced_write_all [OF assms])
  show "g (snd (try_send_eof api ch w)) = g w"
    using tracedD(7) [OF assms]
    by (auto simp: try_send_eof_def channel_request_def rc_result_def split: option.splits prod.splits) (metis snd_conv)+
  show "try_close api ch w = (r3, ch', w') \<Longrightarrow> g w' = g w"
    using tracedD(6) [OF assms]
    by (auto simp: try_close_def rc_result_def split: option.splits prod.splits if_splits) (metis snd_conv)+
  show "g (snd (channel_dtor api ch w)) = g w"
    using tracedD(5,6) [OF assms] by (auto simp: channel_dtor_def channel_release_def split: option.splits)
qed

lemma traced_pump_out:
  assumes "traced api g cl opn" and "pump_out api ch fd ps w = (p, ps', w')"
  shows "g w' = g w"
proof -
  have "g w1 = g w" if "pump_read api ch fd ps w = (q, ps1, w1)" for q ps1 w1
    using that traced_channel_ops(1,2) [OF assms(1)] tracedD(12) [OF assms(1)]
    by (auto simp: pump_read_def Let_def split: prod.splits sum.splits if_splits)
  then show ?thesis
    using assms(2) tracedD(14) [OF assms(1)] by (auto simp: pump_out_def split: prod.splits if_splits)
qed

lemma traced_pump_in:
  assumes "traced api g cl opn" and "pump_in api ch fd q ps w = (ps', w')"
  shows "g w' = g w"
proof -
  obtain ready w1 where po: "sys_poll_in api fd (if q then 0 else 50) w = (ready, w1)" by fastforce
  obtain k new w2 where rc: "sys_recv api fd (length (ps_buf ps)) w1 = (k, new, w2)" by (metis prod_cases3)
  have "g w1 = g w" "g w2 = g w1"
    using tracedD(13) [OF assms(1), of fd _ w] po tracedD(11) [OF assms(1), of fd _ w1] rc by (metis snd_conv)+
  then show ?thesis
    using assms(2) po rc traced_channel_ops(3,4) [OF assms(1)] by (auto simp: pump_in_def Let_def split: if_splits)
qed

lemma traced_pump_loop:
  assumes "pump_loop api ch fd stop ps w = Some y"
  shows "traced api g cl opn \<longrightarrow> g (snd y) = g w"
proof (rule pump_loop.raw_induct [where P = "\<lambda>api ch fd stop ps w y. traced api g cl opn \<longrightarrow> g (snd y) = g w", OF _ assms],
    goal_cases)
  case (1 f api ch fd stop ps w y)
  show ?case
  proof
    assume t: "traced api g cl opn"
    obtain q ps1 w1 where po: "pump_out api ch fd ps w = (q, ps1, w1)" by (metis prod_cases3)
    obtain ps2 w2 where pi: "pump_in api ch fd q ps1 w1 = (ps2, w2)" by fastforce
    have "(if flag_load api stop w \<or> ps_client_eof ps \<and> ps_channel_eof ps then Some (ps, w)
        else f api ch fd stop ps2 w2) = Some y"
      using 1(2) by (simp only: po pi prod.case)
    then consider "y = (ps, w)" | "f api ch fd stop ps2 w2 = Some y" by (metis option.inject)
    then show "g (snd y) = g w"
    proof cases
      case 2
      show ?thesis using 1(1) [OF 2, rule_format, OF t] traced_pump_out [OF t po] traced_pump_in [OF t pi] by metis
    qed simp
  qed
qed

lemma traced_pump_channel:
  assumes "traced api g cl opn" and "pump_channel api ch fd n stop stats w = Some (stats', w')"
  shows "g w' = cl fd (g w)"
proof -
  obtain ps w1 r ch' w2 where l: "pump_loop api ch fd stop \<lparr>ps_buf = replicate n 0, ps_client_eof = False,
      ps_channel_eof = False, ps_stats = stats\<lparr>fs_connections := fs_connections stats + 1\<rparr>\<rparr> w = Some (ps, w1)"
    and c: "try_close api ch w1 = (r, ch', w2)" and w': "w' = snd (channel_dtor api ch' (sys_close api fd w2))"
    using assms(2) by (auto simp: pump_channel_def pump_def split: option.splits prod.splits)
  have "g w1 = g w" using traced_pump_loop [OF l, rule_format, OF assms(1)] by simp
  moreover have "g w2 = g w1" by (rule traced_channel_ops(5) [OF assms(1) c])
  ultimately show ?thesis unfolding w' traced_channel_ops(6) [OF assms(1)] tracedD(1) [OF assms(1)] by simp
qed

text \<open>Opening a channel: the call is made or, without a channel to make it on, not.\<close>

fun opened_as :: "(string \<times> u16 \<Rightarrow> 'g \<Rightarrow> 'g) \<Rightarrow> forward_target \<Rightarrow> 'g \<Rightarrow> 'g" where
  "opened_as opn (Tcp_target t) x = opn (c_str (ep_host t), ep_port t) x"
| "opened_as opn (Unix_target u) x = x"

lemma traced_open_direct:
  assumes "traced api g cl opn" and "open_direct api se target origin w = (r, w')"
  shows "g w' = opened_as opn target (g w) \<or> (\<exists>e. r = Inl e) \<and> g w' = g w"
proof -
  have *: "g w' = k (g w) \<or> (\<exists>e. r = Inl e) \<and> g w' = g w"
    if "open_forward_with api se op call w = (r, w')" and "\<And>n v. g (snd (call n v)) = k (g v)" for op call k
  proof -
    have "g (snd (case se_core se of Some raw \<Rightarrow> ssh_channel_new api raw w | None \<Rightarrow> (None, w))) = g w"
      using tracedD(4) [OF assms(1)] by (simp split: option.splits)
    then show ?thesis
      using that(1) that(2) tracedD(5) [OF assms(1)]
      by (auto simp: open_forward_with_def split: prod.splits option.splits if_splits) (metis snd_conv)+
  qed
  show ?thesis
  proof (cases target)
    case (Tcp_target t)
    show ?thesis
      using assms(2) unfolding Tcp_target open_direct.simps opened_as.simps open_forward_def
      by (rule *) (rule tracedD(2) [OF assms(1)])
  next
    case (Unix_target u)
    show ?thesis
      using assms(2) unfolding Unix_target open_direct.simps opened_as.simps open_forward_unix_def
      by (rule *) (rule tracedD(3) [OF assms(1)])
  qed
qed

text \<open>Readers keep the observation.\<close>

definition reader_keeps :: "('w \<Rightarrow> 'g) \<Rightarrow> ('w \<Rightarrow> 'a option \<times> 'w) \<Rightarrow> bool" where
  "reader_keeps g f \<longleftrightarrow> (\<forall>w. g (snd (f w)) = g w)"

named_theorems keep_rules \<open>readers that keep an observation\<close>

lemma keeps_rules [keep_rules]:
  "reader_keeps g (rguard b)" "reader_keeps g (rreturn a)" "reader_keeps g (\<lambda>w. (None, w))"
  by (simp_all add: reader_keeps_def rguard_def rreturn_def)

lemma keeps_bind [keep_rules]: "reader_keeps g f \<Longrightarrow> (\<And>a. reader_keeps g (k a)) \<Longrightarrow> reader_keeps g (rbind f k)"
  unfolding reader_keeps_def rbind_def by (auto split: prod.splits option.splits) (metis snd_conv)+

lemma keeps_if [keep_rules]: "reader_keeps g f \<Longrightarrow> reader_keeps g f' \<Longrightarrow> reader_keeps g (if b then f else f')"
  by simp

lemma keeps_readers:
  assumes "traced api g cl opn"
  shows "reader_keeps g (recv_n api fd n)" "reader_keeps g (send_method api fd b)"
  using traced_recv_exact [OF assms] traced_send_exact [OF assms]
  by (auto simp: reader_keeps_def recv_n_def send_method_def split: prod.splits) (metis snd_conv)+

lemma keeps_requests:
  assumes "traced api g cl opn"
  shows "reader_keeps g (read_socks5_request api fd)" "reader_keeps g (read_socks4_request api fd)"
proof -
  show "reader_keeps g (read_socks5_request api fd)"
    unfolding read_socks5_request_def read_socks5_host_def by (intro keep_rules keeps_readers [OF assms])
  have "reader_keeps g (drain_userid api fd n)" for n
    by (induction n) (auto intro!: keep_rules keeps_readers [OF assms])
  then show "reader_keeps g (read_socks4_request api fd)"
    unfolding read_socks4_request_def by (intro keep_rules keeps_readers [OF assms])
qed

lemma traced_reply:
  assumes "traced api g cl opn"
  shows "g (socks_reply api fd v4 status w) = g w"
  by (simp add: socks_reply_def reply_socks4_def reply_socks5_def traced_send_exact [OF assms])

text \<open>Callbacks that keep the observation.\<close>

definition tame_callbacks ::
    "('w \<Rightarrow> 'g) \<Rightarrow> ('x \<Rightarrow> 'w \<Rightarrow> bool \<times> 'w) option \<Rightarrow> (error_info \<Rightarrow> 'w \<Rightarrow> 'w) option \<Rightarrow> bool" where
  "tame_callbacks g filt on_error \<longleftrightarrow>
     (\<forall>f x w. filt = Some f \<longrightarrow> g (snd (f x w)) = g w) \<and> (\<forall>f e w. on_error = Some f \<longrightarrow> g (f e w) = g w)"

lemma tame_report: "tame_callbacks g filt on_error \<Longrightarrow> g (report_forward_error on_error e w) = g w"
  by (auto simp: tame_callbacks_def report_forward_error_def split: option.splits)

text \<open>\<open>target\<close> passed the filter in some state of the world.\<close>

definition filter_passes :: "('x \<Rightarrow> 'w \<Rightarrow> bool \<times> 'w) option \<Rightarrow> 'x \<Rightarrow> bool" where
  "filter_passes filt x \<longleftrightarrow> (\<forall>f. filt = Some f \<longrightarrow> (\<exists>w. fst (f x w)))"

lemma serve_target_traced:
  assumes "traced api g cl opn" and "tame_callbacks g (sk_allow (sp_options sp)) (sk_on_error (sp_options sp))"
    and "serve_target api sp fd v4 target stats w = Some (stats', w')"
  shows "g w' = cl fd (g w) \<or> filter_passes (sk_allow (sp_options sp)) target \<and> g w' = cl fd (opened_as opn target (g w))"
proof -
  obtain ok w1 where f: "(case sk_allow (sp_options sp) of None \<Rightarrow> (True, w) | Some f \<Rightarrow> f target w) = (ok, w1)" by fastforce
  have w1: "g w1 = g w" "ok \<Longrightarrow> filter_passes (sk_allow (sp_options sp)) target"
    using f assms(2) unfolding tame_callbacks_def filter_passes_def
    by (auto split: option.splits) (metis fst_conv snd_conv)+
  obtain r w2 where op: "open_direct api (sp_session sp) target default_origin w1 = (r, w2)" by fastforce
  note w2 = traced_open_direct [OF assms(1) op]
  consider "\<not> ok" "w' = sys_close api fd (socks_reply api fd v4 2 w1)"
    | e where "ok" "r = Inl e"
        "w' = sys_close api fd (socks_reply api fd v4 1 (report_forward_error (sk_on_error (sp_options sp)) e w2))"
    | ch where "ok" "r = Inr ch"
        "pump_channel api ch fd (sk_buffer_size (sp_options sp)) (ls_stop (sp_listener sp)) stats (socks_reply api fd v4 0 w2)
           = Some (stats', w')"
    using assms(3) f op by (auto simp: serve_target_def split: if_splits sum.splits)
  then show ?thesis
  proof cases
    case 1
    then show ?thesis using w1 tracedD(1) [OF assms(1)] traced_reply [OF assms(1)] by simp
  next
    case (2 e)
    then show ?thesis
      using w1 w2 tracedD(1) [OF assms(1)] traced_reply [OF assms(1)] tame_report [OF assms(2)] by auto
  next
    case (3 ch)
    show ?thesis
      using traced_pump_channel [OF assms(1) 3(3)] w1 w2 3(1,2) traced_reply [OF assms(1)] by auto
  qed
qed

text \<open>A target some request of the connection named, by a protocol version the options permit.\<close>

definition requested :: "('w, 'z) fwd_api_scheme \<Rightarrow> 'w socks_options \<Rightarrow> int \<Rightarrow> forward_target \<Rightarrow> bool" where
  "requested api opts fd target \<longleftrightarrow>
     (\<exists>v v'. read_socks5_request api fd v = (Some target, v'))
     \<or> sk_allow_socks4 opts \<and> (\<exists>v v'. read_socks4_request api fd v = (Some target, v'))"

lemma serve_traced:
  assumes "traced api g cl opn" and "tame_callbacks g (sk_allow (sp_options sp)) (sk_on_error (sp_options sp))"
    and "serve_one_connection api sp fd stats w = Some (stats', w')"
  shows "g w' = cl fd (g w) \<or> (\<exists>target. requested api (sp_options sp) fd target
     \<and> filter_passes (sk_allow (sp_options sp)) target \<and> g w' = cl fd (opened_as opn target (g w)))"
proof -
  obtain r1 w1 where f: "recv_n api fd 1 w = (r1, w1)" by fastforce
  have w1: "g w1 = g w" using keeps_readers(1) [OF assms(1)] f unfolding reader_keeps_def by (metis snd_conv)
  have shut: ?thesis if "w' = sys_close api fd v" "g v = g w" for v
    using that tracedD(1) [OF assms(1)] by simp
  have go: ?thesis
    if "serve_target api sp fd v4 target stats w2 = Some (stats', w')" "g w2 = g w" "requested api (sp_options sp) fd target"
    for v4 target w2
    using serve_target_traced [OF assms(1,2) that(1)] that(2,3) by metis
  show ?thesis
  proof (cases r1)
    case None
    then show ?thesis using assms(3) f w1 shut by (auto simp: serve_one_connection_def)
  next
    case (Some first)
    consider (bad) "w' = sys_close api fd w1"
      | (four) "hd first = 4" "sk_allow_socks4 (sp_options sp)"
          "(case read_socks4_request api fd w1 of (None, w2) \<Rightarrow> Some (stats, sys_close api fd w2)
            | (Some target, w2) \<Rightarrow> serve_target api sp fd (hd first = 4) target stats w2) = Some (stats', w')"
      | (five) "(case read_socks5_request api fd w1 of (None, w2) \<Rightarrow> Some (stats, sys_close api fd w2)
            | (Some target, w2) \<Rightarrow> serve_target api sp fd (hd first = 4) target stats w2) = Some (stats', w')"
      using assms(3) f Some by (auto simp: serve_one_connection_def Let_def split: if_splits)
    then show ?thesis
    proof cases
      case bad
      then show ?thesis using shut w1 by blast
    next
      case four
      obtain t w2 where q: "read_socks4_request api fd w1 = (t, w2)" by fastforce
      have "g w2 = g w" using keeps_requests(2) [OF assms(1)] q w1 unfolding reader_keeps_def by (metis snd_conv)
      moreover have "requested api (sp_options sp) fd a" if "t = Some a" for a
        using q that four(2) unfolding requested_def by blast
      ultimately show ?thesis using four(3) q shut [of w2] go [of "hd first = 4" _ w2] by (cases t) simp_all
    next
      case five
      obtain t w2 where q: "read_socks5_request api fd w1 = (t, w2)" by fastforce
      have "g w2 = g w" using keeps_requests(1) [OF assms(1)] q w1 unfolding reader_keeps_def by (metis snd_conv)
      moreover have "requested api (sp_options sp) fd a" if "t = Some a" for a
        using q that unfolding requested_def by blast
      ultimately show ?thesis using five q shut [of w2] go [of "hd first = 4" _ w2] by (cases t) simp_all
    qed
  qed
qed

section \<open>Channels\<close>


definition sim_listener :: listener where
  "sim_listener = \<lparr>ls_listen = \<lparr>ep_host = ''127.0.0.1'', ep_port = 1080\<rparr>, ls_fd = -1, ls_port = 0, ls_running = 0,
     ls_stop = 1, ls_thread = 0, ls_joinable = False\<rparr>"

text \<open>A proxy that refuses the destination \<open>a:80\<close>.\<close>

definition sim_proxy :: "sim_net socks_proxy" where
  "sim_proxy = \<lparr>sp_session = sim_client, sp_options = \<lparr>sk_allow_socks4 = False, sk_max_connections = 128,
       sk_buffer_size = 64, sk_allow = Some (\<lambda>t w. (t \<noteq> Tcp_target \<lparr>ep_host = ''a'', ep_port = 80\<rparr>, w)),
       sk_on_error = None\<rparr>, sp_listener = sim_listener, sp_stats = no_stats\<rparr>"

definition socks_bytes :: "bytes \<Rightarrow> bytes" where
  "socks_bytes name = [5, 1, 0, 5, 1, 0, 3, of_nat (length name)] @ name @ [0, 80]"

lemmas socks_eval = serve_one_connection_def recv_n_def recv_exact.simps read_socks5_request_def rbind_def
  rguard_def rreturn_def send_method_def send_exact.simps read_socks5_host_def socks_port_def serve_target_def
  open_forward_def open_forward_with_def pump_channel_def socks_reply_def reply_socks5_def pump_eval
  from_native_def new_channel_def channel_dtor_def channel_release_def string_of_bytes_def char_of_def bit_0
  c_str_def sim_proxy_def sim_client_def sim_listener_def socks_bytes_def default_origin_def no_stats_def

lemma socks_refused:
  "\<exists>w'. serve_one_connection (sim_net_api None) sim_proxy 5 no_stats (net_world [] (socks_bytes [97]))
     = Some (no_stats\<lparr>fs_rejected := 1\<rparr>, w') \<and> net_opened w' = [] \<and> net_fds w' = []"
  by (simp add: socks_eval)

lemma socks_granted:
  "\<exists>w'. serve_one_connection (sim_net_api None) sim_proxy 5 no_stats (net_world [] (socks_bytes [98]))
     = Some (no_stats\<lparr>fs_connections := 1\<rparr>, w') \<and> net_opened w' = [(''b'', 80)] \<and> net_fds w' = []"
  by (simp add: socks_eval)

lemma net_traced: "traced (sim_net_api cap) net_opened (\<lambda>_ cs. cs) (\<lambda>c cs. cs @ [c])"
  by (auto simp: traced_def sim_read_def Let_def)

lemma net_fds_traced: "traced (sim_net_api cap) (set \<circ> net_fds) (\<lambda>fd S. S - {fd}) (\<lambda>_ S. S)"
  by (auto simp: traced_def sim_read_def Let_def)


text \<open>
  A host name with a NUL inside passes a filter that refuses the name before the NUL, and is then
  connected to as exactly that name: the destination refused under its own name is reached.
\<close>
theorem socks_nul_bypasses_filter:
  "\<exists>w1 w2 stats1 stats2.
     serve_one_connection (sim_net_api None) sim_proxy 5 no_stats (net_world [] (socks_bytes [97])) = Some (stats1, w1)
     \<and> net_opened w1 = []
     \<and> serve_one_connection (sim_net_api None) sim_proxy 5 no_stats (net_world [] (socks_bytes [97, 0, 98])) = Some (stats2, w2)
     \<and> net_opened w2 = [(''a'', 80)]"
proof -
  have "\<exists>w' s. serve_one_connection (sim_net_api None) sim_proxy 5 no_stats (net_world [] (socks_bytes [97, 0, 98]))
     = Some (s, w') \<and> net_opened w' = [(''a'', 80)]"
    by (simp add: socks_eval)
  then show ?thesis using socks_refused by blast
qed

section \<open>Descriptors\<close>

lemma local_pump_one_traced:
  assumes "traced api fds (\<lambda>fd S. S - {fd}) (\<lambda>_ S. S)"
    and "tame_callbacks fds (lo_accept_filter (lf_options lf)) (lo_on_error (lf_options lf))"
    and "local_pump_one api lf fd stats w = Some (stats', w')"
  shows "fds w' = fds w - {fd}"
proof -
  let ?filter = "case lo_accept_filter (lf_options lf) of None \<Rightarrow> (True, w) | Some f \<Rightarrow> f (peer_endpoint api fd w) w"
  obtain ok w1 where f: "?filter = (ok, w1)" by fastforce
  have w1: "fds w1 = fds w"
    using f assms(2) unfolding tame_callbacks_def by (auto split: option.splits) (metis snd_conv)+
  obtain r w2 where op: "open_direct api (lf_session lf) (lo_target (lf_options lf)) default_origin w1 = (r, w2)" by fastforce
  have w2: "fds w2 = fds w1" using traced_open_direct [OF assms(1) op] by (cases "lo_target (lf_options lf)") auto
  consider "w' = sys_close api fd w1"
    | e where "w' = sys_close api fd (report_forward_error (lo_on_error (lf_options lf)) e w2)"
    | ch where "pump_channel api ch fd (lo_buffer_size (lf_options lf)) (ls_stop (lf_listener lf)) stats w2 = Some (stats', w')"
    using assms(3) f op by (auto simp: local_pump_one_def split: if_splits sum.splits)
  then show ?thesis
  proof cases
    case (3 ch)
    show ?thesis using traced_pump_channel [OF assms(1) 3] w1 w2 by simp
  qed (use w1 w2 tracedD(1) [OF assms(1)] tame_report [OF assms(2)] in auto)
qed

lemma remote_pump_one_traced:
  assumes "traced api fds (\<lambda>fd S. S - {fd}) (\<lambda>_ S. S)" and "socket_fds api fds"
    and "tame_callbacks fds (ro_accept_filter opts) (ro_on_error opts)"
    and "remote_pump_one api opts stop inc stats w = Some (stats', w')"
  shows "fds w' = fds w"
proof -
  let ?filter = "case ro_accept_filter opts of None \<Rightarrow> (True, w) | Some f \<Rightarrow> f (if_originator inc) w"
  obtain ok w1 where f: "?filter = (ok, w1)" by fastforce
  have w1: "fds w1 = fds w"
    using f assms(3) unfolding tame_callbacks_def by (auto split: option.splits) (metis snd_conv)+
  obtain r w2 where c: "connect_target api (ro_local_target opts) w1 = (r, w2)" by fastforce
  note w2 = connect_target_fds [OF assms(2) c]
  consider "w' = snd (channel_dtor api (if_channel inc) w1)"
    | e where "r = Inl e" "w' = snd (channel_dtor api (if_channel inc) (report_forward_error (ro_on_error opts) e w2))"
    | fd where "r = Inr fd" "pump_channel api (if_channel inc) fd 65536 stop stats w2 = Some (stats', w')"
    using assms(4) f c by (auto simp: remote_pump_one_def split: if_splits sum.splits)
  then show ?thesis
  proof cases
    case (3 fd)
    show ?thesis using traced_pump_channel [OF assms(1) 3(2)] w1 w2 3(1) by auto
  qed (use w1 w2 traced_channel_ops(6) [OF assms(1)] tame_report [OF assms(3)] in auto)
qed

text \<open>
  C40: When a forwarder has served a connection no descriptor of it is left open, whether the
  connection was malformed, refused, failed or was relayed to its end: SOCKS and local forwarding
  close the accepted socket, remote forwarding the socket it connected.
\<close>
theorem connections_leave_no_descriptor:
  assumes "traced api fds (\<lambda>fd S. S - {fd}) (\<lambda>_ S. S)" and "socket_fds api fds"
    and "tame_callbacks fds (sk_allow (sp_options sp)) (sk_on_error (sp_options sp))"
    and "tame_callbacks fds (lo_accept_filter (lf_options lf)) (lo_on_error (lf_options lf))"
    and "tame_callbacks fds (ro_accept_filter opts) (ro_on_error opts)"
  shows "(case serve_one_connection api sp fd stats w of Some (_, w') \<Rightarrow> fds w' = fds w - {fd} | None \<Rightarrow> True)
     \<and> (case local_pump_one api lf fd stats w of Some (_, w') \<Rightarrow> fds w' = fds w - {fd} | None \<Rightarrow> True)
     \<and> (case remote_pump_one api opts stop inc stats w of Some (_, w') \<Rightarrow> fds w' = fds w | None \<Rightarrow> True)"
proof -
  have "fds w' = fds w - {fd}" if "serve_one_connection api sp fd stats w = Some (s, w')" for s w'
    using serve_traced [OF assms(1,3) that] by (metis (no_types, lifting) opened_as.elims)
  then show ?thesis
    using local_pump_one_traced [OF assms(1,4)] remote_pump_one_traced [OF assms(1,2,5)]
    by (auto split: option.splits)
qed

lemma net_socket_fds: "socket_fds (sim_net_api cap) (set \<circ> net_fds)"
proof -
  have "fresh_fd fds \<notin> set fds" "\<not> fresh_fd fds < 0" for fds
    using fresh_fd(2) [of "fresh_fd fds" fds] fresh_fd(1) [of fds] by auto
  then show ?thesis by (auto simp: socket_fds_def net_socket_def)
qed

definition sim_local :: "sim_net local_forward" where
  "sim_local = \<lparr>lf_session = sim_client, lf_options = \<lparr>lo_target = Tcp_target \<lparr>ep_host = ''db'', ep_port = 5432\<rparr>,
       lo_buffer_size = 64, lo_accept_filter = None, lo_on_error = None\<rparr>, lf_listener = sim_listener, lf_stats = no_stats\<rparr>"

definition sim_remote :: "sim_net remote_options" where
  "sim_remote = \<lparr>ro_bind_address = ''localhost'', ro_remote_port = 0, ro_local_target = Tcp_target \<lparr>ep_host = ''h'', ep_port = 22\<rparr>,
     ro_accept_filter = None, ro_on_error = None\<rparr>"

theorem connections_leave_no_descriptor_witness:
  "\<exists>s w'. serve_one_connection (sim_net_api None) sim_proxy 5 no_stats (net_world [] (socks_bytes [98])) = Some (s, w')
     \<and> set (net_fds w') = {}"
proof -
  obtain s w' where r: "serve_one_connection (sim_net_api None) sim_proxy 5 no_stats (net_world [] (socks_bytes [98])) = Some (s, w')"
    using socks_granted by blast
  have "tame_callbacks (set \<circ> net_fds) (sk_allow (sp_options sim_proxy)) (sk_on_error (sp_options sim_proxy))"
    "tame_callbacks (set \<circ> net_fds) (lo_accept_filter (lf_options sim_local)) (lo_on_error (lf_options sim_local))"
    "tame_callbacks (set \<circ> net_fds) (ro_accept_filter sim_remote) (ro_on_error sim_remote)"
    by (simp_all add: tame_callbacks_def sim_proxy_def sim_local_def sim_remote_def)
  from conjunct1 [OF connections_leave_no_descriptor [OF net_fds_traced [of None] net_socket_fds [of None] this, where fd = 5 and stats = no_stats and w = "net_world [] (socks_bytes [98])"]]
  show ?thesis using r by auto
qed

section \<open>Restarting a listener\<close>

text \<open>Flags and threads leave the descriptors alone.\<close>

definition calm :: "('w, 'z) fwd_api_scheme \<Rightarrow> ('w \<Rightarrow> int set) \<Rightarrow> bool" where
  "calm api fds \<longleftrightarrow> (\<forall>f b w. fds (flag_store api f b w) = fds w) \<and> (\<forall>t w. fds (thread_spawn api t w) = fds w)
     \<and> (\<forall>t w. fds (thread_join api t w) = fds w)"

lemma listener_start_fds:
  assumes "socket_fds api fds" "calm api fds" "listener_start api inet op l w = Returned (Inr (), l', w')"
  shows "ls_fd l' \<ge> 0 \<and> ls_fd l' \<notin> fds w \<and> fds w' = insert (ls_fd l') (fds w)"
proof -
  obtain r w1 where b: "bind_listener api inet (ls_listen l) w = (r, w1)" by fastforce
  show ?thesis
    using assms(2,3) b bind_listener_fds [OF assms(1) b]
    by (auto simp: listener_start_def listener_bind_def calm_def split: if_splits sum.splits)
qed

lemma listener_stop_fds: "calm api fds \<Longrightarrow> listener_stop api l w = (l', w') \<Longrightarrow> fds w' = fds w \<and> ls_fd l' = ls_fd l"
  by (auto simp: listener_stop_def calm_def Let_def split: if_splits)

text \<open>
  A forwarder that is started, stopped and started again leaks its first listening socket: stopping
  does not close it, starting replaces it, and the destructor closes only the second one.
\<close>
theorem restart_leaks_listener:
  assumes "socket_fds api fds" and "calm api fds"
    and "local_start api lf w = Returned (Inr (), lf1, w1)" and "local_stop api lf1 w1 = (lf2, w2)"
    and "local_start api lf2 w2 = Returned (Inr (), lf3, w3)"
  shows "ls_fd (lf_listener lf1) \<in> fds (local_dtor api lf3 w3) \<and> ls_fd (lf_listener lf1) \<notin> fds w"
proof -
  obtain l1 where s1: "listener_start api False ''LocalForward::try_start'' (lf_listener lf) w = Returned (Inr (), l1, w1)"
      "lf_listener lf1 = l1"
    using assms(3) by (auto simp: local_start_def split: call.splits prod.splits)
  obtain l3 where s3: "listener_start api False ''LocalForward::try_start'' (lf_listener lf2) w2 = Returned (Inr (), l3, w3)"
      "lf_listener lf3 = l3"
    using assms(5) by (auto simp: local_start_def split: call.splits prod.splits)
  note f1 = listener_start_fds [OF assms(1,2) s1(1)] and f3 = listener_start_fds [OF assms(1,2) s3(1)]
  have f2: "fds w2 = fds w1"
    using assms(4) listener_stop_fds [OF assms(2)] by (auto simp: local_stop_def split: prod.splits)
  obtain l4 w4 where s4: "listener_stop api l3 w3 = (l4, w4)" by fastforce
  have "fds (local_dtor api lf3 w3) = fds w3 - {ls_fd l3}"
    using s3(2) s4 listener_stop_fds [OF assms(2) s4] f3 socket_fdsD(3) [OF assms(1)]
    by (simp add: local_dtor_def listener_dtor_def)
  then show ?thesis using f1 f2 f3 s1(2) by auto
qed

theorem restart_leaks_listener_witness:
  "\<exists>lf1 w1 lf2 w2 lf3 w3. local_start (sim_net_api None) sim_local (net_world [] []) = Returned (Inr (), lf1, w1)
     \<and> local_stop (sim_net_api None) lf1 w1 = (lf2, w2)
     \<and> local_start (sim_net_api None) lf2 w2 = Returned (Inr (), lf3, w3)
     \<and> ls_fd (lf_listener lf1) \<in> set (net_fds (local_dtor (sim_net_api None) lf3 w3))"
proof -
  let ?api = "sim_net_api None"
  have "\<exists>lf1 w1 lf2 w2 lf3 w3. local_start ?api sim_local (net_world [] []) = Returned (Inr (), lf1, w1)
     \<and> local_stop ?api lf1 w1 = (lf2, w2) \<and> local_start ?api lf2 w2 = Returned (Inr (), lf3, w3)"
    by (simp add: local_start_def local_stop_def listener_start_def listener_stop_def listener_bind_def bind_listener_def
        net_socket_def fresh_fd_def sim_local_def sim_listener_def Let_def)
  then obtain lf1 w1 lf2 w2 lf3 w3 where r: "local_start ?api sim_local (net_world [] []) = Returned (Inr (), lf1, w1)"
     "local_stop ?api lf1 w1 = (lf2, w2)" "local_start ?api lf2 w2 = Returned (Inr (), lf3, w3)" by blast
  have "calm ?api (set \<circ> net_fds)" by (simp add: calm_def)
  from restart_leaks_listener [OF net_socket_fds this r] show ?thesis using r by auto
qed

end
