(* ===== verification/Sftp_Client.thy ===== *)
theory Sftp_Client
  imports Session Fs_Path Handles
begin

text \<open>
  \<open>sftp/attributes.hpp\<close>, \<open>sftp/sftp.hpp\<close>, \<open>sftp/file.hpp\<close>, \<open>sftp/directory.hpp\<close>, \<open>types.hpp\<close> and their
  \<open>detail/*.ipp\<close>: the SFTP client with its files and directories.

  libssh's SFTP functions are the fields of \<open>sftp_api\<close>. A native attribute record that libssh returns
  is copied and freed at once, so the call gives the record itself.

  Files, directories and sessions are instances of \<open>move_only\<close> (released once, whatever is moved), and
  \<open>file_write\<close> is an instance of \<open>write_attempt\<close> (the write-everything loop writes a prefix).
\<close>

section \<open>Remote paths\<close>

type_synonym remote_path = string

definition remote_append :: "remote_path \<Rightarrow> string \<Rightarrow> remote_path" where
  "remote_append p child =
     (if p \<noteq> [] \<and> last p \<noteq> CHR ''/'' \<and> child \<noteq> [] \<and> hd child \<noteq> CHR ''/'' then p @ ''/'' @ child else p @ child)"

section \<open>Attributes\<close>

datatype sftp_file_type =
    FT_regular | FT_directory | FT_symlink | FT_special | FT_unknown
  | FT_socket | FT_char_device | FT_block_device | FT_fifo

record native_attributes =
  na_name :: "string option"
  na_longname :: "string option"
  na_flags :: u32
  na_type :: byte
  na_size :: u64
  na_uid :: u32
  na_gid :: u32
  na_owner :: "string option"
  na_group :: "string option"
  na_permissions :: u32
  na_atime64 :: u64
  na_mtime64 :: u64
  na_createtime :: u64

text \<open>Times are seconds since the epoch.\<close>

record attributes =
  at_name :: string
  at_long_name :: string
  at_type :: sftp_file_type
  at_size :: u64
  at_uid :: u32
  at_gid :: u32
  at_owner :: "string option"
  at_group :: "string option"
  at_permissions :: u32
  at_flags :: u32
  at_atime :: "int option"
  at_mtime :: "int option"
  at_createtime :: "int option"

definition is_regular :: "attributes \<Rightarrow> bool" where
  "is_regular a \<longleftrightarrow> at_type a = FT_regular"

definition is_directory :: "attributes \<Rightarrow> bool" where
  "is_directory a \<longleftrightarrow> at_type a = FT_directory"

definition is_symlink :: "attributes \<Rightarrow> bool" where
  "is_symlink a \<longleftrightarrow> at_type a = FT_symlink"

text \<open>\<open>permissions & 07777\<close>.\<close>

definition std_perms :: "attributes \<Rightarrow> u32" where
  "std_perms a = and (at_permissions a) 4095"

definition file_type_from_native :: "byte \<Rightarrow> sftp_file_type" where
  "file_type_from_native t =
     (if t = 1 then FT_regular else if t = 2 then FT_directory else if t = 3 then FT_symlink
      else if t = 4 then FT_special else FT_unknown)"

text \<open>\<open>SSH_FILEXFER_ATTR_SIZE\<close>, \<open>_ACCESSTIME\<close>, \<open>_CREATETIME\<close> and \<open>_MODIFYTIME\<close>.\<close>

definition attr_size_flag :: u32 where
  "attr_size_flag = 0x1"

definition attr_accesstime :: u32 where
  "attr_accesstime = 0x8"

definition attr_createtime :: u32 where
  "attr_createtime = 0x10"

definition attr_modifytime :: u32 where
  "attr_modifytime = 0x20"

definition attributes_from_native :: "native_attributes \<Rightarrow> attributes" where
  "attributes_from_native raw =
     \<lparr>at_name = (case na_name raw of Some s \<Rightarrow> s | None \<Rightarrow> []),
      at_long_name = (case na_longname raw of Some s \<Rightarrow> s | None \<Rightarrow> []),
      at_type = file_type_from_native (na_type raw), at_size = na_size raw, at_uid = na_uid raw, at_gid = na_gid raw,
      at_owner = na_owner raw, at_group = na_group raw, at_permissions = na_permissions raw, at_flags = na_flags raw,
      at_atime = (if and (na_flags raw) attr_accesstime \<noteq> 0 then Some (sint (na_atime64 raw)) else None),
      at_mtime = (if and (na_flags raw) attr_modifytime \<noteq> 0 then Some (sint (na_mtime64 raw)) else None),
      at_createtime = (if and (na_flags raw) attr_createtime \<noteq> 0 then Some (sint (na_createtime raw)) else None)\<rparr>"

section \<open>The native functions\<close>

record posix_flags =
  of_read :: bool
  of_write :: bool
  of_creat :: bool
  of_trunc :: bool
  of_append :: bool
  of_excl :: bool

record limits =
  max_packet_length :: u64
  max_read_length :: u64
  max_write_length :: u64
  max_open_handles :: u64

record 'w sftp_api = "'w session_api" +
  sftp_new :: "handle option \<Rightarrow> 'w \<Rightarrow> handle option \<times> 'w"
  sftp_free :: "handle \<Rightarrow> 'w \<Rightarrow> 'w"
  sftp_init :: "handle \<Rightarrow> 'w \<Rightarrow> ssh_rc \<times> 'w"
  sftp_server_version :: "handle \<Rightarrow> 'w \<Rightarrow> int"
  has_sftp_limits :: bool
  sftp_limits :: "handle \<Rightarrow> 'w \<Rightarrow> limits option \<times> 'w"
  sftp_open :: "handle \<Rightarrow> string \<Rightarrow> posix_flags \<Rightarrow> u32 \<Rightarrow> 'w \<Rightarrow> handle option \<times> 'w"
  sftp_close :: "handle \<Rightarrow> 'w \<Rightarrow> ssh_rc \<times> 'w"
  sftp_read :: "handle \<Rightarrow> nat \<Rightarrow> 'w \<Rightarrow> int \<times> bytes \<times> 'w"
  sftp_write :: "handle \<Rightarrow> bytes \<Rightarrow> 'w \<Rightarrow> int \<times> 'w"
  sftp_tell64 :: "handle \<Rightarrow> 'w \<Rightarrow> u64"
  sftp_seek64 :: "handle \<Rightarrow> u64 \<Rightarrow> 'w \<Rightarrow> int \<times> 'w"
  sftp_rewind :: "handle \<Rightarrow> 'w \<Rightarrow> 'w"
  sftp_fstat :: "handle \<Rightarrow> 'w \<Rightarrow> native_attributes option \<times> 'w"
  sftp_setstat_size :: "handle option \<Rightarrow> string \<Rightarrow> u64 \<Rightarrow> 'w \<Rightarrow> ssh_rc \<times> 'w"
  sftp_stat :: "handle \<Rightarrow> string \<Rightarrow> 'w \<Rightarrow> native_attributes option \<times> 'w"
  sftp_lstat :: "handle \<Rightarrow> string \<Rightarrow> 'w \<Rightarrow> native_attributes option \<times> 'w"
  sftp_chmod :: "handle \<Rightarrow> string \<Rightarrow> u32 \<Rightarrow> 'w \<Rightarrow> ssh_rc \<times> 'w"
  sftp_chown :: "handle \<Rightarrow> string \<Rightarrow> u32 \<Rightarrow> u32 \<Rightarrow> 'w \<Rightarrow> ssh_rc \<times> 'w"
  sftp_mkdir :: "handle \<Rightarrow> string \<Rightarrow> u32 \<Rightarrow> 'w \<Rightarrow> ssh_rc \<times> 'w"
  sftp_rmdir :: "handle \<Rightarrow> string \<Rightarrow> 'w \<Rightarrow> ssh_rc \<times> 'w"
  sftp_unlink :: "handle \<Rightarrow> string \<Rightarrow> 'w \<Rightarrow> ssh_rc \<times> 'w"
  sftp_rename :: "handle \<Rightarrow> string \<Rightarrow> string \<Rightarrow> 'w \<Rightarrow> ssh_rc \<times> 'w"
  sftp_symlink :: "handle \<Rightarrow> string \<Rightarrow> string \<Rightarrow> 'w \<Rightarrow> ssh_rc \<times> 'w"
  sftp_readlink :: "handle \<Rightarrow> string \<Rightarrow> 'w \<Rightarrow> string option \<times> 'w"
  sftp_canonicalize_path :: "handle \<Rightarrow> string \<Rightarrow> 'w \<Rightarrow> string option \<times> 'w"
  sftp_opendir :: "handle \<Rightarrow> string \<Rightarrow> 'w \<Rightarrow> handle option \<times> 'w"
  sftp_readdir :: "handle option \<Rightarrow> handle \<Rightarrow> 'w \<Rightarrow> native_attributes option \<times> 'w"
  sftp_dir_eof :: "handle \<Rightarrow> 'w \<Rightarrow> bool"
  sftp_closedir :: "handle \<Rightarrow> 'w \<Rightarrow> 'w"
  has_sftp_aio :: bool
  sftp_aio_begin_read :: "handle \<Rightarrow> nat \<Rightarrow> 'w \<Rightarrow> int \<times> handle option \<times> 'w"
  sftp_aio_wait_read :: "handle \<Rightarrow> nat \<Rightarrow> 'w \<Rightarrow> int \<times> bytes \<times> 'w"
  sftp_aio_begin_write :: "handle \<Rightarrow> bytes \<Rightarrow> 'w \<Rightarrow> int \<times> handle option \<times> 'w"
  sftp_aio_wait_write :: "handle \<Rightarrow> 'w \<Rightarrow> int \<times> 'w"
  sftp_aio_free :: "handle \<Rightarrow> 'w \<Rightarrow> 'w"

section \<open>Files\<close>

record sftp_file =
  fi_native :: "handle option"
  fi_sftp :: "handle option"
  fi_core :: "handle option"
  fi_path :: remote_path

definition file_release :: "('w, 'z) sftp_api_scheme \<Rightarrow> sftp_file \<Rightarrow> 'w \<Rightarrow> 'w" where
  "file_release api f w = (case fi_native f of Some n \<Rightarrow> snd (sftp_close api n w) | None \<Rightarrow> w)"

definition file_dtor :: "('w, 'z) sftp_api_scheme \<Rightarrow> sftp_file \<Rightarrow> 'w \<Rightarrow> sftp_file \<times> 'w" where
  "file_dtor api f w = (f\<lparr>fi_native := None\<rparr>, file_release api f w)"

definition file_move_ctor :: "sftp_file \<Rightarrow> sftp_file \<times> sftp_file" where
  "file_move_ctor other =
     (\<lparr>fi_native = fi_native other, fi_sftp = fi_sftp other, fi_core = fi_core other, fi_path = fi_path other\<rparr>,
      other\<lparr>fi_native := None, fi_core := None, fi_path := []\<rparr>)"

definition file_move_assign :: "('w, 'z) sftp_api_scheme \<Rightarrow> sftp_file \<Rightarrow> sftp_file \<Rightarrow> 'w \<Rightarrow> sftp_file \<times> sftp_file \<times> 'w" where
  "file_move_assign api this other w =
     (case file_move_ctor other of (this', other') \<Rightarrow> (this', other', file_release api this w))"

text \<open>An operation on an open file, and the error of one that failed.\<close>

definition file_error :: "('w, 'z) sftp_api_scheme \<Rightarrow> sftp_file \<Rightarrow> string \<Rightarrow> 'w \<Rightarrow> error_info" where
  "file_error api f op w = make_sftp_error_info api w (fi_sftp f) None op"

definition file_read :: "('w, 'z) sftp_api_scheme \<Rightarrow> sftp_file \<Rightarrow> bytes \<Rightarrow> 'w \<Rightarrow> nat result \<times> bytes \<times> 'w" where
  "file_read api f buf w =
     (case fi_native f of
        None \<Rightarrow> (Inl (invalid_handle_error ''File::try_read''), buf, w)
      | Some n \<Rightarrow>
          (case sftp_read api n (length buf) w of
             (rc, new, w') \<Rightarrow>
               (if rc < 0 then Inl (file_error api f ''sftp_read'' w') else Inr (nat rc), overlay new buf, w')))"

lemma file_read_length: "file_read api f buf w = (r, buf', w') \<Longrightarrow> length buf' = length buf"
  by (auto simp: file_read_def split: option.splits prod.splits)

text \<open>The buffer as a whole, once it is full.\<close>

function file_read_exact ::
    "('w, 'z) sftp_api_scheme \<Rightarrow> sftp_file \<Rightarrow> bytes \<Rightarrow> bytes \<Rightarrow> 'w \<Rightarrow> bytes result \<times> 'w" where
  "file_read_exact api f got remaining w =
     (if remaining = [] then (Inr got, w)
      else case file_read api f remaining w of
        (Inl e, _, w') \<Rightarrow> (Inl e, w')
      | (Inr r, buf, w') \<Rightarrow>
          if r = 0 then (Inl (mk_error errc_channel_eof ''unexpected EOF'' ''File::try_read_exact''), w')
          else file_read_exact api f (got @ take r buf) (drop r buf) w')"
  by pat_completeness auto
termination
  by (relation "measure (\<lambda>(_, _, _, remaining, _). length remaining)") (auto dest!: file_read_length [OF sym])

declare file_read_exact.simps [simp del]

definition file_write :: "('w, 'z) sftp_api_scheme \<Rightarrow> sftp_file \<Rightarrow> bytes \<Rightarrow> 'w \<Rightarrow> nat result \<times> 'w" where
  "file_write api f data w =
     (case fi_native f of
        None \<Rightarrow> (Inl (invalid_handle_error ''File::try_write''), w)
      | Some n \<Rightarrow>
          (case sftp_write api n data w of
             (rc, w') \<Rightarrow> (if rc < 0 then Inl (file_error api f ''sftp_write'' w') else Inr (nat rc), w')))"

definition file_short_write :: error_info where
  "file_short_write = mk_error errc_channel_closed ''short write'' ''File::try_write_all''"

definition file_write_all :: "('w, 'z) sftp_api_scheme \<Rightarrow> sftp_file \<Rightarrow> bytes \<Rightarrow> 'w \<Rightarrow> unit result \<times> 'w" where
  "file_write_all api f data w = write_all_loop (file_write api f) file_short_write data w"

definition file_tell :: "('w, 'z) sftp_api_scheme \<Rightarrow> sftp_file \<Rightarrow> 'w \<Rightarrow> u64 result" where
  "file_tell api f w =
     (case fi_native f of None \<Rightarrow> Inl (invalid_handle_error ''File::try_tell'') | Some n \<Rightarrow> Inr (sftp_tell64 api n w))"

definition file_seek :: "('w, 'z) sftp_api_scheme \<Rightarrow> sftp_file \<Rightarrow> u64 \<Rightarrow> 'w \<Rightarrow> unit result \<times> 'w" where
  "file_seek api f offset w =
     (case fi_native f of
        None \<Rightarrow> (Inl (invalid_handle_error ''File::try_seek''), w)
      | Some n \<Rightarrow>
          (case sftp_seek64 api n offset w of
             (rc, w') \<Rightarrow> (if rc \<noteq> 0 then Inl (file_error api f ''sftp_seek64'' w') else Inr (), w')))"

definition file_rewind :: "('w, 'z) sftp_api_scheme \<Rightarrow> sftp_file \<Rightarrow> 'w \<Rightarrow> unit result \<times> 'w" where
  "file_rewind api f w =
     (case fi_native f of
        None \<Rightarrow> (Inl (invalid_handle_error ''File::try_rewind''), w) | Some n \<Rightarrow> (Inr (), sftp_rewind api n w))"

definition file_stat :: "('w, 'z) sftp_api_scheme \<Rightarrow> sftp_file \<Rightarrow> 'w \<Rightarrow> attributes result \<times> 'w" where
  "file_stat api f w =
     (case fi_native f of
        None \<Rightarrow> (Inl (invalid_handle_error ''File::try_stat''), w)
      | Some n \<Rightarrow>
          (case sftp_fstat api n w of
             (None, w') \<Rightarrow> (Inl (file_error api f ''sftp_fstat'' w'), w')
           | (Some raw, w') \<Rightarrow> (Inr (attributes_from_native raw), w')))"

text \<open>Truncation goes by the path the file was opened with, not by its handle.\<close>

definition file_truncate :: "('w, 'z) sftp_api_scheme \<Rightarrow> sftp_file \<Rightarrow> u64 \<Rightarrow> 'w \<Rightarrow> unit result \<times> 'w" where
  "file_truncate api f new_size w =
     (case fi_native f of
        None \<Rightarrow> (Inl (invalid_handle_error ''File::try_truncate''), w)
      | Some n \<Rightarrow>
          (case sftp_setstat_size api (fi_sftp f) (c_str (fi_path f)) new_size w of
             (rc, w') \<Rightarrow> (if rc \<noteq> SSH_OK then Inl (file_error api f ''sftp_setstat'' w') else Inr (), w')))"

definition file_close :: "('w, 'z) sftp_api_scheme \<Rightarrow> sftp_file \<Rightarrow> 'w \<Rightarrow> unit result \<times> sftp_file \<times> 'w" where
  "file_close api f w =
     (case fi_native f of
        None \<Rightarrow> (Inr (), f, w)
      | Some n \<Rightarrow>
          (case sftp_close api n w of
             (rc, w') \<Rightarrow>
               (if rc \<noteq> SSH_OK then Inl (mk_error errc_sftp_unavailable [] ''sftp_close'') else Inr (),
                f\<lparr>fi_native := None\<rparr>, w')))"

section \<open>Directories\<close>

record sftp_dir =
  di_native :: "handle option"
  di_sftp :: "handle option"
  di_core :: "handle option"
  di_path :: remote_path
  di_last_error :: error_info

definition dir_release :: "('w, 'z) sftp_api_scheme \<Rightarrow> sftp_dir \<Rightarrow> 'w \<Rightarrow> 'w" where
  "dir_release api d w = (case di_native d of Some n \<Rightarrow> sftp_closedir api n w | None \<Rightarrow> w)"

definition dir_move_ctor :: "sftp_dir \<Rightarrow> sftp_dir \<times> sftp_dir" where
  "dir_move_ctor other =
     (\<lparr>di_native = di_native other, di_sftp = di_sftp other, di_core = di_core other, di_path = di_path other,
       di_last_error = di_last_error other\<rparr>,
      other\<lparr>di_native := None, di_core := None, di_path := []\<rparr>)"

definition dir_move_assign :: "('w, 'z) sftp_api_scheme \<Rightarrow> sftp_dir \<Rightarrow> sftp_dir \<Rightarrow> 'w \<Rightarrow> sftp_dir \<times> sftp_dir \<times> 'w" where
  "dir_move_assign api this other w =
     (case dir_move_ctor other of (this', other') \<Rightarrow> (this', other', dir_release api this w))"

definition dir_next :: "('w, 'z) sftp_api_scheme \<Rightarrow> sftp_dir \<Rightarrow> 'w \<Rightarrow> attributes option \<times> sftp_dir \<times> 'w" where
  "dir_next api d w =
     (case di_native d of
        None \<Rightarrow> (None, d, w)
      | Some n \<Rightarrow>
          (case sftp_readdir api (di_sftp d) n w of
             (Some raw, w') \<Rightarrow> (Some (attributes_from_native raw), d, w')
           | (None, w') \<Rightarrow>
               (None, if sftp_dir_eof api n w' then d
                      else d\<lparr>di_last_error := make_sftp_error_info api w' (di_sftp d) None ''sftp_readdir''\<rparr>, w')))"

definition dir_eof :: "('w, 'z) sftp_api_scheme \<Rightarrow> sftp_dir \<Rightarrow> 'w \<Rightarrow> bool" where
  "dir_eof api d w = (case di_native d of None \<Rightarrow> True | Some n \<Rightarrow> sftp_dir_eof api n w)"

definition dot_entry :: "attributes \<Rightarrow> bool" where
  "dot_entry a \<longleftrightarrow> at_name a = ''.'' \<or> at_name a = ''..''"

text \<open>\<open>DirectoryIterator::advance\<close>: the next entry that is not to be skipped.\<close>

partial_function (option) iterator_advance ::
    "('w, 'z) sftp_api_scheme \<Rightarrow> bool \<Rightarrow> sftp_dir \<Rightarrow> 'w \<Rightarrow> (attributes option \<times> sftp_dir \<times> 'w) option" where
  "iterator_advance api skip_dot d w =
     (case dir_next api d w of
        (None, d', w') \<Rightarrow> Some (None, d', w')
      | (Some a, d', w') \<Rightarrow>
          if \<not> skip_dot \<or> \<not> dot_entry a then Some (Some a, d', w') else iterator_advance api skip_dot d' w')"

section \<open>The session\<close>

record sftp =
  sf_native :: "handle option"
  sf_core :: "handle option"

definition sftp_ctor :: "('w, 'z) sftp_api_scheme \<Rightarrow> session \<Rightarrow> 'w \<Rightarrow> sftp \<times> 'w" where
  "sftp_ctor api se w = (case sftp_new api (se_core se) w of (n, w') \<Rightarrow> (\<lparr>sf_native = n, sf_core = se_core se\<rparr>, w'))"

definition sftp_release :: "('w, 'z) sftp_api_scheme \<Rightarrow> sftp \<Rightarrow> 'w \<Rightarrow> 'w" where
  "sftp_release api s w = (case sf_native s of Some n \<Rightarrow> sftp_free api n w | None \<Rightarrow> w)"

definition sftp_move_ctor :: "sftp \<Rightarrow> sftp \<times> sftp" where
  "sftp_move_ctor other =
     (\<lparr>sf_native = sf_native other, sf_core = sf_core other\<rparr>, other\<lparr>sf_native := None, sf_core := None\<rparr>)"

definition sftp_move_assign :: "('w, 'z) sftp_api_scheme \<Rightarrow> sftp \<Rightarrow> sftp \<Rightarrow> 'w \<Rightarrow> sftp \<times> sftp \<times> 'w" where
  "sftp_move_assign api this other w =
     (case sftp_move_ctor other of (this', other') \<Rightarrow> (this', other', sftp_release api this w))"

definition sftp_try_init :: "('w, 'z) sftp_api_scheme \<Rightarrow> sftp \<Rightarrow> 'w \<Rightarrow> unit result \<times> 'w" where
  "sftp_try_init api s w =
     (case sf_native s of
        None \<Rightarrow> (Inl (mk_error errc_sftp_unavailable [] ''Sftp::try_init''), w)
      | Some n \<Rightarrow>
          (case sftp_init api n w of
             (rc, w') \<Rightarrow>
               (if rc \<noteq> SSH_OK then Inl (make_sftp_error_info api w' (Some n) (sf_core s) ''sftp_init'') else Inr (), w')))"

definition protocol_version :: "('w, 'z) sftp_api_scheme \<Rightarrow> sftp \<Rightarrow> 'w \<Rightarrow> int" where
  "protocol_version api s w = (case sf_native s of Some n \<Rightarrow> sftp_server_version api n w | None \<Rightarrow> 0)"

text \<open>The shapes of the operations: a call that gives something or nothing, and one with a return code.\<close>

definition sftp_get ::
    "('w, 'z) sftp_api_scheme \<Rightarrow> sftp \<Rightarrow> string \<Rightarrow> string \<Rightarrow> (handle \<Rightarrow> 'w \<Rightarrow> 'a option \<times> 'w) \<Rightarrow> 'w \<Rightarrow> 'a result \<times> 'w" where
  "sftp_get api s op native_op call w =
     (case sf_native s of
        None \<Rightarrow> (Inl (invalid_handle_error op), w)
      | Some n \<Rightarrow>
          (case call n w of
             (None, w') \<Rightarrow> (Inl (make_sftp_error_info api w' (Some n) (sf_core s) native_op), w')
           | (Some a, w') \<Rightarrow> (Inr a, w')))"

definition sftp_do ::
    "('w, 'z) sftp_api_scheme \<Rightarrow> sftp \<Rightarrow> string \<Rightarrow> string \<Rightarrow> (handle \<Rightarrow> 'w \<Rightarrow> ssh_rc \<times> 'w) \<Rightarrow> 'w \<Rightarrow> unit result \<times> 'w" where
  "sftp_do api s op native_op call =
     sftp_get api s op native_op (\<lambda>n w. case call n w of (rc, w') \<Rightarrow> (if rc = SSH_OK then Some () else None, w'))"

definition default_limits :: limits where
  "default_limits = \<lparr>max_packet_length = 32768, max_read_length = 32768, max_write_length = 32768, max_open_handles = 0\<rparr>"

definition try_limits :: "('w, 'z) sftp_api_scheme \<Rightarrow> sftp \<Rightarrow> 'w \<Rightarrow> limits result \<times> 'w" where
  "try_limits api s =
     sftp_get api s ''Sftp::try_limits'' ''sftp_limits''
       (\<lambda>n w. if has_sftp_limits api then sftp_limits api n w else (Some default_limits, w))"

record open_mode =
  om_read :: bool
  om_write :: bool
  om_create :: bool
  om_truncate :: bool
  om_append :: bool
  om_exclusive :: bool

text \<open>\<open>O_RDWR\<close> for both, \<open>O_WRONLY\<close> for writing only, \<open>O_RDONLY\<close> in every other case.\<close>

definition open_mode_to_posix :: "open_mode \<Rightarrow> posix_flags" where
  "open_mode_to_posix m =
     \<lparr>of_read = (om_read m \<or> \<not> om_write m), of_write = om_write m, of_creat = om_create m, of_trunc = om_truncate m,
      of_append = om_append m, of_excl = om_exclusive m\<rparr>"

definition sftp_try_open ::
    "('w, 'z) sftp_api_scheme \<Rightarrow> sftp \<Rightarrow> remote_path \<Rightarrow> open_mode \<Rightarrow> u32 \<Rightarrow> 'w \<Rightarrow> sftp_file result \<times> 'w" where
  "sftp_try_open api s p mode perms w =
     (case sftp_get api s ''Sftp::try_open'' ''sftp_open''
             (\<lambda>n. sftp_open api n (c_str p) (open_mode_to_posix mode) perms) w of
        (Inl e, w') \<Rightarrow> (Inl e, w')
      | (Inr raw, w') \<Rightarrow> (Inr \<lparr>fi_native = Some raw, fi_sftp = sf_native s, fi_core = sf_core s, fi_path = p\<rparr>, w'))"

definition sftp_attributes ::
    "native_attributes result \<times> 'w \<Rightarrow> attributes result \<times> 'w" where
  "sftp_attributes r = apfst (map_sum id attributes_from_native) r"

definition sftp_try_stat :: "('w, 'z) sftp_api_scheme \<Rightarrow> sftp \<Rightarrow> remote_path \<Rightarrow> 'w \<Rightarrow> attributes result \<times> 'w" where
  "sftp_try_stat api s p w =
     sftp_attributes (sftp_get api s ''Sftp::try_stat'' ''sftp_stat'' (\<lambda>n. sftp_stat api n (c_str p)) w)"

definition sftp_try_lstat :: "('w, 'z) sftp_api_scheme \<Rightarrow> sftp \<Rightarrow> remote_path \<Rightarrow> 'w \<Rightarrow> attributes result \<times> 'w" where
  "sftp_try_lstat api s p w =
     sftp_attributes (sftp_get api s ''Sftp::try_lstat'' ''sftp_lstat'' (\<lambda>n. sftp_lstat api n (c_str p)) w)"

definition not_found_codes :: "error_code list" where
  "not_found_codes = [make_sftp_error_code (sftp_errc_value sftp_errc_no_such_file),
     make_sftp_error_code (sftp_errc_value sftp_errc_no_such_path)]"

definition try_exists :: "('w, 'z) sftp_api_scheme \<Rightarrow> sftp \<Rightarrow> remote_path \<Rightarrow> 'w \<Rightarrow> bool result \<times> 'w" where
  "try_exists api s p w =
     (case sftp_try_stat api s p w of
        (Inr _, w') \<Rightarrow> (Inr True, w')
      | (Inl e, w') \<Rightarrow> (if code e \<in> set not_found_codes then Inr False else Inl e, w'))"

definition try_chmod :: "('w, 'z) sftp_api_scheme \<Rightarrow> sftp \<Rightarrow> remote_path \<Rightarrow> u32 \<Rightarrow> 'w \<Rightarrow> unit result \<times> 'w" where
  "try_chmod api s p perms = sftp_do api s ''Sftp::try_chmod'' ''sftp_chmod'' (\<lambda>n. sftp_chmod api n (c_str p) perms)"

definition try_chown :: "('w, 'z) sftp_api_scheme \<Rightarrow> sftp \<Rightarrow> remote_path \<Rightarrow> u32 \<Rightarrow> u32 \<Rightarrow> 'w \<Rightarrow> unit result \<times> 'w" where
  "try_chown api s p uid gid = sftp_do api s ''Sftp::try_chown'' ''sftp_chown'' (\<lambda>n. sftp_chown api n (c_str p) uid gid)"

definition try_mkdir :: "('w, 'z) sftp_api_scheme \<Rightarrow> sftp \<Rightarrow> remote_path \<Rightarrow> u32 \<Rightarrow> 'w \<Rightarrow> unit result \<times> 'w" where
  "try_mkdir api s p perms = sftp_do api s ''Sftp::try_mkdir'' ''sftp_mkdir'' (\<lambda>n. sftp_mkdir api n (c_str p) perms)"

definition try_rmdir :: "('w, 'z) sftp_api_scheme \<Rightarrow> sftp \<Rightarrow> remote_path \<Rightarrow> 'w \<Rightarrow> unit result \<times> 'w" where
  "try_rmdir api s p = sftp_do api s ''Sftp::try_rmdir'' ''sftp_rmdir'' (\<lambda>n. sftp_rmdir api n (c_str p))"

definition try_remove :: "('w, 'z) sftp_api_scheme \<Rightarrow> sftp \<Rightarrow> remote_path \<Rightarrow> 'w \<Rightarrow> unit result \<times> 'w" where
  "try_remove api s p = sftp_do api s ''Sftp::try_remove'' ''sftp_unlink'' (\<lambda>n. sftp_unlink api n (c_str p))"

definition try_rename :: "('w, 'z) sftp_api_scheme \<Rightarrow> sftp \<Rightarrow> remote_path \<Rightarrow> remote_path \<Rightarrow> 'w \<Rightarrow> unit result \<times> 'w" where
  "try_rename api s p q = sftp_do api s ''Sftp::try_rename'' ''sftp_rename'' (\<lambda>n. sftp_rename api n (c_str p) (c_str q))"

definition try_symlink :: "('w, 'z) sftp_api_scheme \<Rightarrow> sftp \<Rightarrow> remote_path \<Rightarrow> remote_path \<Rightarrow> 'w \<Rightarrow> unit result \<times> 'w" where
  "try_symlink api s target link =
     sftp_do api s ''Sftp::try_symlink'' ''sftp_symlink'' (\<lambda>n. sftp_symlink api n (c_str target) (c_str link))"

definition try_readlink :: "('w, 'z) sftp_api_scheme \<Rightarrow> sftp \<Rightarrow> remote_path \<Rightarrow> 'w \<Rightarrow> remote_path result \<times> 'w" where
  "try_readlink api s p = sftp_get api s ''Sftp::try_readlink'' ''sftp_readlink'' (\<lambda>n. sftp_readlink api n (c_str p))"

definition try_canonicalize :: "('w, 'z) sftp_api_scheme \<Rightarrow> sftp \<Rightarrow> remote_path \<Rightarrow> 'w \<Rightarrow> remote_path result \<times> 'w" where
  "try_canonicalize api s p =
     sftp_get api s ''Sftp::try_canonicalize'' ''sftp_canonicalize_path'' (\<lambda>n. sftp_canonicalize_path api n (c_str p))"

definition try_open_directory ::
    "('w, 'z) sftp_api_scheme \<Rightarrow> sftp \<Rightarrow> remote_path \<Rightarrow> 'w \<Rightarrow> sftp_dir result \<times> 'w" where
  "try_open_directory api s p w =
     (case sftp_get api s ''Sftp::try_open_directory'' ''sftp_opendir'' (\<lambda>n. sftp_opendir api n (c_str p)) w of
        (Inl e, w') \<Rightarrow> (Inl e, w')
      | (Inr raw, w') \<Rightarrow>
          (Inr \<lparr>di_native = Some raw, di_sftp = sf_native s, di_core = sf_core s, di_path = p, di_last_error = no_error_info\<rparr>, w'))"

text \<open>The loops over a directory: a server may send entries for ever.\<close>

partial_function (option) list_loop ::
    "('w, 'z) sftp_api_scheme \<Rightarrow> sftp_dir \<Rightarrow> attributes list \<Rightarrow> 'w \<Rightarrow> (attributes list \<times> sftp_dir \<times> 'w) option" where
  "list_loop api d acc w =
     (case dir_next api d w of
        (None, d', w') \<Rightarrow> Some (acc, d', w')
      | (Some a, d', w') \<Rightarrow> list_loop api d' (if dot_entry a then acc else acc @ [a]) w')"

definition try_list ::
    "('w, 'z) sftp_api_scheme \<Rightarrow> sftp \<Rightarrow> remote_path \<Rightarrow> 'w \<Rightarrow> (attributes list result \<times> 'w) option" where
  "try_list api s p w =
     (case try_open_directory api s p w of
        (Inl e, w1) \<Rightarrow> Some (Inl e, w1)
      | (Inr d, w1) \<Rightarrow>
          (case list_loop api d [] w1 of
             None \<Rightarrow> None
           | Some (acc, d', w2) \<Rightarrow>
               Some (if error_info_bool (di_last_error d') then Inl (di_last_error d') else Inr acc, dir_release api d' w2)))"

text \<open>\<open>try_mkdir_p\<close>: \<open>rest\<close> is what is left of the path at \<open>pos\<close>.\<close>

function mkdir_p_loop ::
    "('w, 'z) sftp_api_scheme \<Rightarrow> sftp \<Rightarrow> u32 \<Rightarrow> remote_path \<Rightarrow> string \<Rightarrow> 'w \<Rightarrow> unit result \<times> 'w" where
  "mkdir_p_loop api s perms current rest w =
     (if rest = [] then (Inr (), w)
      else let segment = (case str_find CHR ''/'' rest of None \<Rightarrow> rest | Some next \<Rightarrow> take next rest);
               current' = (if segment = [] then current
                           else (if current \<noteq> [] \<and> last current \<noteq> CHR ''/'' then current @ ''/'' else current) @ segment)
        in case (if segment = [] then (Inr (), w)
                 else case try_exists api s current' w of
                   (Inl e, w1) \<Rightarrow> (Inl e, w1)
                 | (Inr ex, w1) \<Rightarrow> if ex then (Inr (), w1) else try_mkdir api s current' perms w1) of
             (Inl e, w2) \<Rightarrow> (Inl e, w2)
           | (Inr _, w2) \<Rightarrow>
               (case str_find CHR ''/'' rest of
                  None \<Rightarrow> (Inr (), w2)
                | Some next \<Rightarrow> mkdir_p_loop api s perms current' (drop (Suc next) rest) w2))"
  by pat_completeness auto
termination
  by (relation "measure (\<lambda>(_, _, _, _, rest, _). length rest)") auto

declare mkdir_p_loop.simps [simp del]

definition try_mkdir_p :: "('w, 'z) sftp_api_scheme \<Rightarrow> sftp \<Rightarrow> remote_path \<Rightarrow> u32 \<Rightarrow> 'w \<Rightarrow> unit result \<times> 'w" where
  "try_mkdir_p api s p perms w =
     mkdir_p_loop api s perms (if p \<noteq> [] \<and> hd p = CHR ''/'' then ''/'' else []) p w"

section \<open>Ownership\<close>

definition file_raii :: "handle list sftp_api \<Rightarrow> sftp_file raii_ops" where
  "file_raii api0 = (let api = api0\<lparr>sftp_close := \<lambda>h w. (SSH_OK, w @ [h])\<rparr> in
     \<lparr>r_native = fi_native, r_owns = \<lambda>_. True,
      r_adopt = \<lambda>h. \<lparr>fi_native = Some h, fi_sftp = None, fi_core = None, fi_path = []\<rparr>,
      r_destroy = \<lambda>x. snd (file_dtor api x []), r_move = file_move_ctor,
      r_assign = \<lambda>x y. case file_move_assign api x y [] of (x', y', fs) \<Rightarrow> (fs, x', y')\<rparr>)"

interpretation sfile: move_only "file_raii api" for api
  by unfold_locales
    (auto simp: file_raii_def held_def file_dtor_def file_release_def file_move_ctor_def file_move_assign_def Let_def
      split: option.splits)

definition dir_raii :: "handle list sftp_api \<Rightarrow> sftp_dir raii_ops" where
  "dir_raii api0 = (let api = api0\<lparr>sftp_closedir := \<lambda>h w. w @ [h]\<rparr> in
     \<lparr>r_native = di_native, r_owns = \<lambda>_. True,
      r_adopt = \<lambda>h. \<lparr>di_native = Some h, di_sftp = None, di_core = None, di_path = [], di_last_error = no_error_info\<rparr>,
      r_destroy = \<lambda>x. dir_release api x [], r_move = dir_move_ctor,
      r_assign = \<lambda>x y. case dir_move_assign api x y [] of (x', y', fs) \<Rightarrow> (fs, x', y')\<rparr>)"

interpretation sdir: move_only "dir_raii api" for api
  by unfold_locales
    (auto simp: dir_raii_def held_def dir_release_def dir_move_ctor_def dir_move_assign_def Let_def split: option.splits)

definition sftp_raii :: "handle list sftp_api \<Rightarrow> sftp raii_ops" where
  "sftp_raii api0 = (let api = api0\<lparr>sftp_free := \<lambda>h w. w @ [h]\<rparr> in
     \<lparr>r_native = sf_native, r_owns = \<lambda>_. True, r_adopt = \<lambda>h. \<lparr>sf_native = Some h, sf_core = None\<rparr>,
      r_destroy = \<lambda>x. sftp_release api x [], r_move = sftp_move_ctor,
      r_assign = \<lambda>x y. case sftp_move_assign api x y [] of (x', y', fs) \<Rightarrow> (fs, x', y')\<rparr>)"

interpretation sftp_session: move_only "sftp_raii api" for api
  by unfold_locales
    (auto simp: sftp_raii_def held_def sftp_release_def sftp_move_ctor_def sftp_move_assign_def Let_def split: option.splits)

section \<open>Writing files\<close>

text \<open>\<open>stored f w\<close> is the stream of bytes written through the file \<open>f\<close>.\<close>

definition file_write_contract :: "('w, 'z) sftp_api_scheme \<Rightarrow> (sftp_file \<Rightarrow> 'w \<Rightarrow> bytes) \<Rightarrow> bool" where
  "file_write_contract api stored \<longleftrightarrow>
     (\<forall>f n d w rc w'. fi_native f = Some n \<longrightarrow> sftp_write api n d w = (rc, w') \<longrightarrow>
        rc \<le> int (length d) \<and> stored f w' = stored f w @ take (nat rc) d)"

interpretation file_write: write_attempt file_write file_write_contract id
  by unfold_locales
    (fastforce simp: file_write_def file_write_contract_def split: option.splits prod.splits if_splits)+

lemma file_write_all_stored:
  assumes "file_write_contract api stored"
  shows "case file_write_all api f data w of
           (Inr _, w') \<Rightarrow> stored f w' = stored f w @ data
         | (Inl _, w') \<Rightarrow> \<exists>k \<le> length data. stored f w' = stored f w @ take k data"
  unfolding file_write_all_def by (rule file_write.write_all_prefix [OF assms])

end
