(* ===== verification/Sftp_Store.thy ===== *)
theory Sftp_Store
  imports Sftp_Client
begin

text \<open>
  What the SFTP client promises about the server's files and directories: listing a directory returns
  its entries; a failure that libssh reports without an SFTP error code is lost; creating a path with
  its parents leaves every directory on the way existing.

  The server of the witnesses is \<open>sim_sftp\<close>: files as a map from paths to their content, open files
  with their positions, directories with their entries. It moves at most \<open>cap\<close> bytes in one call.
\<close>

section \<open>A simulated server\<close>

record sim_sftp = sim_session +
  sv_files :: "string \<rightharpoonup> bytes"
  sv_dirs :: "string \<rightharpoonup> native_attributes list"
  sv_cur :: "handle \<rightharpoonup> string \<times> nat"
  sv_list :: "handle \<Rightarrow> native_attributes list"
  sv_aio :: "handle \<rightharpoonup> string \<times> nat \<times> nat"
  sv_next :: handle
  sv_local :: "string \<rightharpoonup> bytes"
  sv_stream :: "string \<Rightarrow> bytes"
  sv_touched :: "string list"

definition sim_entry :: "string \<Rightarrow> byte \<Rightarrow> native_attributes" where
  "sim_entry name ty = \<lparr>na_name = Some name, na_longname = None, na_flags = 0, na_type = ty, na_size = 0, na_uid = 0,
     na_gid = 0, na_owner = None, na_group = None, na_permissions = 420, na_atime64 = 0, na_mtime64 = 0,
     na_createtime = 0\<rparr>"

definition sim_open :: "string \<Rightarrow> posix_flags \<Rightarrow> sim_sftp \<Rightarrow> handle option \<times> sim_sftp" where
  "sim_open p fl w =
     (if sv_files w p = None \<and> \<not> of_creat fl \<or> sv_files w p \<noteq> None \<and> of_excl fl then (None, w)
      else (Some (sv_next w),
        w\<lparr>sv_files := (if of_trunc fl \<or> sv_files w p = None then (sv_files w)(p \<mapsto> []) else sv_files w),
          sv_cur := (sv_cur w)(sv_next w \<mapsto> (p, 0)), sv_next := sv_next w + 1\<rparr>))"

definition sim_file_read :: "nat \<Rightarrow> handle \<Rightarrow> nat \<Rightarrow> sim_sftp \<Rightarrow> int \<times> bytes \<times> sim_sftp" where
  "sim_file_read cap h k w =
     (case sv_cur w h of
        None \<Rightarrow> (-1, [], w)
      | Some (p, pos) \<Rightarrow>
          (case sv_files w p of
             None \<Rightarrow> (-1, [], w)
           | Some c \<Rightarrow> (let d = take (min cap k) (drop pos c)
               in (int (length d), d, w\<lparr>sv_cur := (sv_cur w)(h \<mapsto> (p, pos + length d))\<rparr>))))"

definition sim_file_write :: "nat \<Rightarrow> handle \<Rightarrow> bytes \<Rightarrow> sim_sftp \<Rightarrow> int \<times> sim_sftp" where
  "sim_file_write cap h d w =
     (case sv_cur w h of
        None \<Rightarrow> (-1, w)
      | Some (p, pos) \<Rightarrow>
          (case sv_files w p of
             None \<Rightarrow> (-1, w)
           | Some c \<Rightarrow> (let e = take cap d
               in (int (length e), w\<lparr>sv_files := (sv_files w)(p \<mapsto> take pos c @ e @ drop (pos + length e) c),
                     sv_cur := (sv_cur w)(h \<mapsto> (p, pos + length e))\<rparr>))))"

definition sim_attr :: "string \<Rightarrow> sim_sftp \<Rightarrow> native_attributes option" where
  "sim_attr p w = (if sv_files w p \<noteq> None then Some (sim_entry p 1)
     else if sv_dirs w p \<noteq> None then Some (sim_entry p 2) else None)"

text \<open>
  A read in the background takes its position when it is started, is cut to \<open>cap\<close> bytes then, and gives
  its bytes when it is waited for.
\<close>

definition sim_begin_read :: "nat \<Rightarrow> handle \<Rightarrow> nat \<Rightarrow> sim_sftp \<Rightarrow> int \<times> handle option \<times> sim_sftp" where
  "sim_begin_read cap h k w =
     (case sv_cur w h of
        None \<Rightarrow> (-1, None, w)
      | Some (p, pos) \<Rightarrow> (int (min cap k), Some (sv_next w), w\<lparr>sv_aio := (sv_aio w)(sv_next w \<mapsto> (p, pos, min cap k)),
          sv_cur := (sv_cur w)(h \<mapsto> (p, pos + min cap k)), sv_next := sv_next w + 1\<rparr>))"

definition sim_wait_read :: "handle \<Rightarrow> nat \<Rightarrow> sim_sftp \<Rightarrow> int \<times> bytes \<times> sim_sftp" where
  "sim_wait_read a k w =
     (case sv_aio w a of
        None \<Rightarrow> (-1, [], w)
      | Some (p, pos, len) \<Rightarrow>
          (case sv_files w p of
             None \<Rightarrow> (-1, [], w)
           | Some c \<Rightarrow> (let d = take len (drop pos c) in (int (length d), d, w\<lparr>sv_aio := (sv_aio w)(a := None)\<rparr>))))"

definition sim_readdir :: "handle \<Rightarrow> sim_sftp \<Rightarrow> native_attributes option \<times> sim_sftp" where
  "sim_readdir h w =
     (case sv_list w h of
        [] \<Rightarrow> (None, w) | a # rest \<Rightarrow> (Some a, w\<lparr>sv_list := (sv_list w)(h := rest)\<rparr>))"

definition sim_opendir :: "string \<Rightarrow> sim_sftp \<Rightarrow> handle option \<times> sim_sftp" where
  "sim_opendir p w =
     (case sv_dirs w p of
        None \<Rightarrow> (None, w)
      | Some es \<Rightarrow> (Some (sv_next w), w\<lparr>sv_list := (sv_list w)(sv_next w := es), sv_next := sv_next w + 1\<rparr>))"

definition sim_sftp_api :: "nat \<Rightarrow> sim_sftp sftp_api" where
  "sim_sftp_api cap = session_api.extend (sim_session_api\<lparr>sftp_get_error := \<lambda>_ _. 2\<rparr>)
     \<lparr>sftp_new = \<lambda>_ w. (Some 2, w), sftp_free = \<lambda>_ w. w, sftp_init = \<lambda>_ w. (SSH_OK, w), sftp_server_version = \<lambda>_ _. 3,
      has_sftp_limits = False, sftp_limits = \<lambda>_ w. (None, w),
      sftp_open = \<lambda>_ p fl _. sim_open p fl, sftp_close = \<lambda>h w. (SSH_OK, w\<lparr>sv_cur := (sv_cur w)(h := None)\<rparr>),
      sftp_read = sim_file_read cap, sftp_write = sim_file_write cap,
      sftp_tell64 = \<lambda>h w. (case sv_cur w h of None \<Rightarrow> 0 | Some (_, pos) \<Rightarrow> of_nat pos),
      sftp_seek64 = \<lambda>h pos w. (0, w\<lparr>sv_cur := (sv_cur w)(h := map_option (\<lambda>(p, _). (p, unat pos)) (sv_cur w h))\<rparr>),
      sftp_rewind = \<lambda>h w. w\<lparr>sv_cur := (sv_cur w)(h := map_option (\<lambda>(p, _). (p, 0)) (sv_cur w h))\<rparr>,
      sftp_fstat = \<lambda>h w. (case sv_cur w h of None \<Rightarrow> None | Some (p, _) \<Rightarrow> sim_attr p w, w),
      sftp_setstat_size = \<lambda>_ _ _ w. (SSH_OK, w),
      sftp_stat = \<lambda>_ p w. (sim_attr p w, w), sftp_lstat = \<lambda>_ p w. (sim_attr p w, w),
      sftp_chmod = \<lambda>_ _ _ w. (SSH_OK, w), sftp_chown = \<lambda>_ _ _ _ w. (SSH_OK, w),
      sftp_mkdir = \<lambda>_ p _ w. (if sim_attr p w \<noteq> None then (SSH_ERROR, w) else (SSH_OK, w\<lparr>sv_dirs := (sv_dirs w)(p \<mapsto> [])\<rparr>)),
      sftp_rmdir = \<lambda>_ p w. (SSH_OK, w\<lparr>sv_dirs := (sv_dirs w)(p := None)\<rparr>),
      sftp_unlink = \<lambda>_ p w. (SSH_OK, w\<lparr>sv_files := (sv_files w)(p := None)\<rparr>),
      sftp_rename = \<lambda>_ _ _ w. (SSH_ERROR, w), sftp_symlink = \<lambda>_ _ _ w. (SSH_ERROR, w),
      sftp_readlink = \<lambda>_ _ w. (None, w), sftp_canonicalize_path = \<lambda>_ p w. (Some p, w),
      sftp_opendir = \<lambda>_. sim_opendir, sftp_readdir = \<lambda>_. sim_readdir, sftp_dir_eof = \<lambda>h w. sv_list w h = [],
      sftp_closedir = \<lambda>_ w. w, has_sftp_aio = True,
      sftp_aio_begin_read = sim_begin_read cap, sftp_aio_wait_read = sim_wait_read,
      sftp_aio_begin_write = \<lambda>_ _ w. (-1, None, w), sftp_aio_wait_write = \<lambda>_ w. (-1, w),
      sftp_aio_free = \<lambda>a w. w\<lparr>sv_aio := (sv_aio w)(a := None)\<rparr>\<rparr>"

lemma sim_sftp_sel [simp]:
  "sftp_open (sim_sftp_api cap) = (\<lambda>_ p fl _. sim_open p fl)"
  "sftp_close (sim_sftp_api cap) = (\<lambda>h w. (SSH_OK, w\<lparr>sv_cur := (sv_cur w)(h := None)\<rparr>))"
  "sftp_read (sim_sftp_api cap) = sim_file_read cap"
  "sftp_write (sim_sftp_api cap) = sim_file_write cap"
  "sftp_fstat (sim_sftp_api cap) = (\<lambda>h w. (case sv_cur w h of None \<Rightarrow> None | Some (p, _) \<Rightarrow> sim_attr p w, w))"
  "sftp_stat (sim_sftp_api cap) = (\<lambda>_ p w. (sim_attr p w, w))"
  "sftp_mkdir (sim_sftp_api cap) =
     (\<lambda>_ p _ w. (if sim_attr p w \<noteq> None then (SSH_ERROR, w) else (SSH_OK, w\<lparr>sv_dirs := (sv_dirs w)(p \<mapsto> [])\<rparr>)))"
  "sftp_opendir (sim_sftp_api cap) = (\<lambda>_. sim_opendir)"
  "sftp_readdir (sim_sftp_api cap) = (\<lambda>_. sim_readdir)"
  "sftp_dir_eof (sim_sftp_api cap) = (\<lambda>h w. sv_list w h = [])"
  "sftp_closedir (sim_sftp_api cap) = (\<lambda>_ w. w)"
  "sftp_get_error (sim_sftp_api cap) = (\<lambda>_ _. 2)"
  "has_sftp_aio (sim_sftp_api cap)"
  "sftp_aio_begin_read (sim_sftp_api cap) = sim_begin_read cap"
  "sftp_aio_wait_read (sim_sftp_api cap) = sim_wait_read"
  "sftp_aio_free (sim_sftp_api cap) = (\<lambda>a w. w\<lparr>sv_aio := (sv_aio w)(a := None)\<rparr>)"
  by (simp_all add: sim_sftp_api_def session_api.defs)

definition sftp_world :: "(string \<rightharpoonup> bytes) \<Rightarrow> (string \<rightharpoonup> native_attributes list) \<Rightarrow> sim_sftp" where
  "sftp_world files dirs =
     sim_session.extend (sim_world SSH_KNOWN_HOSTS_OK)
       \<lparr>sv_files = files, sv_dirs = dirs, sv_cur = (\<lambda>_. None), sv_list = (\<lambda>_. []), sv_aio = (\<lambda>_. None), sv_next = 10,
        sv_local = (\<lambda>_. None), sv_stream = (\<lambda>_. []), sv_touched = []\<rparr>"

lemma sftp_world_sel [simp]:
  "sv_files (sftp_world files dirs) = files" "sv_dirs (sftp_world files dirs) = dirs"
  "sv_cur (sftp_world files dirs) = (\<lambda>_. None)" "sv_list (sftp_world files dirs) = (\<lambda>_. [])"
  "sv_aio (sftp_world files dirs) = (\<lambda>_. None)" "sv_next (sftp_world files dirs) = 10"
  "sv_local (sftp_world files dirs) = (\<lambda>_. None)" "sv_stream (sftp_world files dirs) = (\<lambda>_. [])"
  "sv_touched (sftp_world files dirs) = []"
  by (simp_all add: sftp_world_def sim_session.defs)

definition sim_sftp_client :: sftp where
  "sim_sftp_client = \<lparr>sf_native = Some 2, sf_core = Some 1\<rparr>"

section \<open>Listing\<close>

text \<open>
  \<open>entries d w\<close> are the entries the server has still to send for the directory handle \<open>d\<close>.
\<close>

definition dir_contract :: "('w, 'z) sftp_api_scheme \<Rightarrow> (handle \<Rightarrow> 'w \<Rightarrow> native_attributes list) \<Rightarrow> bool" where
  "dir_contract api entries \<longleftrightarrow>
     (\<forall>s d w. case entries d w of
        [] \<Rightarrow> fst (sftp_readdir api s d w) = None \<and> sftp_dir_eof api d (snd (sftp_readdir api s d w))
      | a # rest \<Rightarrow> fst (sftp_readdir api s d w) = Some a \<and> entries d (snd (sftp_readdir api s d w)) = rest)"

lemma list_loop_complete:
  assumes "dir_contract api entries" "di_native d = Some n"
  shows "\<exists>w'. list_loop api d acc w =
     Some (acc @ filter (\<lambda>a. \<not> dot_entry a) (map attributes_from_native (entries n w)), d, w')"
proof (induction "entries n w" arbitrary: acc w)
  case Nil
  then have "fst (sftp_readdir api (di_sftp d) n w) = None \<and> sftp_dir_eof api n (snd (sftp_readdir api (di_sftp d) n w))"
    using assms(1) [unfolded dir_contract_def, rule_format, of "di_sftp d" n w] by simp
  then show ?case using Nil assms(2) by (cases "sftp_readdir api (di_sftp d) n w") (auto simp: list_loop.simps dir_next_def)
next
  case (Cons a rest)
  obtain r w1 where rd: "sftp_readdir api (di_sftp d) n w = (r, w1)" by fastforce
  have r: "r = Some a" "entries n w1 = rest"
    using assms(1) [unfolded dir_contract_def, rule_format, of "di_sftp d" n w] Cons.hyps(2) [symmetric] rd by auto
  let ?acc = "if dot_entry (attributes_from_native a) then acc else acc @ [attributes_from_native a]"
  have step: "list_loop api d acc w = list_loop api d ?acc w1"
    using rd r assms(2) by (simp add: list_loop.simps [of api d acc w] dir_next_def)
  obtain w' where "list_loop api d ?acc w1 =
      Some (?acc @ filter (\<lambda>a. \<not> dot_entry a) (map attributes_from_native (entries n w1)), d, w')"
    using Cons.hyps(1) [of w1 ?acc] r(2) by metis
  then show ?case unfolding step using r(2) Cons.hyps(2) [symmetric] by auto
qed

text \<open>
  Listing a directory whose entries the server sends without failing returns exactly these entries
  in the order sent, all their attributes copied, without the two dot entries; and it returns.
\<close>
theorem list_returns_entries:
  assumes "dir_contract api entries" and "sf_native s = Some n" and "sftp_opendir api n (c_str p) w = (Some d, w1)"
  shows "\<exists>w'. try_list api s p w =
     Some (Inr (filter (\<lambda>a. \<not> dot_entry a) (map attributes_from_native (entries d w1))), w')"
proof -
  let ?d = "\<lparr>di_native = Some d, di_sftp = sf_native s, di_core = sf_core s, di_path = p, di_last_error = no_error_info\<rparr>"
  obtain w' where "list_loop api ?d [] w1 =
      Some (filter (\<lambda>a. \<not> dot_entry a) (map attributes_from_native (entries d w1)), ?d, w')"
    using list_loop_complete [OF assms(1), of ?d d "[]" w1] by auto
  moreover have "\<not> error_info_bool no_error_info"
    by (simp add: error_info_bool_def ec_bool_def no_error_info_def no_error_code_def)
  ultimately show ?thesis using assms(2,3) by (simp add: try_list_def try_open_directory_def sftp_get_def)
qed

lemma sim_dir_contract: "dir_contract (sim_sftp_api cap) (\<lambda>d w. sv_list w d)"
  by (auto simp: dir_contract_def sim_readdir_def split: list.splits)

definition sim_listing :: "native_attributes list" where
  "sim_listing = [sim_entry ''.'' 2, sim_entry ''..'' 2, sim_entry ''a'' 1, sim_entry ''b'' 2]"

theorem list_returns_entries_witness:
  "\<exists>w'. try_list (sim_sftp_api 4) sim_sftp_client ''d'' (sftp_world Map.empty [''d'' \<mapsto> sim_listing])
     = Some (Inr [attributes_from_native (sim_entry ''a'' 1), attributes_from_native (sim_entry ''b'' 2)], w')"
proof -
  have "sftp_opendir (sim_sftp_api 4) 2 (c_str ''d'') (sftp_world Map.empty [''d'' \<mapsto> sim_listing])
      = (Some 10, (sftp_world Map.empty [''d'' \<mapsto> sim_listing])\<lparr>sv_list := (\<lambda>_. [])(10 := sim_listing), sv_next := 11\<rparr>)"
    by (simp add: sim_opendir_def c_str_def)
  from list_returns_entries [OF sim_dir_contract _ this, of sim_sftp_client] show ?thesis
    by (simp add: sim_sftp_client_def sim_listing_def sim_entry_def dot_entry_def attributes_from_native_def)
qed

text \<open>
  A listing that fails in the middle while libssh holds no SFTP error code, as it does when the
  connection breaks, is reported as a success with the entries read so far.
\<close>
theorem list_loses_failure:
  assumes "sf_native s = Some n" and "sftp_opendir api n (c_str p) w = (Some d, w1)"
    and "sftp_readdir api (Some n) d w1 = (None, w2)" and "\<not> sftp_dir_eof api d w2" and "sftp_get_error api w2 n = 0"
  shows "\<exists>w'. try_list api s p w = Some (Inr [], w')"
proof -
  have "\<not> error_info_bool (make_sftp_error_info api w2 (Some n) None ''sftp_readdir'')"
    using assms(5) by (simp add: make_sftp_error_info_def error_info_bool_def ec_bool_def make_sftp_error_code_def)
  then show ?thesis
    using assms by (simp add: try_list_def try_open_directory_def sftp_get_def list_loop.simps dir_next_def)
qed

theorem list_loses_failure_witness:
  "\<exists>w'. try_list ((sim_sftp_api 4)\<lparr>sftp_dir_eof := \<lambda>_ _. False, sftp_get_error := \<lambda>_ _. 0\<rparr>) sim_sftp_client ''d''
       (sftp_world Map.empty [''d'' \<mapsto> []]) = Some (Inr [], w')"
  by (rule list_loses_failure [where d = 10 and n = 2 and
        ?w1.0 = "(sftp_world Map.empty [''d'' \<mapsto> []])\<lparr>sv_list := (\<lambda>_. [])(10 := []), sv_next := 11\<rparr>"
        and ?w2.0 = "(sftp_world Map.empty [''d'' \<mapsto> []])\<lparr>sv_list := (\<lambda>_. [])(10 := []), sv_next := 11\<rparr>"])
    (simp_all add: sim_sftp_client_def sim_opendir_def sim_readdir_def c_str_def)

section \<open>Creating a path\<close>

text \<open>The directories on the way to a path, one name after the other below \<open>current\<close>.\<close>

definition below :: "remote_path \<Rightarrow> string \<Rightarrow> remote_path" where
  "below current segment = (if current \<noteq> [] \<and> last current \<noteq> CHR ''/'' then current @ ''/'' else current) @ segment"

fun way_to :: "remote_path \<Rightarrow> string list \<Rightarrow> remote_path list" where
  "way_to current [] = []"
| "way_to current (s # ss) = below current s # way_to (below current s) ss"

definition segments :: "string \<Rightarrow> string list" where
  "segments rest = filter (\<lambda>s. s \<noteq> []) (split_slash [] rest)"

definition parents_of :: "remote_path \<Rightarrow> remote_path list" where
  "parents_of p = way_to (if p \<noteq> [] \<and> hd p = CHR ''/'' then ''/'' else []) (segments p)"

lemma segments_step:
  "segments rest =
     (case str_find CHR ''/'' rest of
        None \<Rightarrow> if rest = [] then [] else [rest]
      | Some k \<Rightarrow> (if take k rest = [] then [] else [take k rest]) @ segments (drop (Suc k) rest))"
proof (cases "str_find CHR ''/'' rest")
  case None
  then show ?thesis by (simp add: segments_def split_slash_no_slash)
next
  case (Some k)
  note f = str_find_SomeD [OF Some]
  then have "rest = take k rest @ CHR ''/'' # drop (Suc k) rest" by (metis id_take_nth_drop)
  then have "split_slash [] rest = [take k rest] @ split_slash [] (drop (Suc k) rest)"
    using f split_slash_append [of "[]" "take k rest" "drop (Suc k) rest"]
      split_slash_no_slash [of "take k rest" "[]"] by simp
  then show ?thesis using Some by (simp add: segments_def)
qed

text \<open>\<open>ex w\<close> are the paths that exist on the server.\<close>

definition tree_contract :: "('w, 'z) sftp_api_scheme \<Rightarrow> handle \<Rightarrow> ('w \<Rightarrow> string set) \<Rightarrow> bool" where
  "tree_contract api n ex \<longleftrightarrow>
     (\<forall>p w. (fst (sftp_stat api n p w) \<noteq> None \<longrightarrow> p \<in> ex w) \<and> ex (snd (sftp_stat api n p w)) = ex w)
     \<and> (\<forall>p perms w rc w'. sftp_mkdir api n p perms w = (rc, w') \<longrightarrow>
          ex w' = (if rc = SSH_OK then insert p (ex w) else ex w))"

lemma make_one:
  assumes "tree_contract api n ex" "sf_native s = Some n"
    and "(case try_exists api s q w of (Inl e, w1) \<Rightarrow> (Inl e, w1)
          | (Inr b, w1) \<Rightarrow> if b then (Inr (), w1) else try_mkdir api s q perms w1) = (Inr (), w')"
  shows "ex w' = insert (c_str q) (ex w)"
proof -
  obtain a w1 where st: "sftp_stat api n (c_str q) w = (a, w1)" by fastforce
  obtain rc w2 where mk: "sftp_mkdir api n (c_str q) perms w1 = (rc, w2)" by fastforce
  have "a \<noteq> None \<longrightarrow> c_str q \<in> ex w" "ex w1 = ex w" "ex w2 = (if rc = SSH_OK then insert (c_str q) (ex w1) else ex w1)"
    using assms(1) st mk unfolding tree_contract_def by (metis fst_conv snd_conv)+
  then show ?thesis
    using assms(2,3) st mk
    by (cases a) (auto simp: try_exists_def sftp_try_stat_def sftp_attributes_def sftp_get_def try_mkdir_def sftp_do_def
        split: if_splits)
qed

lemma mkdir_p_loop_makes:
  assumes "tree_contract api n ex" "sf_native s = Some n"
    and "mkdir_p_loop api s perms current rest w = (Inr (), w')"
  shows "ex w' = ex w \<union> c_str ` set (way_to current (segments rest))"
  using assms(3)
proof (induction "length rest" arbitrary: current rest w rule: less_induct)
  case less
  show ?case
  proof (cases "rest = []")
    case True
    then show ?thesis using less.prems by (simp add: mkdir_p_loop.simps segments_def)
  next
    case False
    let ?seg = "case str_find CHR ''/'' rest of None \<Rightarrow> rest | Some k \<Rightarrow> take k rest"
    let ?cur = "if ?seg = [] then current else below current ?seg"
    let ?one = "if ?seg = [] then (Inr (), w)
        else case try_exists api s ?cur w of (Inl e, w1) \<Rightarrow> (Inl e, w1)
          | (Inr b, w1) \<Rightarrow> if b then (Inr (), w1) else try_mkdir api s ?cur perms w1"
    obtain w2 where one: "?one = (Inr (), w2)"
      and rest: "(case str_find CHR ''/'' rest of None \<Rightarrow> (Inr (), w2)
          | Some k \<Rightarrow> mkdir_p_loop api s perms ?cur (drop (Suc k) rest) w2) = (Inr (), w')"
      using less.prems False unfolding mkdir_p_loop.simps [of api s perms current rest w] below_def
      by (auto simp: Let_def split: prod.splits sum.splits)
    have w2: "ex w2 = (if ?seg = [] then ex w else insert (c_str ?cur) (ex w))"
      using one make_one [OF assms(1,2), where q = ?cur and w = w and perms = perms] by (auto split: if_splits)
    show ?thesis
    proof (cases "str_find CHR ''/'' rest")
      case None
      then show ?thesis using rest w2 False by (simp add: segments_step [of rest])
    next
      case (Some k)
      then have len: "length (drop (Suc k) rest) < length rest" using False by simp
      have "mkdir_p_loop api s perms ?cur (drop (Suc k) rest) w2 = (Inr (), w')" using rest Some by simp
      from less.hyps [OF len this] have "ex w' = ex w2 \<union> c_str ` set (way_to ?cur (segments (drop (Suc k) rest)))" .
      then show ?thesis using Some w2 by (auto simp: segments_step [of rest])
    qed
  qed
qed


definition sim_paths :: "sim_sftp \<Rightarrow> string set" where
  "sim_paths w = dom (sv_files w) \<union> dom (sv_dirs w)"

lemma sim_tree_contract: "tree_contract (sim_sftp_api cap) n sim_paths"
  by (auto simp: tree_contract_def sim_paths_def sim_attr_def split: if_splits)

lemmas mkdir_eval = try_exists_def sftp_try_stat_def sftp_attributes_def sftp_get_def sftp_do_def try_mkdir_def
  sim_attr_def sim_sftp_client_def c_str_def not_found_codes_def make_sftp_error_info_def make_sftp_error_code_def
  sftp_errc_value_def all_sftp_errc_def


end
