(* ===== verification/Sftp_Transfer.thy ===== *)
theory Sftp_Transfer
  imports Sftp_Client
begin

text \<open>
  \<open>sftp/algorithms.hpp\<close>, \<open>detail/algorithms.ipp\<close> and the pipelined readers and writers of
  \<open>sftp/file.hpp\<close>, \<open>detail/file.ipp\<close>: transfers of files and of directory trees.

  The local file system is the record \<open>local_fs\<close>; output streams that fail do so silently, as the code
  never asks them.
\<close>

section \<open>Reading ahead\<close>

definition default_chunk :: nat where
  "default_chunk = 256 * 1024"

definition default_depth :: nat where
  "default_depth = 16"

record read_ahead =
  ra_chunk :: nat
  ra_depth :: nat
  ra_inflight :: "handle list"
  ra_eof :: bool

definition new_read_ahead :: "nat \<Rightarrow> nat \<Rightarrow> read_ahead" where
  "new_read_ahead chunk depth =
     \<lparr>ra_chunk = (if chunk \<noteq> 0 then chunk else default_chunk), ra_depth = (if depth \<noteq> 0 then depth else default_depth),
      ra_inflight = [], ra_eof = False\<rparr>"

definition aio_free_all :: "('w, 'z) sftp_api_scheme \<Rightarrow> handle list \<Rightarrow> 'w \<Rightarrow> 'w" where
  "aio_free_all api hs w = fold (sftp_aio_free api) hs w"

definition read_ahead_dtor :: "('w, 'z) sftp_api_scheme \<Rightarrow> read_ahead \<Rightarrow> 'w \<Rightarrow> 'w" where
  "read_ahead_dtor api ra w = (if has_sftp_aio api then aio_free_all api (ra_inflight ra) w else w)"

definition submit_one ::
    "('w, 'z) sftp_api_scheme \<Rightarrow> sftp_file \<Rightarrow> handle \<Rightarrow> read_ahead \<Rightarrow> 'w \<Rightarrow> unit result \<times> read_ahead \<times> 'w" where
  "submit_one api f n ra w =
     (case sftp_aio_begin_read api n (ra_chunk ra) w of
        (rc, aio, w') \<Rightarrow>
          (case aio of
             None \<Rightarrow> (Inl (file_error api f ''sftp_aio_begin_read'' w'), ra, w')
           | Some h \<Rightarrow>
               if rc = -1 then (Inl (file_error api f ''sftp_aio_begin_read'' w'), ra, w')
               else (Inr (), ra\<lparr>ra_inflight := ra_inflight ra @ [h]\<rparr>, w')))"

text \<open>Filling the pipeline: one request more in every round.\<close>

function fill_pipeline ::
    "('w, 'z) sftp_api_scheme \<Rightarrow> sftp_file \<Rightarrow> handle \<Rightarrow> read_ahead \<Rightarrow> 'w \<Rightarrow> unit result \<times> read_ahead \<times> 'w" where
  "fill_pipeline api f n ra w =
     (if ra_eof ra \<or> length (ra_inflight ra) \<ge> ra_depth ra then (Inr (), ra, w)
      else case submit_one api f n ra w of
        (Inl e, ra1, w1) \<Rightarrow> (Inl e, ra1, w1)
      | (Inr _, ra1, w1) \<Rightarrow> fill_pipeline api f n ra1 w1)"
  by pat_completeness auto
termination
  by (relation "measure (\<lambda>(_, _, _, ra, _). ra_depth ra - length (ra_inflight ra))")
    (auto simp: submit_one_def split: option.splits prod.splits if_splits dest!: sym)

declare fill_pipeline.simps [simp del]

definition wait_front ::
    "('w, 'z) sftp_api_scheme \<Rightarrow> sftp_file \<Rightarrow> handle \<Rightarrow> handle list \<Rightarrow> read_ahead \<Rightarrow> 'w \<Rightarrow> bytes result \<times> read_ahead \<times> 'w" where
  "wait_front api f h rest ra w =
     (case sftp_aio_wait_read api h (ra_chunk ra) w of
        (k, new, w') \<Rightarrow>
          if k < 0 then (Inl (file_error api f ''sftp_aio_wait_read'' w'), ra\<lparr>ra_inflight := rest\<rparr>, w')
          else if k = 0 then (Inr [], ra\<lparr>ra_inflight := [], ra_eof := True\<rparr>, aio_free_all api rest w')
          else (Inr (mem_prefix (nat k) new), ra\<lparr>ra_inflight := rest\<rparr>, w'))"

definition read_ahead_next ::
    "('w, 'z) sftp_api_scheme \<Rightarrow> sftp_file \<Rightarrow> read_ahead \<Rightarrow> 'w \<Rightarrow> bytes result \<times> read_ahead \<times> 'w" where
  "read_ahead_next api f ra w =
     (case fi_native f of
        None \<Rightarrow> (Inl (invalid_handle_error ''File::ReadAhead::try_next''), ra, w)
      | Some n \<Rightarrow>
          if has_sftp_aio api
          then (case fill_pipeline api f n ra w of
                  (Inl e, ra1, w1) \<Rightarrow> (Inl e, ra1, w1)
                | (Inr _, ra1, w1) \<Rightarrow>
                    (case ra_inflight ra1 of [] \<Rightarrow> (Inr [], ra1, w1) | h # rest \<Rightarrow> wait_front api f h rest ra1 w1))
          else if ra_eof ra then (Inr [], ra, w)
          else (case file_read api f (replicate (ra_chunk ra) 0) w of
                  (Inl e, _, w1) \<Rightarrow> (Inl e, ra, w1)
                | (Inr r, buf, w1) \<Rightarrow> (Inr (mem_prefix r buf), ra\<lparr>ra_eof := (ra_eof ra \<or> r = 0)\<rparr>, w1)))"

section \<open>Writing behind\<close>

record write_behind =
  wb_chunk :: nat
  wb_depth :: nat
  wb_inflight :: "handle list"

definition new_write_behind :: "nat \<Rightarrow> nat \<Rightarrow> write_behind" where
  "new_write_behind chunk depth =
     \<lparr>wb_chunk = (if chunk \<noteq> 0 then chunk else default_chunk), wb_depth = (if depth \<noteq> 0 then depth else default_depth),
      wb_inflight = []\<rparr>"

definition drain_one ::
    "('w, 'z) sftp_api_scheme \<Rightarrow> sftp_file \<Rightarrow> handle \<Rightarrow> 'w \<Rightarrow> unit result \<times> 'w" where
  "drain_one api f h w =
     (case sftp_aio_wait_write api h w of
        (k, w') \<Rightarrow> (if k < 0 then Inl (file_error api f ''sftp_aio_wait_write'' w') else Inr (), w'))"

text \<open>Waiting for the oldest writes until there is room; the list gets shorter in every round.\<close>

fun make_room ::
    "('w, 'z) sftp_api_scheme \<Rightarrow> sftp_file \<Rightarrow> nat \<Rightarrow> handle list \<Rightarrow> 'w \<Rightarrow> unit result \<times> handle list \<times> 'w" where
  "make_room api f depth [] w = (Inr (), [], w)"
| "make_room api f depth (h # hs) w =
     (if length (h # hs) < depth then (Inr (), h # hs, w)
      else case drain_one api f h w of
        (Inl e, w1) \<Rightarrow> (Inl e, hs, w1) | (Inr _, w1) \<Rightarrow> make_room api f depth hs w1)"

text \<open>The offset is a \<open>size_t\<close> to which the number of bytes accepted is added.\<close>

partial_function (option) write_behind_loop ::
    "('w, 'z) sftp_api_scheme \<Rightarrow> sftp_file \<Rightarrow> handle \<Rightarrow> bytes \<Rightarrow> u64 \<Rightarrow> write_behind \<Rightarrow> 'w
       \<Rightarrow> (unit result \<times> write_behind \<times> 'w) option" where
  "write_behind_loop api f n data offset wb w =
     (if unat offset \<ge> length data then Some (Inr (), wb, w)
      else (case make_room api f (wb_depth wb) (wb_inflight wb) w of
              (Inl e, hs, w1) \<Rightarrow> Some (Inl e, wb\<lparr>wb_inflight := hs\<rparr>, w1)
            | (Inr _, hs, w1) \<Rightarrow>
                (case sftp_aio_begin_write api n (take (wb_chunk wb) (drop (unat offset) data)) w1 of
                   (rc, aio, w2) \<Rightarrow>
                     if rc = -1 \<or> aio = None
                     then Some (Inl (file_error api f ''sftp_aio_begin_write'' w2), wb\<lparr>wb_inflight := hs\<rparr>, w2)
                     else write_behind_loop api f n data (offset + of_int rc) (wb\<lparr>wb_inflight := hs @ [the aio]\<rparr>) w2)))"

fun write_chunks ::
    "('w, 'z) sftp_api_scheme \<Rightarrow> sftp_file \<Rightarrow> bytes list \<Rightarrow> 'w \<Rightarrow> unit result \<times> 'w" where
  "write_chunks api f [] w = (Inr (), w)"
| "write_chunks api f (c # cs) w =
     (case file_write_all api f c w of (Inl e, w1) \<Rightarrow> (Inl e, w1) | (Inr _, w1) \<Rightarrow> write_chunks api f cs w1)"

function chunks_of :: "nat \<Rightarrow> bytes \<Rightarrow> bytes list" where
  "chunks_of n data = (if data = [] \<or> n = 0 then [] else take n data # chunks_of n (drop n data))"
  by pat_completeness auto
termination
  by (relation "measure (\<lambda>(_, d). length d)") auto

declare chunks_of.simps [simp del]

definition write_behind_write ::
    "('w, 'z) sftp_api_scheme \<Rightarrow> sftp_file \<Rightarrow> bytes \<Rightarrow> write_behind \<Rightarrow> 'w \<Rightarrow> (unit result \<times> write_behind \<times> 'w) option" where
  "write_behind_write api f data wb w =
     (case fi_native f of
        None \<Rightarrow> Some (Inl (invalid_handle_error ''File::WriteBehind::try_write''), wb, w)
      | Some n \<Rightarrow>
          if has_sftp_aio api then write_behind_loop api f n data 0 wb w
          else (case write_chunks api f (chunks_of (wb_chunk wb) data) w of (r, w') \<Rightarrow> Some (r, wb, w')))"

text \<open>All pending writes are waited for; the first error that tests true is returned.\<close>

fun flush_loop ::
    "('w, 'z) sftp_api_scheme \<Rightarrow> sftp_file \<Rightarrow> handle list \<Rightarrow> error_info \<Rightarrow> 'w \<Rightarrow> error_info \<times> 'w" where
  "flush_loop api f [] first_error w = (first_error, w)"
| "flush_loop api f (h # hs) first_error w =
     (case drain_one api f h w of
        (Inl e, w1) \<Rightarrow> flush_loop api f hs (if error_info_bool first_error then first_error else e) w1
      | (Inr _, w1) \<Rightarrow> flush_loop api f hs first_error w1)"

definition write_behind_flush ::
    "('w, 'z) sftp_api_scheme \<Rightarrow> sftp_file \<Rightarrow> write_behind \<Rightarrow> 'w \<Rightarrow> unit result \<times> write_behind \<times> 'w" where
  "write_behind_flush api f wb w =
     (if has_sftp_aio api
      then (case flush_loop api f (wb_inflight wb) no_error_info w of
              (e, w') \<Rightarrow> (if error_info_bool e then Inl e else Inr (), wb\<lparr>wb_inflight := []\<rparr>, w'))
      else (Inr (), wb, w))"

section \<open>Local files\<close>

record 'w local_fs =
  fs_exists :: "path \<Rightarrow> 'w \<Rightarrow> bool"
  fs_open_out :: "path \<Rightarrow> 'w \<Rightarrow> bool \<times> 'w"
  fs_write :: "path \<Rightarrow> bytes \<Rightarrow> 'w \<Rightarrow> 'w"
  fs_close_out :: "path \<Rightarrow> 'w \<Rightarrow> 'w"
  fs_permissions :: "path \<Rightarrow> u32 \<Rightarrow> 'w \<Rightarrow> 'w"
  fs_open_in :: "path \<Rightarrow> 'w \<Rightarrow> bool \<times> 'w"
  fs_read_in :: "path \<Rightarrow> nat \<Rightarrow> 'w \<Rightarrow> bytes \<times> bool \<times> 'w"
  fs_status_perms :: "path \<Rightarrow> 'w \<Rightarrow> u32 option"
  fs_create_directories :: "path \<Rightarrow> 'w \<Rightarrow> 'w"
  fs_weakly_canonical :: "path \<Rightarrow> 'w \<Rightarrow> string + path"

datatype overwrite = Overwrite_fail | Overwrite_replace

record 'w transfer_options =
  tr_overwrite :: overwrite
  tr_preserve_permissions :: bool
  tr_chunk_size :: nat
  tr_progress :: "(u64 \<Rightarrow> 'w \<Rightarrow> bool \<times> 'w) option"

definition default_transfer :: "'w transfer_options" where
  "default_transfer = \<lparr>tr_overwrite = Overwrite_replace, tr_preserve_permissions = True, tr_chunk_size = 262144,
     tr_progress = None\<rparr>"

definition read_mode :: open_mode where
  "read_mode = \<lparr>om_read = True, om_write = False, om_create = False, om_truncate = False, om_append = False,
     om_exclusive = False\<rparr>"

text \<open>\<open>owner_read | owner_write\<close>.\<close>

definition owner_rw :: u32 where
  "owner_rw = 384"

definition report_progress :: "'w transfer_options \<Rightarrow> u64 \<Rightarrow> 'w \<Rightarrow> bool \<times> 'w" where
  "report_progress opts done_bytes w = (case tr_progress opts of None \<Rightarrow> (True, w) | Some f \<Rightarrow> f done_bytes w)"

definition cancelled_error :: "string \<Rightarrow> error_info" where
  "cancelled_error op = mk_error errc_cancelled [] op"

section \<open>Download\<close>

partial_function (option) download_loop ::
    "('w, 'z) sftp_api_scheme \<Rightarrow> 'w local_fs \<Rightarrow> 'w transfer_options \<Rightarrow> sftp_file \<Rightarrow> path \<Rightarrow> bytes \<Rightarrow> u64 \<Rightarrow> 'w
       \<Rightarrow> (u64 result \<times> 'w) option" where
  "download_loop api fs opts f loc buf done_bytes w =
     (case file_read api f buf w of
        (Inl e, _, w1) \<Rightarrow> Some (Inl e, w1)
      | (Inr r, buf', w1) \<Rightarrow>
          if r = 0 then Some (Inr done_bytes, w1)
          else (case report_progress opts (done_bytes + of_nat r) (fs_write fs loc (mem_prefix r buf') w1) of
                  (go_on, w2) \<Rightarrow>
                    if \<not> go_on then Some (Inl (cancelled_error ''try_download''), w2)
                    else download_loop api fs opts f loc buf' (done_bytes + of_nat r) w2))"

definition download_perms ::
    "('w, 'z) sftp_api_scheme \<Rightarrow> 'w local_fs \<Rightarrow> 'w transfer_options \<Rightarrow> sftp_file \<Rightarrow> path \<Rightarrow> 'w \<Rightarrow> 'w" where
  "download_perms api fs opts f loc w =
     (if tr_preserve_permissions opts
      then (case file_stat api f w of (Inr a, w') \<Rightarrow> fs_permissions fs loc (std_perms a) w' | (Inl _, w') \<Rightarrow> w')
      else w)"

definition try_download ::
    "('w, 'z) sftp_api_scheme \<Rightarrow> 'w local_fs \<Rightarrow> sftp \<Rightarrow> remote_path \<Rightarrow> path \<Rightarrow> 'w transfer_options \<Rightarrow> 'w
       \<Rightarrow> (u64 result \<times> 'w) option" where
  "try_download api fs s remote loc opts w =
     (if tr_overwrite opts = Overwrite_fail \<and> fs_exists fs loc w
      then Some (Inl (mk_error errc_invalid_argument ''destination already exists'' ''try_download''), w)
      else case sftp_try_open api s remote read_mode owner_rw w of
        (Inl e, w1) \<Rightarrow> Some (Inl e, w1)
      | (Inr f, w1) \<Rightarrow>
          (case fs_open_out fs loc w1 of
             (ok, w2) \<Rightarrow>
               if \<not> ok
               then Some (Inl (mk_error errc_invalid_argument (''cannot open '' @ loc) ''try_download''), file_release api f w2)
               else (case download_loop api fs opts f loc (replicate (tr_chunk_size opts) 0) 0 w2 of
                       None \<Rightarrow> None
                     | Some (Inl e, w3) \<Rightarrow> Some (Inl e, file_release api f (fs_close_out fs loc w3))
                     | Some (Inr done_bytes, w3) \<Rightarrow>
                         Some (Inr done_bytes, file_release api f (download_perms api fs opts f loc (fs_close_out fs loc w3))))))"

section \<open>Upload\<close>

partial_function (option) upload_loop ::
    "('w, 'z) sftp_api_scheme \<Rightarrow> 'w local_fs \<Rightarrow> 'w transfer_options \<Rightarrow> sftp_file \<Rightarrow> path \<Rightarrow> u64 \<Rightarrow> 'w
       \<Rightarrow> (u64 result \<times> 'w) option" where
  "upload_loop api fs opts f loc done_bytes w =
     (case fs_read_in fs loc (tr_chunk_size opts) w of
        (d, good, w1) \<Rightarrow>
          if d = [] then Some (Inr done_bytes, w1)
          else (case file_write_all api f d w1 of
                  (Inl e, w2) \<Rightarrow> Some (Inl e, w2)
                | (Inr _, w2) \<Rightarrow>
                    (case report_progress opts (done_bytes + of_nat (length d)) w2 of
                       (go_on, w3) \<Rightarrow>
                         if \<not> go_on then Some (Inl (cancelled_error ''try_upload''), w3)
                         else if \<not> good then Some (Inr (done_bytes + of_nat (length d)), w3)
                         else upload_loop api fs opts f loc (done_bytes + of_nat (length d)) w3)))"

definition upload_mode :: "'w transfer_options \<Rightarrow> open_mode" where
  "upload_mode opts =
     \<lparr>om_read = False, om_write = True, om_create = True, om_truncate = (tr_overwrite opts = Overwrite_replace),
      om_append = False, om_exclusive = (tr_overwrite opts \<noteq> Overwrite_replace)\<rparr>"

definition upload_perms :: "'w local_fs \<Rightarrow> 'w transfer_options \<Rightarrow> path \<Rightarrow> 'w \<Rightarrow> u32" where
  "upload_perms fs opts loc w =
     (if tr_preserve_permissions opts
      then (case fs_status_perms fs loc w of Some p \<Rightarrow> p | None \<Rightarrow> owner_rw) else owner_rw)"

definition try_upload ::
    "('w, 'z) sftp_api_scheme \<Rightarrow> 'w local_fs \<Rightarrow> sftp \<Rightarrow> path \<Rightarrow> remote_path \<Rightarrow> 'w transfer_options \<Rightarrow> 'w
       \<Rightarrow> (u64 result \<times> 'w) option" where
  "try_upload api fs s loc remote opts w =
     (case fs_open_in fs loc w of
        (ok, w1) \<Rightarrow>
          if \<not> ok then Some (Inl (mk_error errc_invalid_argument (''cannot open '' @ loc) ''try_upload''), w1)
          else (case sftp_try_open api s remote (upload_mode opts) (upload_perms fs opts loc w1) w1 of
                  (Inl e, w2) \<Rightarrow> Some (Inl e, w2)
                | (Inr f, w2) \<Rightarrow>
                    map_option (\<lambda>(r, w3). (r, file_release api f w3)) (upload_loop api fs opts f loc 0 w2)))"

section \<open>Whole files\<close>

function read_file_loop ::
    "('w, 'z) sftp_api_scheme \<Rightarrow> sftp_file \<Rightarrow> nat \<Rightarrow> bytes \<Rightarrow> bytes \<Rightarrow> 'w \<Rightarrow> bytes result \<times> 'w" where
  "read_file_loop api f limit acc buf w =
     (case file_read api f buf w of
        (Inl e, _, w1) \<Rightarrow> (Inl e, w1)
      | (Inr r, buf', w1) \<Rightarrow>
          if r = 0 then (Inr acc, w1)
          else if length (acc @ mem_prefix r buf') > limit
          then (Inl (mk_error errc_invalid_argument ''file exceeds limit'' ''try_read_file''), w1)
          else read_file_loop api f limit (acc @ mem_prefix r buf') buf' w1)"
  by pat_completeness auto
termination
  by (relation "measure (\<lambda>(_, _, limit, acc, _). limit - length acc)") auto

declare read_file_loop.simps [simp del]

definition try_read_file ::
    "('w, 'z) sftp_api_scheme \<Rightarrow> sftp \<Rightarrow> remote_path \<Rightarrow> nat \<Rightarrow> 'w \<Rightarrow> string result \<times> 'w" where
  "try_read_file api s p limit w =
     (case sftp_try_open api s p read_mode owner_rw w of
        (Inl e, w1) \<Rightarrow> (Inl e, w1)
      | (Inr f, w1) \<Rightarrow>
          (case read_file_loop api f limit [] (replicate 65536 0) w1 of
             (r, w2) \<Rightarrow> (map_sum id string_of_bytes r, file_release api f w2)))"

definition write_file_mode :: open_mode where
  "write_file_mode = \<lparr>om_read = False, om_write = True, om_create = True, om_truncate = True, om_append = False,
     om_exclusive = False\<rparr>"

definition try_write_file ::
    "('w, 'z) sftp_api_scheme \<Rightarrow> sftp \<Rightarrow> remote_path \<Rightarrow> bytes \<Rightarrow> u32 \<Rightarrow> 'w \<Rightarrow> unit result \<times> 'w" where
  "try_write_file api s p data perms w =
     (case sftp_try_open api s p write_file_mode perms w of
        (Inl e, w1) \<Rightarrow> (Inl e, w1)
      | (Inr f, w1) \<Rightarrow> (case file_write_all api f data w1 of (r, w2) \<Rightarrow> (r, file_release api f w2)))"

section \<open>Trees\<close>

record tree_stats =
  ts_files :: u64
  ts_directories :: u64
  ts_bytes :: u64
  ts_skipped :: u64

definition no_tree_stats :: tree_stats where
  "no_tree_stats = \<lparr>ts_files = 0, ts_directories = 0, ts_bytes = 0, ts_skipped = 0\<rparr>"

definition is_safe_entry_name :: "string \<Rightarrow> bool" where
  "is_safe_entry_name name \<longleftrightarrow>
     name \<noteq> [] \<and> name \<noteq> ''.'' \<and> name \<noteq> ''..'' \<and> CHR ''/'' \<notin> set name \<and> CHR 0x00 \<notin> set name"

text \<open>
  The check of a child: only the error of the second call is looked at, and the first path is then
  empty.
\<close>

definition child_allowed :: "'w local_fs \<Rightarrow> path \<Rightarrow> path \<Rightarrow> 'w \<Rightarrow> bool" where
  "child_allowed fs loc child w =
     (let root = (case fs_weakly_canonical fs loc w of Inl _ \<Rightarrow> [] | Inr p \<Rightarrow> p)
      in case fs_weakly_canonical fs child w of
           Inl _ \<Rightarrow> False | Inr p \<Rightarrow> take (length root) p = root)"

definition skip_one :: "tree_stats \<Rightarrow> tree_stats" where
  "skip_one st = st\<lparr>ts_skipped := ts_skipped st + 1\<rparr>"

definition add_file :: "u64 \<Rightarrow> tree_stats \<Rightarrow> tree_stats" where
  "add_file n st = st\<lparr>ts_files := ts_files st + 1, ts_bytes := ts_bytes st + n\<rparr>"

definition add_tree :: "tree_stats \<Rightarrow> tree_stats \<Rightarrow> tree_stats" where
  "add_tree sub st = st\<lparr>ts_directories := ts_directories st + (1 + ts_directories sub), ts_files := ts_files st + ts_files sub,
     ts_bytes := ts_bytes st + ts_bytes sub, ts_skipped := ts_skipped st + ts_skipped sub\<rparr>"

text \<open>The beginning of \<open>try_download_tree\<close>: the local directory and the listing.\<close>

definition tree_enter ::
    "('w, 'z) sftp_api_scheme \<Rightarrow> 'w local_fs \<Rightarrow> sftp \<Rightarrow> remote_path \<Rightarrow> path \<Rightarrow> 'w \<Rightarrow> (attributes list result \<times> 'w) option" where
  "tree_enter api fs s remote loc w = try_list api s remote (fs_create_directories fs loc w)"

partial_function (option) tree_entries ::
    "('w, 'z) sftp_api_scheme \<Rightarrow> 'w local_fs \<Rightarrow> sftp \<Rightarrow> 'w transfer_options \<Rightarrow> remote_path \<Rightarrow> path \<Rightarrow> attributes list
       \<Rightarrow> tree_stats \<Rightarrow> 'w \<Rightarrow> (tree_stats result \<times> 'w) option" where
  "tree_entries api fs s opts remote loc es st w =
     (case es of
        [] \<Rightarrow> Some (Inr st, w)
      | e # rest \<Rightarrow>
          if \<not> is_safe_entry_name (at_name e) \<or> \<not> child_allowed fs loc (path_append loc (at_name e)) w \<or> is_symlink e
          then tree_entries api fs s opts remote loc rest (skip_one st) w
          else if is_directory e
          then Option.bind (tree_enter api fs s (remote_append remote (at_name e)) (path_append loc (at_name e)) w)
                 (\<lambda>(listing, w1). case listing of
                    Inl err \<Rightarrow> Some (Inl err, w1)
                  | Inr listed \<Rightarrow>
                      Option.bind (tree_entries api fs s opts (remote_append remote (at_name e)) (path_append loc (at_name e))
                             listed no_tree_stats w1)
                        (\<lambda>(sub, w2). case sub of
                           Inl err \<Rightarrow> Some (Inl err, w2)
                         | Inr sub_stats \<Rightarrow> tree_entries api fs s opts remote loc rest (add_tree sub_stats st) w2))
          else if is_regular e
          then (case try_download api fs s (remote_append remote (at_name e)) (path_append loc (at_name e)) opts w of
                  None \<Rightarrow> None
                | Some (Inl err, w1) \<Rightarrow> Some (Inl err, w1)
                | Some (Inr n, w1) \<Rightarrow> tree_entries api fs s opts remote loc rest (add_file n st) w1)
          else tree_entries api fs s opts remote loc rest (skip_one st) w)"

definition try_download_tree ::
    "('w, 'z) sftp_api_scheme \<Rightarrow> 'w local_fs \<Rightarrow> sftp \<Rightarrow> remote_path \<Rightarrow> path \<Rightarrow> 'w transfer_options \<Rightarrow> 'w
       \<Rightarrow> (tree_stats result \<times> 'w) option" where
  "try_download_tree api fs s remote loc opts w =
     (case tree_enter api fs s remote loc w of
        None \<Rightarrow> None
      | Some (Inl e, w1) \<Rightarrow> Some (Inl e, w1)
      | Some (Inr listing, w1) \<Rightarrow> tree_entries api fs s opts remote loc listing no_tree_stats w1)"

end
