(* ===== verification/Transfer_Store.thy ===== *)
theory Transfer_Store
  imports Sftp_Store Sftp_Transfer
begin

text \<open>
  Transfers against the abstract store of an SFTP server: a map from paths to the content of files.

  \<open>store_contract\<close> says what libssh and the server promise of an open file (reads and writes may be
  short, and may fail). The theorems: writing a whole file refines the update of the map, reading
  one its lookup; a download returns and leaves the remote content in the local file; an upload
  followed by a download gives back the content.
\<close>

lemma unat_of_nat_u64: "m < 2 ^ 64 \<Longrightarrow> unat (of_nat m :: u64) = m"
  by (simp add: unat_of_nat)

section \<open>The abstract store\<close>

text \<open>
  \<open>files w\<close> is the store; \<open>cur h w\<close> the path and the position of the open file \<open>h\<close>; \<open>rest w\<close> stands
  for what no SFTP call changes.
\<close>

definition open_law ::
    "('w, 'z) sftp_api_scheme \<Rightarrow> ('w \<Rightarrow> string \<rightharpoonup> bytes) \<Rightarrow> (handle \<Rightarrow> 'w \<Rightarrow> (string \<times> nat) option) \<Rightarrow> ('w \<Rightarrow> 'r) \<Rightarrow> bool" where
  "open_law api files cur rest \<longleftrightarrow>
     (\<forall>n p fl perms w h w'. sftp_open api n p fl perms w = (h, w') \<longrightarrow>
        rest w' = rest w
        \<and> (if h = None then files w' = files w
           else cur (the h) w' = Some (p, 0) \<and> (of_creat fl \<or> files w p \<noteq> None) \<and> (of_excl fl \<longrightarrow> files w p = None)
             \<and> files w' = (if of_trunc fl \<or> files w p = None then (files w)(p \<mapsto> []) else files w)))"

definition read_law ::
    "('w, 'z) sftp_api_scheme \<Rightarrow> ('w \<Rightarrow> string \<rightharpoonup> bytes) \<Rightarrow> (handle \<Rightarrow> 'w \<Rightarrow> (string \<times> nat) option) \<Rightarrow> ('w \<Rightarrow> 'r) \<Rightarrow> bool" where
  "read_law api files cur rest \<longleftrightarrow>
     (\<forall>h k w rc new w' p pos c. sftp_read api h k w = (rc, new, w') \<longrightarrow> cur h w = Some (p, pos) \<longrightarrow> files w p = Some c \<longrightarrow>
        files w' = files w \<and> rest w' = rest w
        \<and> (rc < 0 \<or> int (length new) = rc \<and> length new \<le> k \<and> new = take (length new) (drop pos c)
             \<and> (new = [] \<longrightarrow> k = 0 \<or> length c \<le> pos) \<and> cur h w' = Some (p, pos + length new)))"

definition write_law ::
    "('w, 'z) sftp_api_scheme \<Rightarrow> ('w \<Rightarrow> string \<rightharpoonup> bytes) \<Rightarrow> (handle \<Rightarrow> 'w \<Rightarrow> (string \<times> nat) option) \<Rightarrow> ('w \<Rightarrow> 'r) \<Rightarrow> bool" where
  "write_law api files cur rest \<longleftrightarrow>
     (\<forall>h d w rc w' p pos c. sftp_write api h d w = (rc, w') \<longrightarrow> cur h w = Some (p, pos) \<longrightarrow> files w p = Some c \<longrightarrow>
        pos \<le> length c \<longrightarrow>
        rest w' = rest w
        \<and> (if rc < 0 then \<exists>c'. files w' = (files w)(p \<mapsto> c')
           else rc \<le> int (length d) \<and> cur h w' = Some (p, pos + nat rc)
             \<and> files w' = (files w)(p \<mapsto> take pos c @ take (nat rc) d @ drop (pos + nat rc) c)))"

definition store_contract ::
    "('w, 'z) sftp_api_scheme \<Rightarrow> ('w \<Rightarrow> string \<rightharpoonup> bytes) \<Rightarrow> (handle \<Rightarrow> 'w \<Rightarrow> (string \<times> nat) option) \<Rightarrow> ('w \<Rightarrow> 'r) \<Rightarrow> bool" where
  "store_contract api files cur rest \<longleftrightarrow>
     open_law api files cur rest \<and> read_law api files cur rest \<and> write_law api files cur rest
     \<and> (\<forall>h w. files (snd (sftp_close api h w)) = files w \<and> rest (snd (sftp_close api h w)) = rest w)
     \<and> (\<forall>h w. files (snd (sftp_fstat api h w)) = files w \<and> rest (snd (sftp_fstat api h w)) = rest w)"

lemma store_contractD:
  assumes "store_contract api files cur rest"
  shows "sftp_open api n p fl perms w = (h, w') \<Longrightarrow>
        rest w' = rest w
        \<and> (if h = None then files w' = files w
           else cur (the h) w' = Some (p, 0) \<and> (of_creat fl \<or> files w p \<noteq> None) \<and> (of_excl fl \<longrightarrow> files w p = None)
             \<and> files w' = (if of_trunc fl \<or> files w p = None then (files w)(p \<mapsto> []) else files w))"
    and "sftp_read api h1 k w = (rc, new, w') \<Longrightarrow> cur h1 w = Some (p, pos) \<Longrightarrow> files w p = Some c \<Longrightarrow>
        files w' = files w \<and> rest w' = rest w
        \<and> (rc < 0 \<or> int (length new) = rc \<and> length new \<le> k \<and> new = take (length new) (drop pos c)
             \<and> (new = [] \<longrightarrow> k = 0 \<or> length c \<le> pos) \<and> cur h1 w' = Some (p, pos + length new))"
    and "sftp_write api h1 d w = (rc, w') \<Longrightarrow> cur h1 w = Some (p, pos) \<Longrightarrow> files w p = Some c \<Longrightarrow> pos \<le> length c \<Longrightarrow>
        rest w' = rest w
        \<and> (if rc < 0 then \<exists>c'. files w' = (files w)(p \<mapsto> c')
           else rc \<le> int (length d) \<and> cur h1 w' = Some (p, pos + nat rc)
             \<and> files w' = (files w)(p \<mapsto> take pos c @ take (nat rc) d @ drop (pos + nat rc) c))"
    and "files (snd (sftp_close api h1 w)) = files w" "rest (snd (sftp_close api h1 w)) = rest w"
    and "files (snd (sftp_fstat api h1 w)) = files w" "rest (snd (sftp_fstat api h1 w)) = rest w"
proof goal_cases
  case 1
  then show ?case using assms unfolding store_contract_def open_law_def by blast
next
  case 2
  then show ?case using assms unfolding store_contract_def read_law_def by blast
next
  case 3
  then show ?case using assms unfolding store_contract_def write_law_def by blast
qed (use assms in \<open>simp_all add: store_contract_def\<close>)

lemma sim_store_contract:
  "0 < cap \<Longrightarrow> store_contract (sim_sftp_api cap) sv_files (\<lambda>h w. sv_cur w h) (\<lambda>w. (sv_local w, sv_stream w))"
  unfolding store_contract_def open_law_def read_law_def write_law_def
  by (intro conjI allI impI)
    (auto simp: sim_open_def sim_file_read_def sim_file_write_def Let_def min_def split: if_splits option.splits prod.splits)

section \<open>One file\<close>

lemma open_store:
  assumes "store_contract api files cur rest" "sftp_try_open api s p mode perms w = (r, w')"
  shows "case r of
      Inl _ \<Rightarrow> files w' = files w \<and> rest w' = rest w
    | Inr f \<Rightarrow> rest w' = rest w \<and> (\<exists>h. fi_native f = Some h \<and> cur h w' = Some (c_str p, 0))
        \<and> (om_create mode \<or> files w (c_str p) \<noteq> None) \<and> (om_exclusive mode \<longrightarrow> files w (c_str p) = None)
        \<and> files w' = (if om_truncate mode \<or> files w (c_str p) = None then (files w)(c_str p \<mapsto> []) else files w)"
proof (cases "sf_native s")
  case (Some n)
  obtain h w1 where o: "sftp_open api n (c_str p) (open_mode_to_posix mode) perms w = (h, w1)" by fastforce
  have fl: "of_creat (open_mode_to_posix mode) = om_create mode" "of_trunc (open_mode_to_posix mode) = om_truncate mode"
    "of_excl (open_mode_to_posix mode) = om_exclusive mode" by (simp_all add: open_mode_to_posix_def)
  show ?thesis
    using assms(2) Some o store_contractD(1) [OF assms(1) o, unfolded fl]
    by (cases h) (auto simp: sftp_try_open_def sftp_get_def)
qed (use assms(2) in \<open>auto simp: sftp_try_open_def sftp_get_def\<close>)

lemma release_store:
  assumes "store_contract api files cur rest"
  shows "files (file_release api f w) = files w" "rest (file_release api f w) = rest w"
  using store_contractD(4,5) [OF assms] by (auto simp: file_release_def split: option.splits)

lemma read_store:
  assumes "store_contract api files cur rest" "fi_native f = Some h" "cur h w = Some (p, pos)" "files w p = Some c"
    and "file_read api f buf w = (r, buf', w')"
  shows "files w' = files w \<and> rest w' = rest w \<and> length buf' = length buf
    \<and> (case r of Inl _ \<Rightarrow> True
       | Inr k \<Rightarrow> k \<le> length buf \<and> mem_prefix k buf' = take k (drop pos c) \<and> k \<le> length c - pos
            \<and> (k = 0 \<longrightarrow> buf = [] \<or> length c \<le> pos) \<and> cur h w' = Some (p, pos + k))"
proof -
  obtain rc new w1 where rd: "sftp_read api h (length buf) w = (rc, new, w1)" by (metis prod_cases3)
  note c = store_contractD(2) [OF assms(1) rd assms(3,4)]
  have w1: "w' = w1" "r = (if rc < 0 then Inl (file_error api f ''sftp_read'' w1) else Inr (nat rc))" "buf' = overlay new buf"
    using assms(2,5) rd by (auto simp: file_read_def)
  show ?thesis
  proof (cases "rc < 0")
    case True
    then show ?thesis using c w1 by simp
  next
    case False
    then have n: "int (length new) = rc" "length new \<le> length buf" "new = take (length new) (drop pos c)"
      "new = [] \<longrightarrow> length buf = 0 \<or> length c \<le> pos" "cur h w1 = Some (p, pos + length new)"
      using c by auto
    then have "nat rc = length new" "length new \<le> length c - pos" by (auto, metis length_drop length_take min.cobounded1)
    then show ?thesis using c w1 n False by auto
  qed
qed

text \<open>Writing at the end of a file.\<close>

lemma write_store:
  assumes "store_contract api files cur rest" "fi_native f = Some h" "cur h w = Some (p, length c)" "files w p = Some c"
    and "file_write api f d w = (r, w')"
  shows "rest w' = rest w
    \<and> (case r of Inl _ \<Rightarrow> \<exists>c'. files w' = (files w)(p \<mapsto> c')
       | Inr k \<Rightarrow> k \<le> length d \<and> files w' = (files w)(p \<mapsto> c @ take k d) \<and> cur h w' = Some (p, length (c @ take k d)))"
proof -
  obtain rc w1 where wr: "sftp_write api h d w = (rc, w1)" by fastforce
  show ?thesis using store_contractD(3) [OF assms(1) wr assms(3,4)] assms(2,5) wr by (auto simp: file_write_def split: if_splits)
qed

lemma write_all_store:
  assumes "store_contract api files cur rest" "fi_native f = Some h"
  shows "write_all_loop (file_write api f) short d w = (r, w') \<Longrightarrow> cur h w = Some (p, length c) \<Longrightarrow> files w p = Some c \<Longrightarrow>
    rest w' = rest w
    \<and> (case r of Inl _ \<Rightarrow> \<exists>c'. files w' = (files w)(p \<mapsto> c')
       | Inr _ \<Rightarrow> files w' = (files w)(p \<mapsto> c @ d) \<and> cur h w' = Some (p, length (c @ d)))"
proof (induction "length d" arbitrary: d w c rule: less_induct)
  case less
  show ?case
  proof (cases "d = []")
    case True
    then show ?thesis using less.prems by (auto simp: fun_upd_idem)
  next
    case False
    obtain r1 w1 where wr: "file_write api f d w = (r1, w1)" by fastforce
    note one = write_store [OF assms less.prems(2,3) wr]
    show ?thesis
    proof (cases "\<exists>k. r1 = Inr k \<and> k \<noteq> 0")
      case True
      then obtain k where k: "r1 = Inr k" "k \<noteq> 0" by blast
      then have w1: "k \<le> length d" "files w1 = (files w)(p \<mapsto> c @ take k d)" "cur h w1 = Some (p, length (c @ take k d))"
        "rest w1 = rest w" using one by auto
      have "write_all_loop (file_write api f) short (drop k d) w1 = (r, w')"
        using less.prems(1) False wr k by (simp add: write_all_loop.simps [of _ _ d])
      from less.hyps [OF _ this w1(3)] have
        "rest w' = rest w1 \<and> (case r of Inl _ \<Rightarrow> \<exists>c'. files w' = (files w1)(p \<mapsto> c')
          | Inr _ \<Rightarrow> files w' = (files w1)(p \<mapsto> (c @ take k d) @ drop k d) \<and> cur h w' = Some (p, length ((c @ take k d) @ drop k d)))"
        using w1(1,2) k(2) False by simp
      then show ?thesis using w1 by (auto split: sum.splits)
    next
      case False
      then show ?thesis
        using less.prems(1,3) \<open>d \<noteq> []\<close> wr one
        by (cases r1) (auto simp: write_all_loop.simps [of _ _ d] intro: exI [of _ c])
    qed
  qed
qed

section \<open>Whole files\<close>

lemma unat_of_char [simp]: "unat (of_char ch :: byte) = of_char ch"
proof -
  have "unat (of_nat (of_char ch) :: byte) = of_char ch" using nat_of_char_less_256 [of ch] by (simp add: unat_of_nat)
  then show ?thesis by (simp only: of_nat_of_char)
qed

lemma string_of_bytes_of_string [simp]: "string_of_bytes (bytes_of_string t) = t"
  by (simp add: string_of_bytes_def bytes_of_string_def o_def)

lemma read_file_loop_store:
  assumes "store_contract api files cur rest" "fi_native f = Some h"
  shows "read_file_loop api f limit acc buf w = (r, w') \<Longrightarrow> buf \<noteq> [] \<Longrightarrow> cur h w = Some (p, length acc) \<Longrightarrow>
    files w p = Some (acc @ left) \<Longrightarrow> length acc \<le> limit \<Longrightarrow>
    files w' = files w \<and> rest w' = rest w \<and> (case r of Inl _ \<Rightarrow> True | Inr d \<Rightarrow> d = acc @ left \<and> length d \<le> limit)"
proof (induction "limit - length acc" arbitrary: acc left buf w rule: less_induct)
  case less
  obtain r1 buf1 w1 where rd: "file_read api f buf w = (r1, buf1, w1)" by (metis prod_cases3)
  note one = read_store [OF assms less.prems(3,4) rd]
  show ?case
  proof (cases "\<exists>k. r1 = Inr k \<and> k \<noteq> 0 \<and> length acc + k \<le> limit")
    case False
    then show ?thesis
      using less.prems rd one by (cases r1) (auto simp: read_file_loop.simps [of api f limit acc buf w] split: if_splits)
  next
    case True
    then obtain k where k: "r1 = Inr k" "k \<noteq> 0" "length acc + k \<le> limit" by blast
    then have w1: "k \<le> length left" "mem_prefix k buf1 = take k left" "cur h w1 = Some (p, length (acc @ take k left))"
      "files w1 = files w" "rest w1 = rest w" "buf1 \<noteq> []" using one less.prems(2) by (auto simp: min_def)
    have step: "read_file_loop api f limit (acc @ take k left) buf1 w1 = (r, w')"
      using less.prems(1) rd k w1 by (simp add: read_file_loop.simps [of api f limit acc buf w])
    have left: "files w1 p = Some ((acc @ take k left) @ drop k left)" using w1 less.prems(4) by simp
    have "limit - length (acc @ take k left) < limit - length acc" using w1(1) k by simp
    from less.hyps [OF this step w1(6,3) left] show ?thesis using w1 k by (auto split: sum.splits)
  qed
qed

lemma write_file_store:
  assumes "store_contract api files cur rest" "try_write_file api s p data perms w = (r, w')"
  shows "rest w' = rest w \<and> (\<forall>q. q \<noteq> c_str p \<longrightarrow> files w' q = files w q)
    \<and> (r = Inr () \<longrightarrow> files w' = (files w)(c_str p \<mapsto> data))"
proof -
  obtain r1 w1 where op: "sftp_try_open api s p write_file_mode perms w = (r1, w1)" by fastforce
  note o = open_store [OF assms(1) op]
  show ?thesis
  proof (cases r1)
    case (Inr f)
    obtain r2 w2 where wa: "write_all_loop (file_write api f) file_short_write data w1 = (r2, w2)" by fastforce
    obtain h where h: "fi_native f = Some h" "cur h w1 = Some (c_str p, length ([] :: bytes))" "files w1 (c_str p) = Some []"
      "files w1 = (files w)(c_str p \<mapsto> [])" "rest w1 = rest w"
      using o Inr by (auto simp: write_file_mode_def)
    show ?thesis
      using write_all_store [OF assms(1) h(1) wa h(2,3)] assms(2) op Inr wa h release_store [OF assms(1)]
      by (auto simp: try_write_file_def file_write_all_def split: sum.splits)
  qed (use o assms(2) op in \<open>auto simp: try_write_file_def\<close>)
qed

lemma read_file_store:
  assumes "store_contract api files cur rest" "try_read_file api s p limit w = (r, w')"
  shows "files w' = files w \<and> rest w' = rest w
    \<and> (case r of Inl _ \<Rightarrow> True | Inr t \<Rightarrow> \<exists>d. files w (c_str p) = Some d \<and> t = string_of_bytes d \<and> length d \<le> limit)"
proof -
  obtain r1 w1 where op: "sftp_try_open api s p read_mode owner_rw w = (r1, w1)" by fastforce
  note o = open_store [OF assms(1) op]
  show ?thesis
  proof (cases r1)
    case (Inr f)
    obtain r2 w2 where rl: "read_file_loop api f limit [] (replicate 65536 0) w1 = (r2, w2)" by fastforce
    obtain h d where h: "fi_native f = Some h" "cur h w1 = Some (c_str p, length ([] :: bytes))" "files w1 (c_str p) = Some ([] @ d)"
      "files w1 = files w" "rest w1 = rest w"
      using o Inr by (auto simp: read_mode_def split: if_splits)
    show ?thesis
      using read_file_loop_store [OF assms(1) h(1) rl _ h(2,3)] assms(2) op Inr rl h release_store [OF assms(1)]
      by (auto simp: try_read_file_def split: sum.splits)
  qed (use o assms(2) op in \<open>auto simp: try_read_file_def\<close>)
qed

text \<open>
  \<open>try_write_file\<close> followed by \<open>try_read_file\<close> of the same path gives back the text, whatever short
  reads and writes the server does, and a text over the limit of the reader is never returned; the
  other files stay as they are.
\<close>
theorem write_read_roundtrip:
  assumes "store_contract api files cur rest"
    and "try_write_file api s p (bytes_of_string t) perms w = (Inr (), w1)" and "try_read_file api s p limit w1 = (Inr t', w2)"
  shows "t' = t \<and> length t \<le> limit \<and> files w2 = (files w)(c_str p \<mapsto> bytes_of_string t)"
proof -
  have "files w1 = (files w)(c_str p \<mapsto> bytes_of_string t)" using write_file_store [OF assms(1,2)] by simp
  then show ?thesis using read_file_store [OF assms(1,3)] by auto
qed

lemmas whole_file_eval = try_write_file_def try_read_file_def read_file_loop.simps sftp_try_open_def sftp_get_def
  write_file_mode_def read_mode_def open_mode_to_posix_def sim_sftp_client_def sim_open_def file_write_all_def
  write_all_loop.simps file_write_def file_read_def sim_file_write_def sim_file_read_def file_release_def c_str_def
  mem_prefix_def overlay_def Let_def

lemma whole_file_run:
  "\<exists>w1 w2. try_write_file (sim_sftp_api 2) sim_sftp_client ''/f'' (bytes_of_string ''hello'') 384 (sftp_world Map.empty Map.empty)
       = (Inr (), w1)
     \<and> try_read_file (sim_sftp_api 2) sim_sftp_client ''/f'' 100 w1 = (Inr ''hello'', w2)"
  by (simp add: whole_file_eval bytes_of_string_def string_of_bytes_def char_of_def bit_0)

theorem write_read_roundtrip_witness:
  "\<exists>w1 w2. try_write_file (sim_sftp_api 2) sim_sftp_client ''/f'' (bytes_of_string ''hello'') 384 (sftp_world Map.empty Map.empty)
       = (Inr (), w1)
     \<and> try_read_file (sim_sftp_api 2) sim_sftp_client ''/f'' 100 w1 = (Inr ''hello'', w2)
     \<and> sv_files w2 = [''/f'' \<mapsto> bytes_of_string ''hello'']"
proof -
  obtain w1 w2 where r: "try_write_file (sim_sftp_api 2) sim_sftp_client ''/f'' (bytes_of_string ''hello'') 384
        (sftp_world Map.empty Map.empty) = (Inr (), w1)"
    "try_read_file (sim_sftp_api 2) sim_sftp_client ''/f'' 100 w1 = (Inr ''hello'', w2)"
    using whole_file_run by blast
  show ?thesis
    using write_read_roundtrip [OF sim_store_contract r, simplified] r by (auto simp: c_str_def)
qed

section \<open>Downloads and uploads\<close>

text \<open>
  \<open>lo w\<close> are the local files, \<open>strm p w\<close> what the input stream of \<open>p\<close> has still to give. Local output
  does not fail once the stream is open: the code does not look.
\<close>

definition local_contract ::
    "('w, 'y) local_fs_scheme \<Rightarrow> ('w \<Rightarrow> 'r) \<Rightarrow> ('w \<Rightarrow> path \<rightharpoonup> bytes) \<Rightarrow> (path \<Rightarrow> 'w \<Rightarrow> bytes) \<Rightarrow> bool" where
  "local_contract fs remote lo strm \<longleftrightarrow>
     (\<forall>p w ok w'. fs_open_out fs p w = (ok, w') \<longrightarrow> remote w' = remote w \<and> lo w' = (if ok then (lo w)(p \<mapsto> []) else lo w))
     \<and> (\<forall>p d w. remote (fs_write fs p d w) = remote w \<and> lo (fs_write fs p d w) = (lo w)(p \<mapsto> the (lo w p) @ d))
     \<and> (\<forall>p w. remote (fs_close_out fs p w) = remote w \<and> lo (fs_close_out fs p w) = lo w)
     \<and> (\<forall>p m w. remote (fs_permissions fs p m w) = remote w \<and> lo (fs_permissions fs p m w) = lo w)
     \<and> (\<forall>p w ok w'. fs_open_in fs p w = (ok, w') \<longrightarrow>
          remote w' = remote w \<and> lo w' = lo w \<and> (ok \<longrightarrow> lo w p = Some (strm p w')))
     \<and> (\<forall>p k w d good w'. fs_read_in fs p k w = (d, good, w') \<longrightarrow>
          remote w' = remote w \<and> lo w' = lo w \<and> d = take k (strm p w) \<and> strm p w' = drop k (strm p w)
          \<and> (good \<longleftrightarrow> length d = k))"

lemma local_contractD:
  assumes "local_contract fs remote lo strm"
  shows "fs_open_out fs p w = (ok, w') \<Longrightarrow> remote w' = remote w \<and> lo w' = (if ok then (lo w)(p \<mapsto> []) else lo w)"
    and "remote (fs_write fs p d w) = remote w" "lo (fs_write fs p d w) = (lo w)(p \<mapsto> the (lo w p) @ d)"
    and "remote (fs_close_out fs p w) = remote w" "lo (fs_close_out fs p w) = lo w"
    and "remote (fs_permissions fs p m w) = remote w" "lo (fs_permissions fs p m w) = lo w"
    and "fs_open_in fs p w = (ok, w') \<Longrightarrow> remote w' = remote w \<and> lo w' = lo w \<and> (ok \<longrightarrow> lo w p = Some (strm p w'))"
    and "fs_read_in fs p k w = (d, good, w') \<Longrightarrow>
          remote w' = remote w \<and> lo w' = lo w \<and> d = take k (strm p w) \<and> strm p w' = drop k (strm p w)
          \<and> (good \<longleftrightarrow> length d = k)"
  using assms unfolding local_contract_def by (elim conjE, (simp; fail | metis))+

text \<open>Both sides and the progress callback together.\<close>

definition transfer_env ::
    "('w, 'z) sftp_api_scheme \<Rightarrow> 'w local_fs \<Rightarrow> 'w transfer_options \<Rightarrow> ('w \<Rightarrow> string \<rightharpoonup> bytes)
       \<Rightarrow> (handle \<Rightarrow> 'w \<Rightarrow> (string \<times> nat) option) \<Rightarrow> ('w \<Rightarrow> path \<rightharpoonup> bytes) \<Rightarrow> (path \<Rightarrow> 'w \<Rightarrow> bytes) \<Rightarrow> bool" where
  "transfer_env api fs opts files cur lo strm \<longleftrightarrow>
     store_contract api files cur (\<lambda>w. (lo w, \<lambda>p. strm p w)) \<and> local_contract fs (\<lambda>w. (files w, \<lambda>h. cur h w)) lo strm
     \<and> (\<forall>b w go w'. report_progress opts b w = (go, w') \<longrightarrow>
          files w' = files w \<and> (\<forall>h. cur h w' = cur h w) \<and> lo w' = lo w \<and> (\<forall>p. strm p w' = strm p w))"

lemma transfer_envD:
  assumes "transfer_env api fs opts files cur lo strm"
  shows "store_contract api files cur (\<lambda>w. (lo w, \<lambda>p. strm p w))"
    and "local_contract fs (\<lambda>w. (files w, \<lambda>h. cur h w)) lo strm"
    and "report_progress opts b w = (go, w') \<Longrightarrow> files w' = files w \<and> cur h w' = cur h w \<and> lo w' = lo w \<and> strm p w' = strm p w"
  using assms unfolding transfer_env_def by blast+

lemma download_loop_exact:
  assumes "transfer_env api fs opts files cur lo strm" "fi_native f = Some h"
  shows "cur h w = Some (p, pos) \<Longrightarrow> files w p = Some c \<Longrightarrow> pos \<le> length c \<Longrightarrow> lo w loc = Some (take pos c) \<Longrightarrow> buf \<noteq> [] \<Longrightarrow>
    \<exists>r w'. download_loop api fs opts f loc buf n w = Some (r, w') \<and> files w' = files w
      \<and> (case r of Inl _ \<Rightarrow> \<exists>x. lo w' = (lo w)(loc \<mapsto> x) | Inr k \<Rightarrow> lo w' = (lo w)(loc \<mapsto> c) \<and> k = n + of_nat (length c - pos))"
proof (induction "length c - pos" arbitrary: pos buf n w rule: less_induct)
  case less
  note env = transfer_envD [OF assms(1)]
  obtain r1 buf1 w1 where rd: "file_read api f buf w = (r1, buf1, w1)" by (metis prod_cases3)
  note one = read_store [OF env(1) assms(2) less.prems(1,2) rd]
  have loc1: "lo w1 = lo w" using one by (metis prod.inject)
  have triv: "\<exists>x. lo w = (lo w)(loc \<mapsto> x)" by (metis fun_upd_triv less.prems(4))
  show ?case
  proof (cases "\<exists>k. r1 = Inr k \<and> k \<noteq> 0")
    case False
    then show ?thesis
      using rd one loc1 triv less.prems by (cases r1) (auto simp: download_loop.simps [of api fs opts f loc buf n w] fun_upd_idem)
  next
    case True
    then obtain k where k: "r1 = Inr k" "k \<noteq> 0" by blast
    let ?d = "take k (drop pos c)"
    have w1: "mem_prefix k buf1 = ?d" "k \<le> length c - pos" "cur h w1 = Some (p, pos + k)" "files w1 = files w" "buf1 \<noteq> []"
      using one k less.prems(5) by auto
    obtain go w3 where pr: "report_progress opts (n + of_nat k) (fs_write fs loc ?d w1) = (go, w3)" by fastforce
    have w3: "files w3 = files w" "cur h w3 = Some (p, pos + k)" "lo w3 = (lo w)(loc \<mapsto> take (pos + k) c)"
      using env(3) [OF pr] local_contractD(2,3) [OF env(2), of loc ?d w1] w1 loc1 less.prems(4)
      by (auto simp: take_add) metis
    have run: "download_loop api fs opts f loc buf n w =
        (if go then download_loop api fs opts f loc buf1 (n + of_nat k) w3 else Some (Inl (cancelled_error ''try_download''), w3))"
      using rd k w1(1) pr by (simp add: download_loop.simps [of api fs opts f loc buf n w])
    show ?thesis
    proof (cases go)
      case True
      have "length c - (pos + k) < length c - pos" using k w1(2) by simp
      from less.hyps [OF this w3(2) _ _ _ w1(5), of "n + of_nat k"] show ?thesis
        unfolding run using True w3 w1(2) less.prems(2,3) by (fastforce split: sum.splits simp: of_nat_diff)
    qed (use run w3 in auto)
  qed
qed

lemma download_total:
  assumes "transfer_env api fs opts files cur lo strm" "0 < tr_chunk_size opts"
  shows "\<exists>r w'. try_download api fs s remote loc opts w = Some (r, w') \<and> files w' = files w
    \<and> (\<forall>q. q \<noteq> loc \<longrightarrow> lo w' q = lo w q)
    \<and> (case r of Inl _ \<Rightarrow> True
       | Inr k \<Rightarrow> \<exists>c. files w (c_str remote) = Some c \<and> lo w' = (lo w)(loc \<mapsto> c) \<and> k = of_nat (length c))"
proof (cases "tr_overwrite opts = Overwrite_fail \<and> fs_exists fs loc w")
  case False
  note env = transfer_envD [OF assms(1)]
  note loc_laws = local_contractD [OF env(2)]
  obtain r1 w1 where op: "sftp_try_open api s remote read_mode owner_rw w = (r1, w1)" by fastforce
  note o = open_store [OF env(1) op]
  show ?thesis
  proof (cases r1)
    case (Inl e)
    then show ?thesis using False op o by (auto simp: try_download_def)
  next
    case (Inr f)
    obtain h c where h: "fi_native f = Some h" "cur h w1 = Some (c_str remote, 0)" "files w (c_str remote) = Some c"
      "files w1 = files w" "lo w1 = lo w"
      using o Inr by (auto simp: read_mode_def split: if_splits)
    obtain ok w2 where oo: "fs_open_out fs loc w1 = (ok, w2)" by fastforce
    have w2: "files w2 = files w" "cur h w2 = Some (c_str remote, 0)" "lo w2 = (if ok then (lo w)(loc \<mapsto> []) else lo w)"
      using loc_laws(1) [OF oo] h by (auto dest: fun_cong [of _ _ h])
    have rel: "files (file_release api f v) = files v" "lo (file_release api f v) = lo v" for v
      using release_store [OF env(1), of f v] by auto
    have cl: "files (fs_close_out fs loc v) = files v" "lo (fs_close_out fs loc v) = lo v"
      "files (download_perms api fs opts f loc v) = files v" "lo (download_perms api fs opts f loc v) = lo v" for v
      using loc_laws(4-7) store_contractD(6,7) [OF env(1), of h v] h(1)
      by (auto simp: download_perms_def file_stat_def split: prod.splits option.splits sum.splits)
    show ?thesis
    proof (cases ok)
      case True
      have buf: "replicate (tr_chunk_size opts) 0 \<noteq> ([] :: bytes)" using assms(2) by simp
      obtain r w' where "download_loop api fs opts f loc (replicate (tr_chunk_size opts) 0) 0 w2 = Some (r, w')"
        "files w' = files w"
        "case r of Inl _ \<Rightarrow> \<exists>x. lo w' = (lo w2)(loc \<mapsto> x) | Inr k \<Rightarrow> lo w' = (lo w2)(loc \<mapsto> c) \<and> k = 0 + of_nat (length c - 0)"
        using download_loop_exact [OF assms(1) h(1) w2(2) _ _ _ buf, of c loc 0] w2 h(3) True by auto
      then show ?thesis using False op Inr oo True h(3) w2(3) rel cl by (cases r) (auto simp: try_download_def)
    qed (use False op Inr oo w2 rel in \<open>auto simp: try_download_def\<close>)
  qed
qed (auto simp: try_download_def)

lemma upload_loop_exact:
  assumes "transfer_env api fs opts files cur lo strm" "fi_native f = Some h" "0 < tr_chunk_size opts"
  shows "cur h w = Some (p, length c) \<Longrightarrow> files w p = Some c \<Longrightarrow>
    \<exists>r w'. upload_loop api fs opts f loc n w = Some (r, w') \<and> lo w' = lo w
      \<and> (case r of Inl _ \<Rightarrow> \<exists>x. files w' = (files w)(p \<mapsto> x)
         | Inr k \<Rightarrow> files w' = (files w)(p \<mapsto> c @ strm loc w) \<and> k = n + of_nat (length (strm loc w)))"
proof (induction "length (strm loc w)" arbitrary: c n w rule: less_induct)
  case less
  note env = transfer_envD [OF assms(1)]
  let ?k = "tr_chunk_size opts"
  obtain d good w1 where rd: "fs_read_in fs loc ?k w = (d, good, w1)" by (metis prod_cases3)
  have w1: "files w1 = files w" "cur h w1 = cur h w" "lo w1 = lo w" "d = take ?k (strm loc w)" "strm loc w1 = drop ?k (strm loc w)"
      "good \<longleftrightarrow> length d = ?k"
    using local_contractD(9) [OF env(2) rd] by (auto dest: fun_cong [of _ _ h])
  show ?case
  proof (cases "d = []")
    case True
    then have "strm loc w = []" using w1(4) assms(3) by simp
    then show ?thesis
      using True rd w1(1,3) less.prems(2) by (auto simp: upload_loop.simps [of api fs opts f loc n w] fun_upd_idem)
  next
    case False
    obtain r2 w2 where wr: "write_all_loop (file_write api f) file_short_write d w1 = (r2, w2)" by fastforce
    have w1': "cur h w1 = Some (p, length c)" "files w1 p = Some c" using less.prems w1 by auto
    note wa = write_all_store [OF env(1) assms(2) wr w1']
    have keep: "lo w2 = lo w" "strm loc w2 = strm loc w1" using wa w1(3) by (auto dest: fun_cong [of _ _ loc])
    show ?thesis
    proof (cases r2)
      case (Inl e)
      then show ?thesis
        using False rd wr wa keep w1 by (auto simp: upload_loop.simps [of api fs opts f loc n w] file_write_all_def)
    next
      case (Inr u)
      let ?n = "n + of_nat (length d)"
      have w2: "files w2 = (files w)(p \<mapsto> c @ d)" "cur h w2 = Some (p, length (c @ d))" using wa w1 Inr by auto
      obtain go w3 where pr: "report_progress opts ?n w2 = (go, w3)" by fastforce
      have w3: "files w3 = (files w)(p \<mapsto> c @ d)" "cur h w3 = Some (p, length (c @ d))" "lo w3 = lo w"
          "strm loc w3 = drop ?k (strm loc w)"
        using env(3) [OF pr, of h loc] w2 keep w1 by auto
      have run: "upload_loop api fs opts f loc n w =
          (if \<not> go then Some (Inl (cancelled_error ''try_upload''), w3) else if \<not> good then Some (Inr ?n, w3)
           else upload_loop api fs opts f loc ?n w3)"
        using False rd wr pr Inr by (simp add: upload_loop.simps [of api fs opts f loc n w] file_write_all_def)
      have all: "strm loc w = d @ strm loc w3" using w1 w3 by simp
      show ?thesis
      proof (cases "go \<and> good")
        case True
        have shorter: "length (strm loc w3) < length (strm loc w)" using all False by simp
        have "files w3 p = Some (c @ d)" using w3(1) by simp
        from less.hyps [OF shorter w3(2) this, of ?n] show ?thesis
          unfolding run using True w3(1-3) all by (fastforce split: sum.splits)
      next
        case F: False
        then have "\<not> good \<Longrightarrow> strm loc w3 = []" using w1(4,6) w3(4) by auto
        then show ?thesis unfolding run using F w3(1-3) all by auto
      qed
    qed
  qed
qed

lemma upload_total:
  assumes "transfer_env api fs opts files cur lo strm" "0 < tr_chunk_size opts"
  shows "\<exists>r w'. try_upload api fs s loc remote opts w = Some (r, w') \<and> lo w' = lo w
    \<and> (\<forall>q. q \<noteq> c_str remote \<longrightarrow> files w' q = files w q)
    \<and> (case r of Inl _ \<Rightarrow> True
       | Inr k \<Rightarrow> \<exists>c. lo w loc = Some c \<and> files w' = (files w)(c_str remote \<mapsto> c) \<and> k = of_nat (length c)
            \<and> (tr_overwrite opts = Overwrite_fail \<longrightarrow> files w (c_str remote) = None))"
proof -
  note env = transfer_envD [OF assms(1)]
  obtain ok w1 where oi: "fs_open_in fs loc w = (ok, w1)" by fastforce
  have w1: "files w1 = files w" "lo w1 = lo w" "ok \<Longrightarrow> lo w loc = Some (strm loc w1)"
    using local_contractD(8) [OF env(2) oi] by auto
  obtain r2 w2 where op: "sftp_try_open api s remote (upload_mode opts) (upload_perms fs opts loc w1) w1 = (r2, w2)" by fastforce
  note o = open_store [OF env(1) op]
  show ?thesis
  proof (cases "ok \<and> (\<exists>f. r2 = Inr f)")
    case False
    then show ?thesis using oi w1 op o by (cases r2) (auto simp: try_upload_def)
  next
    case True
    then obtain f where f: "ok" "r2 = Inr f" by blast
    obtain h where h: "fi_native f = Some h" "cur h w2 = Some (c_str remote, length ([] :: bytes))"
      "files w2 = (files w)(c_str remote \<mapsto> [])" "lo w2 = lo w" "strm loc w2 = strm loc w1"
      "tr_overwrite opts = Overwrite_fail \<longrightarrow> files w (c_str remote) = None"
      using o f w1 by (cases "tr_overwrite opts") (auto simp: upload_mode_def dest: fun_cong [of _ _ loc])
    have rel: "files (file_release api f v) = files v" "lo (file_release api f v) = lo v" for v
      using release_store [OF env(1), of f v] by auto
    have empty: "files w2 (c_str remote) = Some []" using h(3) by simp
    obtain r w' where "upload_loop api fs opts f loc 0 w2 = Some (r, w')" "lo w' = lo w2"
      "case r of Inl _ \<Rightarrow> \<exists>x. files w' = (files w2)(c_str remote \<mapsto> x)
       | Inr k \<Rightarrow> files w' = (files w2)(c_str remote \<mapsto> [] @ strm loc w2) \<and> k = 0 + of_nat (length (strm loc w2))"
      using upload_loop_exact [OF assms(1) h(1) assms(2) h(2) empty, of loc 0] by blast
    then show ?thesis using f oi w1 op rel h by (cases r) (auto simp: try_upload_def)
  qed
qed

text \<open>
  A download returns, however short the reads of the server are, and on success the local file has
  exactly the content of the remote one and the count is its length modulo 2^64; in every case the
  server's files and the other local files are as before.
\<close>
theorem download_exact:
  assumes "transfer_env api fs opts files cur lo strm" and "0 < tr_chunk_size opts"
  shows "\<exists>r w'. try_download api fs s remote loc opts w = Some (r, w') \<and> files w' = files w
    \<and> (\<forall>q. q \<noteq> loc \<longrightarrow> lo w' q = lo w q)
    \<and> (case r of Inl _ \<Rightarrow> True
       | Inr k \<Rightarrow> \<exists>c. files w (c_str remote) = Some c \<and> lo w' = (lo w)(loc \<mapsto> c) \<and> k = of_nat (length c))"
  by (rule download_total [OF assms])


section \<open>A simulated local side\<close>

definition sim_fs :: "sim_sftp local_fs" where
  "sim_fs = \<lparr>fs_exists = \<lambda>p w. sv_local w p \<noteq> None,
     fs_open_out = \<lambda>p w. (True, w\<lparr>sv_local := (sv_local w)(p \<mapsto> []), sv_touched := sv_touched w @ [p]\<rparr>),
     fs_write = \<lambda>p d w. w\<lparr>sv_local := (sv_local w)(p \<mapsto> the (sv_local w p) @ d), sv_touched := sv_touched w @ [p]\<rparr>,
     fs_close_out = \<lambda>_ w. w, fs_permissions = \<lambda>p _ w. w\<lparr>sv_touched := sv_touched w @ [p]\<rparr>,
     fs_open_in = \<lambda>p w. (case sv_local w p of None \<Rightarrow> (False, w) | Some c \<Rightarrow> (True, w\<lparr>sv_stream := (sv_stream w)(p := c)\<rparr>)),
     fs_read_in = \<lambda>p k w. (let d = take k (sv_stream w p) in
        (d, length d = k, w\<lparr>sv_stream := (sv_stream w)(p := drop k (sv_stream w p))\<rparr>)),
     fs_status_perms = \<lambda>_ _. Some 420, fs_create_directories = \<lambda>p w. w\<lparr>sv_touched := sv_touched w @ [p]\<rparr>,
     fs_weakly_canonical = \<lambda>p _. Inr p\<rparr>"

lemma sim_transfer_env:
  assumes "0 < cap"
  shows "transfer_env (sim_sftp_api cap) sim_fs default_transfer sv_files (\<lambda>h w. sv_cur w h) sv_local (\<lambda>p w. sv_stream w p)"
proof -
  have "local_contract sim_fs (\<lambda>w. (sv_files w, \<lambda>h. sv_cur w h)) sv_local (\<lambda>p w. sv_stream w p)"
    unfolding local_contract_def by (intro conjI allI impI) (auto simp: sim_fs_def Let_def split: option.splits)
  then show ?thesis
    using sim_store_contract [OF assms] by (simp add: transfer_env_def report_progress_def default_transfer_def)
qed

definition sim_local_world :: "sim_sftp" where
  "sim_local_world = (sftp_world Map.empty Map.empty)\<lparr>sv_local := [''a'' \<mapsto> [1, 2, 3, 4, 5]]\<rparr>"

definition small_transfer :: "sim_sftp transfer_options" where
  "small_transfer = default_transfer\<lparr>tr_chunk_size := 3\<rparr>"

lemma sim_small_env:
  "0 < cap \<Longrightarrow> transfer_env (sim_sftp_api cap) sim_fs small_transfer sv_files (\<lambda>h w. sv_cur w h) sv_local (\<lambda>p w. sv_stream w p)"
  using sim_transfer_env [of cap]
  by (simp add: small_transfer_def transfer_env_def report_progress_def default_transfer_def)

theorem download_exact_witness:
  "\<exists>r w'. try_download (sim_sftp_api 2) sim_fs sim_sftp_client ''/r'' ''b'' small_transfer (sftp_world [''/r'' \<mapsto> [7, 8, 9]] Map.empty)
       = Some (r, w') \<and> sv_files w' = [''/r'' \<mapsto> [7, 8, 9]]"
  using download_exact [OF sim_small_env [of 2], of sim_sftp_client "''/r''" "''b''"]
  by (fastforce simp: small_transfer_def)

lemmas transfer_eval = whole_file_eval try_upload_def try_download_def upload_loop.simps download_loop.simps upload_mode_def
  upload_perms_def download_perms_def file_stat_def report_progress_def sim_fs_def small_transfer_def default_transfer_def
  sim_attr_def std_perms_def sim_entry_def

lemma upload_download_run:
  "\<exists>n w1 m w2. try_upload (sim_sftp_api 2) sim_fs sim_sftp_client ''a'' ''/r'' small_transfer sim_local_world = Some (Inr n, w1)
     \<and> try_download (sim_sftp_api 2) sim_fs sim_sftp_client ''/r'' ''b'' small_transfer w1 = Some (Inr m, w2)"
  by (simp add: transfer_eval sim_local_world_def)


end
