(* ===== verification/Tree_Safety.thy ===== *)
theory Tree_Safety
  imports Transfer_Store
begin

text \<open>
  \<open>try_download_tree\<close> against a malicious server: whatever names and types the server sends, and however
  often, the local file system is only asked to create, write and change paths that are the
  destination extended by names without separators that are neither dot entry.
\<close>

section \<open>Traces\<close>

text \<open>\<open>t w\<close> is the sequence of the local paths handed to calls that change the file system.\<close>

definition touches :: "('w \<Rightarrow> path list) \<Rightarrow> path set \<Rightarrow> 'w \<Rightarrow> 'w \<Rightarrow> bool" where
  "touches t P w w' \<longleftrightarrow> (\<exists>ps. t w' = t w @ ps \<and> set ps \<subseteq> P)"

lemma touches_refl [simp]: "touches t P w w"
  by (simp add: touches_def)

lemma touches_trans: "touches t P w w1 \<Longrightarrow> touches t P w1 w2 \<Longrightarrow> touches t P w w2"
  by (auto simp: touches_def)

lemma touches_mono: "touches t P w w' \<Longrightarrow> P \<subseteq> Q \<Longrightarrow> touches t Q w w'"
  by (auto simp: touches_def)

lemma touches_none: "touches t {} w w1 \<Longrightarrow> touches t P w1 w2 \<Longrightarrow> touches t P w w2"
  by (blast intro: touches_trans touches_mono)

definition traced_transfer ::
    "('w, 'z) sftp_api_scheme \<Rightarrow> 'w local_fs \<Rightarrow> 'w transfer_options \<Rightarrow> ('w \<Rightarrow> path list) \<Rightarrow> bool" where
  "traced_transfer api fs opts t \<longleftrightarrow>
     (\<forall>n p fl perms w. touches t {} w (snd (sftp_open api n p fl perms w)))
     \<and> (\<forall>h k w. touches t {} w (snd (snd (sftp_read api h k w))))
     \<and> (\<forall>h w. touches t {} w (snd (sftp_close api h w))) \<and> (\<forall>h w. touches t {} w (snd (sftp_fstat api h w)))
     \<and> (\<forall>n p w. touches t {} w (snd (sftp_opendir api n p w))) \<and> (\<forall>s d w. touches t {} w (snd (sftp_readdir api s d w)))
     \<and> (\<forall>d w. touches t {} w (sftp_closedir api d w))
     \<and> (\<forall>b w. touches t {} w (snd (report_progress opts b w)))
     \<and> (\<forall>p w. touches t {p} w (snd (fs_open_out fs p w))) \<and> (\<forall>p d w. touches t {p} w (fs_write fs p d w))
     \<and> (\<forall>p w. touches t {p} w (fs_close_out fs p w)) \<and> (\<forall>p m w. touches t {p} w (fs_permissions fs p m w))
     \<and> (\<forall>p w. touches t {p} w (fs_create_directories fs p w))"

lemma traced_transferD:
  assumes "traced_transfer api fs opts t"
  shows "touches t {} w (snd (sftp_open api n p fl perms w))" "touches t {} w (snd (snd (sftp_read api h k w)))"
    "touches t {} w (snd (sftp_close api h w))" "touches t {} w (snd (sftp_fstat api h w))"
    "touches t {} w (snd (sftp_opendir api n p w))" "touches t {} w (snd (sftp_readdir api so h w))"
    "touches t {} w (sftp_closedir api h w)" "touches t {} w (snd (report_progress opts b w))"
    "touches t {p} w (snd (fs_open_out fs p w))" "touches t {p} w (fs_write fs p d w)"
    "touches t {p} w (fs_close_out fs p w)" "touches t {p} w (fs_permissions fs p m w)"
    "touches t {p} w (fs_create_directories fs p w)"
  using assms by (simp_all add: traced_transfer_def)

section \<open>Listing and downloading\<close>

lemma dir_next_touches:
  "traced_transfer api fs opts t \<Longrightarrow> dir_next api d w = (a, d', w') \<Longrightarrow> touches t {} w w'"
  using traced_transferD(6) [of api fs opts t w "di_sftp d"]
  by (auto simp: dir_next_def split: option.splits prod.splits) (metis snd_conv)+

lemma list_loop_touches:
  assumes "list_loop api d acc w = Some y"
  shows "traced_transfer api fs opts t \<longrightarrow> touches t {} w (snd (snd y))"
proof (rule list_loop.raw_induct [where P = "\<lambda>api d acc w y. traced_transfer api fs opts t \<longrightarrow> touches t {} w (snd (snd y))",
      OF _ assms], goal_cases)
  case (1 f api d acc w y)
  obtain a d1 w1 where n: "dir_next api d w = (a, d1, w1)" by (metis prod_cases3)
  show ?case
  proof (cases a)
    case None
    then show ?thesis using 1(2) n dir_next_touches [OF _ n] by auto
  next
    case (Some e)
    then have "f api d1 (if dot_entry e then acc else acc @ [e]) w1 = Some y" using 1(2) n by simp
    from 1(1) [OF this] show ?thesis using dir_next_touches [OF _ n] by (blast intro: touches_trans)
  qed
qed

lemma try_list_touches:
  assumes "traced_transfer api fs opts t" "try_list api s p w = Some (r, w')"
  shows "touches t {} w w'"
proof -
  obtain r1 w1 where op: "try_open_directory api s p w = (r1, w1)" by fastforce
  have w1: "touches t {} w w1"
    using op traced_transferD(5) [OF assms(1), of w]
    by (auto simp: try_open_directory_def sftp_get_def split: option.splits prod.splits) (metis snd_conv)+
  show ?thesis
  proof (cases r1)
    case (Inr d)
    then obtain acc d' w2 where l: "list_loop api d [] w1 = Some (acc, d', w2)" "w' = dir_release api d' w2"
      using assms(2) op by (auto simp: try_list_def split: option.splits)
    have "touches t {} w1 w2" using list_loop_touches [OF l(1)] assms(1) by simp
    moreover have "touches t {} w2 w'"
      unfolding l(2) dir_release_def using traced_transferD(7) [OF assms(1)] by (auto split: option.splits)
    ultimately show ?thesis using w1 by (blast intro: touches_trans)
  qed (use assms(2) op w1 in \<open>auto simp: try_list_def\<close>)
qed

lemma file_read_touches:
  "traced_transfer api fs opts t \<Longrightarrow> file_read api f buf w = (r, buf', w') \<Longrightarrow> touches t {} w w'"
  using traced_transferD(2) [of api fs opts t w]
  by (auto simp: file_read_def split: option.splits prod.splits) (metis snd_conv)

lemma download_loop_touches:
  assumes "download_loop api fs opts f loc buf n w = Some y"
  shows "traced_transfer api fs opts t \<longrightarrow> touches t {loc} w (snd y)"
proof (rule download_loop.raw_induct [where P = "\<lambda>api fs opts f loc buf n w y. traced_transfer api fs opts t
      \<longrightarrow> touches t {loc} w (snd y)", OF _ assms], goal_cases)
  case (1 g api fs opts f loc buf n w y)
  obtain r b1 w1 where rd: "file_read api f buf w = (r, b1, w1)" by (metis prod_cases3)
  show ?case
  proof (intro impI)
    assume tr: "traced_transfer api fs opts t"
    note t1 = file_read_touches [OF tr rd]
    show "touches t {loc} w (snd y)"
    proof (cases "\<exists>k. r = Inr k \<and> k \<noteq> 0")
      case True
      then obtain k where k: "r = Inr k" "k \<noteq> 0" by blast
      obtain go w3 where pr: "report_progress opts (n + of_nat k) (fs_write fs loc (mem_prefix k b1) w1) = (go, w3)" by fastforce
      have t3: "touches t {loc} w w3"
        using traced_transferD(8) [OF tr, where w = "fs_write fs loc (mem_prefix k b1) w1" and b = "n + of_nat k"]
          traced_transferD(10) [OF tr, where w = w1 and p = loc and d = "mem_prefix k b1"] t1 pr
        by (auto intro: touches_none touches_trans touches_mono)
      show ?thesis
      proof (cases go)
        case True
        then have "g api fs opts f loc b1 (n + of_nat k) w3 = Some y" using 1(2) rd k pr by simp
        from 1(1) [OF this] show ?thesis using tr t3 by (blast intro: touches_trans)
      qed (use 1(2) rd k pr t3 in auto)
    next
      case False
      then have "snd y = w1" using 1(2) rd by (cases r) auto
      then show ?thesis using t1 by (auto intro: touches_mono)
    qed
  qed
qed

lemma try_download_touches:
  assumes "traced_transfer api fs opts t" "try_download api fs s remote loc opts w = Some (r, w')"
  shows "touches t {loc} w w'"
proof (cases "tr_overwrite opts = Overwrite_fail \<and> fs_exists fs loc w")
  case False
  note tr = traced_transferD [OF assms(1)]
  obtain r1 w1 where op: "sftp_try_open api s remote read_mode owner_rw w = (r1, w1)" by fastforce
  have w1: "touches t {loc} w w1"
    using op tr(1) [where w = w]
    by (auto simp: sftp_try_open_def sftp_get_def split: option.splits prod.splits) (metis snd_conv touches_mono empty_subsetI)+
  have rel: "touches t {loc} v (file_release api f v)" for f v
    using tr(3) [where w = v] by (auto simp: file_release_def split: option.splits intro: touches_mono)
  show ?thesis
  proof (cases r1)
    case (Inr f)
    obtain ok w2 where oo: "fs_open_out fs loc w1 = (ok, w2)" by fastforce
    have w2: "touches t {loc} w w2" using w1 tr(9) [where w = w1 and p = loc] oo by (auto intro: touches_trans)
    have perms: "touches t {loc} v (download_perms api fs opts f loc v)" for v
    proof -
      obtain a v1 where st: "file_stat api f v = (a, v1)" by fastforce
      have "touches t {loc} v v1"
        using st tr(4) [where w = v]
        by (auto simp: file_stat_def split: option.splits prod.splits) (metis snd_conv touches_mono empty_subsetI)+
      then show ?thesis
        using st tr(12) [where p = loc] by (auto simp: download_perms_def split: sum.splits intro: touches_trans)
    qed
    show ?thesis
    proof (cases ok)
      case True
      obtain r3 w3 where dl: "download_loop api fs opts f loc (replicate (tr_chunk_size opts) 0) 0 w2 = Some (r3, w3)"
        and w': "w' = file_release api f (case r3 of Inl _ \<Rightarrow> fs_close_out fs loc w3
                  | Inr _ \<Rightarrow> download_perms api fs opts f loc (fs_close_out fs loc w3))"
        using assms(2) False op Inr oo True by (auto simp: try_download_def split: option.splits sum.splits)
      have "touches t {loc} w w3" using download_loop_touches [OF dl] assms(1) w2 by (auto intro: touches_trans)
      then have "touches t {loc} w (fs_close_out fs loc w3)" using tr(11) [where p = loc] by (blast intro: touches_trans)
      then show ?thesis
        unfolding w' by (cases r3) (simp_all, (blast intro: touches_trans rel perms)+)
    qed (use assms(2) False op Inr oo w2 rel in \<open>auto simp: try_download_def intro: touches_trans\<close>)
  qed (use assms(2) False op w1 in \<open>auto simp: try_download_def\<close>)
qed (use assms(2) in \<open>auto simp: try_download_def\<close>)

section \<open>Below the destination\<close>

text \<open>What a name must be to denote an entry of the directory it is appended to.\<close>

definition plain_component :: "string \<Rightarrow> bool" where
  "plain_component c \<longleftrightarrow> c \<notin> {[], ''.'', ''..''} \<and> set c \<inter> {CHR ''/'', CHR 0x00} = {}"

lemma safe_name_plain: "is_safe_entry_name name \<Longrightarrow> plain_component name"
  by (simp add: is_safe_entry_name_def plain_component_def)

definition inside :: "path \<Rightarrow> path \<Rightarrow> bool" where
  "inside loc q \<longleftrightarrow> (\<exists>names. list_all plain_component names \<and> q = foldl path_append loc names)"

lemma inside_self [simp]: "inside loc loc"
  unfolding inside_def by (intro exI [of _ "[]"]) simp

lemma inside_child: "is_safe_entry_name name \<Longrightarrow> inside (path_append loc name) q \<Longrightarrow> inside loc q"
  unfolding inside_def by (metis foldl_Cons list.pred_inject(2) safe_name_plain)

lemma insides_child: "is_safe_entry_name name \<Longrightarrow> Collect (inside (path_append loc name)) \<subseteq> Collect (inside loc)"
  using inside_child by blast

text \<open>Read as components: the destination's, then the names.\<close>

lemma inside_components:
  assumes "inside loc q"
  shows "\<exists>names. list_all plain_component names
     \<and> filter (\<lambda>c. c \<noteq> []) (path_components q) = filter (\<lambda>c. c \<noteq> []) (path_components loc) @ names"
proof -
  have "filter (\<lambda>c. c \<noteq> []) (path_components (foldl path_append loc names))
      = filter (\<lambda>c. c \<noteq> []) (path_components loc) @ names" if "list_all plain_component names" for names
    using that
  proof (induction names arbitrary: loc)
    case (Cons n names)
    then have "n \<noteq> []" "CHR ''/'' \<notin> set n" by (auto simp: plain_component_def)
    then show ?case using Cons by (simp add: path_components_child)
  qed simp
  then show ?thesis using assms unfolding inside_def by blast
qed

lemma tree_enter_touches:
  assumes "traced_transfer api fs opts t" "tree_enter api fs s remote loc w = Some (r, w')"
  shows "touches t (Collect (inside loc)) w w'"
proof -
  have "touches t {loc} w (fs_create_directories fs loc w)" by (rule traced_transferD(13) [OF assms(1)])
  moreover have "touches t {} (fs_create_directories fs loc w) w'"
    using try_list_touches [OF assms(1)] assms(2) unfolding tree_enter_def by blast
  ultimately have "touches t {loc} w w'" by (blast intro: touches_trans touches_mono)
  then show ?thesis by (rule touches_mono) simp
qed

lemma tree_entries_touches:
  assumes "tree_entries api fs s opts remote loc es st w = Some y"
  shows "traced_transfer api fs opts t \<longrightarrow> touches t (Collect (inside loc)) w (snd y)"
proof (rule tree_entries.raw_induct [where P = "\<lambda>api fs s opts remote loc es st w y. traced_transfer api fs opts t
      \<longrightarrow> touches t (Collect (inside loc)) w (snd y)", OF _ assms], goal_cases)
  case (1 f api fs s opts remote loc es st w y)
  show ?case
  proof (intro impI)
    assume tr: "traced_transfer api fs opts t"
    have IH: "f api fs s opts re lo es st v = Some z \<Longrightarrow> touches t (Collect (inside lo)) v (snd z)" for re lo es st v z
      using 1(1) [of api fs s opts re lo es st v z] tr by blast
    show "touches t (Collect (inside loc)) w (snd y)"
    proof (cases es)
      case (Cons e rest)
      let ?n = "at_name e" let ?re = "remote_append remote (at_name e)" let ?lo = "path_append loc (at_name e)"
      let ?skip = "\<not> is_safe_entry_name ?n \<or> \<not> child_allowed fs loc ?lo w \<or> is_symlink e
          \<or> \<not> is_directory e \<and> \<not> is_regular e"
      have step: "(if ?skip then f api fs s opts remote loc rest (skip_one st) w
          else if is_directory e
          then Option.bind (tree_enter api fs s ?re ?lo w)
                 (\<lambda>(listing, w1). case listing of Inl err \<Rightarrow> Some (Inl err, w1)
                  | Inr listed \<Rightarrow> Option.bind (f api fs s opts ?re ?lo listed no_tree_stats w1)
                        (\<lambda>(sub, w2). case sub of Inl err \<Rightarrow> Some (Inl err, w2)
                         | Inr sub_stats \<Rightarrow> f api fs s opts remote loc rest (add_tree sub_stats st) w2))
          else case try_download api fs s ?re ?lo opts w of None \<Rightarrow> None | Some (Inl err, w1) \<Rightarrow> Some (Inl err, w1)
                | Some (Inr n, w1) \<Rightarrow> f api fs s opts remote loc rest (add_file n st) w1) = Some y"
        using 1(2) Cons by (simp split: if_splits; blast)
      consider (skip) "?skip" | (dir) "\<not> ?skip" "is_directory e" | (reg) "\<not> ?skip" "\<not> is_directory e" by blast
      then show ?thesis
      proof cases
        case skip
        then show ?thesis using step IH by (simp only: if_True)
      next
        case dir
        have sub: "touches t (Collect (inside ?lo)) v v' \<Longrightarrow> touches t (Collect (inside loc)) v v'" for v v'
          using dir insides_child [of ?n loc] by (blast intro: touches_mono)
        obtain listing w1 where te: "tree_enter api fs s ?re ?lo w = Some (listing, w1)"
          using step dir by (auto simp: bind_eq_Some_conv)
        have t1: "touches t (Collect (inside loc)) w w1" by (rule sub [OF tree_enter_touches [OF tr te]])
        show ?thesis
        proof (cases listing)
          case (Inl err)
          then show ?thesis using step dir te t1 by auto
        next
          case (Inr listed)
          then obtain sb w2 where sb: "f api fs s opts ?re ?lo listed no_tree_stats w1 = Some (sb, w2)"
            and fin: "(case sb of Inl err \<Rightarrow> Some (Inl err, w2)
               | Inr sub_stats \<Rightarrow> f api fs s opts remote loc rest (add_tree sub_stats st) w2) = Some y"
            using step dir te by (auto simp: bind_eq_Some_conv)
          have t2: "touches t (Collect (inside loc)) w w2" using sub IH [OF sb] t1 by (auto intro: touches_trans)
          show ?thesis using fin t2 by (cases sb) (auto dest: IH intro: touches_trans)
        qed
      next
        case reg
        obtain dr w1 where dl: "try_download api fs s ?re ?lo opts w = Some (dr, w1)"
          and fin: "(case dr of Inl err \<Rightarrow> Some (Inl err, w1) | Inr n \<Rightarrow> f api fs s opts remote loc rest (add_file n st) w1) = Some y"
          using step reg by (auto split: option.splits sum.splits)
        have "inside loc ?lo" using reg inside_child [of ?n loc ?lo] by simp
        then have t1: "touches t (Collect (inside loc)) w w1"
          by (intro touches_mono [OF try_download_touches [OF tr dl]]) simp
        show ?thesis using fin t1 by (cases dr) (auto dest: IH intro: touches_trans)
      qed
    qed (use 1(2) in auto)
  qed
qed

text \<open>
  C7: Whatever the server lists, downloading a tree creates, writes and changes only local paths that
  are the destination or the destination extended by names that have no slash and no NUL and are
  neither empty nor a dot entry.
\<close>
theorem download_tree_confined:
  assumes "traced_transfer api fs opts t" and "try_download_tree api fs s remote loc opts w = Some (r, w')"
  shows "\<exists>ps. t w' = t w @ ps \<and> (\<forall>q \<in> set ps. inside loc q)"
proof -
  obtain listing w1 where te: "tree_enter api fs s remote loc w = Some (listing, w1)"
    and fin: "(case listing of Inl e \<Rightarrow> Some (Inl e, w1) | Inr l \<Rightarrow> tree_entries api fs s opts remote loc l no_tree_stats w1)
        = Some (r, w')"
    using assms(2) by (auto simp: try_download_tree_def split: option.splits sum.splits)
  have "touches t (Collect (inside loc)) w w1" by (rule tree_enter_touches [OF assms(1) te])
  moreover have "touches t (Collect (inside loc)) w1 w'"
    using fin tree_entries_touches assms(1) by (cases listing) fastforce+
  ultimately have "touches t (Collect (inside loc)) w w'" by (rule touches_trans)
  then show ?thesis by (auto simp: touches_def)
qed

section \<open>A malicious server\<close>

lemma sim_traced: "traced_transfer (sim_sftp_api cap) sim_fs small_transfer sv_touched"
  by (auto simp: traced_transfer_def touches_def sim_open_def sim_file_read_def sim_opendir_def sim_readdir_def sim_fs_def
      report_progress_def small_transfer_def default_transfer_def Let_def split: option.splits list.splits)

definition evil_world :: sim_sftp where
  "evil_world = sftp_world [''/d/ok'' \<mapsto> [1], ''/d/../x'' \<mapsto> [2]]
     [''/d'' \<mapsto> [sim_entry ''../x'' 1, sim_entry ''ok'' 1, sim_entry ''l'' 3]]"

lemmas tree_eval = transfer_eval try_download_tree_def tree_enter_def tree_entries.simps try_list_def try_open_directory_def
  list_loop.simps dir_next_def sim_opendir_def sim_readdir_def attributes_from_native_def file_type_from_native_def
  dot_entry_def dir_release_def is_safe_entry_name_def child_allowed_def is_symlink_def is_directory_def is_regular_def
  path_append_def is_absolute_def remote_append_def skip_one_def add_file_def no_tree_stats_def error_info_bool_def
  ec_bool_def no_error_info_def no_error_code_def

lemma evil_run:
  "\<exists>w'. try_download_tree (sim_sftp_api 2) sim_fs sim_sftp_client ''/d'' ''out'' small_transfer evil_world
     = Some (Inr \<lparr>ts_files = 1, ts_directories = 0, ts_bytes = 1, ts_skipped = 2\<rparr>, w')"
  by (simp add: tree_eval evil_world_def)

theorem download_tree_confined_witness:
  "\<exists>w' ps. try_download_tree (sim_sftp_api 2) sim_fs sim_sftp_client ''/d'' ''out'' small_transfer evil_world
       = Some (Inr \<lparr>ts_files = 1, ts_directories = 0, ts_bytes = 1, ts_skipped = 2\<rparr>, w')
     \<and> sv_touched w' = ps \<and> list_all (inside ''out'') ps"
proof -
  obtain w' where r: "try_download_tree (sim_sftp_api 2) sim_fs sim_sftp_client ''/d'' ''out'' small_transfer evil_world
      = Some (Inr \<lparr>ts_files = 1, ts_directories = 0, ts_bytes = 1, ts_skipped = 2\<rparr>, w')"
    using evil_run by blast
  show ?thesis
    using download_tree_confined [OF sim_traced r] r by (auto simp: evil_world_def list_all_iff)
qed

end
