(* ===== verification/Pipelines.thy ===== *)
theory Pipelines
  imports Transfer_Store Library_Guard
begin

text \<open>
  The pipelined reader and writer of \<open>sftp/file.hpp\<close>. With full answers the reader returns the file in
  order and an empty chunk exactly at its end, however many requests are in flight and however
  libssh cuts the requests; an answer shorter than its request leaves a gap in what the reader
  returns. The writer hands over all data in order, and its flush reports a failed write.
\<close>

section \<open>Reading ahead\<close>

text \<open>
  \<open>pos w\<close> is libssh's offset of the open file, \<open>pend a w\<close> the offset and the length of the request \<open>a\<close> in
  flight. A request may be cut to what the server allows; it is answered in full up to the end of
  the content \<open>c\<close>.
\<close>

definition pipelined ::
    "('w, 'z) sftp_api_scheme \<Rightarrow> handle \<Rightarrow> bytes \<Rightarrow> ('w \<Rightarrow> nat option) \<Rightarrow> (handle \<Rightarrow> 'w \<Rightarrow> (nat \<times> nat) option) \<Rightarrow> bool" where
  "pipelined api n c pos pend \<longleftrightarrow>
     (\<forall>k w rc aio w' q. sftp_aio_begin_read api n k w = (rc, aio, w') \<longrightarrow> 0 < k \<longrightarrow> pos w = Some q \<longrightarrow>
        (\<exists>a len. aio = Some a \<and> rc = int len \<and> 0 < len \<and> len \<le> k \<and> pend a w = None \<and> pos w' = Some (q + len)
           \<and> pend a w' = Some (q, len) \<and> (\<forall>b. b \<noteq> a \<longrightarrow> pend b w' = pend b w)))
     \<and> (\<forall>a k w m new w' off len q. sftp_aio_wait_read api a k w = (m, new, w') \<longrightarrow> pend a w = Some (off, len) \<longrightarrow> len \<le> k \<longrightarrow>
        pos w = Some q \<longrightarrow>
        new = take len (drop off c) \<and> m = int (length new) \<and> pos w' = pos w \<and> (\<forall>b. b \<noteq> a \<longrightarrow> pend b w' = pend b w))"

lemma pipelinedD:
  assumes "pipelined api n c pos pend"
  shows "sftp_aio_begin_read api n k w = (rc, aio, w') \<Longrightarrow> 0 < k \<Longrightarrow> pos w = Some q \<Longrightarrow>
        \<exists>a len. aio = Some a \<and> rc = int len \<and> 0 < len \<and> len \<le> k \<and> pend a w = None \<and> pos w' = Some (q + len)
           \<and> pend a w' = Some (q, len) \<and> (\<forall>b. b \<noteq> a \<longrightarrow> pend b w' = pend b w)"
    and "sftp_aio_wait_read api a k w = (m, new, w') \<Longrightarrow> pend a w = Some (off, len) \<Longrightarrow> len \<le> k \<Longrightarrow> pos w = Some q \<Longrightarrow>
        new = take len (drop off c) \<and> m = int (length new) \<and> pos w' = pos w \<and> (\<forall>b. b \<noteq> a \<longrightarrow> pend b w' = pend b w)"
  using assms unfolding pipelined_def by blast+

text \<open>The requests in flight cover \<open>p\<close> up to \<open>q\<close> without a gap.\<close>

fun covers :: "(handle \<Rightarrow> (nat \<times> nat) option) \<Rightarrow> nat \<Rightarrow> nat \<Rightarrow> handle list \<Rightarrow> nat \<Rightarrow> bool" where
  "covers pd limit p [] q \<longleftrightarrow> q = p"
| "covers pd limit p (h # hs) q \<longleftrightarrow> (\<exists>len. 0 < len \<and> len \<le> limit \<and> pd h = Some (p, len) \<and> covers pd limit (p + len) hs q)"

lemma covers_cong: "(\<And>h. h \<in> set hs \<Longrightarrow> pd h = pd' h) \<Longrightarrow> covers pd limit p hs q = covers pd' limit p hs q"
  by (induction hs arbitrary: p) auto

lemma covers_append:
  "covers pd limit p (hs @ [h]) q \<longleftrightarrow> (\<exists>len m. covers pd limit p hs m \<and> 0 < len \<and> len \<le> limit \<and> pd h = Some (m, len) \<and> q = m + len)"
  by (induction hs arbitrary: p) auto

lemma covers_pending: "covers pd limit p hs q \<Longrightarrow> h \<in> set hs \<Longrightarrow> pd h \<noteq> None"
  by (induction hs arbitrary: p) auto

definition in_step ::
    "('w \<Rightarrow> nat option) \<Rightarrow> (handle \<Rightarrow> 'w \<Rightarrow> (nat \<times> nat) option) \<Rightarrow> nat \<Rightarrow> read_ahead \<Rightarrow> 'w \<Rightarrow> bool" where
  "in_step pos pend p ra w \<longleftrightarrow>
     0 < ra_chunk ra \<and> 0 < ra_depth ra \<and> \<not> ra_eof ra \<and> distinct (ra_inflight ra)
     \<and> (\<exists>q. pos w = Some q \<and> covers (\<lambda>h. pend h w) (ra_chunk ra) p (ra_inflight ra) q)"

lemma submit_one_in_step:
  assumes "pipelined api n c pos pend" "in_step pos pend p ra w"
  shows "\<exists>ra' w'. submit_one api f n ra w = (Inr (), ra', w') \<and> in_step pos pend p ra' w'
     \<and> length (ra_inflight ra') = Suc (length (ra_inflight ra)) \<and> ra_depth ra' = ra_depth ra"
proof -
  obtain rc aio w' where b: "sftp_aio_begin_read api n (ra_chunk ra) w = (rc, aio, w')" by (metis prod_cases3)
  obtain q where q: "0 < ra_chunk ra" "pos w = Some q" "covers (\<lambda>h. pend h w) (ra_chunk ra) p (ra_inflight ra) q"
    using assms(2) by (auto simp: in_step_def)
  obtain a len where a: "aio = Some a" "rc = int len" "0 < len" "len \<le> ra_chunk ra" "pend a w = None" "pos w' = Some (q + len)"
    "pend a w' = Some (q, len)" "\<forall>b. b \<noteq> a \<longrightarrow> pend b w' = pend b w"
    using pipelinedD(1) [OF assms(1) b q(1,2)] by blast
  have fresh: "a \<notin> set (ra_inflight ra)" using covers_pending [OF q(3)] a(5) by blast
  then have "covers (\<lambda>h. pend h w') (ra_chunk ra) p (ra_inflight ra) q"
    using q(3) covers_cong [of "ra_inflight ra" "\<lambda>h. pend h w'" "\<lambda>h. pend h w"] a(8) by metis
  then show ?thesis using b a fresh assms(2) by (auto simp: submit_one_def in_step_def covers_append)
qed

lemma fill_pipeline_in_step:
  assumes "pipelined api n c pos pend"
  shows "in_step pos pend p ra w \<Longrightarrow> \<exists>ra' w'. fill_pipeline api f n ra w = (Inr (), ra', w') \<and> in_step pos pend p ra' w'
     \<and> ra_inflight ra' \<noteq> []"
proof (induction "ra_depth ra - length (ra_inflight ra)" arbitrary: ra w)
  case 0
  then have "ra_depth ra \<le> length (ra_inflight ra)" "0 < ra_depth ra" by (auto simp: in_step_def)
  then have "ra_inflight ra \<noteq> []" by auto
  then show ?case using 0 \<open>ra_depth ra \<le> length (ra_inflight ra)\<close> by (auto simp: fill_pipeline.simps [of api f n ra w])
next
  case (Suc m)
  obtain ra1 w1 where s: "submit_one api f n ra w = (Inr (), ra1, w1)" "in_step pos pend p ra1 w1"
    "length (ra_inflight ra1) = Suc (length (ra_inflight ra))" "ra_depth ra1 = ra_depth ra"
    using submit_one_in_step [OF assms Suc.prems] by blast
  have "fill_pipeline api f n ra w = fill_pipeline api f n ra1 w1"
    using Suc.hyps(2) Suc.prems s(1) by (auto simp: fill_pipeline.simps [of api f n ra w] in_step_def)
  moreover have "m = ra_depth ra1 - length (ra_inflight ra1)" using Suc.hyps(2) s(3,4) by simp
  ultimately show ?case using Suc.hyps(1) [OF _ s(2)] by simp
qed

lemma next_in_step:
  assumes "pipelined api n c pos pend" "fi_native f = Some n" "has_sftp_aio api" "in_step pos pend p ra w"
  shows "\<exists>len ra' w'. read_ahead_next api f ra w = (Inr (take len (drop p c)), ra', w') \<and> 0 < len
     \<and> (if p < length c then in_step pos pend (p + len) ra' w' else ra_eof ra' \<and> ra_inflight ra' = [])"
proof -
  obtain ra1 w1 where fl: "fill_pipeline api f n ra w = (Inr (), ra1, w1)" "in_step pos pend p ra1 w1" "ra_inflight ra1 \<noteq> []"
    using fill_pipeline_in_step [OF assms(1,4)] by blast
  obtain h hs where hs: "ra_inflight ra1 = h # hs" using fl(3) by (cases "ra_inflight ra1") auto
  obtain len q where len: "0 < len" "len \<le> ra_chunk ra1" "pend h w1 = Some (p, len)" "pos w1 = Some q"
    "covers (\<lambda>h. pend h w1) (ra_chunk ra1) (p + len) hs q"
    using fl(2) hs by (auto simp: in_step_def)
  obtain m new w2 where wt: "sftp_aio_wait_read api h (ra_chunk ra1) w1 = (m, new, w2)" by (metis prod_cases3)
  have new: "new = take len (drop p c)" "m = int (length new)" "pos w2 = pos w1" "\<forall>b. b \<noteq> h \<longrightarrow> pend b w2 = pend b w1"
    using pipelinedD(2) [OF assms(1) wt len(3,2,4)] by auto
  have "h \<notin> set hs" using fl(2) hs by (simp add: in_step_def)
  then have cov: "covers (\<lambda>h. pend h w2) (ra_chunk ra1) (p + len) hs q" "pos w2 = Some q"
    using len(4,5) covers_cong [of hs "\<lambda>h. pend h w2" "\<lambda>h. pend h w1"] new(3,4) by metis+
  have run: "read_ahead_next api f ra w = wait_front api f h hs ra1 w1"
    using assms(2,3) fl(1) hs by (simp add: read_ahead_next_def)
  show ?thesis
  proof (cases "p < length c")
    case True
    then have "new \<noteq> []" using new(1) len(1) by simp
    moreover have "in_step pos pend (p + len) (ra1\<lparr>ra_inflight := hs\<rparr>) w2" using fl(2) hs cov by (simp add: in_step_def)
    moreover have "mem_prefix (nat m) new = new" using new(2) by (simp add: mem_prefix_def)
    ultimately have "wait_front api f h hs ra1 w1 = (Inr new, ra1\<lparr>ra_inflight := hs\<rparr>, w2)"
      "in_step pos pend (p + len) (ra1\<lparr>ra_inflight := hs\<rparr>) w2"
      using wt new(2) by (simp_all add: wait_front_def)
    then show ?thesis unfolding run using new(1) len(1) True by auto
  next
    case False
    then show ?thesis unfolding run using wt new(1,2) len(1) by (auto simp: wait_front_def)
  qed
qed

text \<open>A client that asks for \<open>k\<close> chunks.\<close>

fun read_calls :: "('w, 'z) sftp_api_scheme \<Rightarrow> sftp_file \<Rightarrow> nat \<Rightarrow> read_ahead \<Rightarrow> 'w \<Rightarrow> bytes result list \<times> read_ahead \<times> 'w" where
  "read_calls api f 0 ra w = ([], ra, w)"
| "read_calls api f (Suc k) ra w =
     (case read_ahead_next api f ra w of
        (r, ra1, w1) \<Rightarrow> (case read_calls api f k ra1 w1 of (rs, ra2, w2) \<Rightarrow> (r # rs, ra2, w2)))"

lemma read_calls_ended:
  assumes "fi_native f = Some n" "has_sftp_aio api" "ra_eof ra" "ra_inflight ra = []"
  shows "read_calls api f k ra w = (replicate k (Inr []), ra, w)"
  using assms by (induction k) (simp_all add: read_ahead_next_def fill_pipeline.simps)

lemma read_calls_in_step:
  assumes "pipelined api n c pos pend" "fi_native f = Some n" "has_sftp_aio api"
  shows "in_step pos pend p ra w \<Longrightarrow> \<exists>ds ra' w'. read_calls api f k ra w = (map Inr ds, ra', w') \<and> prefix (concat ds) (drop p c)
     \<and> ([] \<in> set ds \<longrightarrow> concat ds = drop p c)"
proof (induction k arbitrary: p ra w)
  case (Suc k)
  obtain len ra1 w1 where nx: "read_ahead_next api f ra w = (Inr (take len (drop p c)), ra1, w1)" "0 < len"
    "if p < length c then in_step pos pend (p + len) ra1 w1 else ra_eof ra1 \<and> ra_inflight ra1 = []"
    using next_in_step [OF assms Suc.prems] by blast
  show ?case
  proof (cases "p < length c")
    case True
    then have "in_step pos pend (p + len) ra1 w1" using nx(3) by simp
    from Suc.IH [OF this] obtain ds ra' w' where r: "read_calls api f k ra1 w1 = (map Inr ds, ra', w')"
      "prefix (concat ds) (drop (p + len) c)" "[] \<in> set ds \<longrightarrow> concat ds = drop (p + len) c" by blast
    have split: "drop p c = take len (drop p c) @ drop (p + len) c" by (metis append_take_drop_id drop_drop add.commute)
    have "prefix (concat (take len (drop p c) # ds)) (drop p c)" using r(2) by (subst (2) split) simp
    moreover have "[] \<in> set (take len (drop p c) # ds) \<longrightarrow> concat (take len (drop p c) # ds) = drop p c"
      using r(3) True nx(2) split by (auto simp: less_diff_conv)
    ultimately show ?thesis using nx(1) r(1) by (intro exI [of _ "take len (drop p c) # ds"]) auto
  next
    case False
    then have "read_calls api f k ra1 w1 = (replicate k (Inr []), ra1, w1)"
      using nx(3) by (intro read_calls_ended [OF assms(2,3)]) auto
    then show ?thesis
      using False nx(1) by (intro exI [of _ "[] # replicate k []"]) (auto simp: map_replicate_const)
  qed
qed (auto intro: exI [of _ "[]"])


definition sim_file :: sftp_file where
  "sim_file = \<lparr>fi_native = Some 5, fi_sftp = Some 2, fi_core = Some 1, fi_path = ''f''\<rparr>"

definition sim_reading :: "sim_sftp" where
  "sim_reading = (sftp_world [''f'' \<mapsto> [1, 2, 3, 4, 5, 6]] Map.empty)\<lparr>sv_cur := [5 \<mapsto> (''f'', 0)]\<rparr>"

definition sim_pos :: "bytes \<Rightarrow> sim_sftp \<Rightarrow> nat option" where
  "sim_pos c w = (case sv_cur w 5 of Some (p, pos) \<Rightarrow> if p = ''f'' \<and> sv_files w p = Some c then Some pos else None | None \<Rightarrow> None)"

definition sim_pend :: "handle \<Rightarrow> sim_sftp \<Rightarrow> (nat \<times> nat) option" where
  "sim_pend a w = (if a < sv_next w
     then case sv_aio w a of Some (p, off, len) \<Rightarrow> if p = ''f'' then Some (off, len) else None | None \<Rightarrow> None else None)"

lemma sim_pipelined: "0 < cap \<Longrightarrow> pipelined (sim_sftp_api cap) 5 c (sim_pos c) sim_pend"
  unfolding pipelined_def
  by (intro conjI allI impI)
    (auto simp: sim_begin_read_def sim_wait_read_def sim_pos_def sim_pend_def Let_def split: option.splits if_splits prod.splits)

lemmas ahead_eval = read_ahead_next_def fill_pipeline.simps submit_one_def wait_front_def new_read_ahead_def sim_file_def
  sim_reading_def sim_begin_read_def sim_wait_read_def mem_prefix_def aio_free_all_def Let_def eval_nat_numeral


text \<open>
  When the server answers a request with fewer bytes than asked for, although the file goes on, the
  reader skips what is missing and goes on behind it, without an error.
\<close>

definition stingy_api :: "sim_sftp sftp_api" where
  "stingy_api = (sim_sftp_api 4)\<lparr>sftp_aio_wait_read := \<lambda>a k w. (case sim_wait_read a k w of
     (m, d, w') \<Rightarrow> (min 3 m, take 3 d, w'))\<rparr>"

theorem short_read_skips:
  "fst (read_calls stingy_api sim_file 3 (new_read_ahead 4 2) sim_reading) = [Inr [1, 2, 3], Inr [5, 6], Inr []]"
  by (simp add: stingy_api_def ahead_eval)

section \<open>Writing behind\<close>

text \<open>The destructor flushes; an error goes to the handler of the library, if there is one.\<close>

definition write_behind_dtor ::
    "('w, 'z) sftp_api_scheme \<Rightarrow> 'cb lib_globals \<Rightarrow> sftp_file \<Rightarrow> write_behind \<Rightarrow> 'w \<Rightarrow> ('cb \<times> error_info) option \<times> 'w" where
  "write_behind_dtor api g f wb w =
     (case write_behind_flush api f wb w of
        (Inl e, _, w') \<Rightarrow> (report_destructor_error g e, w') | (Inr _, _, w') \<Rightarrow> (None, w'))"

text \<open>\<open>sent w\<close> is what libssh was given for the file, in order; a write that is started takes at least a byte.\<close>

definition behind :: "('w, 'z) sftp_api_scheme \<Rightarrow> handle \<Rightarrow> ('w \<Rightarrow> bytes) \<Rightarrow> bool" where
  "behind api n sent \<longleftrightarrow>
     (\<forall>d w rc aio w'. sftp_aio_begin_write api n d w = (rc, aio, w') \<longrightarrow> d \<noteq> [] \<longrightarrow>
        (if rc = -1 \<or> aio = None then sent w' = sent w
         else 0 < rc \<and> rc \<le> int (length d) \<and> sent w' = sent w @ take (nat rc) d))
     \<and> (\<forall>a w. sent (snd (sftp_aio_wait_write api a w)) = sent w)"

lemma behindD:
  assumes "behind api n sent"
  shows "sftp_aio_begin_write api n d w = (rc, aio, w') \<Longrightarrow> d \<noteq> [] \<Longrightarrow>
        if rc = -1 \<or> aio = None then sent w' = sent w
         else 0 < rc \<and> rc \<le> int (length d) \<and> sent w' = sent w @ take (nat rc) d"
    and "sent (snd (sftp_aio_wait_write api a w)) = sent w"
  using assms unfolding behind_def by blast+

lemma drain_one_sent: "behind api n sent \<Longrightarrow> drain_one api f h w = (r, w') \<Longrightarrow> sent w' = sent w"
  using behindD(2) [of api n sent h w] by (auto simp: drain_one_def split: prod.splits)

lemma make_room_sent:
  "behind api n sent \<Longrightarrow> 0 < depth \<Longrightarrow> make_room api f depth hs w = (r, hs', w') \<Longrightarrow>
     sent w' = sent w \<and> (r = Inr () \<longrightarrow> length hs' < depth) \<and> length hs' \<le> length hs"
proof (induction hs arbitrary: w)
  case (Cons h hs)
  obtain r1 w1 where d: "drain_one api f h w = (r1, w1)" by fastforce
  have w1: "sent w1 = sent w" by (rule drain_one_sent [OF Cons.prems(1) d])
  show ?case using Cons.IH [OF Cons.prems(1,2), of w1] Cons.prems(3) d w1 by (cases r1) (auto split: if_splits)
qed auto

lemma write_behind_loop_hands_over:
  assumes "behind api n sent" "length data < 2 ^ 64"
  shows "0 < wb_depth wb \<Longrightarrow> 0 < wb_chunk wb \<Longrightarrow> length (wb_inflight wb) \<le> wb_depth wb \<Longrightarrow> unat offset \<le> length data \<Longrightarrow>
    \<exists>r wb' w' k. write_behind_loop api f n data offset wb w = Some (r, wb', w')
      \<and> length (wb_inflight wb') \<le> wb_depth wb \<and> sent w' = sent w @ take k (drop (unat offset) data)
      \<and> (r = Inr () \<longrightarrow> k = length data - unat offset)"
proof (induction "length data - unat offset" arbitrary: offset wb w rule: less_induct)
  case less
  show ?case
  proof (cases "unat offset < length data")
    case False
    then show ?thesis using less.prems by (auto simp: write_behind_loop.simps [of api f n data offset wb w])
  next
    case True
    obtain r1 hs w1 where mr: "make_room api f (wb_depth wb) (wb_inflight wb) w = (r1, hs, w1)" by (metis prod_cases3)
    have w1: "sent w1 = sent w" "r1 = Inr () \<Longrightarrow> length hs < wb_depth wb" "length hs \<le> wb_depth wb"
      using make_room_sent [OF assms(1) less.prems(1) mr] less.prems(3) by auto
    let ?d = "take (wb_chunk wb) (drop (unat offset) data)"
    obtain rc aio w2 where bw: "sftp_aio_begin_write api n ?d w1 = (rc, aio, w2)" by (metis prod_cases3)
    have d: "?d \<noteq> []" using True less.prems(2) by simp
    note law = behindD(1) [OF assms(1) bw d]
    show ?thesis
    proof (cases "r1 = Inr () \<and> rc \<noteq> -1 \<and> aio \<noteq> None")
      case False
      have "write_behind_loop api f n data offset wb w =
          Some (case r1 of Inl e \<Rightarrow> (Inl e, wb\<lparr>wb_inflight := hs\<rparr>, w1)
            | Inr _ \<Rightarrow> (Inl (file_error api f ''sftp_aio_begin_write'' w2), wb\<lparr>wb_inflight := hs\<rparr>, w2))"
        using True False mr bw by (cases r1) (auto simp: write_behind_loop.simps [of api f n data offset wb w])
      then show ?thesis using False law w1 by (cases r1) (auto intro: exI [of _ 0])
    next
      case go: True
      let ?off = "offset + of_int rc" and ?wb = "wb\<lparr>wb_inflight := hs @ [the aio]\<rparr>"
      have rc: "0 < rc" "nat rc \<le> length data - unat offset" "sent w2 = sent w @ take (nat rc) (drop (unat offset) data)"
        using law go w1(1) by auto
      have off: "unat ?off = unat offset + nat rc"
      proof -
        have "?off = of_nat (unat offset + nat rc)" using rc(1) by simp
        moreover have "unat offset + nat rc < 2 ^ 64" using rc(2) True assms(2) by linarith
        ultimately show ?thesis by (metis unat_of_nat_u64)
      qed
      have step: "write_behind_loop api f n data offset wb w = write_behind_loop api f n data ?off ?wb w2"
        using True go mr bw by (auto simp: write_behind_loop.simps [of api f n data offset wb w])
      have shorter: "length data - unat ?off < length data - unat offset" using off rc True by simp
      have le: "unat ?off \<le> length data" using off rc(2) True by simp
      from less.hyps [OF shorter _ _ _ le, of ?wb w2] obtain r wb' w' k where
        r: "write_behind_loop api f n data ?off ?wb w2 = Some (r, wb', w')" "length (wb_inflight wb') \<le> wb_depth wb"
        "sent w' = sent w2 @ take k (drop (unat ?off) data)" "r = Inr () \<longrightarrow> k = length data - unat ?off"
        using less.prems(1,2) w1(2) go by auto
      have "sent w' = sent w @ take (nat rc + k) (drop (unat offset) data)"
        using r(3) rc(3) off by (simp add: take_add add.commute [of "nat rc" "unat offset"])
      then show ?thesis unfolding step using r off rc(2) by (intro exI conjI) auto
    qed
  qed
qed

lemma flush_loop_sent:
  "behind api n sent \<Longrightarrow> flush_loop api f hs e w = (e', w') \<Longrightarrow> sent w' = sent w"
proof (induction hs arbitrary: e w)
  case (Cons h hs)
  obtain r w1 where d: "drain_one api f h w = (r, w1)" by fastforce
  show ?case
    using Cons.IH [OF Cons.prems(1), of _ w1] Cons.prems(2) d drain_one_sent [OF Cons.prems(1) d] by (cases r) auto
qed simp

lemma flush_loop_first: "error_info_bool e \<Longrightarrow> fst (flush_loop api f hs e w) = e"
  by (induction hs arbitrary: w) (auto split: prod.splits sum.splits)

text \<open>
  C22: The pipelined writer returns and gives libssh a prefix of the data in order, all of it when it
  succeeds, and never has more writes in flight than its depth; flushing waits for all of them and
  sends nothing more.
\<close>
theorem write_behind_in_order:
  assumes "behind api n sent" and "fi_native f = Some n" and "has_sftp_aio api" and "length data < 2 ^ 64"
    and "0 < wb_depth wb" and "0 < wb_chunk wb" and "length (wb_inflight wb) \<le> wb_depth wb"
  shows "\<exists>r wb' w' k. write_behind_write api f data wb w = Some (r, wb', w')
     \<and> length (wb_inflight wb') \<le> wb_depth wb \<and> sent w' = sent w @ take k data \<and> (r = Inr () \<longrightarrow> k = length data)
     \<and> (\<exists>fl w''. write_behind_flush api f wb' w' = (fl, wb'\<lparr>wb_inflight := []\<rparr>, w'') \<and> sent w'' = sent w')"
proof -
  obtain r wb' w' k where r: "write_behind_loop api f n data 0 wb w = Some (r, wb', w')" "length (wb_inflight wb') \<le> wb_depth wb"
    "sent w' = sent w @ take k data" "r = Inr () \<longrightarrow> k = length data"
    using write_behind_loop_hands_over [OF assms(1,4,5,6,7), of 0 f w] by auto
  obtain e w'' where fl: "flush_loop api f (wb_inflight wb') no_error_info w' = (e, w'')" by fastforce
  show ?thesis
    using r fl assms(2,3) flush_loop_sent [OF assms(1) fl] by (auto simp: write_behind_write_def write_behind_flush_def)
qed

definition sim_begin_write :: "nat \<Rightarrow> bytes \<Rightarrow> sim_sftp \<Rightarrow> int \<times> handle option \<times> sim_sftp" where
  "sim_begin_write cap d w = (int (length (take cap d)), Some (sv_next w),
     w\<lparr>sv_stream := (sv_stream w)(''f'' := sv_stream w ''f'' @ take cap d), sv_next := sv_next w + 1\<rparr>)"

definition sim_writer_api :: "nat \<Rightarrow> int \<Rightarrow> sim_sftp sftp_api" where
  "sim_writer_api cap answer = (sim_sftp_api 4)\<lparr>sftp_aio_begin_write := \<lambda>_. sim_begin_write cap,
     sftp_aio_wait_write := \<lambda>_ w. (answer, w), sftp_get_error := \<lambda>_ _. 0\<rparr>"

lemma sim_behind: "0 < cap \<Longrightarrow> behind (sim_writer_api cap answer) n (\<lambda>w. sv_stream w ''f'')"
  by (auto simp: behind_def sim_writer_api_def sim_begin_write_def min_def)

theorem write_behind_in_order_witness:
  "\<exists>r wb' w' k. write_behind_write (sim_writer_api 2 1) sim_file [1, 2, 3, 4, 5] (new_write_behind 3 2) sim_reading = Some (r, wb', w')
     \<and> length (wb_inflight wb') \<le> 2 \<and> sv_stream w' ''f'' = take k [1, 2, 3, 4, 5]"
proof -
  let ?wb = "new_write_behind 3 2"
  have h: "fi_native sim_file = Some 5" "has_sftp_aio (sim_writer_api 2 1)" "length [1, 2, 3, 4, 5 :: byte] < 2 ^ 64"
    "0 < wb_depth ?wb" "0 < wb_chunk ?wb" "length (wb_inflight ?wb) \<le> wb_depth ?wb"
    by (simp_all add: sim_file_def sim_writer_api_def new_write_behind_def)
  have "wb_depth ?wb = 2" "sv_stream sim_reading ''f'' = []" by (simp_all add: new_write_behind_def sim_reading_def)
  with write_behind_in_order [OF sim_behind h, of sim_reading] show ?thesis by auto
qed

text \<open>
  A write that failed on the server while libssh holds no SFTP error code is reported by the flush as
  a success.
\<close>
theorem flush_loses_failure:
  assumes "has_sftp_aio api" and "wb_inflight wb = [a]" and "fi_sftp f = Some s"
    and "sftp_aio_wait_write api a w = (rc, w')" and "rc < 0" and "sftp_get_error api w' s = 0"
  shows "write_behind_flush api f wb w = (Inr (), wb\<lparr>wb_inflight := []\<rparr>, w')"
proof -
  have "\<not> error_info_bool (file_error api f ''sftp_aio_wait_write'' w')" "\<not> error_info_bool no_error_info"
    using assms(3,6) by (simp_all add: file_error_def make_sftp_error_info_def error_info_bool_def ec_bool_def
        make_sftp_error_code_def no_error_info_def no_error_code_def)
  then show ?thesis using assms by (simp add: write_behind_flush_def drain_one_def)
qed

theorem flush_loses_failure_witness:
  "write_behind_flush (sim_writer_api 2 (-1)) sim_file (new_write_behind 3 2\<lparr>wb_inflight := [9]\<rparr>) sim_reading
     = (Inr (), new_write_behind 3 2\<lparr>wb_inflight := []\<rparr>, sim_reading)"
  using flush_loses_failure [of "sim_writer_api 2 (-1)" "new_write_behind 3 2\<lparr>wb_inflight := [9]\<rparr>" 9 sim_file 2 sim_reading "-1" sim_reading]
  by (simp add: sim_writer_api_def sim_file_def new_write_behind_def)

end
