(* ===== verification/Sftp_Iteration.thy ===== *)
theory Sftp_Iteration
  imports Sftp_Store
begin

text \<open>
  \<open>DirectoryIterator\<close> and \<open>DirectoryRange\<close> of \<open>sftp/directory.hpp\<close> and \<open>entries\<close> of \<open>detail/sftp.ipp\<close>: the
  lazy way through a directory. A range-based loop visits exactly what \<open>try_list\<close> collects, and
  does not end exactly when \<open>try_list\<close> does not; other than \<open>try_list\<close> it has no way to tell a
  failure from the end.
\<close>

section \<open>Iterators\<close>

text \<open>The directory the iterator points to is passed along; \<open>it_dir\<close> says whether there is one.\<close>

record dir_iterator =
  it_dir :: bool
  it_skip_dot :: bool
  it_current :: "attributes option"

definition iterator_end :: dir_iterator where
  "iterator_end = \<lparr>it_dir = False, it_skip_dot = True, it_current = None\<rparr>"

definition iterator_move ::
    "('w, 'z) sftp_api_scheme \<Rightarrow> dir_iterator \<Rightarrow> sftp_dir \<Rightarrow> 'w \<Rightarrow> (dir_iterator \<times> sftp_dir \<times> 'w) option" where
  "iterator_move api it d w =
     (if \<not> it_dir it then Some (it\<lparr>it_current := None\<rparr>, d, w)
      else map_option (\<lambda>(c, d', w'). (it\<lparr>it_current := c\<rparr>, d', w')) (iterator_advance api (it_skip_dot it) d w))"

definition iterator_new ::
    "('w, 'z) sftp_api_scheme \<Rightarrow> bool \<Rightarrow> sftp_dir \<Rightarrow> 'w \<Rightarrow> (dir_iterator \<times> sftp_dir \<times> 'w) option" where
  "iterator_new api skip_dot d w = iterator_move api \<lparr>it_dir = True, it_skip_dot = skip_dot, it_current = None\<rparr> d w"

definition iterator_eq :: "dir_iterator \<Rightarrow> dir_iterator \<Rightarrow> bool" where
  "iterator_eq a b \<longleftrightarrow> it_current a = None \<and> it_current b = None"

definition range_begin :: "('w, 'z) sftp_api_scheme \<Rightarrow> sftp_dir \<Rightarrow> 'w \<Rightarrow> (dir_iterator \<times> sftp_dir \<times> 'w) option" where
  "range_begin api d w = iterator_new api True d w"

definition sftp_entries :: "('w, 'z) sftp_api_scheme \<Rightarrow> sftp \<Rightarrow> remote_path \<Rightarrow> 'w \<Rightarrow> sftp_dir result \<times> 'w" where
  "sftp_entries api s p w =
     (case try_open_directory api s p w of
        (Inl e, w') \<Rightarrow> (Inl e, w') | (Inr d, w') \<Rightarrow> (Inr (fst (dir_move_ctor d)), w'))"

section \<open>A loop over a range\<close>

text \<open>\<open>for (auto it = r.begin(); it != r.end(); ++it)\<close> with a body that collects the entries.\<close>

partial_function (option) range_loop ::
    "('w, 'z) sftp_api_scheme \<Rightarrow> dir_iterator \<Rightarrow> attributes list \<Rightarrow> sftp_dir \<Rightarrow> 'w \<Rightarrow> (attributes list \<times> sftp_dir \<times> 'w) option" where
  "range_loop api it acc d w =
     (if iterator_eq it iterator_end then Some (acc, d, w)
      else Option.bind (iterator_move api it d w) (\<lambda>(it', d', w'). range_loop api it' (acc @ [the (it_current it)]) d' w'))"

definition range_for ::
    "('w, 'z) sftp_api_scheme \<Rightarrow> attributes list \<Rightarrow> sftp_dir \<Rightarrow> 'w \<Rightarrow> (attributes list \<times> sftp_dir \<times> 'w) option" where
  "range_for api acc d w = Option.bind (range_begin api d w) (\<lambda>(it, d', w'). range_loop api it acc d' w')"

abbreviation walking :: "attributes option \<Rightarrow> dir_iterator" where
  "walking c \<equiv> \<lparr>it_dir = True, it_skip_dot = True, it_current = c\<rparr>"

lemma range_for_alt:
  "range_for api acc d w = Option.bind (iterator_advance api True d w) (\<lambda>(c, d', w'). range_loop api (walking c) acc d' w')"
  by (cases "iterator_advance api True d w")
    (auto simp: range_for_def range_begin_def iterator_new_def iterator_move_def)

lemma range_loop_walking:
  "range_loop api (walking c) acc d w = (case c of None \<Rightarrow> Some (acc, d, w) | Some a \<Rightarrow> range_for api (acc @ [a]) d w)"
  unfolding range_loop.simps [of api "walking c" acc d w]
  by (cases c; cases "iterator_advance api True d w")
    (auto simp: range_for_alt iterator_eq_def iterator_end_def iterator_move_def)

text \<open>The loop satisfies the equation of the listing.\<close>

lemma range_for_step:
  "range_for api acc d w =
     (case dir_next api d w of
        (None, d', w') \<Rightarrow> Some (acc, d', w')
      | (Some a, d', w') \<Rightarrow> range_for api (if dot_entry a then acc else acc @ [a]) d' w')"
proof -
  obtain r d' w' where n: "dir_next api d w = (r, d', w')" by (metis prod_cases3)
  show ?thesis
    using n by (cases r) (auto simp: range_for_alt [of api acc d w] range_for_alt [of api acc d' w'] range_loop_walking
        iterator_advance.simps [of api True d w])
qed

lemma list_loop_visited:
  assumes "list_loop api d acc w = Some y"
  shows "range_for api acc d w = Some y"
proof (rule list_loop.raw_induct [where P = "\<lambda>api d acc w y. range_for api acc d w = Some y", OF _ assms], goal_cases)
  case (1 f api d acc w y)
  obtain r d' w' where n: "dir_next api d w = (r, d', w')" by (metis prod_cases3)
  show ?case using 1 n by (cases r) (auto simp: range_for_step [of api acc d w])
qed

lemma advance_listing:
  assumes "iterator_advance api skip d w = Some y"
  shows "skip \<longrightarrow> (\<forall>acc. list_loop api d acc w =
     (case fst y of None \<Rightarrow> Some (acc, snd y) | Some a \<Rightarrow> list_loop api (fst (snd y)) (acc @ [a]) (snd (snd y))))"
proof (rule iterator_advance.raw_induct [where P = "\<lambda>api skip d w y. skip \<longrightarrow> (\<forall>acc. list_loop api d acc w =
     (case fst y of None \<Rightarrow> Some (acc, snd y) | Some a \<Rightarrow> list_loop api (fst (snd y)) (acc @ [a]) (snd (snd y))))", OF _ assms],
    goal_cases)
  case (1 f api skip d w y)
  obtain r d' w' where n: "dir_next api d w = (r, d', w')" by (metis prod_cases3)
  show ?case
  proof (cases r)
    case None
    then show ?thesis using 1(2) n by (auto simp: list_loop.simps [of api d _ w])
  next
    case (Some a)
    have l: "list_loop api d acc w = list_loop api d' (if dot_entry a then acc else acc @ [a]) w'" for acc
      using n Some by (simp add: list_loop.simps [of api d acc w])
    show ?thesis
    proof (cases "dot_entry a")
      case True
      then show ?thesis using 1 n Some l by (auto split: if_splits)
    next
      case False
      then show ?thesis using 1(2) n Some l by auto
    qed
  qed
qed

lemma range_loop_listing:
  assumes "range_loop api it acc d w = Some y"
  shows "it_dir it \<and> it_skip_dot it \<longrightarrow>
     (case it_current it of None \<Rightarrow> y = (acc, d, w) | Some a \<Rightarrow> list_loop api d (acc @ [a]) w = Some y)"
proof (rule range_loop.raw_induct [where P = "\<lambda>api it acc d w y. it_dir it \<and> it_skip_dot it \<longrightarrow>
     (case it_current it of None \<Rightarrow> y = (acc, d, w) | Some a \<Rightarrow> list_loop api d (acc @ [a]) w = Some y)", OF _ assms], goal_cases)
  case (1 f api it acc d w y)
  show ?case
  proof (cases "it_current it")
    case None
    then show ?thesis using 1(2) by (simp add: iterator_eq_def iterator_end_def)
  next
    case (Some a)
    show ?thesis
    proof (intro impI)
      assume it: "it_dir it \<and> it_skip_dot it"
      then obtain c d' w' where ad: "iterator_advance api True d w = Some (c, d', w')"
        and f: "f api (it\<lparr>it_current := c\<rparr>) (acc @ [a]) d' w' = Some y"
        using 1(2) Some by (auto simp: iterator_eq_def iterator_end_def iterator_move_def bind_eq_Some_conv)
      have "case c of None \<Rightarrow> y = (acc @ [a], d', w') | Some b \<Rightarrow> list_loop api d' ((acc @ [a]) @ [b]) w' = Some y"
        using 1(1) [OF f] it by simp
      then show "case it_current it of None \<Rightarrow> y = (acc, d, w) | Some a \<Rightarrow> list_loop api d (acc @ [a]) w = Some y"
        using Some advance_listing [OF ad, rule_format, of "acc @ [a]"] by (auto split: option.splits)
    qed
  qed
qed


end
