(* ===== verification/Scp.thy ===== *)
theory Scp
  imports Sftp_Transfer
begin

text \<open>
  \<open>scp/scp.hpp\<close> and \<open>detail/scp.ipp\<close>: both sides of an SCP transfer and the whole-file functions.

  libssh's SCP functions are the fields of \<open>scp_api\<close>; output and input streams are those of the local
  file system. Readers and writers are instances of \<open>move_only\<close>.
\<close>

section \<open>The native functions\<close>

datatype native_scp_request =
    SCP_REQUEST_NEWDIR | SCP_REQUEST_NEWFILE | SCP_REQUEST_EOF | SCP_REQUEST_ENDDIR | SCP_REQUEST_WARNING
  | SCP_request_error | SCP_request_other int

text \<open>\<open>SSH_SCP_WRITE\<close>, \<open>SSH_SCP_READ\<close>, \<open>SSH_SCP_RECURSIVE\<close> as flags.\<close>

record native_scp_mode =
  scp_read_flag :: bool
  scp_write_flag :: bool
  scp_recursive_flag :: bool

record 'w scp_api = "'w session_api" +
  ssh_scp_new :: "handle option \<Rightarrow> native_scp_mode \<Rightarrow> string \<Rightarrow> 'w \<Rightarrow> handle option \<times> 'w"
  ssh_scp_close :: "handle \<Rightarrow> 'w \<Rightarrow> 'w"
  ssh_scp_free :: "handle \<Rightarrow> 'w \<Rightarrow> 'w"
  ssh_scp_init :: "handle \<Rightarrow> 'w \<Rightarrow> ssh_rc \<times> 'w"
  ssh_scp_pull_request :: "handle \<Rightarrow> 'w \<Rightarrow> native_scp_request \<times> 'w"
  ssh_scp_request_get_filename :: "handle \<Rightarrow> 'w \<Rightarrow> string option"
  ssh_scp_request_get_permissions :: "handle \<Rightarrow> 'w \<Rightarrow> u32"
  ssh_scp_request_get_size64 :: "handle \<Rightarrow> 'w \<Rightarrow> u64"
  ssh_scp_request_get_warning :: "handle \<Rightarrow> 'w \<Rightarrow> string option"
  ssh_scp_accept_request :: "handle \<Rightarrow> 'w \<Rightarrow> ssh_rc \<times> 'w"
  ssh_scp_deny_request :: "handle \<Rightarrow> string \<Rightarrow> 'w \<Rightarrow> ssh_rc \<times> 'w"
  ssh_scp_read :: "handle \<Rightarrow> nat \<Rightarrow> 'w \<Rightarrow> int \<times> bytes \<times> 'w"
  ssh_scp_push_file64 :: "handle \<Rightarrow> string \<Rightarrow> u64 \<Rightarrow> u32 \<Rightarrow> 'w \<Rightarrow> ssh_rc \<times> 'w"
  ssh_scp_push_directory :: "handle \<Rightarrow> string \<Rightarrow> u32 \<Rightarrow> 'w \<Rightarrow> ssh_rc \<times> 'w"
  ssh_scp_leave_directory :: "handle \<Rightarrow> 'w \<Rightarrow> ssh_rc \<times> 'w"
  ssh_scp_write :: "handle \<Rightarrow> bytes \<Rightarrow> 'w \<Rightarrow> ssh_rc \<times> 'w"

record 'w scp_fs = "'w local_fs" +
  fs_file_size :: "path \<Rightarrow> 'w \<Rightarrow> u64 option"

datatype scp_mode = Scp_read | Scp_write | Scp_read_recursive | Scp_write_recursive

definition mode_to_native :: "scp_mode \<Rightarrow> native_scp_mode" where
  "mode_to_native m =
     \<lparr>scp_read_flag = (m = Scp_read \<or> m = Scp_read_recursive), scp_write_flag = (m = Scp_write \<or> m = Scp_write_recursive),
      scp_recursive_flag = (m = Scp_read_recursive \<or> m = Scp_write_recursive)\<rparr>"

text \<open>Other than the check of the SFTP tree helpers this one allows a NUL.\<close>

definition scp_safe_entry_name :: "string \<Rightarrow> bool" where
  "scp_safe_entry_name name \<longleftrightarrow> name \<noteq> [] \<and> name \<noteq> ''.'' \<and> name \<noteq> ''..'' \<and> CHR ''/'' \<notin> set name"

section \<open>Readers and writers\<close>

datatype scp_request_type = Rq_new_file | Rq_new_directory | Rq_end_directory | Rq_eof | Rq_warning

record scp_request =
  rq_type :: scp_request_type
  rq_name :: string
  rq_size :: u64
  rq_permissions :: u32
  rq_warning :: string

text \<open>\<open>Reader\<close> and \<open>Writer\<close> have the same members.\<close>

record scp_object =
  sc_native :: "handle option"
  sc_core :: "handle option"

definition scp_reader :: "('w, 'z) scp_api_scheme \<Rightarrow> session \<Rightarrow> remote_path \<Rightarrow> bool \<Rightarrow> 'w \<Rightarrow> scp_object \<times> 'w" where
  "scp_reader api se location recursive w =
     (case ssh_scp_new api (se_core se) (mode_to_native (if recursive then Scp_read_recursive else Scp_read)) (c_str location) w of
        (n, w') \<Rightarrow> (\<lparr>sc_native = n, sc_core = se_core se\<rparr>, w'))"

definition scp_writer :: "('w, 'z) scp_api_scheme \<Rightarrow> session \<Rightarrow> remote_path \<Rightarrow> bool \<Rightarrow> 'w \<Rightarrow> scp_object \<times> 'w" where
  "scp_writer api se destination_dir recursive w =
     (case ssh_scp_new api (se_core se) (mode_to_native (if recursive then Scp_write_recursive else Scp_write))
             (c_str destination_dir) w of
        (n, w') \<Rightarrow> (\<lparr>sc_native = n, sc_core = se_core se\<rparr>, w'))"

definition scp_release :: "('w, 'z) scp_api_scheme \<Rightarrow> scp_object \<Rightarrow> 'w \<Rightarrow> 'w" where
  "scp_release api x w = (case sc_native x of Some n \<Rightarrow> ssh_scp_free api n (ssh_scp_close api n w) | None \<Rightarrow> w)"

definition scp_move_ctor :: "scp_object \<Rightarrow> scp_object \<times> scp_object" where
  "scp_move_ctor other =
     (\<lparr>sc_native = sc_native other, sc_core = sc_core other\<rparr>, other\<lparr>sc_native := None, sc_core := None\<rparr>)"

definition scp_move_assign :: "('w, 'z) scp_api_scheme \<Rightarrow> scp_object \<Rightarrow> scp_object \<Rightarrow> 'w \<Rightarrow> scp_object \<times> scp_object \<times> 'w" where
  "scp_move_assign api this other w =
     (case scp_move_ctor other of (this', other') \<Rightarrow> (this', other', scp_release api this w))"

text \<open>A call with a return code, and its error.\<close>

definition scp_error :: "('w, 'z) scp_api_scheme \<Rightarrow> scp_object \<Rightarrow> string \<Rightarrow> 'w \<Rightarrow> error_info" where
  "scp_error api x op w = make_error_info api w (sc_core x) op errc_scp_error"

definition scp_call ::
    "('w, 'z) scp_api_scheme \<Rightarrow> scp_object \<Rightarrow> error_info \<Rightarrow> string \<Rightarrow> (handle \<Rightarrow> 'w \<Rightarrow> ssh_rc \<times> 'w) \<Rightarrow> 'w \<Rightarrow> unit result \<times> 'w" where
  "scp_call api x null_error op call w =
     (case sc_native x of
        None \<Rightarrow> (Inl null_error, w)
      | Some n \<Rightarrow> (case call n w of (rc, w') \<Rightarrow> (if rc \<noteq> SSH_OK then Inl (scp_error api x op w') else Inr (), w')))"

definition reader_init :: "('w, 'z) scp_api_scheme \<Rightarrow> scp_object \<Rightarrow> 'w \<Rightarrow> unit result \<times> 'w" where
  "reader_init api x = scp_call api x (mk_error errc_scp_error [] ''Reader::try_init'') ''ssh_scp_init'' (ssh_scp_init api)"

definition writer_init :: "('w, 'z) scp_api_scheme \<Rightarrow> scp_object \<Rightarrow> 'w \<Rightarrow> unit result \<times> 'w" where
  "writer_init api x = scp_call api x (mk_error errc_scp_error [] ''Writer::try_init'') ''ssh_scp_init'' (ssh_scp_init api)"

definition reader_request :: "('w, 'z) scp_api_scheme \<Rightarrow> handle \<Rightarrow> scp_request_type \<Rightarrow> 'w \<Rightarrow> scp_request" where
  "reader_request api n ty w =
     \<lparr>rq_type = ty, rq_name = (case ssh_scp_request_get_filename api n w of Some s \<Rightarrow> s | None \<Rightarrow> []),
      rq_size = (if ty = Rq_new_file then ssh_scp_request_get_size64 api n w else 0),
      rq_permissions = and (ssh_scp_request_get_permissions api n w) 4095,
      rq_warning = (if ty = Rq_warning then case ssh_scp_request_get_warning api n w of Some s \<Rightarrow> s | None \<Rightarrow> [] else [])\<rparr>"

definition reader_next :: "('w, 'z) scp_api_scheme \<Rightarrow> scp_object \<Rightarrow> 'w \<Rightarrow> scp_request option result \<times> 'w" where
  "reader_next api x w =
     (case sc_native x of
        None \<Rightarrow> (Inl (invalid_handle_error ''Reader::try_next''), w)
      | Some n \<Rightarrow>
          (case ssh_scp_pull_request api n w of
             (rc, w') \<Rightarrow>
               (case rc of
                  SCP_REQUEST_EOF \<Rightarrow> Inr None
                | SCP_REQUEST_NEWDIR \<Rightarrow> Inr (Some (reader_request api n Rq_new_directory w'))
                | SCP_REQUEST_NEWFILE \<Rightarrow> Inr (Some (reader_request api n Rq_new_file w'))
                | SCP_REQUEST_ENDDIR \<Rightarrow> Inr (Some (reader_request api n Rq_end_directory w'))
                | SCP_REQUEST_WARNING \<Rightarrow> Inr (Some (reader_request api n Rq_warning w'))
                | _ \<Rightarrow> Inl (scp_error api x ''ssh_scp_pull_request'' w'), w')))"

definition reader_accept :: "('w, 'z) scp_api_scheme \<Rightarrow> scp_object \<Rightarrow> 'w \<Rightarrow> unit result \<times> 'w" where
  "reader_accept api x =
     scp_call api x (invalid_handle_error ''Reader::try_accept'') ''ssh_scp_accept_request'' (ssh_scp_accept_request api)"

definition reader_deny :: "('w, 'z) scp_api_scheme \<Rightarrow> scp_object \<Rightarrow> string \<Rightarrow> 'w \<Rightarrow> unit result \<times> 'w" where
  "reader_deny api x reason =
     scp_call api x (invalid_handle_error ''Reader::try_deny'') ''ssh_scp_deny_request''
       (\<lambda>n. ssh_scp_deny_request api n (c_str reason))"

text \<open>Only \<open>SSH_ERROR\<close> is an error; every other \<open>int\<close> becomes a \<open>size_t\<close>.\<close>

definition reader_read :: "('w, 'z) scp_api_scheme \<Rightarrow> scp_object \<Rightarrow> bytes \<Rightarrow> 'w \<Rightarrow> nat result \<times> bytes \<times> 'w" where
  "reader_read api x buf w =
     (case sc_native x of
        None \<Rightarrow> (Inl (invalid_handle_error ''Reader::try_read''), buf, w)
      | Some n \<Rightarrow>
          (case ssh_scp_read api n (length buf) w of
             (rc, new, w') \<Rightarrow>
               (if rc = -1 then Inl (scp_error api x ''ssh_scp_read'' w') else Inr (nat (rc mod 2 ^ 64)), overlay new buf, w')))"

section \<open>Receiving a file\<close>

type_synonym 'w scp_progress = "(u64 \<Rightarrow> u64 \<Rightarrow> 'w \<Rightarrow> bool \<times> 'w) option"

definition scp_report :: "'w scp_progress \<Rightarrow> u64 \<Rightarrow> u64 \<Rightarrow> 'w \<Rightarrow> bool \<times> 'w" where
  "scp_report progress done_bytes fsize w = (case progress of None \<Rightarrow> (True, w) | Some f \<Rightarrow> f done_bytes fsize w)"

definition scp_buffer :: nat where
  "scp_buffer = 64 * 1024"

definition scp_want :: "u64 \<Rightarrow> u64 \<Rightarrow> nat" where
  "scp_want done_bytes fsize = min scp_buffer (unat (fsize - done_bytes))"

text \<open>The loop of \<open>Reader::try_read_to\<close>, and word for word that of \<open>try_download\<close>.\<close>

partial_function (option) scp_read_loop ::
    "('w, 'z) scp_api_scheme \<Rightarrow> ('w, 'y) local_fs_scheme \<Rightarrow> scp_object \<Rightarrow> path \<Rightarrow> u64 \<Rightarrow> 'w scp_progress \<Rightarrow> string \<Rightarrow> bytes \<Rightarrow> u64
       \<Rightarrow> 'w \<Rightarrow> (u64 result \<times> 'w) option" where
  "scp_read_loop api fs x out fsize progress op buf done_bytes w =
     (if \<not> done_bytes < fsize then Some (Inr done_bytes, w)
      else case reader_read api x (take (scp_want done_bytes fsize) buf) w of
        (Inl e, _, w1) \<Rightarrow> Some (Inl e, w1)
      | (Inr r, b, w1) \<Rightarrow>
          if r = 0 then Some (Inr done_bytes, w1)
          else (case scp_report progress (done_bytes + of_nat r) fsize
                       (fs_write fs out (mem_prefix r (b @ drop (scp_want done_bytes fsize) buf)) w1) of
                  (go_on, w2) \<Rightarrow>
                    if \<not> go_on then Some (Inl (mk_error errc_cancelled [] op), w2)
                    else scp_read_loop api fs x out fsize progress op (b @ drop (scp_want done_bytes fsize) buf)
                           (done_bytes + of_nat r) w2))"

definition reader_read_to ::
    "('w, 'z) scp_api_scheme \<Rightarrow> ('w, 'y) local_fs_scheme \<Rightarrow> scp_object \<Rightarrow> path \<Rightarrow> 'w scp_progress \<Rightarrow> 'w \<Rightarrow> (u64 result \<times> 'w) option" where
  "reader_read_to api fs x out progress w =
     (case reader_next api x w of
        (Inl e, w1) \<Rightarrow> Some (Inl e, w1)
      | (Inr req, w1) \<Rightarrow>
          (case req of
             None \<Rightarrow> Some (Inl (mk_error errc_scp_error ''expected a file request'' ''Reader::try_read_to''), w1)
           | Some q \<Rightarrow>
               if rq_type q \<noteq> Rq_new_file
               then Some (Inl (mk_error errc_scp_error ''expected a file request'' ''Reader::try_read_to''), w1)
               else (case reader_accept api x w1 of
                       (Inl e, w2) \<Rightarrow> Some (Inl e, w2)
                     | (Inr _, w2) \<Rightarrow>
                         scp_read_loop api fs x out (rq_size q) progress ''Reader::try_read_to'' (replicate scp_buffer 0) 0 w2)))"

text \<open>What \<open>try_download\<close> does between \<open>try_init\<close> and the loop.\<close>

definition scp_accept_file :: "('w, 'z) scp_api_scheme \<Rightarrow> scp_object \<Rightarrow> 'w \<Rightarrow> u64 result \<times> 'w" where
  "scp_accept_file api x w =
     (case reader_next api x w of
        (Inl e, w1) \<Rightarrow> (Inl e, w1)
      | (Inr req, w1) \<Rightarrow>
          (case req of
             None \<Rightarrow> (Inl (mk_error errc_scp_error ''unexpected or unsafe remote entry'' ''scp::try_download''), w1)
           | Some q \<Rightarrow>
               if \<not> scp_safe_entry_name (rq_name q)
               then (Inl (mk_error errc_scp_error ''unexpected or unsafe remote entry'' ''scp::try_download''), w1)
               else if rq_type q \<noteq> Rq_new_file
               then (Inl (mk_error errc_scp_error ''remote path is not a regular file'' ''scp::try_download''), w1)
               else (case reader_accept api x w1 of (Inl e, w2) \<Rightarrow> (Inl e, w2) | (Inr _, w2) \<Rightarrow> (Inr (rq_size q), w2))))"

definition scp_try_download ::
    "('w, 'z) scp_api_scheme \<Rightarrow> ('w, 'y) local_fs_scheme \<Rightarrow> session \<Rightarrow> remote_path \<Rightarrow> path \<Rightarrow> 'w scp_progress \<Rightarrow> 'w
       \<Rightarrow> (u64 result \<times> 'w) option" where
  "scp_try_download api fs se remote loc progress w =
     (case scp_reader api se remote False w of
        (x, w0) \<Rightarrow>
          (case reader_init api x w0 of
             (Inl e, w1) \<Rightarrow> Some (Inl e, scp_release api x w1)
           | (Inr _, w1) \<Rightarrow>
               (case scp_accept_file api x w1 of
                  (Inl e, w2) \<Rightarrow> Some (Inl e, scp_release api x w2)
                | (Inr fsize, w2) \<Rightarrow>
                    (case fs_open_out fs loc w2 of
                       (ok, w3) \<Rightarrow>
                         if \<not> ok
                         then Some (Inl (mk_error errc_invalid_argument (''cannot open '' @ loc) ''scp::try_download''),
                                scp_release api x w3)
                         else map_option (\<lambda>(r, w4). (r, scp_release api x (fs_close_out fs loc w4)))
                                (scp_read_loop api fs x loc fsize progress ''scp::try_download'' (replicate scp_buffer 0) 0 w3)))))"

section \<open>Sending a file\<close>

definition writer_push_file :: "('w, 'z) scp_api_scheme \<Rightarrow> scp_object \<Rightarrow> string \<Rightarrow> u64 \<Rightarrow> u32 \<Rightarrow> 'w \<Rightarrow> unit result \<times> 'w" where
  "writer_push_file api x name fsize perms =
     scp_call api x (invalid_handle_error ''Writer::try_push_file'') ''ssh_scp_push_file64''
       (\<lambda>n. ssh_scp_push_file64 api n (c_str name) fsize perms)"

definition writer_push_directory :: "('w, 'z) scp_api_scheme \<Rightarrow> scp_object \<Rightarrow> string \<Rightarrow> u32 \<Rightarrow> 'w \<Rightarrow> unit result \<times> 'w" where
  "writer_push_directory api x name perms =
     scp_call api x (invalid_handle_error ''Writer::try_push_directory'') ''ssh_scp_push_directory''
       (\<lambda>n. ssh_scp_push_directory api n (c_str name) perms)"

definition writer_leave_directory :: "('w, 'z) scp_api_scheme \<Rightarrow> scp_object \<Rightarrow> 'w \<Rightarrow> unit result \<times> 'w" where
  "writer_leave_directory api x =
     scp_call api x (invalid_handle_error ''Writer::try_leave_directory'') ''ssh_scp_leave_directory''
       (ssh_scp_leave_directory api)"

definition writer_write :: "('w, 'z) scp_api_scheme \<Rightarrow> scp_object \<Rightarrow> bytes \<Rightarrow> 'w \<Rightarrow> unit result \<times> 'w" where
  "writer_write api x data =
     scp_call api x (invalid_handle_error ''Writer::try_write'') ''ssh_scp_write'' (\<lambda>n. ssh_scp_write api n data)"

text \<open>\<open>good\<close> is the state of the input stream.\<close>

partial_function (option) scp_write_loop ::
    "('w, 'z) scp_api_scheme \<Rightarrow> ('w, 'y) local_fs_scheme \<Rightarrow> scp_object \<Rightarrow> path \<Rightarrow> u64 \<Rightarrow> 'w scp_progress \<Rightarrow> u64 \<Rightarrow> bool
       \<Rightarrow> 'w \<Rightarrow> (u64 result \<times> 'w) option" where
  "scp_write_loop api fs x inp fsize progress done_bytes good w =
     (if \<not> (done_bytes < fsize \<and> good) then Some (Inr done_bytes, w)
      else case fs_read_in fs inp (scp_want done_bytes fsize) w of
        (d, good', w1) \<Rightarrow>
          if d = [] then Some (Inr done_bytes, w1)
          else (case writer_write api x d w1 of
                  (Inl e, w2) \<Rightarrow> Some (Inl e, w2)
                | (Inr _, w2) \<Rightarrow>
                    (case scp_report progress (done_bytes + of_nat (length d)) fsize w2 of
                       (go_on, w3) \<Rightarrow>
                         if \<not> go_on then Some (Inl (mk_error errc_cancelled [] ''Writer::try_write_from''), w3)
                         else scp_write_loop api fs x inp fsize progress (done_bytes + of_nat (length d)) good' w3)))"

definition writer_write_from ::
    "('w, 'z) scp_api_scheme \<Rightarrow> ('w, 'y) local_fs_scheme \<Rightarrow> scp_object \<Rightarrow> path \<Rightarrow> u64 \<Rightarrow> 'w scp_progress \<Rightarrow> bool \<Rightarrow> 'w
       \<Rightarrow> (u64 result \<times> 'w) option" where
  "writer_write_from api fs x inp fsize progress good w =
     map_option (\<lambda>(r, w'). (case r of
          Inl e \<Rightarrow> Inl e
        | Inr n \<Rightarrow> if n \<noteq> fsize then Inl (mk_error errc_scp_error ''short local read'' ''Writer::try_write_from'') else Inr n, w'))
       (scp_write_loop api fs x inp fsize progress 0 good w)"

text \<open>\<open>path::filename\<close>: what follows the last separator.\<close>

definition path_filename :: "path \<Rightarrow> string" where
  "path_filename p = last (split_slash [] p)"

definition scp_try_upload ::
    "('w, 'z) scp_api_scheme \<Rightarrow> ('w, 'y) scp_fs_scheme \<Rightarrow> session \<Rightarrow> path \<Rightarrow> remote_path \<Rightarrow> 'w scp_progress \<Rightarrow> 'w
       \<Rightarrow> (u64 result \<times> 'w) option" where
  "scp_try_upload api fs se loc remote progress w =
     (case fs_file_size fs loc w of
        None \<Rightarrow> Some (Inl (mk_error errc_invalid_argument (''cannot stat '' @ loc) ''scp::try_upload''), w)
      | Some fsize \<Rightarrow>
          (let perms = (case fs_status_perms fs loc w of Some p \<Rightarrow> p | None \<Rightarrow> owner_rw)
           in case scp_writer api se remote False w of
                (x, w0) \<Rightarrow>
                  (case writer_init api x w0 of
                     (Inl e, w1) \<Rightarrow> Some (Inl e, scp_release api x w1)
                   | (Inr _, w1) \<Rightarrow>
                       (case writer_push_file api x (path_filename loc) fsize perms w1 of
                          (Inl e, w2) \<Rightarrow> Some (Inl e, scp_release api x w2)
                        | (Inr _, w2) \<Rightarrow>
                            (case fs_open_in fs loc w2 of
                               (ok, w3) \<Rightarrow>
                                 if \<not> ok
                                 then Some (Inl (mk_error errc_invalid_argument (''cannot open '' @ loc) ''scp::try_upload''),
                                        scp_release api x w3)
                                 else map_option (\<lambda>(r, w4). (r, scp_release api x w4))
                                        (writer_write_from api fs x loc fsize progress True w3))))))"

section \<open>Ownership\<close>

definition scp_raii :: "handle list scp_api \<Rightarrow> scp_object raii_ops" where
  "scp_raii api0 = (let api = api0\<lparr>ssh_scp_close := \<lambda>_ w. w, ssh_scp_free := \<lambda>h w. w @ [h]\<rparr> in
     \<lparr>r_native = sc_native, r_owns = \<lambda>_. True, r_adopt = \<lambda>h. \<lparr>sc_native = Some h, sc_core = None\<rparr>,
      r_destroy = \<lambda>x. scp_release api x [], r_move = scp_move_ctor,
      r_assign = \<lambda>x y. case scp_move_assign api x y [] of (x', y', fs) \<Rightarrow> (fs, x', y')\<rparr>)"

interpretation scp: move_only "scp_raii api" for api
  by unfold_locales
    (auto simp: scp_raii_def held_def scp_release_def scp_move_ctor_def scp_move_assign_def Let_def split: option.splits)

end
