(* ===== verification/Scp_Exact.thy ===== *)
theory Scp_Exact
  imports Scp Transfer_Store
begin

text \<open>
  What the SCP functions promise about the bytes: a download returns and leaves in the local file a
  prefix of what the server sends, of the announced length unless the server ends early, which goes
  unreported; an upload that succeeds has sent exactly the announced number of bytes of the local
  file, and a local file that is too short is an error.
\<close>

section \<open>The environment\<close>

text \<open>
  \<open>left n w\<close> is what the server has still to send, \<open>sent n w\<close> what it was given; \<open>lo\<close> and \<open>strm\<close> are the
  local files and input streams.
\<close>

definition scp_env ::
    "('w, 'z) scp_api_scheme \<Rightarrow> ('w, 'y) local_fs_scheme \<Rightarrow> 'w scp_progress \<Rightarrow> (handle \<Rightarrow> 'w \<Rightarrow> bytes) \<Rightarrow> (handle \<Rightarrow> 'w \<Rightarrow> bytes)
       \<Rightarrow> ('w \<Rightarrow> path \<rightharpoonup> bytes) \<Rightarrow> (path \<Rightarrow> 'w \<Rightarrow> bytes) \<Rightarrow> bool" where
  "scp_env api fs progress left sent lo strm \<longleftrightarrow>
     (\<forall>n k w rc new w'. ssh_scp_read api n k w = (rc, new, w') \<longrightarrow>
        lo w' = lo w \<and> (rc = -1 \<or> rc = int (length new) \<and> length new \<le> k \<and> new = take (length new) (left n w)
          \<and> left n w' = drop (length new) (left n w)))
     \<and> (\<forall>n d w rc w'. ssh_scp_write api n d w = (rc, w') \<longrightarrow>
        (\<forall>p. strm p w' = strm p w) \<and> (if rc = SSH_OK then sent n w' = sent n w @ d else \<exists>k. sent n w' = sent n w @ take k d))
     \<and> (\<forall>n w. lo (ssh_scp_free api n (ssh_scp_close api n w)) = lo w \<and> sent n (ssh_scp_free api n (ssh_scp_close api n w)) = sent n w)
     \<and> (\<forall>a b w go w'. scp_report progress a b w = (go, w') \<longrightarrow>
          lo w' = lo w \<and> (\<forall>n. left n w' = left n w \<and> sent n w' = sent n w) \<and> (\<forall>p. strm p w' = strm p w))
     \<and> local_contract fs (\<lambda>w. (\<lambda>n. left n w, \<lambda>n. sent n w)) lo strm"

lemma scp_envD:
  assumes "scp_env api fs progress left sent lo strm"
  shows "ssh_scp_read api n k w = (rc, new, w') \<Longrightarrow>
        lo w' = lo w \<and> (rc = -1 \<or> rc = int (length new) \<and> length new \<le> k \<and> new = take (length new) (left n w)
          \<and> left n w' = drop (length new) (left n w))"
    and "ssh_scp_write api n d w = (src, w') \<Longrightarrow>
        strm p w' = strm p w \<and> (if src = SSH_OK then sent n w' = sent n w @ d else \<exists>k. sent n w' = sent n w @ take k d)"
    and "lo (ssh_scp_free api n (ssh_scp_close api n w)) = lo w" "sent n (ssh_scp_free api n (ssh_scp_close api n w)) = sent n w"
    and "scp_report progress a b w = (go, w') \<Longrightarrow>
          lo w' = lo w \<and> left n w' = left n w \<and> sent n w' = sent n w \<and> strm p w' = strm p w"
    and "local_contract fs (\<lambda>w. (\<lambda>n. left n w, \<lambda>n. sent n w)) lo strm"
  using assms unfolding scp_env_def by (elim conjE, (simp; fail | metis))+

lemma scp_want:
  assumes "done_bytes < fsize"
  shows "0 < scp_want done_bytes fsize" "scp_want done_bytes fsize \<le> unat fsize - unat done_bytes"
    "scp_want done_bytes fsize \<le> scp_buffer"
proof -
  have "unat (fsize - done_bytes) = unat fsize - unat done_bytes" using assms by (simp add: unat_sub order_less_imp_le)
  moreover have "unat done_bytes < unat fsize" using assms by (simp add: word_less_nat_alt)
  ultimately show "0 < scp_want done_bytes fsize" "scp_want done_bytes fsize \<le> unat fsize - unat done_bytes"
    "scp_want done_bytes fsize \<le> scp_buffer"
    by (auto simp: scp_want_def scp_buffer_def)
qed

lemma count_up:
  fixes done_bytes fsize :: u64
  assumes "r \<le> unat fsize - unat done_bytes" "done_bytes < fsize"
  shows "unat (done_bytes + of_nat r) = unat done_bytes + r" "done_bytes + of_nat r \<le> fsize"
proof -
  have lt: "unat done_bytes + r \<le> unat fsize" using assms by (simp add: word_less_nat_alt)
  have "unat fsize < 2 ^ 64" using unsigned_less [of fsize, where ?'a = nat] by simp
  then have "unat (of_nat (unat done_bytes + r) :: u64) = unat done_bytes + r" using lt by (intro unat_of_nat_u64) simp
  then show u: "unat (done_bytes + of_nat r) = unat done_bytes + r" by simp
  show "done_bytes + of_nat r \<le> fsize" using lt u by (simp add: word_le_nat_alt)
qed

section \<open>Receiving\<close>

lemma reader_read_env:
  assumes "scp_env api fs progress left sent lo strm" "sc_native x = Some h" "length buf < 2 ^ 63"
    and "reader_read api x buf w = (r, b, w')"
  shows "lo w' = lo w \<and> length b = length buf
    \<and> (case r of Inl _ \<Rightarrow> True
       | Inr k \<Rightarrow> k \<le> length buf \<and> (\<forall>rest. mem_prefix k (b @ rest) = take k (left h w)) \<and> left h w' = drop k (left h w)
           \<and> k \<le> length (left h w))"
proof -
  obtain rc new w1 where rd: "ssh_scp_read api h (length buf) w = (rc, new, w1)" by (metis prod_cases3)
  note e = scp_envD(1) [OF assms(1) rd]
  have w1: "w' = w1" "b = overlay new buf" "r = (if rc = -1 then Inl (scp_error api x ''ssh_scp_read'' w1) else Inr (nat (rc mod 2 ^ 64)))"
    using assms(2,4) rd by (auto simp: reader_read_def)
  show ?thesis
  proof (cases "rc = -1")
    case False
    then have n: "rc = int (length new)" "length new \<le> length buf" "new = take (length new) (left h w)"
      "left h w1 = drop (length new) (left h w)" using e by auto
    have "int (length new) < 2 ^ 64" using n(2) assms(3) by simp
    then have "nat (rc mod 2 ^ 64) = length new" using n(1) by simp
    moreover have "mem_prefix (length new) (overlay new buf @ rest) = new" for rest
      using n(2) by (simp add: mem_prefix_def overlay_def)
    moreover have "length new \<le> length (left h w)" by (metis n(3) length_take min.cobounded1)
    ultimately show ?thesis using w1 e n False by (auto simp: n(3) [symmetric])
  qed (use e w1 in auto)
qed

lemma scp_read_loop_prefix:
  assumes "scp_env api fs progress left sent lo strm" "sc_native x = Some h"
  shows "length buf = scp_buffer \<Longrightarrow> lo w out = Some got \<Longrightarrow> done_bytes \<le> fsize \<Longrightarrow>
    \<exists>r w'. scp_read_loop api fs x out fsize progress op buf done_bytes w = Some (r, w')
      \<and> (case r of Inl _ \<Rightarrow> True
         | Inr n \<Rightarrow> done_bytes \<le> n \<and> n \<le> fsize \<and> lo w' = (lo w)(out \<mapsto> got @ take (unat n - unat done_bytes) (left h w)))"
proof (induction "unat fsize - unat done_bytes" arbitrary: buf w got done_bytes rule: less_induct)
  case less
  note unfold = scp_read_loop.simps [of api fs x out fsize progress op buf done_bytes w]
  show ?case
  proof (cases "done_bytes < fsize")
    case False
    then have "scp_read_loop api fs x out fsize progress op buf done_bytes w = Some (Inr done_bytes, w)" by (simp add: unfold)
    then show ?thesis using less.prems by (auto simp: fun_upd_idem)
  next
    case True
    let ?want = "scp_want done_bytes fsize"
    note want = scp_want [OF True]
    obtain r1 b w1 where rd: "reader_read api x (take ?want buf) w = (r1, b, w1)" by (metis prod_cases3)
    have len: "length (take ?want buf) = ?want" using want(3) less.prems(1) by simp
    have small: "length (take ?want buf) < 2 ^ 63" using len want(3) by (simp add: scp_buffer_def)
    note one = reader_read_env [OF assms small rd, unfolded len]
    show ?thesis
    proof (cases "\<exists>k. r1 = Inr k \<and> k \<noteq> 0")
      case False
      then show ?thesis using rd one True less.prems by (cases r1) (auto simp: unfold fun_upd_idem)
    next
      case go: True
      then obtain k where k: "r1 = Inr k" "k \<noteq> 0" by blast
      let ?buf = "b @ drop ?want buf" and ?d = "take k (left h w)" and ?done = "done_bytes + of_nat k"
      have w1: "k \<le> ?want" "mem_prefix k ?buf = ?d" "left h w1 = drop k (left h w)" "lo w1 = lo w" "k \<le> length (left h w)"
        "length ?buf = scp_buffer"
        using one k less.prems(1) want(3) by auto
      have cnt: "unat ?done = unat done_bytes + k" "?done \<le> fsize"
        using count_up [of k fsize done_bytes] w1(1) want(2) True by auto
      obtain more w3 where pr: "scp_report progress ?done fsize (fs_write fs out ?d w1) = (more, w3)" by fastforce
      have w3: "lo w3 = (lo w)(out \<mapsto> got @ ?d)" "left h w3 = drop k (left h w)"
        using scp_envD(5) [OF assms(1) pr, of h] local_contractD(2,3) [OF scp_envD(6) [OF assms(1)], of out ?d w1]
          w1(3,4) less.prems(2) by (auto dest: fun_cong [of _ _ h])
      have run: "scp_read_loop api fs x out fsize progress op buf done_bytes w =
          (if more then scp_read_loop api fs x out fsize progress op ?buf ?done w3 else Some (Inl (mk_error errc_cancelled [] op), w3))"
        using True rd k w1(2) pr by (simp add: unfold)
      show ?thesis
      proof (cases more)
        case m: True
        have "unat fsize - unat ?done < unat fsize - unat done_bytes" using cnt(1) k(2) True by (simp add: word_less_nat_alt)
        from less.hyps [OF this w1(6) _ cnt(2), of w3 "got @ ?d"] obtain r w' where
          r: "scp_read_loop api fs x out fsize progress op ?buf ?done w3 = Some (r, w')"
          "case r of Inl _ \<Rightarrow> True | Inr n \<Rightarrow> ?done \<le> n \<and> n \<le> fsize
             \<and> lo w' = (lo w3)(out \<mapsto> (got @ ?d) @ take (unat n - unat ?done) (left h w3))"
          using w3(1) by auto
        have "done_bytes \<le> n \<and> take (unat n - unat done_bytes) (left h w) = ?d @ take (unat n - unat ?done) (left h w3)"
          if "?done \<le> n" for n
        proof -
          have "unat done_bytes + k \<le> unat n" using that cnt(1) by (simp add: word_le_nat_alt)
          then have "unat n - unat done_bytes = k + (unat n - unat ?done)" "done_bytes \<le> n"
            using cnt(1) by (auto simp: word_le_nat_alt)
          then show ?thesis using w3(2) by (simp add: take_add)
        qed
        then show ?thesis unfolding run using m r w3(1) by (auto split: sum.splits)
      qed (use run in auto)
    qed
  qed
qed

text \<open>
  An SCP download returns; on success the local file holds as many bytes as it reports, the first ones
  of what the server sends after the request was accepted, at most the announced size, and the
  accepted request had a safe name.
\<close>
theorem scp_download_prefix:
  assumes "scp_env api fs progress left sent lo strm"
  shows "\<exists>r w'. scp_try_download api fs se remote loc progress w = Some (r, w')
    \<and> (case r of Inl _ \<Rightarrow> True
       | Inr n \<Rightarrow> \<exists>x h w1 w2 w3 fsize. scp_reader api se remote False w = (x, w1) \<and> sc_native x = Some h
            \<and> reader_init api x w1 = (Inr (), w2) \<and> scp_accept_file api x w2 = (Inr fsize, w3) \<and> n \<le> fsize
            \<and> lo w' = (lo w3)(loc \<mapsto> take (unat n) (left h w3)))"
proof -
  note env = scp_envD [OF assms]
  obtain x w0 where x: "scp_reader api se remote False w = (x, w0)" by fastforce
  obtain ri w1 where ri: "reader_init api x w0 = (ri, w1)" by fastforce
  obtain ra w2 where ra: "scp_accept_file api x w1 = (ra, w2)" by fastforce
  obtain ok w3 where oo: "fs_open_out fs loc w2 = (ok, w3)" by fastforce
  show ?thesis
  proof (cases "\<exists>u fsize. ri = Inr u \<and> ra = Inr fsize \<and> ok")
    case False
    then show ?thesis using x ri ra oo by (cases ri; cases ra) (auto simp: scp_try_download_def)
  next
    case True
    then obtain u fsize where r: "ri = Inr u" "ra = Inr fsize" ok by blast
    obtain h where h: "sc_native x = Some h"
      using ra r(2) by (cases "sc_native x") (auto simp: scp_accept_file_def reader_next_def)
    have w3: "lo w3 = (lo w2)(loc \<mapsto> [])" "left h w3 = left h w2"
      using local_contractD(1) [OF env(6) oo] r(3) by (auto dest: fun_cong [of _ _ h])
    obtain rr w4 where l: "scp_read_loop api fs x loc fsize progress ''scp::try_download'' (replicate scp_buffer 0) 0 w3 = Some (rr, w4)"
      "case rr of Inl _ \<Rightarrow> True | Inr n \<Rightarrow> 0 \<le> n \<and> n \<le> fsize \<and> lo w4 = (lo w3)(loc \<mapsto> [] @ take (unat n - unat (0 :: u64)) (left h w3))"
      using scp_read_loop_prefix [OF assms h, where buf = "replicate scp_buffer 0" and w = w3 and out = loc and got = "[]"
          and done_bytes = 0 and fsize = fsize and op = "''scp::try_download''"] w3(1) by auto
    have rel: "lo (scp_release api x (fs_close_out fs loc v)) = lo v" for v
      using env(3) [of h] local_contractD(5) [OF env(6)] h by (simp add: scp_release_def)
    have "scp_try_download api fs se remote loc progress w = Some (rr, scp_release api x (fs_close_out fs loc w4))"
      using x ri ra oo r l(1) by (simp add: scp_try_download_def)
    then show ?thesis using x h ri ra r l(2) rel w3 by (cases rr) fastforce+
  qed
qed

section \<open>Sending\<close>

lemma scp_write_loop_exact:
  assumes "scp_env api fs progress left sent lo strm" "sc_native x = Some h"
  shows "done_bytes \<le> fsize \<Longrightarrow>
    \<exists>r w'. scp_write_loop api fs x inp fsize progress done_bytes good w = Some (r, w')
      \<and> (case r of Inl _ \<Rightarrow> \<exists>k. sent h w' = sent h w @ take k (strm inp w)
         | Inr n \<Rightarrow> done_bytes \<le> n \<and> unat n - unat done_bytes \<le> length (strm inp w)
             \<and> sent h w' = sent h w @ take (unat n - unat done_bytes) (strm inp w))"
proof (induction "unat fsize - unat done_bytes" arbitrary: w good done_bytes rule: less_induct)
  case less
  note unfold = scp_write_loop.simps [of api fs x inp fsize progress done_bytes good w]
  note env = scp_envD [OF assms(1)]
  show ?case
  proof (cases "done_bytes < fsize \<and> good")
    case False
    then have "scp_write_loop api fs x inp fsize progress done_bytes good w = Some (Inr done_bytes, w)" unfolding unfold by simp
    then show ?thesis by auto
  next
    case True
    let ?want = "scp_want done_bytes fsize"
    have want: "0 < ?want" "?want \<le> unat fsize - unat done_bytes" using scp_want(1,2) True by auto
    obtain d good' w1 where rd: "fs_read_in fs inp ?want w = (d, good', w1)" by (metis prod_cases3)
    have w1: "sent h w1 = sent h w" "d = take ?want (strm inp w)" "strm inp w1 = drop ?want (strm inp w)"
      using local_contractD(9) [OF env(6) rd] by (auto dest: fun_cong [of _ _ h])
    show ?thesis
    proof (cases "d = []")
      case dn: True
      then have "scp_write_loop api fs x inp fsize progress done_bytes good w = Some (Inr done_bytes, w1)"
        using True rd unfolding unfold by simp
      then show ?thesis using w1(1) by auto
    next
      case dn: False
      obtain src w2 where wr: "ssh_scp_write api h d w1 = (src, w2)" by fastforce
      note sw = env(2) [OF wr, of inp]
      show ?thesis
      proof (cases "src = SSH_OK")
        case False
        then have "scp_write_loop api fs x inp fsize progress done_bytes good w = Some (Inl (scp_error api x ''ssh_scp_write'' w2), w2)"
          using True rd dn wr assms(2) unfolding unfold by (simp add: writer_write_def scp_call_def)
        moreover obtain k where "sent h w2 = sent h w @ take (min k ?want) (strm inp w)"
          using sw False w1 by (auto simp: min.commute)
        ultimately show ?thesis by auto
      next
        case ok: True
        let ?done = "done_bytes + of_nat (length d)"
        have w2: "sent h w2 = sent h w @ d" "strm inp w2 = drop ?want (strm inp w)" using sw ok w1 by auto
        obtain more w3 where pr: "scp_report progress ?done fsize w2 = (more, w3)" by fastforce
        have w3: "sent h w3 = sent h w @ d" "strm inp w3 = drop ?want (strm inp w)" using env(5) [OF pr, of h inp] w2 by auto
        have len: "length d \<le> ?want" using w1(2) by simp
        have cnt: "unat ?done = unat done_bytes + length d" "?done \<le> fsize"
          using count_up [of "length d" fsize done_bytes] len want(2) True by auto
        have run: "scp_write_loop api fs x inp fsize progress done_bytes good w =
            (if more then scp_write_loop api fs x inp fsize progress ?done good' w3
             else Some (Inl (mk_error errc_cancelled [] ''Writer::try_write_from''), w3))"
          using True rd dn wr ok pr assms(2) unfolding unfold by (simp add: writer_write_def scp_call_def)
        have d: "strm inp w = d @ strm inp w3" using w1(2) w3(2) by simp
        show ?thesis
        proof (cases more)
          case m: False
          have "sent h w3 = sent h w @ take (length d) (strm inp w)" using w3(1) d by simp
          then show ?thesis unfolding run using m by auto
        next
          case m: True
          have "unat fsize - unat ?done < unat fsize - unat done_bytes"
            using cnt(1) dn True by (auto simp: word_less_nat_alt intro!: diff_less_mono2)
          from less.hyps [OF this cnt(2), of good' w3] obtain r w' where
            r: "scp_write_loop api fs x inp fsize progress ?done good' w3 = Some (r, w')"
            "case r of Inl _ \<Rightarrow> \<exists>k. sent h w' = sent h w3 @ take k (strm inp w3)
             | Inr n \<Rightarrow> ?done \<le> n \<and> unat n - unat ?done \<le> length (strm inp w3)
                 \<and> sent h w' = sent h w3 @ take (unat n - unat ?done) (strm inp w3)" by blast
          have fin: "done_bytes \<le> n \<and> unat n - unat done_bytes = length d + (unat n - unat ?done)" if "?done \<le> n" for n
            using that cnt(1) by (auto simp: word_le_nat_alt)
          have pre: "d @ take k (strm inp w3) = take (length d + k) (strm inp w)" for k using d by simp
          show ?thesis
          proof (cases r)
            case (Inl e)
            then obtain k where "sent h w' = sent h w @ take (length d + k) (strm inp w)"
              using r(2) w3(1) pre by auto
            then show ?thesis unfolding run using m r(1) Inl by auto
          next
            case (Inr n)
            then have n: "?done \<le> n" "unat n - unat ?done \<le> length (strm inp w3)"
              "sent h w' = (sent h w @ d) @ take (unat n - unat ?done) (strm inp w3)" using r(2) w3(1) by auto
            have "unat n - unat done_bytes \<le> length (strm inp w)" using fin [OF n(1)] n(2) arg_cong [OF d, of length] by simp
            moreover have "sent h w' = sent h w @ take (unat n - unat done_bytes) (strm inp w)"
              using n(3) fin [OF n(1)] pre by simp
            ultimately show ?thesis unfolding run using m r(1) Inr fin [OF n(1)] by auto
          qed
        qed
      qed
    qed
  qed
qed

text \<open>
  C23: \<open>Writer::try_write_from\<close> returns; it succeeds only with the announced size, and then the server was
  given exactly that many bytes, the first of the input stream; otherwise it was given a prefix.
\<close>
theorem scp_write_from_exact:
  assumes "scp_env api fs progress left sent lo strm" and "sc_native x = Some h"
  shows "\<exists>r w'. writer_write_from api fs x inp fsize progress good w = Some (r, w')
    \<and> (case r of Inl _ \<Rightarrow> \<exists>k. sent h w' = sent h w @ take k (strm inp w)
       | Inr n \<Rightarrow> n = fsize \<and> unat fsize \<le> length (strm inp w) \<and> sent h w' = sent h w @ take (unat fsize) (strm inp w))"
proof -
  obtain r w' where r: "scp_write_loop api fs x inp fsize progress 0 good w = Some (r, w')"
    "case r of Inl _ \<Rightarrow> \<exists>k. sent h w' = sent h w @ take k (strm inp w)
       | Inr n \<Rightarrow> 0 \<le> n \<and> unat n - unat (0 :: u64) \<le> length (strm inp w)
           \<and> sent h w' = sent h w @ take (unat n - unat (0 :: u64)) (strm inp w)"
    using scp_write_loop_exact [OF assms word_zero_le] by blast
  then show ?thesis by (cases r) (auto simp: writer_write_from_def)
qed

section \<open>A simulated server\<close>

text \<open>The server announces a file of \<open>sc_size\<close> bytes named \<open>f\<close> and sends \<open>sc_left\<close>, at most \<open>cap\<close> bytes at a time.\<close>

record sim_scp = sim_session +
  sc_size :: u64
  sc_left :: bytes
  sc_sent :: bytes
  sc_local :: "path \<rightharpoonup> bytes"
  sc_stream :: "path \<Rightarrow> bytes"

definition sim_scp_api :: "nat \<Rightarrow> sim_scp scp_api" where
  "sim_scp_api cap = session_api.extend sim_session_api
     \<lparr>ssh_scp_new = \<lambda>_ _ _ w. (Some 6, w), ssh_scp_close = \<lambda>_ w. w, ssh_scp_free = \<lambda>_ w. w,
      ssh_scp_init = \<lambda>_ w. (SSH_OK, w), ssh_scp_pull_request = \<lambda>_ w. (SCP_REQUEST_NEWFILE, w),
      ssh_scp_request_get_filename = \<lambda>_ _. Some ''f'', ssh_scp_request_get_permissions = \<lambda>_ _. 420,
      ssh_scp_request_get_size64 = \<lambda>_ w. sc_size w, ssh_scp_request_get_warning = \<lambda>_ _. None,
      ssh_scp_accept_request = \<lambda>_ w. (SSH_OK, w), ssh_scp_deny_request = \<lambda>_ _ w. (SSH_OK, w),
      ssh_scp_read = \<lambda>_ k w. (let d = take (min cap k) (sc_left w) in (int (length d), d, w\<lparr>sc_left := drop (length d) (sc_left w)\<rparr>)),
      ssh_scp_push_file64 = \<lambda>_ _ _ _ w. (SSH_OK, w), ssh_scp_push_directory = \<lambda>_ _ _ w. (SSH_OK, w),
      ssh_scp_leave_directory = \<lambda>_ w. (SSH_OK, w), ssh_scp_write = \<lambda>_ d w. (SSH_OK, w\<lparr>sc_sent := sc_sent w @ d\<rparr>)\<rparr>"

lemma sim_scp_sel [simp]:
  "ssh_scp_new (sim_scp_api cap) = (\<lambda>_ _ _ w. (Some 6, w))" "ssh_scp_close (sim_scp_api cap) = (\<lambda>_ w. w)"
  "ssh_scp_free (sim_scp_api cap) = (\<lambda>_ w. w)" "ssh_scp_init (sim_scp_api cap) = (\<lambda>_ w. (SSH_OK, w))"
  "ssh_scp_pull_request (sim_scp_api cap) = (\<lambda>_ w. (SCP_REQUEST_NEWFILE, w))"
  "ssh_scp_request_get_filename (sim_scp_api cap) = (\<lambda>_ _. Some ''f'')"
  "ssh_scp_request_get_size64 (sim_scp_api cap) = (\<lambda>_ w. sc_size w)"
  "ssh_scp_accept_request (sim_scp_api cap) = (\<lambda>_ w. (SSH_OK, w))"
  "ssh_scp_read (sim_scp_api cap) = (\<lambda>_ k w. (let d = take (min cap k) (sc_left w)
     in (int (length d), d, w\<lparr>sc_left := drop (length d) (sc_left w)\<rparr>)))"
  "ssh_scp_write (sim_scp_api cap) = (\<lambda>_ d w. (SSH_OK, w\<lparr>sc_sent := sc_sent w @ d\<rparr>))"
  by (simp_all add: sim_scp_api_def session_api.defs)

definition sim_scp_fs :: "sim_scp local_fs" where
  "sim_scp_fs = \<lparr>fs_exists = \<lambda>p w. sc_local w p \<noteq> None,
     fs_open_out = \<lambda>p w. (True, w\<lparr>sc_local := (sc_local w)(p \<mapsto> [])\<rparr>),
     fs_write = \<lambda>p d w. w\<lparr>sc_local := (sc_local w)(p \<mapsto> the (sc_local w p) @ d)\<rparr>,
     fs_close_out = \<lambda>_ w. w, fs_permissions = \<lambda>_ _ w. w,
     fs_open_in = \<lambda>p w. (case sc_local w p of None \<Rightarrow> (False, w) | Some c \<Rightarrow> (True, w\<lparr>sc_stream := (sc_stream w)(p := c)\<rparr>)),
     fs_read_in = \<lambda>p k w. (let d = take k (sc_stream w p) in
        (d, length d = k, w\<lparr>sc_stream := (sc_stream w)(p := drop k (sc_stream w p))\<rparr>)),
     fs_status_perms = \<lambda>_ _. Some 420, fs_create_directories = \<lambda>_ w. w, fs_weakly_canonical = \<lambda>p _. Inr p\<rparr>"

definition scp_world :: "u64 \<Rightarrow> bytes \<Rightarrow> bytes \<Rightarrow> sim_scp" where
  "scp_world announced data input = sim_session.extend (sim_world SSH_KNOWN_HOSTS_OK)
     \<lparr>sc_size = announced, sc_left = data, sc_sent = [], sc_local = (\<lambda>_. None), sc_stream = (\<lambda>_. input)\<rparr>"

lemma scp_world_sel [simp]:
  "sc_size (scp_world a d i) = a" "sc_left (scp_world a d i) = d" "sc_sent (scp_world a d i) = []"
  "sc_local (scp_world a d i) = (\<lambda>_. None)" "sc_stream (scp_world a d i) = (\<lambda>_. i)"
  by (simp_all add: scp_world_def sim_session.defs)

lemma sim_scp_env:
  "scp_env (sim_scp_api cap) sim_scp_fs None (\<lambda>_ w. sc_left w) (\<lambda>_ w. sc_sent w) sc_local (\<lambda>p w. sc_stream w p)"
proof -
  have "local_contract sim_scp_fs (\<lambda>w. (\<lambda>n. sc_left w, \<lambda>n. sc_sent w)) sc_local (\<lambda>p w. sc_stream w p)"
    unfolding local_contract_def by (intro conjI allI impI) (auto simp: sim_scp_fs_def Let_def split: option.splits)
  then show ?thesis by (auto simp: scp_env_def scp_report_def Let_def min_def)
qed

lemmas scp_eval = scp_try_download_def scp_reader_def reader_init_def scp_call_def scp_accept_file_def reader_next_def
  reader_request_def reader_accept_def reader_read_def scp_safe_entry_name_def sim_scp_fs_def scp_read_loop.simps
  scp_want_def scp_buffer_def scp_report_def scp_release_def overlay_def mem_prefix_def Let_def

lemma scp_take_buffer: "take n (replicate 65536 (0 :: byte)) = replicate (min n 65536) 0"
  by (simp add: min_def)

lemma scp_download_run:
  "\<exists>w'. scp_try_download (sim_scp_api 2) sim_scp_fs sim_client ''/f'' ''out'' None (scp_world 3 [1, 2, 3] []) = Some (Inr 3, w')"
  by (simp add: scp_eval sim_client_def c_str_def scp_take_buffer)

theorem scp_download_prefix_witness:
  "\<exists>w'. scp_try_download (sim_scp_api 2) sim_scp_fs sim_client ''/f'' ''out'' None (scp_world 3 [1, 2, 3] []) = Some (Inr 3, w')
     \<and> sc_local w' = [''out'' \<mapsto> [1, 2, 3]]"
proof -
  obtain w' where r: "scp_try_download (sim_scp_api 2) sim_scp_fs sim_client ''/f'' ''out'' None (scp_world 3 [1, 2, 3] []) = Some (Inr 3, w')"
    using scp_download_run by blast
  have "unat (3 :: u64) = 3" by simp
  with scp_download_prefix [OF sim_scp_env, of 2 sim_client "''/f''" "''out''" "scp_world 3 [1, 2, 3] []"] r
  show ?thesis
    by (auto simp: scp_reader_def reader_init_def scp_call_def scp_accept_file_def reader_next_def reader_accept_def
        reader_request_def scp_safe_entry_name_def)
qed

lemma scp_write_run:
  "\<exists>w'. writer_write_from (sim_scp_api 2) sim_scp_fs \<lparr>sc_native = Some 6, sc_core = Some 1\<rparr> ''in'' 2 None True (scp_world 0 [] [4, 5, 6])
       = Some (Inr 2, w')"
  by (simp add: writer_write_from_def scp_write_loop.simps writer_write_def scp_eval)

theorem scp_write_from_exact_witness:
  "\<exists>w'. writer_write_from (sim_scp_api 2) sim_scp_fs \<lparr>sc_native = Some 6, sc_core = Some 1\<rparr> ''in'' 2 None True (scp_world 0 [] [4, 5, 6])
       = Some (Inr 2, w') \<and> sc_sent w' = [4, 5]"
  using scp_write_from_exact [OF sim_scp_env, of "\<lparr>sc_native = Some 6, sc_core = Some 1\<rparr>" 6 2 "''in''" 2 True "scp_world 0 [] [4, 5, 6]"]
    scp_write_run
  by auto

text \<open>
  A server that announces five bytes, sends three and then nothing more: the download succeeds with
  three bytes.
\<close>
theorem scp_short_download_succeeds:
  "\<exists>w'. scp_try_download (sim_scp_api 2) sim_scp_fs sim_client ''/f'' ''out'' None (scp_world 5 [1, 2, 3] []) = Some (Inr 3, w')
     \<and> sc_local w' ''out'' = Some [1, 2, 3]"
  by (simp add: scp_eval sim_client_def c_str_def scp_take_buffer)

end
