(* ===== verification/Store_Refinement.thy ===== *)
theory Store_Refinement
  imports Transfer_Store
begin

text \<open>
  The whole-file functions as a refinement: a client that writes and reads whole files through
  \<open>try_write_file\<close> and \<open>try_read_file\<close> sees a map from paths to contents, whatever the lengths of the
  reads and writes underneath are.
\<close>

datatype file_op = Write_file remote_path bytes | Read_file remote_path

text \<open>The client: the operations one after the other up to the first failure; the texts read.\<close>

fun run_file_ops ::
    "('w, 'z) sftp_api_scheme \<Rightarrow> sftp \<Rightarrow> nat \<Rightarrow> file_op list \<Rightarrow> 'w \<Rightarrow> string list result \<times> 'w" where
  "run_file_ops api s limit [] w = (Inr [], w)"
| "run_file_ops api s limit (Write_file p d # ops) w =
     (case try_write_file api s p d owner_rw w of
        (Inl e, w1) \<Rightarrow> (Inl e, w1) | (Inr _, w1) \<Rightarrow> run_file_ops api s limit ops w1)"
| "run_file_ops api s limit (Read_file p # ops) w =
     (case try_read_file api s p limit w of
        (Inl e, w1) \<Rightarrow> (Inl e, w1)
      | (Inr t, w1) \<Rightarrow> (case run_file_ops api s limit ops w1 of (r, w2) \<Rightarrow> (map_sum id (Cons t) r, w2)))"

text \<open>The specification: a map; a read needs a file within the limit.\<close>

fun spec_file_ops :: "nat \<Rightarrow> file_op list \<Rightarrow> (string \<rightharpoonup> bytes) \<Rightarrow> (string list \<times> (string \<rightharpoonup> bytes)) option" where
  "spec_file_ops limit [] m = Some ([], m)"
| "spec_file_ops limit (Write_file p d # ops) m = spec_file_ops limit ops (m(c_str p \<mapsto> d))"
| "spec_file_ops limit (Read_file p # ops) m =
     (case m (c_str p) of
        None \<Rightarrow> None
      | Some d \<Rightarrow> if length d > limit then None else map_option (apfst (Cons (string_of_bytes d))) (spec_file_ops limit ops m))"

text \<open>
  C9: Every successful run of a sequence of whole-file writes and reads is a run of the specification:
  it reads the texts the map holds and leaves the server's files as the map.
\<close>
theorem file_ops_refine_map:
  assumes "store_contract api files cur rest" and "run_file_ops api s limit ops w = (Inr ts, w')"
  shows "spec_file_ops limit ops (files w) = Some (ts, files w')"
  using assms(2)
proof (induction ops arbitrary: w ts)
  case (Cons x ops)
  show ?case
  proof (cases x)
    case (Write_file p d)
    obtain r w1 where wr: "try_write_file api s p d owner_rw w = (r, w1)" by fastforce
    then have ok: "r = Inr ()" and run: "run_file_ops api s limit ops w1 = (Inr ts, w')"
      using Cons.prems Write_file by (cases r; auto)+
    have "files w1 = (files w)(c_str p \<mapsto> d)" using write_file_store [OF assms(1) wr] ok by simp
    with Cons.IH [OF run] show ?thesis unfolding Write_file by (simp only: spec_file_ops.simps)
  next
    case (Read_file p)
    obtain r w1 where rd: "try_read_file api s p limit w = (r, w1)" by fastforce
    obtain r2 w2 where run: "run_file_ops api s limit ops w1 = (r2, w2)" by fastforce
    with rd obtain t ts' where t: "r = Inr t" "run_file_ops api s limit ops w1 = (Inr ts', w')" "ts = t # ts'"
      using Cons.prems Read_file by (cases r; cases r2) auto
    show ?thesis using Read_file t Cons.IH [OF t(2)] read_file_store [OF assms(1) rd] by auto
  qed
qed simp

theorem file_ops_refine_map_witness:
  "\<exists>w'. run_file_ops (sim_sftp_api 2) sim_sftp_client 9 [Write_file ''/f'' [104, 105], Read_file ''/f''] (sftp_world Map.empty Map.empty)
       = (Inr [''hi''], w')
     \<and> spec_file_ops 9 [Write_file ''/f'' [104, 105], Read_file ''/f''] Map.empty = Some ([''hi''], sv_files w')"
proof -
  have "\<exists>w'. run_file_ops (sim_sftp_api 2) sim_sftp_client 9 [Write_file ''/f'' [104, 105], Read_file ''/f'']
      (sftp_world Map.empty Map.empty) = (Inr [''hi''], w')"
    by (simp add: whole_file_eval string_of_bytes_def char_of_def bit_0)
  then obtain w' where r: "run_file_ops (sim_sftp_api 2) sim_sftp_client 9 [Write_file ''/f'' [104, 105], Read_file ''/f'']
      (sftp_world Map.empty Map.empty) = (Inr [''hi''], w')" by blast
  have "spec_file_ops 9 [Write_file ''/f'' [104, 105], Read_file ''/f''] (sv_files (sftp_world Map.empty Map.empty))
      = Some ([''hi''], sv_files w')"
    by (rule file_ops_refine_map [OF sim_store_contract r]) simp
  then show ?thesis using r by (metis sftp_world_sel(1))
qed

end
