(* ===== verification/Test_Server.thy ===== *)
theory Test_Server
  imports Server_Bind Server_Channels Sftp_Server
begin

text \<open>
  \<open>server/test_server.hpp\<close>, \<open>detail/server_test_server.ipp\<close>: the in-process server of the test suite, and
  with it the whole life of a server connection: accepting, the handler that decides logins and makes
  one channel handler per session channel, the poll loop, and the destruction of the session.

  The channel handlers a connection made live in a list, a handler is its index there; they are the first
  part of the world. Threads are
  started with a value and run elsewhere: the accept loop yields the sessions it handed to threads, and
  \<open>serve_connection\<close> is what such a thread runs. \<open>stop\<close> reads the flag other threads set.

  The theorems: which credentials log in, that a connection frees everything it made when it ends, that
  it ends after the flag is set, and that the accept loop hands every native session to one thread.
\<close>

section \<open>Options\<close>

record 'w test_options =
  to_user :: string
  to_password :: string
  to_authorized_keys :: "key list"
  to_allow_password :: bool
  to_allow_public_key :: bool
  to_sftp_root :: "path option"
  to_exec :: "'w runner option"

definition default_test_options :: "'w test_options" where
  "default_test_options =
     \<lparr>to_user = ''testuser'', to_password = ''testpass'', to_authorized_keys = [], to_allow_password = True,
      to_allow_public_key = True, to_sftp_root = None, to_exec = None\<rparr>"

section \<open>Channel handler\<close>

text \<open>
  \<open>tc_command\<close> is the \<open>CommandHandler\<close> without its callback, which is always the one of the options.
  \<open>tc_sftp\<close> is the \<open>SftpSubsystemHandler\<close>: its options and the channels its worker threads serve;
  replacing it joins the threads of the previous one.
\<close>

record test_channel =
  tc_command :: "unit command_handler option"
  tc_sftp :: "(sftp_options \<times> channel list) option"

type_synonym 'v test_world = "test_channel list \<times> 'v"

definition new_test_channel :: test_channel where
  "new_test_channel = \<lparr>tc_command = None, tc_sftp = None\<rparr>"

definition command_object :: "'w test_options \<Rightarrow> unit command_handler \<Rightarrow> 'w command_handler" where
  "command_object opts c =
     \<lparr>co_runner = to_exec opts, co_command = co_command c, co_input = co_input c, co_eof = co_eof c, co_ran = co_ran c\<rparr>"

definition command_data :: "'w command_handler \<Rightarrow> unit command_handler" where
  "command_data c =
     \<lparr>co_runner = None, co_command = co_command c, co_input = co_input c, co_eof = co_eof c, co_ran = co_ran c\<rparr>"

definition default_sftp_options :: sftp_options where
  "default_sftp_options =
     \<lparr>so_root = [], so_read_only = False, so_follow_symlinks_out_of_root = False, so_max_file_size = 0\<rparr>"

definition test_on_exec_request :: "'w test_options \<Rightarrow> string \<Rightarrow> test_channel \<Rightarrow> bool \<times> test_channel" where
  "test_on_exec_request opts command h =
     (if to_exec opts = None then (False, h)
      else (case command_on_exec_request command (new_command_handler (to_exec opts)) of
              (ok, c) \<Rightarrow> (ok, h\<lparr>tc_command := Some (command_data c)\<rparr>)))"

definition test_on_subsystem_request ::
    "'w test_options \<Rightarrow> channel \<Rightarrow> string \<Rightarrow> test_channel \<Rightarrow> bool \<times> test_channel" where
  "test_on_subsystem_request opts ch name h =
     (case to_sftp_root opts of
        None \<Rightarrow> (False, h)
      | Some root \<Rightarrow>
          if name \<noteq> ''sftp'' then (False, h)
          else (case on_subsystem_request [] ch name of
                  (ok, workers) \<Rightarrow>
                    (ok, h\<lparr>tc_sftp := Some (default_sftp_options\<lparr>so_root := root\<rparr>, workers)\<rparr>)))"

definition test_on_data :: "'w test_options \<Rightarrow> bytes \<Rightarrow> test_channel \<Rightarrow> nat \<times> test_channel" where
  "test_on_data opts d h =
     (case tc_command h of
        Some c \<Rightarrow>
          (case command_on_data d (command_object opts c) of (n, c') \<Rightarrow> (n, h\<lparr>tc_command := Some (command_data c')\<rparr>))
      | None \<Rightarrow> (length d, h))"

definition test_on_eof ::
    "('w, 'z) channel_api_scheme \<Rightarrow> 'w test_options \<Rightarrow> channel \<Rightarrow> test_channel \<Rightarrow> 'w \<Rightarrow> test_channel \<times> 'w" where
  "test_on_eof api opts ch h w =
     (case tc_command h of
        Some c \<Rightarrow>
          (case command_on_eof api ch (command_object opts c) w of
             (c', w') \<Rightarrow> (h\<lparr>tc_command := Some (command_data c')\<rparr>, w'))
      | None \<Rightarrow> (h, w))"

text \<open>The handler with the index \<open>i\<close> as an object; the other functions keep their default bodies.\<close>

definition put_handler :: "nat \<Rightarrow> test_channel \<Rightarrow> 'v test_world \<Rightarrow> 'v test_world" where
  "put_handler i h w = ((fst w)[i := h], snd w)"

definition test_channel_handler ::
    "('v test_world, 'z) channel_api_scheme \<Rightarrow> 'v test_world test_options \<Rightarrow> nat \<Rightarrow> 'v test_world channel_handler" where
  "test_channel_handler api opts i = default_channel_handler
     \<lparr>h_exec_request := \<lambda>ch command w.
        (case test_on_exec_request opts command (fst w ! i) of (ok, h) \<Rightarrow> (Inr ok, ch, put_handler i h w)),
      h_subsystem_request := \<lambda>ch name w.
        (case test_on_subsystem_request opts ch name (fst w ! i) of (ok, h) \<Rightarrow> (Inr ok, ch, put_handler i h w)),
      h_data := \<lambda>ch d _ w.
        (case test_on_data opts d (fst w ! i) of (n, h) \<Rightarrow> (Inr n, ch, put_handler i h w)),
      h_eof := \<lambda>ch w.
        (case test_on_eof api opts ch (fst w ! i) w of (h, w') \<Rightarrow> (Inr (), ch, put_handler i h w'))\<rparr>"

section \<open>Session handler\<close>

definition test_on_auth_password :: "'w test_options \<Rightarrow> string \<Rightarrow> string \<Rightarrow> auth_result" where
  "test_on_auth_password opts user password =
     (if \<not> to_allow_password opts \<or> user \<noteq> to_user opts then AR_denied
      else if password = to_password opts then AR_success else AR_denied)"

fun authorized :: "('w, 'y) key_api_scheme \<Rightarrow> 'w \<Rightarrow> fingerprint \<Rightarrow> key list \<Rightarrow> bool" where
  "authorized kapi w presented [] = False"
| "authorized kapi w presented (allowed # rest) =
     (case key_fingerprint kapi allowed Hash_sha256 w of
        Inr fp \<Rightarrow> fingerprint_eq fp presented \<or> authorized kapi w presented rest
      | Inl _ \<Rightarrow> authorized kapi w presented rest)"

text \<open>The state of the signature is not looked at.\<close>

definition test_on_auth_public_key ::
    "('w, 'y) key_api_scheme \<Rightarrow> 'w test_options \<Rightarrow> 'w \<Rightarrow> string \<Rightarrow> key \<Rightarrow> pk_state \<Rightarrow> auth_result" where
  "test_on_auth_public_key kapi opts w user k state =
     (if \<not> to_allow_public_key opts \<or> user \<noteq> to_user opts then AR_denied
      else (case key_fingerprint kapi k Hash_sha256 w of
              Inl _ \<Rightarrow> AR_denied
            | Inr presented \<Rightarrow>
                if authorized kapi w presented (to_authorized_keys opts) then AR_success else AR_denied))"

definition test_session_handler ::
    "('v test_world, 'y) key_api_scheme \<Rightarrow> 'v test_world test_options \<Rightarrow> (nat, 'v test_world) session_handler" where
  "test_session_handler kapi opts = default_session_handler
     \<lparr>h_auth_password := \<lambda>user password w. (Inr (test_on_auth_password opts user password), w),
      h_auth_public_key := \<lambda>user k state w.
        (Inr (test_on_auth_public_key kapi opts w user k state), w),
      h_channel_open_session := \<lambda>(hs, v). (Inr (Some (length hs)), hs @ [new_test_channel], v)\<rparr>"

section \<open>A connection\<close>

text \<open>
  The destructor of a server session, in the reverse order of its members: the private event, the
  bridge with its channels, in the order \<open>order\<close> of the hash table, and the native session.
\<close>

definition server_session_dtor ::
    "('w, 'z) bind_api_scheme \<Rightarrow> handle list \<Rightarrow> nat \<Rightarrow> ('c, 'w) server \<Rightarrow> ('c, 'w) server" where
  "server_session_dtor api order a st =
     (case st_sessions st a of
        None \<Rightarrow> st
      | Some s \<Rightarrow>
          let w1 = event_release api \<lparr>ev_native = ses_event s\<rparr> (st_world st);
              w2 = (case Option.bind (ses_bridge s) (st_bridges st) of
                      Some b \<Rightarrow> snd (erase_channels api order (br_channels b) w1) | None \<Rightarrow> w1);
              w3 = snd (core_dtor api (ses_core s) w2)
          in st\<lparr>st_sessions := (st_sessions st)(a := None),
                st_bridges := (case ses_bridge s of
                                 Some bid \<Rightarrow> (st_bridges st)(bid := None) | None \<Rightarrow> st_bridges st),
                st_world := w3\<rparr>)"

definition session_valid :: "nat \<Rightarrow> ('c, 'w) server \<Rightarrow> bool" where
  "session_valid a st \<longleftrightarrow> (case st_sessions st a of Some s \<Rightarrow> ses_core s \<noteq> None | None \<Rightarrow> False)"

partial_function (option) poll_loop ::
    "('w, 'z) bind_api_scheme \<Rightarrow> (('c, 'w) server \<Rightarrow> bool)
       \<Rightarrow> (handle option \<Rightarrow> int \<Rightarrow> ('c, 'w) server \<Rightarrow> unit result \<times> ('c, 'w) server) \<Rightarrow> nat \<Rightarrow> ('c, 'w) server
       \<Rightarrow> ('c, 'w) server option" where
  "poll_loop api stop dopoll a st =
     (if \<not> stop st \<and> session_valid a st
      then (case server_try_poll api dopoll a 200 st of
              (Inl _, st') \<Rightarrow> Some st'
            | (Inr _, st') \<Rightarrow> poll_loop api stop dopoll a st')
      else Some st)"

declare poll_loop.simps [code]

definition test_methods :: "'v test_options \<Rightarrow> auth_methods" where
  "test_methods opts =
     \<lparr>am_none = False, am_password = to_allow_password opts, am_public_key = to_allow_public_key opts,
      am_host_based = False, am_interactive = False, am_gssapi_mic = False\<rparr>"

text \<open>The thread of a connection, up to the destruction of its session.\<close>

definition serve_body ::
    "('v test_world, 'z) bind_api_scheme \<Rightarrow> ('v test_world, 'y) key_api_scheme \<Rightarrow> method_bits
       \<Rightarrow> ((nat, 'v test_world) server \<Rightarrow> bool)
       \<Rightarrow> (handle option \<Rightarrow> int \<Rightarrow> (nat, 'v test_world) server \<Rightarrow> unit result \<times> (nat, 'v test_world) server)
       \<Rightarrow> 'v test_world test_options \<Rightarrow> nat \<Rightarrow> nat \<Rightarrow> (nat, 'v test_world) server \<Rightarrow> (nat, 'v test_world) server option" where
  "serve_body api kapi bits stop dopoll opts a bid st =
     (case st_sessions st a of
        None \<Rightarrow> Some st
      | Some s \<Rightarrow>
          (case try_set_handler api a bid (Some (test_session_handler kapi opts))
                  (st\<lparr>st_world := set_auth_methods api bits s (test_methods opts) (st_world st)\<rparr>) of
             (Inl _, st1) \<Rightarrow> Some st1
           | (Inr _, st1) \<Rightarrow>
               (case try_handle_key_exchange api s (st_world st1) of
                  (Inl _, w2) \<Rightarrow> Some (st1\<lparr>st_world := w2\<rparr>)
                | (Inr _, w2) \<Rightarrow> poll_loop api stop dopoll a (st1\<lparr>st_world := w2\<rparr>))))"

definition serve_connection ::
    "('v test_world, 'z) bind_api_scheme \<Rightarrow> ('v test_world, 'y) key_api_scheme \<Rightarrow> method_bits
       \<Rightarrow> ((nat, 'v test_world) server \<Rightarrow> bool)
       \<Rightarrow> (handle option \<Rightarrow> int \<Rightarrow> (nat, 'v test_world) server \<Rightarrow> unit result \<times> (nat, 'v test_world) server)
       \<Rightarrow> ((nat, 'v test_world) server \<Rightarrow> handle list)
       \<Rightarrow> 'v test_world test_options \<Rightarrow> nat \<Rightarrow> nat \<Rightarrow> (nat, 'v test_world) server \<Rightarrow> (nat, 'v test_world) server option" where
  "serve_connection api kapi bits stop dopoll order opts a bid st =
     map_option (\<lambda>st'. server_session_dtor api (order st') a st')
       (serve_body api kapi bits stop dopoll opts a bid st)"

section \<open>The server\<close>

text \<open>The accept loop; the result are the sessions handed to new threads.\<close>

partial_function (option) test_accept_loop ::
    "('w, 'z) bind_api_scheme \<Rightarrow> ('w \<Rightarrow> bool) \<Rightarrow> bind_obj \<Rightarrow> server_session list \<Rightarrow> 'w
       \<Rightarrow> (server_session list \<times> 'w) option" where
  "test_accept_loop api stop b threads w =
     (if stop w then Some (threads, w)
      else (case try_accept_timeout api b 200 w of
              (Inr (Some s), w') \<Rightarrow> test_accept_loop api stop b (threads @ [fst (server_session_move s)]) w'
            | (_, w') \<Rightarrow> test_accept_loop api stop b threads w'))"

declare test_accept_loop.simps [code]

record 'v test_server =
  ts_options :: "'v test_options"
  ts_host_key :: key
  ts_bind :: bind_obj
  ts_port :: u16
  ts_known_hosts :: string

text \<open>The process around the server: where temporary files go, its number, and the sockets.\<close>

record 'w test_env =
  te_temp_directory :: string
  te_getpid :: nat
  te_getsockname_port :: "int \<Rightarrow> 'w \<Rightarrow> u16 option"
  te_append_file :: "string \<Rightarrow> string \<Rightarrow> 'w \<Rightarrow> bool \<times> 'w"
  te_remove_file :: "string \<Rightarrow> 'w \<Rightarrow> 'w"

definition known_hosts_name :: "'w test_env \<Rightarrow> nat \<Rightarrow> string" where
  "known_hosts_name env this =
     te_temp_directory env @ ''/sshpp_test_known_hosts_'' @ nat_to_string (te_getpid env) @ ''_'' @ nat_to_string this"

definition test_bind_options :: "key \<Rightarrow> bind_options" where
  "test_bind_options k =
     default_bind_options\<lparr>bo_address := ''127.0.0.1'', bo_port := 0,
       bo_host_keys := [key_from_native (k_native k) False]\<rparr>"

text \<open>
  The constructor before it starts the accept thread; a thrown error first destroys the members
  made so far.
\<close>

definition test_server_ctor ::
    "('w, 'z) bind_api_scheme \<Rightarrow> ('w, 'y) key_api_scheme \<Rightarrow> 'w test_env \<Rightarrow> nat \<Rightarrow> 'v test_options \<Rightarrow> 'w
       \<Rightarrow> (error_info + 'v test_server) \<times> 'w" where
  "test_server_ctor api kapi env this opts w =
     (case generate kapi KT_ed25519 0 w of
        (Inl e, w1) \<Rightarrow> (Inl e, w1)
      | (Inr k, w1) \<Rightarrow>
          (case bind_ctor api (test_bind_options k) w1 of
             (b, w2) \<Rightarrow>
               (case try_listen api b w2 of
                  (Inl e, w3) \<Rightarrow> (Inl e, snd (key_dtor kapi k (bind_release api b w3)))
                | (Inr _, w3) \<Rightarrow>
                    let port = (case te_getsockname_port env (bind_fd api b w3) w3 of Some p \<Rightarrow> p | None \<Rightarrow> 0);
                        file_name = known_hosts_name env this;
                        w4 = snd (kh_add kapi (te_append_file env) \<lparr>kh_user_file = file_name, kh_global_file = []\<rparr> ''127.0.0.1''
                                    port k [] w3)
                    in (Inr \<lparr>ts_options = opts, ts_host_key = k, ts_bind = b, ts_port = port,
                             ts_known_hosts = file_name\<rparr>, w4))))"

text \<open>The destructor after all threads were joined.\<close>

definition test_server_dtor ::
    "('w, 'z) bind_api_scheme \<Rightarrow> ('w, 'y) key_api_scheme \<Rightarrow> 'w test_env \<Rightarrow> 'v test_server \<Rightarrow> 'w \<Rightarrow> 'w" where
  "test_server_dtor api kapi env ts w =
     snd (key_dtor kapi (ts_host_key ts) (bind_release api (ts_bind ts) (te_remove_file env (ts_known_hosts ts) w)))"

definition host_key_fingerprint :: "('w, 'y) key_api_scheme \<Rightarrow> 'v test_server \<Rightarrow> hash_type \<Rightarrow> 'w \<Rightarrow> fingerprint" where
  "host_key_fingerprint kapi ts t w =
     (case key_fingerprint kapi (ts_host_key ts) t w of
        Inr fp \<Rightarrow> fp | Inl _ \<Rightarrow> \<lparr>fp_type = Hash_sha256, fp_bytes = []\<rparr>)"

definition client_options :: "'v test_server \<Rightarrow> session_options" where
  "client_options ts =
     default_options\<lparr>opt_host := ''127.0.0.1'', opt_port := Some (ts_port ts),
       opt_user := Some (to_user (ts_options ts)), opt_known_hosts := Some (ts_known_hosts ts),
       opt_timeout_us := Some 5000000\<rparr>"

section \<open>Who logs in\<close>

fun test_credential :: "('w, 'y) key_api_scheme \<Rightarrow> 'w test_options \<Rightarrow> 'w \<Rightarrow> auth_event \<Rightarrow> bool" where
  "test_credential kapi opts w (Ev_password u pw) \<longleftrightarrow>
     to_allow_password opts \<and> u = to_user opts \<and> pw = to_password opts"
| "test_credential kapi opts w (Ev_public_key u k p) \<longleftrightarrow>
     to_allow_public_key opts \<and> u = to_user opts
     \<and> (\<exists>a \<in> set (to_authorized_keys opts). \<exists>fp. key_fingerprint kapi a Hash_sha256 w = Inr fp
          \<and> key_fingerprint kapi k Hash_sha256 w = Inr fp)"
| "test_credential kapi opts w ev \<longleftrightarrow> False"

lemma authorized_iff:
  "authorized kapi w presented ks \<longleftrightarrow> (\<exists>a \<in> set ks. key_fingerprint kapi a Hash_sha256 w = Inr presented)"
  by (induction ks) (auto simp: fingerprint_eq_iff split: sum.splits)

lemma test_password_success:
  "test_on_auth_password opts u pw = AR_success \<longleftrightarrow> test_credential kapi opts w (Ev_password u pw)"
  by (auto simp: test_on_auth_password_def)

lemma test_public_key_success:
  "test_on_auth_public_key kapi opts w u k p = AR_success \<longleftrightarrow> test_credential kapi opts w (Ev_public_key u k p)"
  by (auto simp: test_on_auth_public_key_def authorized_iff split: sum.splits)

text \<open>The handler changes nothing, so the credentials that are good in \<open>w0\<close> are those it accepts there.\<close>

lemma test_handler_simps [simp]:
  "h_auth_none (test_session_handler kapi opts) u w = (Inr AR_denied, w)"
  "h_auth_password (test_session_handler kapi opts) u pw w = (Inr (test_on_auth_password opts u pw), w)"
  "h_auth_public_key (test_session_handler kapi opts) u k p w = (Inr (test_on_auth_public_key kapi opts w u k p), w)"
  "h_auth_gssapi_mic (test_session_handler kapi opts) u g w = (Inr AR_denied, w)"
  "h_error (test_session_handler kapi opts) i w = (Inr (), w)"
  "h_service_request (test_session_handler kapi opts) n w = (Inr (), w)"
  "h_channel_open_session (test_session_handler kapi opts) w = (Inr (Some (length (fst w))), fst w @ [new_test_channel], snd w)"
  by (simp_all add: test_session_handler_def default_session_handler_def split: prod.splits)

interpretation test: session_policy "test_session_handler kapi opts" "\<lambda>ev w. test_credential kapi opts w ev"
  for kapi opts
  by unfold_locales
    (auto simp: test_public_key_success dest: iffD1 [OF test_password_success] simp del: test_credential.simps)

text \<open>
  A session of the test server becomes authenticated only as the configured user, and only after a
  request with the configured password while passwords are allowed, or with a key of the same
  fingerprint as an authorized one and a verified signature while keys are allowed, although the
  handler itself answers an offered key and a wrong signature like a verified one.
\<close>
theorem test_server_login:
  assumes "br_handler b = test_session_handler kapi opts" and "st_sessions st (br_session b) = Some s0"
    and "\<not> ses_authenticated s0" and "st_sessions (auth_requests b evs st) (br_session b) = Some s"
    and "ses_authenticated s"
  shows "ses_user s = to_user opts
     \<and> (\<exists>ev \<in> set evs. \<not> is_probe ev \<and> test_credential kapi opts (st_world st) (seen ev))"
proof -
  obtain ev where ev: "ev \<in> set evs" "\<not> is_probe ev" "event_user ev = ses_user s"
      "test_credential kapi opts (st_world st) (seen ev)"
    using test.requests_sound [OF assms(1-3), of evs] assms(4,5) by auto
  have "event_user ev = to_user opts" using ev(4) by (cases ev) auto
  then show ?thesis using ev by auto
qed

definition demo_ts_bridge :: "(nat, unit test_world) bridge" where
  "demo_ts_bridge = \<lparr>br_session = 0, br_handler = test_session_handler example_key_api default_test_options,
     br_channels = Map.empty, br_pending = []\<rparr>"

definition demo_ts :: "(nat, unit test_world) server" where
  "demo_ts = \<lparr>st_sessions = [0 \<mapsto> (new_server_session (Some 1))\<lparr>ses_bridge := Some 9\<rparr>],
     st_bridges = [9 \<mapsto> demo_ts_bridge], st_world = ([], ())\<rparr>"

theorem test_server_login_witness:
  "ses_user ((new_server_session (Some 1))\<lparr>ses_bridge := Some 9, ses_authenticated := True,
       ses_user := ''testuser''\<rparr>) = ''testuser''
   \<and> (\<exists>ev \<in> set [Ev_password ''testuser'' ''testpass'']. \<not> is_probe ev
        \<and> test_credential example_key_api default_test_options ([], ()) (seen ev))"
  using test_server_login [of demo_ts_bridge example_key_api default_test_options demo_ts
      "(new_server_session (Some 1))\<lparr>ses_bridge := Some 9\<rparr>" "[Ev_password ''testuser'' ''testpass'']"
      "(new_server_session (Some 1))\<lparr>ses_bridge := Some 9, ses_authenticated := True, ses_user := ''testuser''\<rparr>"]
  by (simp add: demo_ts_def demo_ts_bridge_def new_server_session_def auth_requests_def auth_password_cb_def
      auth_trampoline_def apply_auth_result_def opt_string_def test_on_auth_password_def default_test_options_def)

section \<open>The end of a connection\<close>

text \<open>What is relied on: sending on a channel and the application's callback neither open nor free channels.\<close>

definition sends_keep :: "('w, 'z) channel_api_scheme \<Rightarrow> ('w \<Rightarrow> handle set) \<Rightarrow> bool" where
  "sends_keep api chans \<longleftrightarrow>
     (\<forall>n d w. chans (snd (ssh_channel_write api n d w)) = chans w)
     \<and> (\<forall>n d w. chans (snd (ssh_channel_write_stderr api n d w)) = chans w)
     \<and> (\<forall>n i w. chans (snd (ssh_channel_request_send_exit_status api n i w)) = chans w)
     \<and> (\<forall>n w. chans (snd (ssh_channel_send_eof api n w)) = chans w)"

definition runner_keeps :: "'w test_options \<Rightarrow> ('w \<Rightarrow> handle set) \<Rightarrow> bool" where
  "runner_keeps opts chans \<longleftrightarrow>
     (\<forall>r. to_exec opts = Some r \<longrightarrow> (\<forall>c i w. chans (snd (r c i w)) = chans w))"

lemma write_all_keeps:
  assumes "\<And>d w. f (snd (some d w)) = f w"
  shows "f (snd (write_all_loop some short d w)) = f w"
  using assms
proof (induction some short d w rule: write_all_loop.induct)
  case (1 some short d w)
  obtain r w' where c: "some d w = (r, w')" by fastforce
  have w': "f w' = f w" using 1(2) [of d w] c by simp
  show ?case
  proof (cases r)
    case (Inl e)
    then show ?thesis using c w' by (simp add: write_all_loop.simps [of some short d w])
  next
    case (Inr n)
    then show ?thesis
      using 1(1) [OF _ c [symmetric] Inr] 1(2) c w' by (simp add: write_all_loop.simps [of some short d w])
  qed
qed

lemma count_result_world [simp]: "snd (count_result api ses op fb r) = snd r"
  by (simp add: count_result_def split: prod.splits)

lemma rc_result_world [simp]: "snd (rc_result api ses op fb r) = snd r"
  by (simp add: rc_result_def split: prod.splits)

lemma sends_keep_ops:
  assumes "sends_keep api chans"
  shows "chans (snd (try_write_all_string api ch t w)) = chans w"
    "chans (snd (try_write_all_string_stream api ch t str w)) = chans w"
    "chans (snd (try_send_exit_status api ch i w)) = chans w"
    "chans (snd (try_send_eof api ch w)) = chans w"
proof -
  note k = assms [unfolded sends_keep_def]
  show "chans (snd (try_write_all_string api ch t w)) = chans w"
    unfolding try_write_all_string_def try_write_all_def
    by (rule write_all_keeps) (simp add: try_write_some_def k split: option.splits)
  show "chans (snd (try_write_all_string_stream api ch t str w)) = chans w"
    unfolding try_write_all_string_stream_def try_write_all_stream_def
    by (rule write_all_keeps) (simp add: try_write_some_stream_def try_write_some_def k split: option.splits)
  show "chans (snd (try_send_exit_status api ch i w)) = chans w"
    using k by (auto simp: try_send_exit_status_def split: option.splits prod.splits) (metis snd_conv)+
  show "chans (snd (try_send_eof api ch w)) = chans w"
    using k by (simp add: try_send_eof_def channel_request_def split: option.splits)
qed

lemma command_on_eof_keeps:
  assumes "sends_keep api chans" and "\<forall>r. co_runner c = Some r \<longrightarrow> (\<forall>m i w. chans (snd (r m i w)) = chans w)"
  shows "chans (snd (command_on_eof api ch c w)) = chans w"
proof -
  obtain status out err w1 where
    r: "(case co_runner c of Some r \<Rightarrow> r (co_command c) (co_input c) w | None \<Rightarrow> ((1, [], []), w)) = ((status, out, err), w1)"
    by (metis prod_cases4 surj_pair)
  have "chans w1 = chans w" using r assms(2) by (auto split: option.splits) (metis snd_conv)+
  then show ?thesis by (simp add: command_on_eof_def r Let_def sends_keep_ops [OF assms(1)])
qed

lemma test_tame:
  assumes "sends_keep api (chans \<circ> snd)" and "runner_keeps opts (chans \<circ> snd)"
  shows "tame_handlers (test_session_handler kapi opts) (test_channel_handler api opts) (chans \<circ> snd)"
proof -
  have eof: "chans (snd (snd (command_on_eof api ch (command_object opts c) w))) = chans (snd w)" for ch c w
    using command_on_eof_keeps [OF assms(1), of "command_object opts c" ch w] assms(2)
    by (simp add: runner_keeps_def command_object_def)
  have "tame_channel_handler (chans \<circ> snd) (test_channel_handler api opts i)" for i
    unfolding tame_channel_handler_def tame_def using eof
    by (auto simp: test_channel_handler_def default_channel_handler_def put_handler_def test_on_eof_def
        split: prod.splits option.splits) (metis snd_conv)+
  then show ?thesis by unfold_locales simp_all
qed

text \<open>The other calls of a connection: none of them opens or frees a channel.\<close>

definition conn_keeps :: "('w, 'z) bind_api_scheme \<Rightarrow> ('w \<Rightarrow> handle set) \<Rightarrow> bool" where
  "conn_keeps api chans \<longleftrightarrow>
     (\<forall>n m w. chans (ssh_set_auth_methods api n m w) = chans w)
     \<and> (\<forall>n b w. chans (snd (ssh_set_server_callbacks api n b w)) = chans w)
     \<and> (\<forall>n w. chans (snd (ssh_handle_key_exchange api n w)) = chans w)
     \<and> (\<forall>w. chans (snd (ssh_event_new api w)) = chans w)
     \<and> (\<forall>e n w. chans (snd (ssh_event_add_session api e n w)) = chans w)
     \<and> (\<forall>e w. chans (ssh_event_free api e w) = chans w)
     \<and> (\<forall>n w. chans (ssh_disconnect api n w) = chans w)
     \<and> (\<forall>n w. chans (ssh_free api n w) = chans w)"

lemma conn_keeps_simps:
  assumes "conn_keeps api chans"
  shows "chans (ssh_set_auth_methods api n m w) = chans w" "chans (snd (ssh_set_server_callbacks api n b w)) = chans w"
    "chans (snd (ssh_handle_key_exchange api n w)) = chans w" "chans (snd (ssh_event_new api w)) = chans w"
    "chans (snd (ssh_event_add_session api e p w)) = chans w" "chans (ssh_event_free api n w) = chans w"
    "chans (ssh_disconnect api n w) = chans w" "chans (ssh_free api n w) = chans w"
  using assms by (simp_all add: conn_keeps_def)

text \<open>What holds of a connection from its start to its destruction.\<close>

definition conn_inv ::
    "('w \<Rightarrow> handle set) \<Rightarrow> ('c, 'w) session_handler \<Rightarrow> handle \<Rightarrow> nat \<Rightarrow> nat \<Rightarrow> ('c, 'w) server \<Rightarrow> bool" where
  "conn_inv chans hnd raw a bid st \<longleftrightarrow>
     (\<exists>s. st_sessions st a = Some s \<and> ses_core s = Some raw
        \<and> (case ses_bridge s of
             None \<Rightarrow> chans (st_world st) = {} | Some b \<Rightarrow> b = bid \<and> bridge_exact chans hnd bid st))"

definition session_refs :: "nat \<Rightarrow> ('c, 'w) server \<Rightarrow> (handle option \<times> nat option) option" where
  "session_refs a st = map_option (\<lambda>s. (ses_core s, ses_bridge s)) (st_sessions st a)"

lemma trampoline_refs: "session_refs a (snd (auth_trampoline b call user fin rep st)) = session_refs a st"
  by (auto simp: auth_trampoline_def apply_auth_result_def report_error_def session_refs_def option.map_comp o_def
      split: prod.splits sum.splits thrown.splits auth_result.splits option.splits)

lemma step_refs: "bridge_step api cht bid st st' \<Longrightarrow> session_refs a st' = session_refs a st"
proof (induction rule: bridge_step.induct)
  case (step_auth st b ev)
  show ?case
    by (cases ev) (simp_all add: auth_none_cb_def auth_password_cb_def auth_pubkey_cb_def auth_gssapi_mic_cb_def
        Let_def trampoline_refs)
next
  case (step_event st b raw cs ev)
  show ?case
    by (cases ev) (auto simp: session_refs_def channel_trampoline_def channel_close_cb_def channel_subsystem_request_cb_def
        set_bridge_def split: prod.splits sum.splits bool.splits)
qed (auto simp: session_refs_def service_request_cb_def channel_open_session_cb_def register_channel_def set_bridge_def
    report_error_def reap_closed_channels_def split: prod.splits sum.splits option.splits thrown.splits)

lemma steps_refs: "(bridge_step api cht bid)\<^sup>*\<^sup>* st st' \<Longrightarrow> session_refs a st' = session_refs a st"
  by (induction rule: rtranclp_induct) (simp_all add: step_refs)

lemma exact_world:
  "chans (st_world st') = chans (st_world st) \<Longrightarrow> st_bridges st' = st_bridges st \<Longrightarrow>
   bridge_exact chans hnd bid st \<Longrightarrow> bridge_exact chans hnd bid st'"
  by (auto simp: bridge_exact_def channels_exact_def)

lemma poll_event_keeps:
  assumes "conn_keeps api chans"
  shows "chans (snd (poll_event api s w)) = chans w"
proof (cases "ses_event s")
  case None
  obtain e w1 where e: "event_ctor api w = (e, w1)" by fastforce
  obtain r w2 where r: "try_attach api s e w1 = (r, w2)" by fastforce
  have "chans w1 = chans w"
    using e assms unfolding conn_keeps_def event_ctor_def by (metis (no_types, lifting) case_prod_beta snd_conv)
  moreover have "chans (snd (try_attach api s e w1)) = chans w1"
    using assms by (auto simp: conn_keeps_def try_attach_def split: option.splits prod.splits) (metis snd_conv)+
  ultimately show ?thesis
    using None e r assms by (auto simp: poll_event_def conn_keeps_def event_release_def split: sum.splits option.splits)
qed (simp add: poll_event_def)

lemma poll_inv:
  assumes t: "tame_handlers hnd cht chans" and b: "bridge_contract api chans" and k: "conn_keeps api chans"
    and polls: "\<forall>e t st. (bridge_step api cht bid)\<^sup>*\<^sup>* st (snd (dopoll e t st))"
    and i: "conn_inv chans hnd raw a bid st" and br: "ses_bridge (the (st_sessions st a)) = Some bid"
    and p: "server_try_poll api dopoll a tm st = (r, st')"
  shows "conn_inv chans hnd raw a bid st' \<and> ses_bridge (the (st_sessions st' a)) = Some bid"
proof -
  obtain s where s: "st_sessions st a = Some s" "ses_core s = Some raw" "ses_bridge s = Some bid"
    "bridge_exact chans hnd bid st"
    using i br by (auto simp: conn_inv_def)
  obtain e w where e: "poll_event api s (st_world st) = (e, w)" by fastforce
  have w: "chans w = chans (st_world st)" using poll_event_keeps [OF k, of s "st_world st"] e by simp
  show ?thesis
  proof (cases e)
    case (Inl x)
    then have "st' = st\<lparr>st_world := w\<rparr>" using p s e by (simp add: server_try_poll_def)
    then show ?thesis using s w by (auto simp: conn_inv_def intro: exact_world)
  next
    case (Inr x)
    define st1 where "st1 = st\<lparr>st_world := w, st_sessions := (st_sessions st)(a \<mapsto> s\<lparr>ses_event := ev_native x\<rparr>)\<rparr>"
    have "bridge_exact chans hnd bid st1" using s w by (auto simp: st1_def intro: exact_world)
    moreover have refs1: "session_refs a st1 = Some (Some raw, Some bid)" using s by (simp add: st1_def session_refs_def)
    moreover obtain r2 st2 where d: "dopoll (ev_native x) tm st1 = (r2, st2)" by fastforce
    moreover have steps: "(bridge_step api cht bid)\<^sup>*\<^sup>* st1 st2" using polls d by (metis snd_conv)
    ultimately have e2: "bridge_exact chans hnd bid st2" and refs2: "session_refs a st2 = Some (Some raw, Some bid)"
      using tame_handlers.reachable_exact [OF t b steps] steps_refs [OF steps, of a] by simp_all
    obtain b2 where b2: "st_bridges st2 bid = Some b2" using e2 by (auto simp: bridge_exact_def)
    obtain s2 where s2: "st_sessions st2 a = Some s2" "ses_core s2 = Some raw" "ses_bridge s2 = Some bid"
      using refs2 by (auto simp: session_refs_def)
    have st': "st' = reap_closed_channels api bid b2 st2"
      using p s e Inr d s2 b2 by (simp add: server_try_poll_def st1_def [symmetric])
    have "bridge_exact chans hnd bid st'"
      unfolding st' by (rule tame_handlers.reap_exact [OF t b e2 b2])
    moreover have "session_refs a st' = Some (Some raw, Some bid)"
      unfolding st' by (simp add: step_refs [OF step_reap [OF b2]] refs2)
    ultimately show ?thesis by (auto simp: conn_inv_def session_refs_def)
  qed
qed

lemma poll_loop_ends:
  assumes t: "tame_handlers hnd cht chans" and b: "bridge_contract api chans" and k: "conn_keeps api chans"
    and polls: "\<forall>e t st. (bridge_step api cht bid)\<^sup>*\<^sup>* st (snd (dopoll e t st))"
    and clock: "\<forall>st r st'. server_try_poll api dopoll a 200 st = (Inr r, st') \<longrightarrow> clock st < clock st'"
    and stop: "\<forall>st. (deadline :: nat) \<le> clock st \<longrightarrow> stop st"
    and i: "conn_inv chans hnd raw a bid st" and br: "ses_bridge (the (st_sessions st a)) = Some bid"
  shows "\<exists>st'. poll_loop api stop dopoll a st = Some st' \<and> conn_inv chans hnd raw a bid st'"
  using i br
proof (induction "deadline - clock st" arbitrary: st rule: less_induct)
  case less
  show ?case
  proof (cases "\<not> stop st \<and> session_valid a st")
    case True
    obtain r st1 where p: "server_try_poll api dopoll a 200 st = (r, st1)" by fastforce
    have inv1: "conn_inv chans hnd raw a bid st1 \<and> ses_bridge (the (st_sessions st1 a)) = Some bid"
      by (rule poll_inv [OF t b k polls less(2,3) p])
    show ?thesis
    proof (cases r)
      case (Inl x)
      then show ?thesis using True p inv1 by (simp add: poll_loop.simps [of api stop dopoll a st])
    next
      case (Inr x)
      then have "clock st < clock st1" using clock p by blast
      moreover have "clock st < deadline" using stop True by (meson not_le)
      ultimately have "deadline - clock st1 < deadline - clock st" by simp
      from less(1) [OF this] inv1
      show ?thesis using True p Inr by (simp add: poll_loop.simps [of api stop dopoll a st])
    qed
  next
    case False
    then have "poll_loop api stop dopoll a st = Some st" by (auto simp: poll_loop.simps [of api stop dopoll a st])
    then show ?thesis using less(2) by simp
  qed
qed

lemma serve_body_ends:
  assumes t: "tame_handlers (test_session_handler kapi opts) cht chans" and b: "bridge_contract api chans"
    and k: "conn_keeps api chans"
    and polls: "\<forall>e t st. (bridge_step api cht bid)\<^sup>*\<^sup>* st (snd (dopoll e t st))"
    and clock: "\<forall>st r st'. server_try_poll api dopoll a 200 st = (Inr r, st') \<longrightarrow> clock st < clock st'"
    and stop: "\<forall>st. (deadline :: nat) \<le> clock st \<longrightarrow> stop st"
    and s: "st_sessions st a = Some (new_server_session (Some raw))" and c: "chans (st_world st) = {}"
  shows "\<exists>st'. serve_body api kapi bits stop dopoll opts a bid st = Some st'
     \<and> conn_inv chans (test_session_handler kapi opts) raw a bid st'"
proof -
  define s0 where "s0 = new_server_session (Some raw)"
  have s0: "ses_core s0 = Some raw" "ses_bridge s0 = None" "\<not> ses_message_style s0"
    by (simp_all add: s0_def new_server_session_def)
  define w0 where "w0 = set_auth_methods api bits s0 (test_methods opts) (st_world st)"
  have w0: "chans w0 = {}" using c s0 by (simp add: w0_def set_auth_methods_def conn_keeps_simps [OF k])
  obtain rc w1 where w1: "ssh_set_server_callbacks api raw bid w0 = (rc, w1)" by (metis surj_pair)
  have c1: "chans w1 = {}" using conn_keeps_simps(2) [OF k, of raw bid w0] w0 w1 by simp
  show ?thesis
  proof (cases "rc = SSH_OK")
    case False
    then have "serve_body api kapi bits stop dopoll opts a bid st = Some (st\<lparr>st_world := w1\<rparr>)"
      using s s0 w1 by (simp add: serve_body_def try_set_handler_def s0_def [symmetric] w0_def [symmetric])
    then show ?thesis using s c1 s0 by (simp add: conn_inv_def s0_def [symmetric])
  next
    case True
    define st1 where "st1 = set_bridge bid
        \<lparr>br_session = a, br_handler = test_session_handler kapi opts, br_channels = Map.empty, br_pending = []\<rparr>
        (st\<lparr>st_sessions := (st_sessions st)(a \<mapsto> s0\<lparr>ses_bridge := Some bid\<rparr>), st_world := w1\<rparr>)"
    have h: "try_set_handler api a bid (Some (test_session_handler kapi opts)) (st\<lparr>st_world := w0\<rparr>) = (Inr (), st1)"
      using s s0 w1 True by (simp add: try_set_handler_def s0_def [symmetric] st1_def)
    obtain r w2 where kex: "try_handle_key_exchange api s0 w1 = (r, w2)" by (metis surj_pair)
    have "chans (snd (try_handle_key_exchange api s0 w1)) = chans w1"
      using s0 by (simp add: try_handle_key_exchange_def conn_keeps_simps [OF k])
    then have inv: "conn_inv chans (test_session_handler kapi opts) raw a bid (st1\<lparr>st_world := w2\<rparr>)"
        "ses_bridge (the (st_sessions (st1\<lparr>st_world := w2\<rparr>) a)) = Some bid"
      using kex c1 s0 by (simp_all add: conn_inv_def st1_def set_bridge_def bridge_exact_def channels_exact_def)
    have "st_world st1 = w1" by (simp add: st1_def set_bridge_def)
    then have body: "serve_body api kapi bits stop dopoll opts a bid st
        = (case r of Inl _ \<Rightarrow> Some (st1\<lparr>st_world := w2\<rparr>) | Inr _ \<Rightarrow> poll_loop api stop dopoll a (st1\<lparr>st_world := w2\<rparr>))"
      using s h kex by (cases r) (simp_all add: serve_body_def s0_def [symmetric] w0_def [symmetric])
    show ?thesis
      using poll_loop_ends [OF t b k polls clock stop inv] inv(1) unfolding body by (cases r) simp_all
  qed
qed

lemma dtor_frees:
  assumes b: "bridge_contract api chans" and k: "conn_keeps api chans" and i: "conn_inv chans hnd raw a bid st"
    and free: "\<forall>n w. sess (ssh_free api n w) = sess w - {n}"
    and hash: "\<And>b. bridge_exact chans hnd bid st \<Longrightarrow> st_bridges st bid = Some b \<Longrightarrow> set order = dom (br_channels b)"
  shows "st_sessions (server_session_dtor api order a st) a = None
     \<and> chans (st_world (server_session_dtor api order a st)) = {}
     \<and> raw \<notin> sess (st_world (server_session_dtor api order a st))"
proof -
  obtain s where s: "st_sessions st a = Some s" "ses_core s = Some raw" using i by (auto simp: conn_inv_def)
  define w1 where "w1 = event_release api \<lparr>ev_native = ses_event s\<rparr> (st_world st)"
  have w1: "chans w1 = chans (st_world st)"
    by (simp add: w1_def event_release_def conn_keeps_simps [OF k] split: option.splits)
  define w2 where "w2 = (case Option.bind (ses_bridge s) (st_bridges st) of
      Some b \<Rightarrow> snd (erase_channels api order (br_channels b) w1) | None \<Rightarrow> w1)"
  have "chans w2 = {}"
  proof (cases "ses_bridge s")
    case None
    then show ?thesis using i s w1 by (simp add: conn_inv_def w2_def)
  next
    case (Some bb)
    then have "bb = bid" and ex: "bridge_exact chans hnd bid st" using i s by (auto simp: conn_inv_def)
    obtain br where br: "st_bridges st bid = Some br" "channels_exact chans (br_channels br) w1"
      using ex w1 by (auto simp: bridge_exact_def channels_exact_def)
    obtain m w where e: "erase_channels api order (br_channels br) w1 = (m, w)" by fastforce
    have "br_channels br |` (- set order) = Map.empty"
      using hash [OF ex br(1)] by (auto simp: restrict_map_def domIff)
    then show ?thesis
      using erase_exact [OF b br(2) e] Some \<open>bb = bid\<close> br(1) e by (auto simp: w2_def channels_exact_def)
  qed
  moreover have "server_session_dtor api order a st = st\<lparr>st_sessions := (st_sessions st)(a := None),
      st_bridges := (case ses_bridge s of Some bid \<Rightarrow> (st_bridges st)(bid := None) | None \<Rightarrow> st_bridges st),
      st_world := ssh_free api raw (ssh_disconnect api raw w2)\<rparr>"
    using s by (simp add: server_session_dtor_def Let_def core_dtor_def w1_def [symmetric] w2_def [symmetric])
  ultimately show ?thesis using free by (simp add: conn_keeps_simps [OF k])
qed


text \<open>
  An example: libssh with at most the channel 8; every poll opens a session channel, and the server is
  told to stop after two of them.
\<close>

type_synonym demo_v = "handle list \<times> handle set"

definition ts_api :: "demo_v test_world bind_api \<Rightarrow> demo_v test_world bind_api" where
  "ts_api api = api\<lparr>
     ssh_channel_new := \<lambda>_ (hs, l, s). if 8 \<in> set l then (None, hs, l, s) else (Some 8, hs, 8 # l, s),
     ssh_channel_open_session := \<lambda>_ w. (SSH_OK, w), ssh_channel_free := \<lambda>n (hs, l, s). (hs, removeAll n l, s),
     ssh_channel_close := \<lambda>_ w. (SSH_OK, w), ssh_set_channel_callbacks := \<lambda>_ w. w,
     ssh_remove_channel_callbacks := \<lambda>_ w. w, ssh_channel_write := \<lambda>_ _ w. (0, w),
     ssh_channel_write_stderr := \<lambda>_ _ w. (0, w), ssh_channel_request_send_exit_status := \<lambda>_ _ w. (SSH_OK, w),
     ssh_channel_send_eof := \<lambda>_ w. (SSH_OK, w), ssh_set_auth_methods := \<lambda>_ _ w. w,
     ssh_set_server_callbacks := \<lambda>_ _ w. (SSH_OK, w), ssh_handle_key_exchange := \<lambda>_ w. (SSH_OK, w),
     ssh_event_new := \<lambda>w. (Some 3, w), ssh_event_add_session := \<lambda>_ _ w. (SSH_OK, w),
     ssh_event_free := \<lambda>_ w. w, ssh_disconnect := \<lambda>_ w. w, ssh_free := \<lambda>n (hs, l, s). (hs, l, s - {n})\<rparr>"

definition ts_poll ::
    "demo_v test_world bind_api \<Rightarrow> handle option \<Rightarrow> int \<Rightarrow> (nat, demo_v test_world) server
       \<Rightarrow> unit result \<times> (nat, demo_v test_world) server" where
  "ts_poll api e t st =
     (case st_bridges st 9 of
        None \<Rightarrow> (Inl (mk_error errc_unknown [] ''ssh_event_dopoll''), st)
      | Some b \<Rightarrow>
          let st1 = snd (channel_open_session_cb (ts_api api) 9 b 1 st)
          in (if length (fst (st_world st)) < length (fst (st_world st1)) then Inr ()
              else Inl (mk_error errc_unknown [] ''ssh_event_dopoll''), st1))"

definition ts_order :: "(nat, demo_v test_world) server \<Rightarrow> handle list" where
  "ts_order st = (case st_bridges st 9 of Some b \<Rightarrow> sorted_list_of_set (dom (br_channels b)) | None \<Rightarrow> [])"

definition ts_start :: "(nat, demo_v test_world) server" where
  "ts_start = \<lparr>st_sessions = [0 \<mapsto> new_server_session (Some 1)], st_bridges = Map.empty, st_world = ([], [], {1})\<rparr>"

lemma ts_contracts:
  "bridge_contract (ts_api api) ((set \<circ> fst) \<circ> snd)" "conn_keeps (ts_api api) ((set \<circ> fst) \<circ> snd)"
  "conn_keeps (ts_api api) (\<lambda>w. {length (fst w)})" "sends_keep (ts_api api) ((set \<circ> fst) \<circ> snd)"
  "runner_keeps default_test_options ((set \<circ> fst) \<circ> snd)"
  by (auto simp: bridge_contract_def channel_contract_def conn_keeps_def sends_keep_def runner_keeps_def
      default_test_options_def ts_api_def)

lemma ts_poll_steps: "(bridge_step (ts_api api) cht 9)\<^sup>*\<^sup>* st (snd (ts_poll api e t st))"
  by (auto simp: ts_poll_def Let_def intro: step_open split: option.splits)

lemma erase_handlers: "length (fst (snd (erase_channels (ts_api api) raws m w))) = length (fst w)"
proof (induction raws arbitrary: m w)
  case (Cons raw raws)
  then show ?case
    by (auto simp: channel_dtor_def channel_release_def ts_api_def split: option.splits prod.splits)
qed simp

lemma reap_handlers:
  "length (fst (st_world (reap_closed_channels (ts_api api) bid b st))) = length (fst (st_world st))"
  by (simp add: reap_closed_channels_def set_bridge_def case_prod_beta erase_handlers)

lemma ts_clock:
  assumes "server_try_poll (ts_api api) (ts_poll api) a t st = (Inr r, st')"
  shows "length (fst (st_world st)) < length (fst (st_world st'))"
proof -
  obtain s where s: "st_sessions st a = Some s" using assms by (auto simp: server_try_poll_def split: option.splits)
  obtain e w where e: "poll_event (ts_api api) s (st_world st) = (e, w)" by (metis surj_pair)
  have w: "length (fst w) = length (fst (st_world st))"
    using poll_event_keeps [OF ts_contracts(3), of api s "st_world st"] e by simp
  obtain x where x: "e = Inr x" using assms s e by (cases e) (auto simp: server_try_poll_def)
  obtain r2 st2 where d: "ts_poll api (ev_native x) t
      (st\<lparr>st_world := w, st_sessions := (st_sessions st)(a \<mapsto> s\<lparr>ses_event := ev_native x\<rparr>)\<rparr>) = (r2, st2)"
    by (metis surj_pair)
  have "r2 = Inr r" using assms s e x d by (simp add: server_try_poll_def)
  then have "length (fst w) < length (fst (st_world st2))"
    using d by (auto simp: ts_poll_def Let_def split: option.splits if_splits)
  moreover have "length (fst (st_world st')) = length (fst (st_world st2))"
    using assms s e x d
    by (auto simp: server_try_poll_def reap_handlers split: option.splits)
  ultimately show ?thesis using w by simp
qed


section \<open>Accepting\<close>

abbreviation threads_of :: "handle list \<Rightarrow> server_session list" where
  "threads_of ns \<equiv> map (\<lambda>n. new_server_session (Some n)) ns"

lemma accept_timeout_exact:
  assumes "accept_contract api sess" and "\<forall>fd t w. sess (snd (posix_poll_in api fd t w)) = sess w"
    and "try_accept_timeout api b t w = (r, w')"
  shows "(\<exists>n. r = Inr (Some (new_server_session (Some n))) \<and> n \<notin> sess w \<and> sess w' = insert n (sess w))
     \<or> ((\<forall>s. r \<noteq> Inr (Some s)) \<and> sess w' = sess w)"
proof (cases "bi_native b")
  case None
  then show ?thesis using assms(3) by (auto simp: try_accept_timeout_def)
next
  case (Some m)
  obtain rv w1 where p: "posix_poll_in api (bind_fd api b w) (to_int32 t) w = (rv, w1)" by fastforce
  have w1: "sess w1 = sess w" using assms(2) p by (metis snd_conv)
  obtain ra wa where a: "try_accept api b w1 = (ra, wa)" by fastforce
  show ?thesis
    using accept_no_leak [OF assms(1), where b = b and w = w1] assms(3) Some p w1 a
    by (auto simp: try_accept_timeout_def split: if_splits sum.splits)
qed

lemma accept_loop_from:
  assumes c: "accept_contract api sess" and p: "\<forall>fd t w. sess (snd (posix_poll_in api fd t w)) = sess w"
    and clock: "\<forall>w r w'. try_accept_timeout api b 200 w = (r, w') \<longrightarrow> clock w < clock w'"
    and stop: "\<forall>w. (deadline :: nat) \<le> clock w \<longrightarrow> stop w"
    and d: "distinct ns" "set ns \<subseteq> sess w"
  shows "\<exists>new w'. test_accept_loop api stop b (threads_of ns) w = Some (threads_of (ns @ new), w')
     \<and> distinct (ns @ new) \<and> set new \<inter> sess w = {} \<and> sess w' = sess w \<union> set new"
  using d
proof (induction "deadline - clock w" arbitrary: w ns rule: less_induct)
  case less
  show ?case
  proof (cases "stop w")
    case True
    then have "test_accept_loop api stop b (threads_of ns) w = Some (threads_of (ns @ []), w)"
      by (simp add: test_accept_loop.simps)
    then show ?thesis using less(2,3) by (intro exI [of _ "[]"] exI [of _ w]) simp
  next
    case False
    obtain r w1 where a: "try_accept_timeout api b 200 w = (r, w1)" by fastforce
    have "clock w < clock w1" "clock w < deadline" using clock a stop False by (blast, meson not_le)
    then have m: "deadline - clock w1 < deadline - clock w" by simp
    consider (got) n where "r = Inr (Some (new_server_session (Some n)))" "n \<notin> sess w" "sess w1 = insert n (sess w)"
      | (none) "\<forall>s. r \<noteq> Inr (Some s)" "sess w1 = sess w"
      using accept_timeout_exact [OF c p a] by blast
    then show ?thesis
    proof cases
      case got
      have d1: "distinct (ns @ [n])" "set (ns @ [n]) \<subseteq> sess w1" using less(2,3) got by auto
      have run: "test_accept_loop api stop b (threads_of ns) w = test_accept_loop api stop b (threads_of (ns @ [n])) w1"
        using False a got by (simp add: test_accept_loop.simps [of api stop b "threads_of ns" w] server_session_move_def)
      obtain new w2 where "test_accept_loop api stop b (threads_of (ns @ [n])) w1 = Some (threads_of ((ns @ [n]) @ new), w2)"
          "distinct ((ns @ [n]) @ new)" "set new \<inter> sess w1 = {}" "sess w2 = sess w1 \<union> set new"
        using less(1) [OF m d1] by blast
      then show ?thesis using run got by (intro exI [of _ "n # new"] exI [of _ w2]) auto
    next
      case none
      have run: "test_accept_loop api stop b (threads_of ns) w = test_accept_loop api stop b (threads_of ns) w1"
        using False a none(1)
        by (auto simp: test_accept_loop.simps [of api stop b "threads_of ns" w] split: sum.splits option.splits)
      have d1: "set ns \<subseteq> sess w1" using less(3) none(2) by simp
      show ?thesis using less(1) [OF m less(2) d1] none(2) unfolding run by simp
    qed
  qed
qed

text \<open>
  The accept loop returns once the server is told to stop, and every native session that exists then
  and did not before was handed, unauthenticated, to exactly one connection thread: failed and timed
  out attempts leave none behind.
\<close>
theorem accept_loop_no_leak:
  assumes "accept_contract api sess" and "\<forall>fd t w. sess (snd (posix_poll_in api fd t w)) = sess w"
    and "\<forall>w r w'. try_accept_timeout api b 200 w = (r, w') \<longrightarrow> clock w < clock w'"
    and "\<forall>w. (deadline :: nat) \<le> clock w \<longrightarrow> stop w"
  shows "\<exists>ns w'. test_accept_loop api stop b [] w = Some (threads_of ns, w')
     \<and> distinct ns \<and> set ns \<inter> sess w = {} \<and> sess w' = sess w \<union> set ns"
  using accept_loop_from [OF assms, of "[]" w] by simp

definition acc_api :: "(nat \<times> handle set) bind_api \<Rightarrow> (nat \<times> handle set) bind_api" where
  "acc_api api = api\<lparr>ssh_new := \<lambda>(t, s). if t \<in> s then (None, t, s) else (Some t, t, insert t s),
     ssh_bind_accept := \<lambda>_ n w. (if even n then SSH_OK else SSH_ERROR, w), ssh_free := \<lambda>n (t, s). (t, s - {n}),
     ssh_bind_get_fd := \<lambda>_ _. 5, posix_poll_in := \<lambda>_ _ (t, s). (1, t + 1, s)\<rparr>"

theorem accept_loop_no_leak_witness:
  "\<forall>api. \<exists>ns w'. test_accept_loop (acc_api api) (\<lambda>w. 4 \<le> fst w) \<lparr>bi_native = Some 2, bi_port = 22\<rparr> [] (0, {})
       = Some (threads_of ns, w') \<and> distinct ns \<and> snd w' = set ns"
proof
  fix api
  let ?b = "\<lparr>bi_native = Some 2, bi_port = 22\<rparr>"
  have c: "accept_contract (acc_api api) snd" by (auto simp: accept_contract_def acc_api_def)
  have p: "\<forall>fd t w. snd (snd (posix_poll_in (acc_api api) fd t w)) = snd w" by (auto simp: acc_api_def)
  have t: "fst w < fst w'" if "try_accept_timeout (acc_api api) ?b 200 w = (r, w')" for w r w'
    using that by (cases w) (auto simp: try_accept_timeout_def try_accept_def bind_fd_def acc_api_def split: if_splits)
  show "\<exists>ns w'. test_accept_loop (acc_api api) (\<lambda>w. 4 \<le> fst w) ?b [] (0, {})
       = Some (threads_of ns, w') \<and> distinct ns \<and> snd w' = set ns"
    using accept_loop_no_leak [OF c p, of ?b fst 4 "\<lambda>w. 4 \<le> fst w" "(0, {})"] t by auto
qed

end
