(* ===== verification/Secure_Types.thy ===== *)
theory Secure_Types
  imports Prelude
begin

text \<open>
  \<open>types.hpp\<close>: views of bytes (\<open>BasicByteSpan\<close>, \<open>ByteView\<close>, \<open>MutableByteView\<close>) and strings for secrets
  (\<open>ZeroingAllocator\<close>, \<open>SecureString\<close>), over an explicit memory: addresses are numbers, \<open>mm_bytes\<close> is
  the content, \<open>mm_blocks\<close> the allocated blocks with their sizes.

  A \<open>std::basic_string\<close> keeps up to \<open>sso\<close> characters in a buffer inside the string object and longer ones
  in a block of its allocator; \<open>sso\<close> and the addresses \<open>operator new\<close> yields are parameters.

  The theorems: a sub-view shows exactly its part of the bytes as long as it stays inside, and a
  destroyed secret is gone from memory if it was too long for the buffer inside the object, and only then.
\<close>

section \<open>Byte views\<close>

record span =
  sp_data :: nat
  sp_size :: u64

definition span_empty :: "span \<Rightarrow> bool" where
  "span_empty v \<longleftrightarrow> sp_size v = 0"

definition npos :: u64 where
  "npos = - 1"

text \<open>The size is computed modulo \<open>2 ^ 64\<close>; nothing is checked.\<close>

definition subspan :: "span \<Rightarrow> u64 \<Rightarrow> u64 \<Rightarrow> span" where
  "subspan v offset count =
     \<lparr>sp_data = sp_data v + unat offset, sp_size = (if count = npos then sp_size v - offset else count)\<rparr>"

definition span_bytes :: "(nat \<Rightarrow> byte) \<Rightarrow> span \<Rightarrow> bytes" where
  "span_bytes m v = map (\<lambda>i. m (sp_data v + i)) [0..<unat (sp_size v)]"

definition view_of :: "nat \<Rightarrow> bytes \<Rightarrow> span" where
  "view_of p bs = \<lparr>sp_data = p, sp_size = of_nat (length bs)\<rparr>"

lemma length_span_bytes [simp]: "length (span_bytes m v) = unat (sp_size v)"
  by (simp add: span_bytes_def)

lemma nth_span_bytes [simp]: "i < unat (sp_size v) \<Longrightarrow> span_bytes m v ! i = m (sp_data v + i)"
  by (simp add: span_bytes_def)

text \<open>
  A sub-view that stays inside the view shows exactly the bytes from the offset on, all that are left
  when no count is given and the first \<open>count\<close> of them otherwise.
\<close>
theorem subspan_exact:
  assumes "offset \<le> sp_size v" and "count = npos \<or> count \<le> sp_size v - offset"
  shows "span_bytes m (subspan v offset count)
     = (if count = npos then drop (unat offset) (span_bytes m v)
        else take (unat count) (drop (unat offset) (span_bytes m v)))"
proof -
  have len: "unat (sp_size v - offset) = unat (sp_size v) - unat offset" using assms(1) by (rule unat_sub)
  show ?thesis
  proof (cases "count = npos")
    case True
    then show ?thesis
      using len by (auto simp: subspan_def intro!: nth_equalityI) (simp add: add.assoc)
  next
    case False
    then have "unat count \<le> unat (sp_size v) - unat offset" using assms(2) len by (simp add: word_le_nat_alt)
    then show ?thesis
      using False by (auto simp: subspan_def intro!: nth_equalityI) (simp add: add.assoc)
  qed
qed

theorem subspan_exact_witness:
  "span_bytes (\<lambda>a. word_of_nat a) (subspan \<lparr>sp_data = 100, sp_size = 6\<rparr> 4 npos) = [104, 105]"
  using subspan_exact [of 4 "\<lparr>sp_data = 100, sp_size = 6\<rparr>" npos "\<lambda>a. word_of_nat a"]
  by (simp add: span_bytes_def upt_rec)

text \<open>Past the end the size wraps around: the sub-view claims almost the whole address space.\<close>

lemma subspan_past_end:
  assumes "sp_size v < offset"
  shows "unat (sp_size (subspan v offset npos)) = 2 ^ 64 - (unat offset - unat (sp_size v))"
proof -
  have "unat (sp_size v) < unat offset" using assms by (simp add: word_less_nat_alt)
  moreover have "unat offset < 2 ^ 64" using unsigned_less [of offset] by simp
  ultimately show ?thesis
    using assms by (simp add: subspan_def unat_sub_if_size word_size word_less_nat_alt)
qed

section \<open>Memory\<close>

record memory =
  mm_bytes :: "nat \<Rightarrow> byte"
  mm_blocks :: "nat \<rightharpoonup> nat"

fun store_bytes :: "nat \<Rightarrow> bytes \<Rightarrow> (nat \<Rightarrow> byte) \<Rightarrow> nat \<Rightarrow> byte" where
  "store_bytes p [] m = m"
| "store_bytes p (x # xs) m = store_bytes (p + 1) xs (m(p := x))"

text \<open>The scrubbing loops: \<open>for (i = 0; i < n; ++i) vp[i] = 0\<close>.\<close>

primrec scrub :: "nat \<Rightarrow> nat \<Rightarrow> (nat \<Rightarrow> byte) \<Rightarrow> nat \<Rightarrow> byte" where
  "scrub p 0 m = m"
| "scrub p (Suc n) m = (scrub p n m)(p + n := 0)"

text \<open>\<open>ZeroingAllocator\<close> for characters. \<open>new_at\<close> is \<open>operator new\<close>.\<close>

definition allocate :: "(nat \<Rightarrow> memory \<Rightarrow> nat) \<Rightarrow> nat \<Rightarrow> memory \<Rightarrow> nat \<times> memory" where
  "allocate new_at n mem =
     (let p = new_at n mem in (p, mem\<lparr>mm_blocks := (mm_blocks mem)(p \<mapsto> n)\<rparr>))"

definition deallocate :: "nat \<Rightarrow> nat \<Rightarrow> memory \<Rightarrow> memory" where
  "deallocate p n mem =
     (let mem1 = (if p \<noteq> 0 \<and> n \<noteq> 0 then mem\<lparr>mm_bytes := scrub p n (mm_bytes mem)\<rparr> else mem)
      in mem1\<lparr>mm_blocks := (mm_blocks mem1)(p := None)\<rparr>)"

section \<open>SecureString\<close>

text \<open>\<open>ss_cap = None\<close>: the characters are in the buffer inside the object.\<close>

record secure_string =
  ss_data :: nat
  ss_len :: nat
  ss_cap :: "nat option"

text \<open>
  The string's constructor from a range of characters for an object whose inner buffer is at
  \<open>local_buf\<close>; a terminating zero follows the characters.
\<close>

definition secure_ctor ::
    "nat \<Rightarrow> (nat \<Rightarrow> memory \<Rightarrow> nat) \<Rightarrow> nat \<Rightarrow> bytes \<Rightarrow> memory \<Rightarrow> secure_string \<times> memory" where
  "secure_ctor sso new_at local_buf bs mem =
     (if length bs \<le> sso
      then (\<lparr>ss_data = local_buf, ss_len = length bs, ss_cap = None\<rparr>,
            mem\<lparr>mm_bytes := store_bytes local_buf (bs @ [0]) (mm_bytes mem)\<rparr>)
      else (case allocate new_at (length bs + 1) mem of
              (p, mem1) \<Rightarrow>
                (\<lparr>ss_data = p, ss_len = length bs, ss_cap = Some (length bs)\<rparr>,
                 mem1\<lparr>mm_bytes := store_bytes p (bs @ [0]) (mm_bytes mem1)\<rparr>)))"

definition secure_dtor :: "secure_string \<Rightarrow> memory \<Rightarrow> memory" where
  "secure_dtor s mem = (case ss_cap s of Some c \<Rightarrow> deallocate (ss_data s) (c + 1) mem | None \<Rightarrow> mem)"

text \<open>The constructor from a \<open>std::string\<close> parameter whose characters are at \<open>q\<close>: copied, then scrubbed.\<close>

definition secure_from_string ::
    "nat \<Rightarrow> (nat \<Rightarrow> memory \<Rightarrow> nat) \<Rightarrow> nat \<Rightarrow> nat \<Rightarrow> nat \<Rightarrow> memory \<Rightarrow> secure_string \<times> memory" where
  "secure_from_string sso new_at local_buf q n mem =
     (case secure_ctor sso new_at local_buf (map (\<lambda>i. mm_bytes mem (q + i)) [0..<n]) mem of
        (s, mem1) \<Rightarrow> (s, mem1\<lparr>mm_bytes := scrub q n (mm_bytes mem1)\<rparr>))"

definition secure_view :: "secure_string \<Rightarrow> memory \<Rightarrow> bytes" where
  "secure_view s mem = map (\<lambda>i. mm_bytes mem (ss_data s + i)) [0..<ss_len s]"

lemma scrub_at: "scrub p n m a = (if p \<le> a \<and> a < p + n then 0 else m a)"
  by (induction n) auto

lemma store_at: "store_bytes p xs m a = (if p \<le> a \<and> a < p + length xs then xs ! (a - p) else m a)"
proof (induction xs arbitrary: p m)
  case (Cons x xs)
  then show ?case by (auto simp: nth_Cons')
qed auto

lemma secure_ctor_view:
  assumes "secure_ctor sso new_at local_buf bs mem = (s, mem1)"
  shows "secure_view s mem1 = bs" and "ss_len s = length bs" and "ss_cap s = (if length bs \<le> sso then None else Some (length bs))"
  using assms
  by (auto simp: secure_ctor_def secure_view_def allocate_def Let_def store_at nth_append
      split: if_splits intro!: nth_equalityI)

text \<open>
  C24: A string for secrets holds what it was made from, and when it is destroyed its characters are
  overwritten with zeros exactly if they were too many for the buffer inside the string object (or
  were zeros anyway): a short secret stays readable in memory.
\<close>
theorem secret_scrubbed_iff:
  assumes "secure_ctor sso new_at local_buf bs mem = (s, mem1)" and "ss_data s \<noteq> 0"
  shows "secure_view s mem1 = bs
     \<and> (secure_view s (secure_dtor s mem1) = replicate (length bs) 0
        \<longleftrightarrow> sso < length bs \<or> bs = replicate (length bs) 0)"
proof -
  note v = secure_ctor_view [OF assms(1)]
  have gone: "secure_view s (secure_dtor s mem1) = replicate (length bs) 0" if "sso < length bs"
    using that v(2,3) assms(2)
    by (auto simp: secure_view_def secure_dtor_def deallocate_def Let_def scrub_at intro!: nth_equalityI)
  have stays: "secure_view s (secure_dtor s mem1) = bs" if "length bs \<le> sso"
    using that v by (simp add: secure_dtor_def secure_view_def)
  show ?thesis using gone stays v(1) by (cases "length bs \<le> sso") auto
qed

definition demo_mem :: memory where
  "demo_mem = \<lparr>mm_bytes = \<lambda>_. 255, mm_blocks = Map.empty\<rparr>"

definition demo_secret :: "secure_string \<times> memory" where
  "demo_secret = secure_ctor 15 (\<lambda>_ _. 1000) 40 [112, 119] demo_mem"

theorem secret_scrubbed_iff_witness:
  "secure_view (fst demo_secret) (snd demo_secret) = [112, 119]
   \<and> secure_view (fst demo_secret) (secure_dtor (fst demo_secret) (snd demo_secret)) \<noteq> [0, 0]"
proof -
  have "ss_data (fst demo_secret) \<noteq> 0" by (simp add: demo_secret_def secure_ctor_def)
  from secret_scrubbed_iff [OF demo_secret_def [symmetric, THEN trans, OF surjective_pairing] this]
  show ?thesis by simp
qed

text \<open>The parameter a secret was copied from is overwritten, whatever its length.\<close>

lemma source_scrubbed:
  assumes "secure_from_string sso new_at local_buf q n mem = (s, mem1)" and "i < n"
  shows "mm_bytes mem1 (q + i) = 0"
  using assms by (auto simp: secure_from_string_def scrub_at split: prod.splits)

end
