(* ===== verification/Console.thy ===== *)
theory Console
  imports Auth
begin

text \<open>
  The console prompts of \<open>detail/auth.ipp\<close>: reading a secret from the terminal with the echo off, the
  password and passphrase prompts, and the keyboard-interactive handler that asks every question of a
  challenge on the console.

  Standard input, the error stream and the terminal attributes are the fields of the record \<open>console\<close>; of
  the attributes only the local flags matter. The theorem: every question is answered by the next typed
  line, a line is echoed exactly if its question allows it, and the terminal is left as it was found.
\<close>

section \<open>Model\<close>

record termios =
  c_lflag :: u32

record 'w console =
  con_ECHO :: u32
  con_tcgetattr :: "'w \<Rightarrow> termios option"
  con_tcsetattr :: "termios \<Rightarrow> 'w \<Rightarrow> 'w"
  con_getline :: "'w \<Rightarrow> string \<times> 'w"
  con_print :: "string \<Rightarrow> 'w \<Rightarrow> 'w"

definition echo_off :: "'w console \<Rightarrow> termios \<Rightarrow> termios" where
  "echo_off con t = t\<lparr>c_lflag := and (c_lflag t) (not (con_ECHO con))\<rparr>"

definition read_line_no_echo :: "'w console \<Rightarrow> 'w \<Rightarrow> string \<times> 'w" where
  "read_line_no_echo con w =
     (case con_tcgetattr con w of
        Some saved \<Rightarrow>
          (case con_getline con (con_tcsetattr con (echo_off con saved) w) of
             (line, w') \<Rightarrow> (line, con_print con [CHR 0x0A] (con_tcsetattr con saved w')))
      | None \<Rightarrow> con_getline con w)"

definition console_password_prompt :: "'w console \<Rightarrow> string \<Rightarrow> 'w \<Rightarrow> string result \<times> 'w" where
  "console_password_prompt con prompt w =
     (case read_line_no_echo con (if prompt = [] then w else con_print con prompt w) of
        (line, w') \<Rightarrow> (Inr line, w'))"

definition console_passphrase_prompt :: "'w console \<Rightarrow> 'w passphrase_callback" where
  "console_passphrase_prompt con req w =
     console_password_prompt con (''Passphrase for '' @ pr_key_path req @ '': '') w"

fun console_ask :: "'w console \<Rightarrow> prompt list \<Rightarrow> string list \<Rightarrow> 'w \<Rightarrow> string list result \<times> 'w" where
  "console_ask con [] answers w = (Inr answers, w)"
| "console_ask con (p # ps) answers w =
     (let w1 = con_print con (c_str (p_text p)) w
      in if p_echo p
         then (case con_getline con w1 of (line, w2) \<Rightarrow> console_ask con ps (answers @ [line]) w2)
         else (case console_password_prompt con [] w1 of
                 (Inl e, w2) \<Rightarrow> (Inl e, w2)
               | (Inr pw, w2) \<Rightarrow> console_ask con ps (answers @ [pw]) w2))"

definition console_handler :: "'w console \<Rightarrow> 'w kbd_handler" where
  "console_handler con ch w =
     console_ask con (c_prompts ch) []
       (if c_instruction ch = [] then w else con_print con (c_str (c_instruction ch)) w)"

section \<open>What is shown of the answers\<close>

text \<open>
  A terminal: \<open>typed\<close> are the lines still to be read, \<open>mode\<close> the attributes, \<open>echoed\<close> the lines that
  appeared on the screen while they were typed.
\<close>

definition console_contract ::
    "'w console \<Rightarrow> ('w \<Rightarrow> string list) \<Rightarrow> ('w \<Rightarrow> termios) \<Rightarrow> ('w \<Rightarrow> string list) \<Rightarrow> bool" where
  "console_contract con typed mode echoed \<longleftrightarrow>
     (\<forall>w. con_tcgetattr con w = Some (mode w))
     \<and> (\<forall>t w. mode (con_tcsetattr con t w) = t \<and> typed (con_tcsetattr con t w) = typed w
          \<and> echoed (con_tcsetattr con t w) = echoed w)
     \<and> (\<forall>s w. mode (con_print con s w) = mode w \<and> typed (con_print con s w) = typed w
          \<and> echoed (con_print con s w) = echoed w)
     \<and> (\<forall>w l ls. typed w = l # ls \<longrightarrow>
          (case con_getline con w of (line, w') \<Rightarrow>
             line = l \<and> typed w' = ls \<and> mode w' = mode w
             \<and> echoed w' = echoed w @ (if and (c_lflag (mode w)) (con_ECHO con) \<noteq> 0 then [l] else [])))"

lemma echo_off_hides: "and (c_lflag (echo_off con t)) (con_ECHO con) = 0"
  by (simp add: echo_off_def and.assoc)

lemma contract_set_print:
  assumes "console_contract con typed mode echoed"
  shows "con_tcgetattr con w = Some (mode w)" "mode (con_tcsetattr con t w) = t"
    "typed (con_tcsetattr con t w) = typed w" "echoed (con_tcsetattr con t w) = echoed w"
    "mode (con_print con s w) = mode w" "typed (con_print con s w) = typed w" "echoed (con_print con s w) = echoed w"
  using assms by (simp_all add: console_contract_def)

lemma contract_getline:
  assumes "console_contract con typed mode echoed" and "typed w = l # ls"
  obtains w' where "con_getline con w = (l, w')" "typed w' = ls" "mode w' = mode w"
    "echoed w' = echoed w @ (if and (c_lflag (mode w)) (con_ECHO con) \<noteq> 0 then [l] else [])"
proof -
  obtain line w' where g: "con_getline con w = (line, w')" by fastforce
  have "case con_getline con w of (line, w') \<Rightarrow> line = l \<and> typed w' = ls \<and> mode w' = mode w
      \<and> echoed w' = echoed w @ (if and (c_lflag (mode w)) (con_ECHO con) \<noteq> 0 then [l] else [])"
    using assms by (simp add: console_contract_def)
  then show ?thesis using that g by auto
qed

lemma prompt_hides:
  assumes c: "console_contract con typed mode echoed" and t: "typed w = l # ls"
  obtains w' where "console_password_prompt con prompt w = (Inr l, w')" "typed w' = ls" "mode w' = mode w"
    "echoed w' = echoed w"
proof -
  note s = contract_set_print [OF c]
  define w0 where "w0 = (if prompt = [] then w else con_print con prompt w)"
  have w0: "typed w0 = l # ls" "mode w0 = mode w" "echoed w0 = echoed w" using t by (simp_all add: w0_def s)
  have "typed (con_tcsetattr con (echo_off con (mode w0)) w0) = l # ls" using w0 by (simp add: s)
  from contract_getline [OF c this]
  obtain w1 where w1: "con_getline con (con_tcsetattr con (echo_off con (mode w0)) w0) = (l, w1)" "typed w1 = ls"
      "echoed w1 = echoed w"
    using w0 by (auto simp: s echo_off_hides)
  show ?thesis
    by (rule that [of "con_print con [CHR 0x0A] (con_tcsetattr con (mode w0) w1)"])
      (use w0 w1 in \<open>simp_all add: console_password_prompt_def read_line_no_echo_def s w0_def [symmetric]\<close>)
qed

abbreviation shown_answers :: "prompt list \<Rightarrow> string list \<Rightarrow> string list" where
  "shown_answers ps ls \<equiv> map snd (filter (p_echo \<circ> fst) (zip ps ls))"

lemma console_ask_run:
  assumes c: "console_contract con typed mode echoed"
  shows "and (c_lflag (mode w)) (con_ECHO con) \<noteq> 0 \<Longrightarrow> length ps \<le> length (typed w) \<Longrightarrow>
    \<exists>w'. console_ask con ps answers w = (Inr (answers @ take (length ps) (typed w)), w')
      \<and> typed w' = drop (length ps) (typed w) \<and> mode w' = mode w
      \<and> echoed w' = echoed w @ shown_answers ps (typed w)"
proof (induction ps arbitrary: answers w)
  case (Cons p ps)
  note s = contract_set_print [OF c]
  obtain l ls where t: "typed w = l # ls" using Cons.prems(2) by (cases "typed w") auto
  define w1 where "w1 = con_print con (c_str (p_text p)) w"
  have w1: "typed w1 = l # ls" "mode w1 = mode w" "echoed w1 = echoed w" using t by (simp_all add: w1_def s)
  obtain w2 where w2: "console_ask con (p # ps) answers w = console_ask con ps (answers @ [l]) w2"
      "typed w2 = ls" "mode w2 = mode w" "echoed w2 = echoed w @ (if p_echo p then [l] else [])"
  proof (cases "p_echo p")
    case True
    from contract_getline [OF c w1(1)] obtain w2 where "con_getline con w1 = (l, w2)" "typed w2 = ls"
        "mode w2 = mode w1" "echoed w2 = echoed w1 @ (if and (c_lflag (mode w1)) (con_ECHO con) \<noteq> 0 then [l] else [])" .
    then show ?thesis using that [of w2] True Cons.prems(1) w1 by (simp add: w1_def [symmetric])
  next
    case False
    from prompt_hides [OF c w1(1), of "[]"] obtain w2 where "console_password_prompt con [] w1 = (Inr l, w2)"
        "typed w2 = ls" "mode w2 = mode w1" "echoed w2 = echoed w1" .
    then show ?thesis using that [of w2] False w1 by (simp add: w1_def [symmetric])
  qed
  from Cons.IH [of w2 "answers @ [l]"] w2 t Cons.prems show ?case by auto
qed simp

text \<open>
  C25: The console handler of keyboard-interactive authentication answers every question with the next
  typed line; a line appears on the screen exactly if the server allows its question to be echoed, so
  that hidden answers never do, and the terminal is left in the mode it was found in.
\<close>
theorem console_hides_secrets:
  assumes "console_contract con typed mode echoed" and "and (c_lflag (mode w)) (con_ECHO con) \<noteq> 0"
    and "length (c_prompts ch) \<le> length (typed w)"
  shows "\<exists>w'. console_handler con ch w = (Inr (take (length (c_prompts ch)) (typed w)), w')
     \<and> typed w' = drop (length (c_prompts ch)) (typed w) \<and> mode w' = mode w
     \<and> echoed w' = echoed w @ shown_answers (c_prompts ch) (typed w)"
proof -
  define w0 where "w0 = (if c_instruction ch = [] then w else con_print con (c_str (c_instruction ch)) w)"
  have "typed w0 = typed w" "mode w0 = mode w" "echoed w0 = echoed w"
    by (simp_all add: w0_def contract_set_print [OF assms(1)])
  then show ?thesis
    using console_ask_run [OF assms(1), of w0 "c_prompts ch" "[]"] assms(2,3)
    by (simp add: console_handler_def w0_def [symmetric])
qed

text \<open>An example: the lines to come, the attributes and the screen.\<close>

type_synonym demo_tty = "string list \<times> termios \<times> string list"

definition demo_console :: "demo_tty console" where
  "demo_console =
     \<lparr>con_ECHO = 8, con_tcgetattr = \<lambda>(ls, m, e). Some m, con_tcsetattr = \<lambda>t (ls, m, e). (ls, t, e),
      con_getline = \<lambda>(ls, m, e). (case ls of [] \<Rightarrow> ([], ls, m, e)
         | l # r \<Rightarrow> (l, r, m, e @ (if and (c_lflag m) 8 \<noteq> 0 then [l] else []))),
      con_print = \<lambda>_ w. w\<rparr>"

theorem console_hides_secrets_witness:
  "\<exists>w'. console_handler demo_console
      \<lparr>c_name = [], c_instruction = ''Hello'', c_prompts = [\<lparr>p_text = ''Name: '', p_echo = True\<rparr>,
         \<lparr>p_text = ''Code: '', p_echo = False\<rparr>]\<rparr> ([''bob'', ''1234''], \<lparr>c_lflag = 8\<rparr>, [])
      = (Inr [''bob'', ''1234''], w') \<and> snd (snd w') = [''bob'']"
proof -
  have c: "console_contract demo_console fst (fst \<circ> snd) (snd \<circ> snd)"
    by (auto simp: console_contract_def demo_console_def)
  from console_hides_secrets [OF c, of "([''bob'', ''1234''], \<lparr>c_lflag = 8\<rparr>, [])"
      "\<lparr>c_name = [], c_instruction = ''Hello'', c_prompts = [\<lparr>p_text = ''Name: '', p_echo = True\<rparr>,
         \<lparr>p_text = ''Code: '', p_echo = False\<rparr>]\<rparr>"]
  show ?thesis by (auto simp: demo_console_def)
qed

end
