(* ===== verification/Session_Open.thy ===== *)
theory Session_Open
  imports Sftp_Client Scp
begin

text \<open>
  \<open>Session::try_open_sftp\<close>, \<open>try_open_scp_read\<close> and \<open>try_open_scp_write\<close> of \<open>detail/session.ipp\<close>: make
  the wrapper object of a subsystem on the session, initialise it, and return it or destroy it again.

  The three share a contract, the locale \<open>session_object\<close>; the theorem for each: success gives an object that
  owns the one new native handle, and a failure leaves no native handle behind.
\<close>

section \<open>Operations\<close>

text \<open>The shape: a local object, its initialisation, and the move into the result.\<close>

definition open_object ::
    "('w \<Rightarrow> 'x \<times> 'w) \<Rightarrow> ('x \<Rightarrow> 'w \<Rightarrow> unit result \<times> 'w) \<Rightarrow> ('x \<Rightarrow> 'w \<Rightarrow> 'w) \<Rightarrow> ('x \<Rightarrow> 'x \<times> 'x) \<Rightarrow> 'w
       \<Rightarrow> 'x result \<times> 'w" where
  "open_object ctor init release move w =
     (case ctor w of
        (x, w1) \<Rightarrow>
          (case init x w1 of
             (Inl e, w2) \<Rightarrow> (Inl e, release x w2)
           | (Inr _, w2) \<Rightarrow> (case move x of (x', old) \<Rightarrow> (Inr x', release old w2))))"

definition try_open_sftp :: "('w, 'z) sftp_api_scheme \<Rightarrow> session \<Rightarrow> 'w \<Rightarrow> sftp result \<times> 'w" where
  "try_open_sftp api se w =
     (if se_core se = None then (Inl (invalid_handle_error ''Session::try_open_sftp''), w)
      else open_object (sftp_ctor api se) (sftp_try_init api) (sftp_release api) sftp_move_ctor w)"

definition try_open_scp_read ::
    "('w, 'z) scp_api_scheme \<Rightarrow> session \<Rightarrow> remote_path \<Rightarrow> bool \<Rightarrow> 'w \<Rightarrow> scp_object result \<times> 'w" where
  "try_open_scp_read api se location recursive w =
     (if se_core se = None then (Inl (invalid_handle_error ''Session::try_open_scp_read''), w)
      else open_object (scp_reader api se location recursive) (reader_init api) (scp_release api) scp_move_ctor w)"

definition try_open_scp_write ::
    "('w, 'z) scp_api_scheme \<Rightarrow> session \<Rightarrow> remote_path \<Rightarrow> bool \<Rightarrow> 'w \<Rightarrow> scp_object result \<times> 'w" where
  "try_open_scp_write api se destination recursive w =
     (if se_core se = None then (Inl (invalid_handle_error ''Session::try_open_scp_write''), w)
      else open_object (scp_writer api se destination recursive) (writer_init api) (scp_release api) scp_move_ctor w)"

section \<open>The contract\<close>

locale session_object =
  fixes ctor :: "'w \<Rightarrow> 'x \<times> 'w" and init :: "'x \<Rightarrow> 'w \<Rightarrow> unit result \<times> 'w" and release :: "'x \<Rightarrow> 'w \<Rightarrow> 'w"
    and move :: "'x \<Rightarrow> 'x \<times> 'x" and native :: "'x \<Rightarrow> handle option" and hs :: "'w \<Rightarrow> handle set"
  assumes ctor_new: "ctor w = (x, w') \<Longrightarrow>
      (case native x of Some n \<Rightarrow> n \<notin> hs w \<and> hs w' = insert n (hs w) | None \<Rightarrow> hs w' = hs w)"
    and init_keeps: "hs (snd (init x w)) = hs w"
    and init_null: "native x = None \<Longrightarrow> fst (init x w) \<noteq> Inr ()"
    and release_frees: "hs (release x w) = hs w - set_option (native x)"
    and move_takes: "move x = (x', old) \<Longrightarrow> native x' = native x \<and> native old = None"
begin

lemma open_exact:
  "case open_object ctor init release move w of
     (Inr x, w') \<Rightarrow> \<exists>n. native x = Some n \<and> n \<notin> hs w \<and> hs w' = insert n (hs w)
   | (Inl _, w') \<Rightarrow> hs w' = hs w"
proof -
  obtain x w1 where c: "ctor w = (x, w1)" by fastforce
  obtain r w2 where i: "init x w1 = (r, w2)" by fastforce
  obtain x' old where m: "move x = (x', old)" by fastforce
  have w2: "hs w2 = hs w1" using init_keeps [of x w1] i by simp
  show ?thesis
  proof (cases r)
    case (Inl e)
    then show ?thesis
      using c i w2 ctor_new [OF c] release_frees [of x w2] by (auto simp: open_object_def split: option.splits)
  next
    case (Inr u)
    then obtain n where "native x = Some n" using init_null [of x w1] i by (cases "native x") auto
    then show ?thesis
      using Inr c i w2 m move_takes [OF m] ctor_new [OF c] release_frees [of old w2] by (simp add: open_object_def)
  qed
qed

end

section \<open>SFTP and SCP\<close>

definition sftp_open_contract :: "('w, 'z) sftp_api_scheme \<Rightarrow> ('w \<Rightarrow> handle set) \<Rightarrow> bool" where
  "sftp_open_contract api hs \<longleftrightarrow>
     (\<forall>c w. case sftp_new api c w of
        (Some n, w') \<Rightarrow> n \<notin> hs w \<and> hs w' = insert n (hs w) | (None, w') \<Rightarrow> hs w' = hs w)
     \<and> (\<forall>n w. hs (snd (sftp_init api n w)) = hs w) \<and> (\<forall>n w. hs (sftp_free api n w) = hs w - {n})"

lemma sftp_object:
  assumes "sftp_open_contract api hs"
  shows "session_object (sftp_ctor api se) (sftp_try_init api) (sftp_release api) sftp_move_ctor sf_native hs"
proof
  fix w x w' assume "sftp_ctor api se w = (x, w')"
  then have "sftp_new api (se_core se) w = (sf_native x, w')" by (auto simp: sftp_ctor_def split: prod.splits)
  moreover have "case sftp_new api (se_core se) w of
      (Some n, w') \<Rightarrow> n \<notin> hs w \<and> hs w' = insert n (hs w) | (None, w') \<Rightarrow> hs w' = hs w"
    using assms by (simp add: sftp_open_contract_def)
  ultimately show "case sf_native x of Some n \<Rightarrow> n \<notin> hs w \<and> hs w' = insert n (hs w) | None \<Rightarrow> hs w' = hs w"
    by (auto split: option.splits)
next
  fix x w show "hs (snd (sftp_try_init api x w)) = hs w"
    using assms by (auto simp: sftp_try_init_def sftp_open_contract_def split: option.splits prod.splits) (metis snd_conv)+
qed (use assms in \<open>auto simp: sftp_try_init_def sftp_release_def sftp_move_ctor_def sftp_open_contract_def split: option.splits\<close>)

definition scp_open_contract :: "('w, 'z) scp_api_scheme \<Rightarrow> ('w \<Rightarrow> handle set) \<Rightarrow> bool" where
  "scp_open_contract api hs \<longleftrightarrow>
     (\<forall>c m p w. case ssh_scp_new api c m p w of
        (Some n, w') \<Rightarrow> n \<notin> hs w \<and> hs w' = insert n (hs w) | (None, w') \<Rightarrow> hs w' = hs w)
     \<and> (\<forall>n w. hs (snd (ssh_scp_init api n w)) = hs w) \<and> (\<forall>n w. hs (ssh_scp_close api n w) = hs w)
     \<and> (\<forall>n w. hs (ssh_scp_free api n w) = hs w - {n})"

lemma scp_object_opens:
  assumes c: "scp_open_contract api hs"
    and new: "\<And>w. ctor w = (case ssh_scp_new api (se_core se) m p w of (n, w') \<Rightarrow> (\<lparr>sc_native = n, sc_core = se_core se\<rparr>, w'))"
    and init: "\<And>x. init x = scp_call api x e op (ssh_scp_init api)"
  shows "session_object ctor init (scp_release api) scp_move_ctor sc_native hs"
proof
  fix w x w' assume "ctor w = (x, w')"
  then have "ssh_scp_new api (se_core se) m p w = (sc_native x, w')" by (auto simp: new split: prod.splits)
  moreover have "case ssh_scp_new api (se_core se) m p w of
      (Some n, w') \<Rightarrow> n \<notin> hs w \<and> hs w' = insert n (hs w) | (None, w') \<Rightarrow> hs w' = hs w"
    using c by (simp add: scp_open_contract_def)
  ultimately show "case sc_native x of Some n \<Rightarrow> n \<notin> hs w \<and> hs w' = insert n (hs w) | None \<Rightarrow> hs w' = hs w"
    by (auto split: option.splits)
next
  fix x w show "hs (snd (init x w)) = hs w"
    using c by (auto simp: init scp_call_def scp_open_contract_def split: option.splits prod.splits) (metis snd_conv)+
qed (use c in \<open>auto simp: init scp_call_def scp_release_def scp_move_ctor_def scp_open_contract_def split: option.splits\<close>)

lemma scp_reader_object:
  "scp_open_contract api hs \<Longrightarrow>
   session_object (scp_reader api se location recursive) (reader_init api) (scp_release api) scp_move_ctor sc_native hs"
  by (erule scp_object_opens) (auto simp: scp_reader_def reader_init_def)

lemma scp_writer_object:
  "scp_open_contract api hs \<Longrightarrow>
   session_object (scp_writer api se destination recursive) (writer_init api) (scp_release api) scp_move_ctor sc_native hs"
  by (erule scp_object_opens) (auto simp: scp_writer_def writer_init_def)

text \<open>libssh with numbered handles: the instances on the model's operations.\<close>

definition numbered_sftp :: "(handle set \<times> nat) sftp_api \<Rightarrow> (handle set \<times> nat) sftp_api" where
  "numbered_sftp api = api\<lparr>sftp_new := \<lambda>_ (s, k). if k \<in> s then (None, s, k) else (Some k, insert k s, k + 1),
     sftp_init := \<lambda>n w. (if even n then SSH_OK else SSH_ERROR, w), sftp_free := \<lambda>n (s, k). (s - {n}, k)\<rparr>"

definition numbered_scp :: "(handle set \<times> nat) scp_api \<Rightarrow> (handle set \<times> nat) scp_api" where
  "numbered_scp api = api\<lparr>ssh_scp_new := \<lambda>_ _ _ (s, k). if k \<in> s then (None, s, k) else (Some k, insert k s, k + 1),
     ssh_scp_init := \<lambda>n w. (if even n then SSH_OK else SSH_ERROR, w), ssh_scp_close := \<lambda>_ w. w,
     ssh_scp_free := \<lambda>n (s, k). (s - {n}, k)\<rparr>"

lemma numbered_contracts:
  "sftp_open_contract (numbered_sftp api) fst" "scp_open_contract (numbered_scp sapi) fst"
  by (auto simp: sftp_open_contract_def scp_open_contract_def numbered_sftp_def numbered_scp_def)

interpretation sftp_open: session_object "sftp_ctor (numbered_sftp api) se" "sftp_try_init (numbered_sftp api)"
    "sftp_release (numbered_sftp api)" sftp_move_ctor sf_native fst
  for api se
  by (rule sftp_object) (rule numbered_contracts)

interpretation reader_open: session_object "scp_reader (numbered_scp api) se location recursive"
    "reader_init (numbered_scp api)" "scp_release (numbered_scp api)" scp_move_ctor sc_native fst
  for api se location recursive
  by (rule scp_reader_object) (rule numbered_contracts)

interpretation writer_open: session_object "scp_writer (numbered_scp api) se destination recursive"
    "writer_init (numbered_scp api)" "scp_release (numbered_scp api)" scp_move_ctor sc_native fst
  for api se destination recursive
  by (rule scp_writer_object) (rule numbered_contracts)

definition opened_exactly ::
    "('w \<Rightarrow> handle set) \<Rightarrow> ('x \<Rightarrow> handle option) \<Rightarrow> 'w \<Rightarrow> 'x result \<times> 'w \<Rightarrow> bool" where
  "opened_exactly hs native w res \<longleftrightarrow>
     (case res of
        (Inr x, w') \<Rightarrow> \<exists>n. native x = Some n \<and> n \<notin> hs w \<and> hs w' = insert n (hs w)
      | (Inl _, w') \<Rightarrow> hs w' = hs w)"

text \<open>
  Opening SFTP, an SCP reader or an SCP writer on a session either yields an object that owns the one new
  native handle, or fails and leaves no native handle behind.
\<close>
theorem open_objects_no_leak:
  assumes "sftp_open_contract api hs" and "scp_open_contract scp hs"
  shows "opened_exactly hs sf_native w (try_open_sftp api se w)
     \<and> opened_exactly hs sc_native w (try_open_scp_read scp se p recursive w)
     \<and> opened_exactly hs sc_native w (try_open_scp_write scp se p recursive w)"
  using session_object.open_exact [OF sftp_object [OF assms(1)]]
    session_object.open_exact [OF scp_reader_object [OF assms(2)]]
    session_object.open_exact [OF scp_writer_object [OF assms(2)]]
  by (simp add: opened_exactly_def try_open_sftp_def try_open_scp_read_def try_open_scp_write_def)

theorem open_objects_no_leak_witness:
  "\<forall>api scp. opened_exactly fst sf_native ({}, 1) (try_open_sftp (numbered_sftp api) (empty_session\<lparr>se_core := Some 7\<rparr>) ({}, 1))
     \<and> try_open_scp_read (numbered_scp scp) (empty_session\<lparr>se_core := Some 7\<rparr>) ''/f'' False ({}, 2)
         = (Inr \<lparr>sc_native = Some 2, sc_core = Some 7\<rparr>, {2}, 3)
     \<and> opened_exactly fst sc_native ({}, 2)
         (try_open_scp_read (numbered_scp scp) (empty_session\<lparr>se_core := Some 7\<rparr>) ''/f'' False ({}, 2))"
proof (intro allI conjI)
  fix api scp
  show "opened_exactly fst sf_native ({}, 1) (try_open_sftp (numbered_sftp api) (empty_session\<lparr>se_core := Some 7\<rparr>) ({}, 1))"
    using open_objects_no_leak [OF numbered_contracts] by blast
  show "try_open_scp_read (numbered_scp scp) (empty_session\<lparr>se_core := Some 7\<rparr>) ''/f'' False ({}, 2)
         = (Inr \<lparr>sc_native = Some 2, sc_core = Some 7\<rparr>, {2}, 3)"
    by (simp add: try_open_scp_read_def open_object_def scp_reader_def reader_init_def scp_call_def scp_move_ctor_def
        scp_release_def numbered_scp_def)
  show "opened_exactly fst sc_native ({}, 2)
         (try_open_scp_read (numbered_scp scp) (empty_session\<lparr>se_core := Some 7\<rparr>) ''/f'' False ({}, 2))"
    using open_objects_no_leak [OF numbered_contracts] by blast
qed

end
